(* ===== verification/Prelude.thy ===== *)
theory Prelude
  imports Main "HOL-Library.State_Monad" "HOL-Library.Char_ord" "HOL-Library.List_Lexorder"
begin

text \<open>
  Shared foundations of the Invokr development.

  \<^item> \<open>outcome\<close>: the result of a Rust call, \<open>Ok\<close>, \<open>Err\<close> or a panic. A panic passes through
    every \<open>?\<close>, \<open>map_err\<close> and \<open>match\<close> on a result, as unwinding does.
  \<^item> \<open>tryS\<close>, \<open>map_errS\<close>, \<open>matchS\<close>: the \<open>?\<close> operator, \<open>Result::map_err\<close> and \<open>match r { Ok, Err }\<close>
    over the library's state monad, with which every stateful function of the model is written.
  \<^item> \<open>keeps\<close> and \<open>triple\<close>: the invariant and the pre/post calculus for such functions. The rules of
    \<open>keeps\<close> are collected in \<open>keeps_intros\<close>; a component adds one rule per operation and its
    clients are then proved by introduction.
  \<^item> 64-bit signed arithmetic with the overflow behaviour of both build profiles.
\<close>

named_theorems keeps_intros \<open>an operation keeps an invariant\<close>

section \<open>Results\<close>

datatype ('a, 'e) outcome = Ok 'a | Err 'e | Panic string

type_synonym ('s, 'a, 'e) prog = "('s, ('a, 'e) outcome) state"

abbreviation ok :: "'a \<Rightarrow> ('s, 'a, 'e) prog" where
  "ok a \<equiv> State_Monad.return (Ok a)"

abbreviation err :: "'e \<Rightarrow> ('s, 'a, 'e) prog" where
  "err e \<equiv> State_Monad.return (Err e)"

fun map_err :: "('e \<Rightarrow> 'f) \<Rightarrow> ('a, 'e) outcome \<Rightarrow> ('a, 'f) outcome" where
  "map_err f (Ok a) = Ok a"
| "map_err f (Err e) = Err (f e)"
| "map_err f (Panic p) = Panic p"

fun bind_outcome :: "('a, 'e) outcome \<Rightarrow> ('a \<Rightarrow> ('b, 'e) outcome) \<Rightarrow> ('b, 'e) outcome" where
  "bind_outcome (Ok a) f = f a"
| "bind_outcome (Err e) f = Err e"
| "bind_outcome (Panic p) f = Panic p"

fun ok_or :: "'a option \<Rightarrow> 'e \<Rightarrow> ('a, 'e) outcome" where
  "ok_or None e = Err e"
| "ok_or (Some a) e = Ok a"

definition tryS :: "('s, 'a, 'e) prog \<Rightarrow> ('a \<Rightarrow> ('s, 'b, 'e) prog) \<Rightarrow> ('s, 'b, 'e) prog" where
  "tryS m f = State_Monad.bind m (\<lambda>r. case r of
      Ok a \<Rightarrow> f a
    | Err e \<Rightarrow> State_Monad.return (Err e)
    | Panic p \<Rightarrow> State_Monad.return (Panic p))"

definition map_errS :: "('e \<Rightarrow> 'f) \<Rightarrow> ('s, 'a, 'e) prog \<Rightarrow> ('s, 'a, 'f) prog" where
  "map_errS f m = State_Monad.bind m (\<lambda>r. State_Monad.return (map_err f r))"

definition matchS ::
  "('s, 'a, 'e) prog \<Rightarrow> ('a \<Rightarrow> ('s, 'b, 'f) prog) \<Rightarrow> ('e \<Rightarrow> ('s, 'b, 'f) prog) \<Rightarrow> ('s, 'b, 'f) prog" where
  "matchS m f g = State_Monad.bind m (\<lambda>r. case r of
      Ok a \<Rightarrow> f a
    | Err e \<Rightarrow> g e
    | Panic p \<Rightarrow> State_Monad.return (Panic p))"

text \<open>\<open>let _ = m.await\<close>: the result is dropped, a panic is not.\<close>

definition ignoreS :: "('s, 'a, 'e) prog \<Rightarrow> ('s, 'b, 'f) prog \<Rightarrow> ('s, 'b, 'f) prog" where
  "ignoreS m k = matchS m (\<lambda>_. k) (\<lambda>_. k)"

lemma run_tryS [simp]:
  "run_state (tryS m f) s = (case run_state m s of (r, s') \<Rightarrow> (case r of
      Ok a \<Rightarrow> run_state (f a) s'
    | Err e \<Rightarrow> (Err e, s')
    | Panic p \<Rightarrow> (Panic p, s')))"
  by (auto simp: tryS_def split: prod.splits outcome.splits)

lemma run_map_errS [simp]:
  "run_state (map_errS f m) s = (case run_state m s of (r, s') \<Rightarrow> (map_err f r, s'))"
  by (simp add: map_errS_def)

lemma run_matchS [simp]:
  "run_state (matchS m f g) s = (case run_state m s of (r, s') \<Rightarrow> (case r of
      Ok a \<Rightarrow> run_state (f a) s'
    | Err e \<Rightarrow> run_state (g e) s'
    | Panic p \<Rightarrow> (Panic p, s')))"
  by (auto simp: matchS_def split: prod.splits outcome.splits)

lemma run_ignoreS [simp]:
  "run_state (ignoreS m k) s = (case run_state m s of (r, s') \<Rightarrow> (case r of
      Ok a \<Rightarrow> run_state k s'
    | Err e \<Rightarrow> run_state k s'
    | Panic p \<Rightarrow> (Panic p, s')))"
  by (simp add: ignoreS_def)

lemma map_err_Ok_iff [simp]: "map_err f r = Ok a \<longleftrightarrow> r = Ok a"
  by (cases r) auto

lemma ok_or_Ok_iff [simp]: "ok_or x e = Ok a \<longleftrightarrow> x = Some a"
  by (cases x) auto

lemma bind_outcome_Err: "bind_outcome r f = Err e \<longleftrightarrow> r = Err e \<or> (\<exists>a. r = Ok a \<and> f a = Err e)"
  by (cases r) auto

lemma bind_outcome_Panic: "bind_outcome r f = Panic p \<longleftrightarrow> r = Panic p \<or> (\<exists>a. r = Ok a \<and> f a = Panic p)"
  by (cases r) auto

lemma bind_outcome_Ok: "bind_outcome r f = Ok b \<longleftrightarrow> (\<exists>a. r = Ok a \<and> f a = Ok b)"
  by (cases r) auto

section \<open>Invariants of stateful functions\<close>

definition keeps :: "('s \<Rightarrow> bool) \<Rightarrow> ('s, 'a) state \<Rightarrow> bool" where
  "keeps I m \<longleftrightarrow> (\<forall>s. I s \<longrightarrow> I (snd (run_state m s)))"

lemma keepsI: "(\<And>s. I s \<Longrightarrow> I (snd (run_state m s))) \<Longrightarrow> keeps I m"
  by (simp add: keeps_def)

lemma keepsD: "keeps I m \<Longrightarrow> I s \<Longrightarrow> run_state m s = (r, s') \<Longrightarrow> I s'"
  by (metis keeps_def snd_conv)

lemma keeps_return [keeps_intros]: "keeps I (State_Monad.return x)"
  by (simp add: keeps_def)

lemma keeps_bind [keeps_intros]:
  "keeps I m \<Longrightarrow> (\<And>x. keeps I (f x)) \<Longrightarrow> keeps I (State_Monad.bind m f)"
  by (fastforce simp: keeps_def split: prod.splits)

lemma keeps_tryS [keeps_intros]:
  "keeps I m \<Longrightarrow> (\<And>x. keeps I (f x)) \<Longrightarrow> keeps I (tryS m f)"
  by (fastforce simp: keeps_def split: prod.splits outcome.splits)

lemma keeps_map_errS [keeps_intros]: "keeps I m \<Longrightarrow> keeps I (map_errS f m)"
  by (fastforce simp: keeps_def split: prod.splits)

lemma keeps_matchS [keeps_intros]:
  "keeps I m \<Longrightarrow> (\<And>x. keeps I (f x)) \<Longrightarrow> (\<And>e. keeps I (g e)) \<Longrightarrow> keeps I (matchS m f g)"
  by (fastforce simp: keeps_def split: prod.splits outcome.splits)

lemma keeps_ignoreS [keeps_intros]: "keeps I m \<Longrightarrow> keeps I k \<Longrightarrow> keeps I (ignoreS m k)"
  unfolding ignoreS_def by (intro keeps_matchS)

lemma keeps_if [keeps_intros]: "keeps I m \<Longrightarrow> keeps I n \<Longrightarrow> keeps I (if b then m else n)"
  by simp

lemma keeps_case_option [keeps_intros]:
  "keeps I m \<Longrightarrow> (\<And>x. keeps I (f x)) \<Longrightarrow> keeps I (case_option m f x)"
  by (cases x) auto

lemma keeps_case_outcome [keeps_intros]:
  "(\<And>x. keeps I (f x)) \<Longrightarrow> (\<And>e. keeps I (g e)) \<Longrightarrow> (\<And>p. keeps I (h p)) \<Longrightarrow>
   keeps I (case_outcome f g h r)"
  by (cases r) auto

lemma keeps_case_prod [keeps_intros]:
  "(\<And>x y. keeps I (f x y)) \<Longrightarrow> keeps I (case_prod f p)"
  by (cases p) auto

lemma keeps_Let [keeps_intros]: "keeps I (f x) \<Longrightarrow> keeps I (let y = x in f y)"
  by simp

text \<open>
  A triple relates the states before a function to its result and the states after. The rules for
  the combinators pass an intermediate assertion on \<open>Ok\<close> and let errors and panics through.
\<close>

definition triple :: "('s \<Rightarrow> bool) \<Rightarrow> ('s, 'a) state \<Rightarrow> ('a \<Rightarrow> 's \<Rightarrow> bool) \<Rightarrow> bool" where
  "triple P m Q \<longleftrightarrow> (\<forall>s. P s \<longrightarrow> Q (fst (run_state m s)) (snd (run_state m s)))"

lemma tripleI: "(\<And>s r s'. P s \<Longrightarrow> run_state m s = (r, s') \<Longrightarrow> Q r s') \<Longrightarrow> triple P m Q"
  unfolding triple_def by (metis prod.collapse)

lemma tripleD: "triple P m Q \<Longrightarrow> P s \<Longrightarrow> run_state m s = (r, s') \<Longrightarrow> Q r s'"
  unfolding triple_def by (metis fst_conv snd_conv)

lemma triple_return: "(\<And>s. P s \<Longrightarrow> Q x s) \<Longrightarrow> triple P (State_Monad.return x) Q"
  by (simp add: triple_def)

lemma triple_bind:
  "triple P m R \<Longrightarrow> (\<And>x. triple (R x) (f x) Q) \<Longrightarrow> triple P (State_Monad.bind m f) Q"
  unfolding triple_def by (auto split: prod.splits)

lemma triple_tryS:
  assumes "triple P m R" and "\<And>x. triple (R (Ok x)) (f x) Q"
    and "\<And>e s. R (Err e) s \<Longrightarrow> Q (Err e) s" and "\<And>p s. R (Panic p) s \<Longrightarrow> Q (Panic p) s"
  shows "triple P (tryS m f) Q"
  unfolding tryS_def
  by (rule triple_bind [OF assms(1)]) (auto simp: assms(2-4) intro!: triple_return split: outcome.split)

lemma triple_matchS:
  assumes "triple P m R" and "\<And>x. triple (R (Ok x)) (f x) Q" and "\<And>e. triple (R (Err e)) (g e) Q"
    and "\<And>p s. R (Panic p) s \<Longrightarrow> Q (Panic p) s"
  shows "triple P (matchS m f g) Q"
  unfolding matchS_def
  by (rule triple_bind [OF assms(1)]) (auto simp: assms(2-4) intro!: triple_return split: outcome.split)

lemma triple_if: "triple P m Q \<Longrightarrow> triple P n Q \<Longrightarrow> triple P (if b then m else n) Q"
  by simp

lemma triple_ite:
  "(b \<Longrightarrow> triple P m Q) \<Longrightarrow> (\<not> b \<Longrightarrow> triple P n Q) \<Longrightarrow> triple P (if b then m else n) Q"
  by simp

lemma triple_case_option:
  "triple P m Q \<Longrightarrow> (\<And>x. triple P (f x) Q) \<Longrightarrow> triple P (case_option m f v) Q"
  by (cases v) auto

lemma triple_weaken:
  "triple P' m Q' \<Longrightarrow> (\<And>s. P s \<Longrightarrow> P' s) \<Longrightarrow> (\<And>r s. Q' r s \<Longrightarrow> Q r s) \<Longrightarrow> triple P m Q"
  by (simp add: triple_def)

lemma triple_assume: "(A \<Longrightarrow> triple P m Q) \<Longrightarrow> triple (\<lambda>s. P s \<and> A) m Q"
  by (auto simp: triple_def)

lemma triple_keeps: "keeps I m \<Longrightarrow> triple I m (\<lambda>_. I)"
  by (simp add: triple_def keeps_def)

lemma keeps_triple: "triple I m (\<lambda>_. I) \<Longrightarrow> keeps I m"
  by (simp add: triple_def keeps_def)

section \<open>Signed 64-bit arithmetic\<close>

text \<open>
  An \<open>i64\<close> is an \<open>int\<close> in range. \<open>overflow_checks\<close> is the build profile: debug builds panic on
  overflow, release builds wrap.
\<close>

type_synonym i64 = int

definition i64_min :: int where "i64_min = - (2 ^ 63)"

definition i64_max :: int where "i64_max = 2 ^ 63 - 1"

definition in_i64 :: "int \<Rightarrow> bool" where
  "in_i64 x \<longleftrightarrow> i64_min \<le> x \<and> x \<le> i64_max"

definition wrap_i64 :: "int \<Rightarrow> int" where
  "wrap_i64 x = (x + 2 ^ 63) mod 2 ^ 64 - 2 ^ 63"

definition arith_i64 :: "bool \<Rightarrow> int \<Rightarrow> (int, 'e) outcome" where
  "arith_i64 overflow_checks x =
     (if in_i64 x then Ok x
      else if overflow_checks then Panic ''attempt to compute with overflow''
      else Ok (wrap_i64 x))"

lemma in_i64_wrap: "in_i64 (wrap_i64 x)"
proof -
  have "0 \<le> (x + 2 ^ 63) mod 2 ^ 64" and "(x + 2 ^ 63) mod 2 ^ 64 < 2 ^ 64"
    by simp_all
  then show ?thesis
    by (simp add: in_i64_def wrap_i64_def i64_min_def i64_max_def)
qed

lemma wrap_i64_id: "in_i64 x \<Longrightarrow> wrap_i64 x = x"
  by (simp add: in_i64_def wrap_i64_def i64_min_def i64_max_def)

lemma arith_i64_exact [simp]: "in_i64 x \<Longrightarrow> arith_i64 c x = Ok x"
  by (simp add: arith_i64_def)

lemma arith_i64_range: "arith_i64 c x = Ok y \<Longrightarrow> in_i64 y"
  by (auto simp: arith_i64_def in_i64_wrap split: if_splits)

text \<open>Rust's \<open>/\<close> truncates towards zero.\<close>

definition rust_quot :: "int \<Rightarrow> int \<Rightarrow> int" where
  "rust_quot x y = (let q = \<bar>x\<bar> div \<bar>y\<bar> in if x < 0 \<longleftrightarrow> y < 0 then q else - q)"

lemma rust_quot_nonneg: "0 \<le> a \<Longrightarrow> 0 < b \<Longrightarrow> rust_quot a b = a div b"
  by (simp add: rust_quot_def)

section \<open>Lists\<close>

lemma find_Some_D: "List.find P xs = Some x \<Longrightarrow> x \<in> set xs \<and> P x"
  by (auto simp: find_Some_iff)

lemma find_None_D: "List.find P xs = None \<Longrightarrow> x \<in> set xs \<Longrightarrow> \<not> P x"
  by (auto simp: find_None_iff)

lemma find_snoc:
  "List.find P (xs @ [y]) =
     (case List.find P xs of None \<Rightarrow> if P y then Some y else None | Some z \<Rightarrow> Some z)"
  by (induction xs) auto

lemma find_map_update:
  assumes "\<And>x. P (f x) = P x"
  shows "List.find P (map f xs) = map_option f (List.find P xs)"
  by (induction xs) (auto simp: assms)

lemma distinct_map_find:
  assumes "distinct (map k xs)" and "x \<in> set xs"
  shows "List.find (\<lambda>y. k y = k x) xs = Some x"
  using assms by (induction xs) (auto simp: image_iff)

end
