(* ===== verification/Rust_Str.thy ===== *)
theory Rust_Str
  imports Prelude
begin

text \<open>
  The operations of Rust's \<open>str\<close> and \<open>char\<close> the sources use. A \<open>string\<close> is the list of bytes of
  the UTF-8 text, so \<open>length\<close> is \<open>str::len\<close> and offsets are byte offsets, as in the sources.
  A \<open>&str\<close> or \<open>String\<close> is always valid UTF-8 (\<open>utf8_ok\<close>), and a slice whose end is not on a character
  boundary panics (\<open>is_char_boundary\<close>, \<open>str_slice\<close>, \<open>replace_range\<close>). \<open>char_ok\<close> is the part of UTF-8
  validity that decides where the boundaries are: every continuation byte follows a byte above 127.
  White space is the Unicode property, read off the bytes. Case mapping is that of ASCII.
\<close>

section \<open>Characters\<close>

definition is_ws :: "char \<Rightarrow> bool" where
  "is_ws c \<longleftrightarrow> c = CHR '' '' \<or> (9 \<le> (of_char c :: nat) \<and> (of_char c :: nat) \<le> 13)"

definition is_ascii_lowercase :: "char \<Rightarrow> bool" where
  "is_ascii_lowercase c \<longleftrightarrow> 97 \<le> (of_char c :: nat) \<and> (of_char c :: nat) \<le> 122"

definition is_ascii_uppercase :: "char \<Rightarrow> bool" where
  "is_ascii_uppercase c \<longleftrightarrow> 65 \<le> (of_char c :: nat) \<and> (of_char c :: nat) \<le> 90"

definition is_ascii_digit :: "char \<Rightarrow> bool" where
  "is_ascii_digit c \<longleftrightarrow> 48 \<le> (of_char c :: nat) \<and> (of_char c :: nat) \<le> 57"

definition is_ascii_alphanumeric :: "char \<Rightarrow> bool" where
  "is_ascii_alphanumeric c \<longleftrightarrow> is_ascii_lowercase c \<or> is_ascii_uppercase c \<or> is_ascii_digit c"

definition to_ascii_lower :: "char \<Rightarrow> char" where
  "to_ascii_lower c = (if is_ascii_uppercase c then char_of ((of_char c :: nat) + 32) else c)"

definition to_ascii_upper :: "char \<Rightarrow> char" where
  "to_ascii_upper c = (if is_ascii_lowercase c then char_of ((of_char c :: nat) - 32) else c)"

section \<open>Substrings\<close>

definition starts_with :: "string \<Rightarrow> string \<Rightarrow> bool" where
  "starts_with p s \<longleftrightarrow> take (length p) s = p"

definition ends_with :: "string \<Rightarrow> string \<Rightarrow> bool" where
  "ends_with p s \<longleftrightarrow> length p \<le> length s \<and> drop (length s - length p) s = p"

definition strip_prefix :: "string \<Rightarrow> string \<Rightarrow> string option" where
  "strip_prefix p s = (if starts_with p s then Some (drop (length p) s) else None)"

text \<open>\<open>str::find\<close> with a string pattern: the offset of the first occurrence.\<close>

fun str_find :: "string \<Rightarrow> string \<Rightarrow> nat option" where
  "str_find p [] = (if p = [] then Some 0 else None)"
| "str_find p (c # cs) =
     (if starts_with p (c # cs) then Some 0 else map_option Suc (str_find p cs))"

definition str_contains :: "string \<Rightarrow> string \<Rightarrow> bool" where
  "str_contains p s \<longleftrightarrow> str_find p s \<noteq> None"

text \<open>\<open>char::is_whitespace\<close>, for the character at the head of a text and for the one at the end of it
  (whose bytes are met backwards): the number of its bytes, or 0 when it is not white space.\<close>

definition is_ws2 :: "char \<Rightarrow> char \<Rightarrow> bool" where
  "is_ws2 a b \<longleftrightarrow> a = CHR 0xC2 \<and> (b = CHR 0x85 \<or> b = CHR 0xA0)"

definition is_ws3 :: "char \<Rightarrow> char \<Rightarrow> char \<Rightarrow> bool" where
  "is_ws3 a b c \<longleftrightarrow>
     a = CHR 0xE1 \<and> b = CHR 0x9A \<and> c = CHR 0x80 \<or>
     a = CHR 0xE2 \<and> b = CHR 0x80 \<and>
       (128 \<le> (of_char c :: nat) \<and> (of_char c :: nat) \<le> 138 \<or> c = CHR 0xA8 \<or> c = CHR 0xA9 \<or> c = CHR 0xAF) \<or>
     a = CHR 0xE2 \<and> b = CHR 0x81 \<and> c = CHR 0x9F \<or>
     a = CHR 0xE3 \<and> b = CHR 0x80 \<and> c = CHR 0x80"

fun ws_head :: "string \<Rightarrow> nat" where
  "ws_head [] = 0"
| "ws_head [a] = (if is_ws a then 1 else 0)"
| "ws_head [a, b] = (if is_ws a then 1 else if is_ws2 a b then 2 else 0)"
| "ws_head (a # b # c # s) = (if is_ws a then 1 else if is_ws2 a b then 2 else if is_ws3 a b c then 3 else 0)"

fun ws_last :: "string \<Rightarrow> nat" where
  "ws_last [] = 0"
| "ws_last [a] = (if is_ws a then 1 else 0)"
| "ws_last [b, a] = (if is_ws b then 1 else if is_ws2 a b then 2 else 0)"
| "ws_last (c # b # a # s) = (if is_ws c then 1 else if is_ws2 b c then 2 else if is_ws3 a b c then 3 else 0)"

function drop_ws :: "(string \<Rightarrow> nat) \<Rightarrow> string \<Rightarrow> string" where
  "drop_ws w s = (if w s = 0 \<or> s = [] then s else drop_ws w (drop (w s) s))"
  by pat_completeness auto
termination by (relation "measure (\<lambda>(_, s). length s)") auto

declare drop_ws.simps [simp del]

definition trim :: "string \<Rightarrow> string" where
  "trim s = rev (drop_ws ws_last (rev (drop_ws ws_head s)))"

definition trim_end_matches :: "char \<Rightarrow> string \<Rightarrow> string" where
  "trim_end_matches c s = rev (dropWhile (\<lambda>d. d = c) (rev s))"

definition trim_matches :: "char \<Rightarrow> string \<Rightarrow> string" where
  "trim_matches c s = trim_end_matches c (dropWhile (\<lambda>d. d = c) s)"

definition replace_char :: "char \<Rightarrow> char \<Rightarrow> string \<Rightarrow> string" where
  "replace_char a b s = map (\<lambda>c. if c = a then b else c) s"

text \<open>\<open>str::split(sep)\<close> with a character: always at least one field.\<close>

fun split_char :: "char \<Rightarrow> string \<Rightarrow> string list" where
  "split_char d [] = [[]]"
| "split_char d (c # cs) =
     (if c = d then [] # split_char d cs
      else (case split_char d cs of [] \<Rightarrow> [[c]] | w # ws \<Rightarrow> (c # w) # ws))"

text \<open>\<open>str::split_whitespace().count()\<close>.\<close>

function count_words_from :: "bool \<Rightarrow> string \<Rightarrow> nat" where
  "count_words_from in_word s =
     (if s = [] then (if in_word then 1 else 0)
      else if ws_head s > 0 then (if in_word then 1 else 0) + count_words_from False (drop (ws_head s) s)
      else count_words_from True (tl s))"
  by pat_completeness auto
termination by (relation "measure (\<lambda>(_, s). length s)") auto

declare count_words_from.simps [simp del]

definition split_whitespace_count :: "string \<Rightarrow> nat" where
  "split_whitespace_count s = count_words_from False s"

definition to_lowercase :: "string \<Rightarrow> string" where
  "to_lowercase = map to_ascii_lower"

definition to_uppercase :: "string \<Rightarrow> string" where
  "to_uppercase = map to_ascii_upper"

definition eq_ignore_ascii_case :: "string \<Rightarrow> string \<Rightarrow> bool" where
  "eq_ignore_ascii_case a b \<longleftrightarrow> map to_ascii_lower a = map to_ascii_lower b"

section \<open>UTF-8 and slices\<close>

definition utf8_cont :: "nat \<Rightarrow> bool" where "utf8_cont b \<longleftrightarrow> 128 \<le> b \<and> b < 192"

fun utf8_ok :: "nat list \<Rightarrow> bool" where
  "utf8_ok [] = True"
| "utf8_ok (a # s) =
     (if a < 128 then utf8_ok s
      else if 194 \<le> a \<and> a \<le> 223 then
        (case s of b # s' \<Rightarrow> utf8_cont b \<and> utf8_ok s' | _ \<Rightarrow> False)
      else if 224 \<le> a \<and> a \<le> 239 then
        (case s of b # c # s' \<Rightarrow>
           (if a = 224 then 160 \<le> b \<and> b < 192 else if a = 237 then 128 \<le> b \<and> b < 160 else utf8_cont b)
           \<and> utf8_cont c \<and> utf8_ok s'
         | _ \<Rightarrow> False)
      else if 240 \<le> a \<and> a \<le> 244 then
        (case s of b # c # d # s' \<Rightarrow>
           (if a = 240 then 144 \<le> b \<and> b < 192 else if a = 244 then 128 \<le> b \<and> b < 144 else utf8_cont b)
           \<and> utf8_cont c \<and> utf8_cont d \<and> utf8_ok s'
         | _ \<Rightarrow> False)
      else False)"

abbreviation valid_str :: "string \<Rightarrow> bool" where
  "valid_str s \<equiv> utf8_ok (map of_char s)"

definition is_char_boundary :: "string \<Rightarrow> nat \<Rightarrow> bool" where
  "is_char_boundary s i \<longleftrightarrow> i = 0 \<or> i = length s \<or> i < length s \<and> \<not> utf8_cont (of_char (s ! i))"

text \<open>\<open>&s[a..b]\<close> and \<open>s.replace_range(a..b, t)\<close>.\<close>

definition str_slice :: "string \<Rightarrow> nat \<Rightarrow> nat \<Rightarrow> (string, 'e) outcome" where
  "str_slice s a b =
     (if a \<le> b \<and> b \<le> length s \<and> is_char_boundary s a \<and> is_char_boundary s b then Ok (take (b - a) (drop a s))
      else Panic ''byte index out of range or not a char boundary'')"

definition replace_range :: "string \<Rightarrow> nat \<Rightarrow> nat \<Rightarrow> string \<Rightarrow> (string, 'e) outcome" where
  "replace_range s a b t =
     (if a \<le> b \<and> b \<le> length s \<and> is_char_boundary s a \<and> is_char_boundary s b then Ok (take a s @ t @ drop b s)
      else Panic ''byte index out of range or not a char boundary'')"

fun char_ok :: "string \<Rightarrow> bool" where
  "char_ok (a # b # s) \<longleftrightarrow> (utf8_cont (of_char b) \<longrightarrow> 128 \<le> (of_char a :: nat)) \<and> char_ok (b # s)"
| "char_ok _ \<longleftrightarrow> True"

definition whole_chars :: "string \<Rightarrow> bool" where
  "whole_chars s \<longleftrightarrow> char_ok s \<and> (s \<noteq> [] \<longrightarrow> \<not> utf8_cont (of_char (hd s)))"

section \<open>Display\<close>

text \<open>\<open>Display\<close> of integers.\<close>

fun show_nat :: "nat \<Rightarrow> string" where
  "show_nat n = (if n < 10 then [char_of (48 + n)]
                 else show_nat (n div 10) @ [char_of (48 + n mod 10)])"

declare show_nat.simps [simp del]

definition show_int :: "int \<Rightarrow> string" where
  "show_int n = (if n < 0 then CHR ''-'' # show_nat (nat (- n)) else show_nat (nat n))"

text \<open>\<open>[String]::join(sep)\<close>.\<close>

fun join :: "string \<Rightarrow> string list \<Rightarrow> string" where
  "join sep [] = []"
| "join sep [x] = x"
| "join sep (x # xs) = x @ sep @ join sep xs"

text \<open>\<open>'{}'\<close> of a format string.\<close>

definition quoted :: "string \<Rightarrow> string" where
  "quoted s = CHR 0x27 # s @ [CHR 0x27]"

section \<open>Laws\<close>

lemma starts_with_append [simp]: "starts_with p (p @ s)"
  by (simp add: starts_with_def)

lemma starts_with_iff: "starts_with p s \<longleftrightarrow> (\<exists>t. s = p @ t)"
  by (metis append_eq_conv_conj starts_with_def)

lemma starts_with_length: "starts_with p s \<Longrightarrow> length p \<le> length s"
  by (auto simp: starts_with_iff)

lemma strip_prefix_Some [simp]: "strip_prefix p s = Some t \<longleftrightarrow> s = p @ t"
  by (auto simp: strip_prefix_def starts_with_iff)

lemma ends_with_iff: "ends_with p s \<longleftrightarrow> (\<exists>t. s = t @ p)"
proof
  assume "ends_with p s"
  then have "s = take (length s - length p) s @ p"
    by (metis append_take_drop_id ends_with_def)
  then show "\<exists>t. s = t @ p" ..
qed (auto simp: ends_with_def)

lemma str_find_Some:
  "str_find p s = Some i \<Longrightarrow> starts_with p (drop i s) \<and> i + length p \<le> length s"
proof (induction p s arbitrary: i rule: str_find.induct)
  case (2 p c cs)
  then show ?case using starts_with_length [of p "c # cs"] by (auto split: if_splits)
qed (auto simp: starts_with_def split: if_splits)

lemma str_find_first: "str_find p s = Some i \<Longrightarrow> j < i \<Longrightarrow> \<not> starts_with p (drop j s)"
proof (induction p s arbitrary: i j rule: str_find.induct)
  case (2 p c cs)
  then show ?case by (cases j) (auto split: if_splits)
qed (auto split: if_splits)

lemma str_find_None: "str_find p s = None \<Longrightarrow> \<not> starts_with p (drop j s)"
proof (induction p s arbitrary: j rule: str_find.induct)
  case (1 p)
  then show ?case by (auto simp: starts_with_def split: if_splits)
next
  case (2 p c cs)
  then show ?case by (cases j) (auto split: if_splits)
qed

lemma str_find_split:
  assumes "str_find p s = Some i"
  shows "s = take i s @ p @ drop (i + length p) s"
proof -
  from assms obtain t where t: "drop i s = p @ t"
    using str_find_Some starts_with_iff by blast
  then have "t = drop (i + length p) s"
    by (metis add.commute append_eq_conv_conj drop_drop)
  with t show ?thesis by (metis append_take_drop_id)
qed

lemma str_find_None_iff: "str_find p s = None \<longleftrightarrow> (\<forall>a b. s \<noteq> a @ p @ b)"
proof
  assume n: "str_find p s = None"
  show "\<forall>a b. s \<noteq> a @ p @ b"
  proof (intro allI notI)
    fix a b
    assume "s = a @ p @ b"
    then have "starts_with p (drop (length a) s)" by simp
    with n show False by (simp add: str_find_None)
  qed
next
  assume "\<forall>a b. s \<noteq> a @ p @ b"
  then show "str_find p s = None" by (metis not_None_eq str_find_split)
qed

lemma str_contains_iff: "str_contains p s \<longleftrightarrow> (\<exists>a b. s = a @ p @ b)"
  using str_find_None_iff [of p s] by (auto simp: str_contains_def)

lemma rev_dropWhile_append:
  "rev (dropWhile P (rev s)) @ rev (takeWhile P (rev s)) = s"
  by (metis rev_append rev_rev_ident takeWhile_dropWhile_id)

lemma drop_ws_suffix: "\<exists>a. s = a @ drop_ws w s"
proof (induction w s rule: drop_ws.induct)
  case (1 w s)
  show ?case
  proof (cases "w s = 0 \<or> s = []")
    case False
    with 1 obtain a where "drop (w s) s = a @ drop_ws w (drop (w s) s)" by blast
    then have "s = (take (w s) s @ a) @ drop_ws w (drop (w s) s)" by (metis append.assoc append_take_drop_id)
    moreover have "drop_ws w s = drop_ws w (drop (w s) s)" using False by (subst drop_ws.simps) simp
    ultimately show ?thesis by metis
  qed (subst drop_ws.simps, auto)
qed

lemma trim_decompose: "\<exists>a b. s = a @ trim s @ b"
proof -
  obtain a where a: "s = a @ drop_ws ws_head s" using drop_ws_suffix by blast
  obtain b where "rev (drop_ws ws_head s) = b @ drop_ws ws_last (rev (drop_ws ws_head s))"
    using drop_ws_suffix by blast
  then have "drop_ws ws_head s = trim s @ rev b" by (metis rev_append rev_rev_ident trim_def)
  with a show ?thesis by metis
qed

lemma length_trim: "length (trim s) \<le> length s"
  using trim_decompose [of s] by (metis le_add1 le_add2 le_trans length_append)

lemma trim_Nil [simp]: "trim [] = []"
  by (simp add: trim_def drop_ws.simps)

definition ascii_visible :: "char \<Rightarrow> bool" where
  "ascii_visible c \<longleftrightarrow> 33 \<le> (of_char c :: nat) \<and> (of_char c :: nat) < 127"

lemma ascii_visible_not_ws:
  assumes "ascii_visible c"
  shows "\<not> is_ws c" and "\<not> is_ws2 c b" and "\<not> is_ws3 c b d" and "\<not> is_ws2 a c" and "\<not> is_ws3 a b c"
  using assms by (auto simp: ascii_visible_def is_ws_def is_ws2_def is_ws3_def)

lemma ws_plain:
  assumes "s \<noteq> [] \<Longrightarrow> ascii_visible (hd s)"
  shows "ws_head s = 0" and "ws_last s = 0"
  using assms by (cases s rule: ws_head.cases; simp add: ascii_visible_not_ws)+

lemma trim_id:
  assumes "s \<noteq> [] \<Longrightarrow> ascii_visible (hd s)" and "s \<noteq> [] \<Longrightarrow> ascii_visible (last s)"
  shows "trim s = s"
proof -
  have "ws_head s = 0" and "ws_last (rev s) = 0"
    using ws_plain(1) [OF assms(1)] ws_plain(2) [of "rev s"] assms(2) by (simp_all add: hd_rev)
  then show ?thesis by (simp add: trim_def drop_ws.simps)
qed

text \<open>Where the boundaries are.\<close>

lemma char_ok_drop: "char_ok s \<Longrightarrow> char_ok (drop n s)"
proof (induction n arbitrary: s)
  case (Suc n)
  show ?case
  proof (cases s)
    case (Cons a t)
    with Suc.prems have "char_ok t" by (cases t) auto
    with Cons Suc.IH show ?thesis by simp
  qed simp
qed simp

lemma char_ok_append: "char_ok (s @ t) \<Longrightarrow> char_ok s"
  by (induction s rule: char_ok.induct) auto

lemma char_ok_step: "char_ok s \<Longrightarrow> Suc i < length s \<Longrightarrow> (of_char (s ! i) :: nat) < 128 \<Longrightarrow> \<not> utf8_cont (of_char (s ! Suc i))"
proof (induction s arbitrary: i rule: char_ok.induct)
  case (1 a b s)
  then show ?case by (cases i) auto
qed auto

lemma whole_chars_Cons:
  "whole_chars (a # s) \<longleftrightarrow>
     \<not> utf8_cont (of_char a) \<and> char_ok s \<and> (s \<noteq> [] \<longrightarrow> utf8_cont (of_char (hd s)) \<longrightarrow> 128 \<le> (of_char a :: nat))"
  by (cases s) (auto simp: whole_chars_def)

lemma char_ok_Cons: "128 \<le> (of_char a :: nat) \<Longrightarrow> char_ok (a # s) = char_ok s"
  by (cases s) auto

lemma utf8_whole: "utf8_ok ns \<Longrightarrow> map of_char s = ns \<Longrightarrow> whole_chars s"
proof (induction ns arbitrary: s rule: utf8_ok.induct)
  case (2 a ns)
  then obtain c t where s: "s = c # t" "a = of_char c" "ns = map of_char t" by (cases s) auto
  consider (one) "a < 128" "utf8_ok ns"
    | (two) b u where "194 \<le> a" "ns = b # u" "utf8_cont b" "utf8_ok u" "a \<le> 223"
    | (three) b d u where "224 \<le> a" "ns = b # d # u" "128 \<le> b" "utf8_cont d" "utf8_ok u" "a \<le> 239"
    | (four) b d e u where "240 \<le> a" "ns = b # d # e # u" "128 \<le> b" "utf8_cont d" "utf8_cont e" "utf8_ok u" "a \<le> 244"
    using "2.prems"(1) by (auto simp: utf8_cont_def split: if_splits list.splits)
  then show ?case
  proof cases
    case one
    with "2.IH"(1) s have "whole_chars t" by simp
    with one s show ?thesis by (auto simp: whole_chars_Cons) (auto simp: whole_chars_def utf8_cont_def)
  next
    case two
    then obtain d w where t: "t = d # w" "b = of_char d" "u = map of_char w" using s by (cases t) auto
    with two s "2.IH"(2) have "whole_chars w" by simp
    with two s t show ?thesis by (auto simp: whole_chars_Cons whole_chars_def char_ok_Cons utf8_cont_def)
  next
    case three
    then obtain f g w where t: "t = f # g # w" "b = of_char f" "d = of_char g" "u = map of_char w"
      using s by (cases t; cases "tl t") auto
    with three s "2.IH"(3) have "whole_chars w" by simp
    with three s t show ?thesis by (auto simp: whole_chars_Cons whole_chars_def char_ok_Cons utf8_cont_def)
  next
    case four
    then obtain f g h w where t: "t = f # g # h # w" "b = of_char f" "d = of_char g" "e = of_char h" "u = map of_char w"
      using s by (cases t; cases "tl t"; cases "tl (tl t)") auto
    with four s "2.IH"(4) have "whole_chars w" by simp
    with four s t show ?thesis by (auto simp: whole_chars_Cons whole_chars_def char_ok_Cons utf8_cont_def)
  qed
qed (simp add: whole_chars_def)

lemma valid_str_whole: "valid_str s \<Longrightarrow> whole_chars s"
  by (rule utf8_whole) simp_all

lemma boundary_at_ascii: "i < length s \<Longrightarrow> (of_char (s ! i) :: nat) < 128 \<Longrightarrow> is_char_boundary s i"
  by (simp add: is_char_boundary_def utf8_cont_def)

lemma boundary_after_ascii:
  "char_ok s \<Longrightarrow> i < length s \<Longrightarrow> (of_char (s ! i) :: nat) < 128 \<Longrightarrow> is_char_boundary s (Suc i)"
  using char_ok_step [of s i] by (cases "Suc i < length s") (auto simp: is_char_boundary_def)

lemma boundary_whole: "i \<le> length s \<Longrightarrow> whole_chars (drop i s) \<Longrightarrow> is_char_boundary s i"
  by (auto simp: is_char_boundary_def whole_chars_def hd_drop_conv_nth)

lemma char_ok_after:
  assumes "char_ok (a @ c # t)" and "(of_char c :: nat) < 128"
  shows "whole_chars (c # t)" and "whole_chars t"
proof -
  have "char_ok (c # t)" using char_ok_drop [OF assms(1), of "length a"] by simp
  with assms(2) show "whole_chars (c # t)" and "whole_chars t"
    by (cases t; auto simp: whole_chars_def utf8_cont_def)+
qed

lemma whole_chars_find:
  assumes "whole_chars s" and "str_find p s = Some i" and "p \<noteq> []" and "\<forall>c \<in> set p. (of_char c :: nat) < 128"
  shows "whole_chars (drop i s)" and "whole_chars (drop (i + length p) s)"
proof -
  let ?r = "drop (i + length p) s"
  have s: "s = take i s @ p @ ?r" by (rule str_find_split [OF assms(2)])
  have "drop i s = p @ ?r" using s str_find_Some [OF assms(2)]
    by (metis add_leD1 append_eq_conv_conj length_take min.absorb2)
  moreover obtain c q where p: "p = c # q" using assms(3) by (cases p) auto
  moreover have "whole_chars (c # q @ ?r)"
    using char_ok_after(1) [of "take i s" c "q @ ?r"] s assms(1,4) p by (simp add: whole_chars_def)
  ultimately show "whole_chars (drop i s)" by simp
  obtain u d where p': "p = u @ [d]" using assms(3) by (cases p rule: rev_cases) auto
  then show "whole_chars ?r"
    using char_ok_after(2) [of "take i s @ u" d ?r] s assms(1,4) by (simp add: whole_chars_def)
qed

lemma split_char_nonempty [simp]: "split_char d s \<noteq> []"
  by (induction s) (auto split: list.splits)

lemma show_nat_nonempty [simp]: "show_nat n \<noteq> []"
  by (subst show_nat.simps) simp

lemma show_nat_digits: "c \<in> set (show_nat n) \<Longrightarrow> is_ascii_digit c"
proof (induction n rule: show_nat.induct)
  case (1 n)
  show ?case
  proof (cases "n < 10")
    case True
    with "1.prems" show ?thesis
      by (subst (asm) show_nat.simps) (auto simp: is_ascii_digit_def)
  next
    case False
    have "48 + n mod 10 < 256" by (simp add: trans_less_add1)
    with "1" False show ?thesis
      by (subst (asm) (2) show_nat.simps) (auto simp: is_ascii_digit_def)
  qed
qed

lemma of_char_lower:
  "is_ascii_uppercase c \<Longrightarrow> (of_char (to_ascii_lower c) :: nat) = of_char c + 32"
  by (simp add: to_ascii_lower_def is_ascii_uppercase_def)

text \<open>Lower-casing neither moves nor produces a character that is not a letter.\<close>

lemma to_ascii_lower_iff:
  assumes "\<not> is_ascii_lowercase d" and "\<not> is_ascii_uppercase d"
  shows "to_ascii_lower c = d \<longleftrightarrow> c = d"
proof (cases "is_ascii_uppercase c")
  case True
  then have "is_ascii_lowercase (to_ascii_lower c)"
    using of_char_lower [OF True] by (simp add: is_ascii_lowercase_def is_ascii_uppercase_def)
  with assms True show ?thesis by auto
qed (auto simp: to_ascii_lower_def)

end
