(* ===== verification/Json.thy ===== *)
theory Json
  imports Rust_Str
begin

text \<open>
  JSON values as \<open>serde_json::Value\<close> has them. An object is the association list of a
  \<open>serde_json::Map\<close>, which is a \<open>BTreeMap\<close> here: keys are distinct and sorted bytewise, and
  \<open>map_insert\<close> keeps them so. A number is an integer or a float, the float kept as its text.
\<close>

section \<open>Values\<close>

datatype json =
    JNull
  | JBool bool
  | JInt int
  | JFloat string
  | JStr string
  | JArr "json list"
  | JObj "(string \<times> json) list"

type_synonym json_map = "(string \<times> json) list"

fun map_insert :: "string \<Rightarrow> 'v \<Rightarrow> (string \<times> 'v) list \<Rightarrow> (string \<times> 'v) list" where
  "map_insert k v [] = [(k, v)]"
| "map_insert k v ((k', v') # kvs) =
     (if k < k' then (k, v) # (k', v') # kvs
      else if k = k' then (k, v) # kvs
      else (k', v') # map_insert k v kvs)"

text \<open>\<open>Map\<close> built by successive insertion, as \<open>json!({...})\<close> and \<open>collect\<close> do.\<close>

definition map_collect :: "(string \<times> 'v) list \<Rightarrow> (string \<times> 'v) list" where
  "map_collect kvs = fold (\<lambda>(k, v). map_insert k v) kvs []"

definition jobj :: "(string \<times> json) list \<Rightarrow> json" where
  "jobj kvs = JObj (map_collect kvs)"

text \<open>\<open>Value::get(&str)\<close>: \<open>None\<close> on anything but an object.\<close>

fun jget :: "json \<Rightarrow> string \<Rightarrow> json option" where
  "jget (JObj kvs) k = map_of kvs k"
| "jget _ k = None"

fun as_str :: "json \<Rightarrow> string option" where
  "as_str (JStr s) = Some s"
| "as_str _ = None"

fun as_object :: "json \<Rightarrow> json_map option" where
  "as_object (JObj kvs) = Some kvs"
| "as_object _ = None"

fun as_array :: "json \<Rightarrow> json list option" where
  "as_array (JArr xs) = Some xs"
| "as_array _ = None"

fun as_i64 :: "json \<Rightarrow> int option" where
  "as_i64 (JInt n) = (if in_i64 n then Some n else None)"
| "as_i64 _ = None"

fun as_u64 :: "json \<Rightarrow> int option" where
  "as_u64 (JInt n) = (if 0 \<le> n \<and> n < 2 ^ 64 then Some n else None)"
| "as_u64 _ = None"

fun is_null :: "json \<Rightarrow> bool" where
  "is_null JNull = True"
| "is_null _ = False"

text \<open>\<open>Serialize\<close> of an \<open>Option\<close> inside \<open>json!\<close>.\<close>

definition jopt :: "('a \<Rightarrow> json) \<Rightarrow> 'a option \<Rightarrow> json" where
  "jopt f x = (case x of None \<Rightarrow> JNull | Some a \<Rightarrow> f a)"

section \<open>Sorted maps\<close>

definition sorted_keys :: "(string \<times> 'v) list \<Rightarrow> bool" where
  "sorted_keys kvs \<longleftrightarrow> sorted_wrt (<) (map fst kvs)"

lemma set_map_insert: "fst ` set (map_insert k v kvs) = insert k (fst ` set kvs)"
  by (induction k v kvs rule: map_insert.induct) auto

lemma sorted_map_insert: "sorted_keys kvs \<Longrightarrow> sorted_keys (map_insert k v kvs)"
proof (induction k v kvs rule: map_insert.induct)
  case (2 k v k' v' kvs)
  from "2.prems" have tl: "sorted_keys kvs" and hd: "\<forall>x \<in> fst ` set kvs. k' < x"
    by (auto simp: sorted_keys_def)
  consider "k < k'" | "k = k'" | "k' < k" by (rule linorder_cases)
  then show ?case
  proof cases
    case 1
    then have "\<forall>x \<in> fst ` set kvs. k < x" using hd by (meson order.strict_trans)
    with 1 "2.prems" show ?thesis by (simp add: sorted_keys_def)
  next
    case 2
    with tl hd show ?thesis by (simp add: sorted_keys_def)
  next
    case 3
    then have ne: "\<not> k < k'" "k \<noteq> k'" by auto
    then have "sorted_keys (map_insert k v kvs)" using "2.IH" tl by simp
    moreover have "\<forall>x \<in> fst ` set (map_insert k v kvs). k' < x"
      using hd 3 by (simp add: set_map_insert)
    ultimately show ?thesis using ne by (simp add: sorted_keys_def)
  qed
qed (simp add: sorted_keys_def)

lemma map_of_map_insert: "sorted_keys kvs \<Longrightarrow> map_of (map_insert k v kvs) = (map_of kvs)(k \<mapsto> v)"
proof (induction k v kvs rule: map_insert.induct)
  case (2 k v k' v' kvs)
  then show ?case by (auto simp: sorted_keys_def fun_eq_iff)
qed simp

lemma fold_map_insert:
  assumes "sorted_keys m"
  shows "sorted_keys (fold (\<lambda>(k, v). map_insert k v) kvs m) \<and>
    map_of (fold (\<lambda>(k, v). map_insert k v) kvs m) = map_of m ++ map_of (rev kvs)"
  using assms
proof (induction kvs arbitrary: m)
  case (Cons kv kvs)
  obtain k v where [simp]: "kv = (k, v)" by fastforce
  from Cons.prems have "sorted_keys (map_insert k v m)" by (rule sorted_map_insert)
  from Cons.IH [OF this] Cons.prems show ?case
    by (simp add: map_of_map_insert fun_eq_iff map_add_def split: option.splits)
qed simp

lemma sorted_map_collect: "sorted_keys (map_collect kvs)"
  using fold_map_insert [of "[]" kvs] by (simp add: map_collect_def sorted_keys_def)

lemma map_of_map_collect: "map_of (map_collect kvs) = map_of (rev kvs)"
  using fold_map_insert [of "[]" kvs] by (simp add: map_collect_def sorted_keys_def)

lemma jget_jobj: "jget (jobj kvs) k = map_of (rev kvs) k"
  by (simp add: jobj_def map_of_map_collect)

end
