(* ===== verification/Models.thy ===== *)
theory Models
  imports Json
begin

text \<open>
  The data of the program: \<open>crates/common/src/error.rs\<close> and \<open>crates/common/src/models/\<close>, and the
  record \<open>ext\<close> of the third-party functions the sources call. A \<open>DateTime<Utc>\<close> is an \<open>int\<close>, its
  distance from the epoch in microseconds, the resolution of a PostgreSQL \<open>timestamptz\<close>. Status
  and type columns are strings, as in the sources; the enums of \<open>models/\<close> are datatypes with their
  \<open>as_str\<close> and \<open>from_str_val\<close>, and the locale \<open>enum_codec\<close> states what the two promise.
\<close>

type_synonym timestamp = int

section \<open>Errors\<close>

text \<open>\<open>sqlx::Error\<close>, as far as the sources look at it: a database error with its kind and
  constraint name, a connection error, or no row where one was required.\<close>

datatype db_kind = UniqueViolation | ForeignKeyViolation | CheckViolation | OtherKind

datatype sqlx_error = Database db_kind "string option" | Io | RowNotFound

datatype app_error =
    InvalidRequest string
  | Unauthorized
  | PayloadSpecNotFound string
  | ConfigNotFound string
  | SecretNotFound string
  | EndpointNotFound string
  | JobNotFound string
  | ExecutionNotFound string
  | OrgNotFound string
  | WorkspaceNotFound string
  | Conflict string
  | JobNotUpdatable string
  | ExecutionNotCancellable string
  | InvalidCron string
  | InvalidSchema string
  | InvalidPayloadSpecRef string
  | InvalidConfigRef string
  | InputValidationFailed string
  | TemplateResolutionFailed string
  | RateLimited
  | Internal string

fun status_and_code :: "app_error \<Rightarrow> nat \<times> string" where
  "status_and_code (InvalidRequest _) = (400, ''INVALID_REQUEST'')"
| "status_and_code Unauthorized = (401, ''UNAUTHORIZED'')"
| "status_and_code (PayloadSpecNotFound _) = (404, ''PAYLOAD_SPEC_NOT_FOUND'')"
| "status_and_code (ConfigNotFound _) = (404, ''CONFIG_NOT_FOUND'')"
| "status_and_code (SecretNotFound _) = (404, ''SECRET_NOT_FOUND'')"
| "status_and_code (EndpointNotFound _) = (404, ''ENDPOINT_NOT_FOUND'')"
| "status_and_code (JobNotFound _) = (404, ''JOB_NOT_FOUND'')"
| "status_and_code (ExecutionNotFound _) = (404, ''EXECUTION_NOT_FOUND'')"
| "status_and_code (OrgNotFound _) = (404, ''ORG_NOT_FOUND'')"
| "status_and_code (WorkspaceNotFound _) = (404, ''WORKSPACE_NOT_FOUND'')"
| "status_and_code (Conflict _) = (409, ''CONFLICT'')"
| "status_and_code (JobNotUpdatable _) = (409, ''JOB_NOT_UPDATABLE'')"
| "status_and_code (ExecutionNotCancellable _) = (409, ''EXECUTION_NOT_CANCELLABLE'')"
| "status_and_code (InvalidCron _) = (422, ''INVALID_CRON'')"
| "status_and_code (InvalidSchema _) = (422, ''INVALID_SCHEMA'')"
| "status_and_code (InvalidPayloadSpecRef _) = (422, ''INVALID_PAYLOAD_SPEC_REF'')"
| "status_and_code (InvalidConfigRef _) = (422, ''INVALID_CONFIG_REF'')"
| "status_and_code (InputValidationFailed _) = (422, ''INPUT_VALIDATION_FAILED'')"
| "status_and_code (TemplateResolutionFailed _) = (422, ''TEMPLATE_RESOLUTION_FAILED'')"
| "status_and_code RateLimited = (429, ''RATE_LIMITED'')"
| "status_and_code (Internal _) = (500, ''INTERNAL_ERROR'')"

text \<open>\<open>Display\<close>, from the \<open>#[error]\<close> attributes.\<close>

fun app_error_display :: "app_error \<Rightarrow> string" where
  "app_error_display (InvalidRequest m) = ''Invalid request: '' @ m"
| "app_error_display Unauthorized = ''Unauthorized''"
| "app_error_display (PayloadSpecNotFound m) = ''Payload spec not found: '' @ m"
| "app_error_display (ConfigNotFound m) = ''Config not found: '' @ m"
| "app_error_display (SecretNotFound m) = ''Secret not found: '' @ m"
| "app_error_display (EndpointNotFound m) = ''Endpoint not found: '' @ m"
| "app_error_display (JobNotFound m) = ''Job not found: '' @ m"
| "app_error_display (ExecutionNotFound m) = ''Execution not found: '' @ m"
| "app_error_display (OrgNotFound m) = ''Organization not found: '' @ m"
| "app_error_display (WorkspaceNotFound m) = ''Workspace not found: '' @ m"
| "app_error_display (Conflict m) = ''Conflict: '' @ m"
| "app_error_display (JobNotUpdatable m) = ''Job not updatable: '' @ m"
| "app_error_display (ExecutionNotCancellable m) = ''Execution not cancellable: '' @ m"
| "app_error_display (InvalidCron m) = ''Invalid cron expression: '' @ m"
| "app_error_display (InvalidSchema m) = ''Invalid schema: '' @ m"
| "app_error_display (InvalidPayloadSpecRef m) = ''Invalid payload spec reference: '' @ m"
| "app_error_display (InvalidConfigRef m) = ''Invalid config reference: '' @ m"
| "app_error_display (InputValidationFailed m) = ''Input validation failed: '' @ m"
| "app_error_display (TemplateResolutionFailed m) = ''Template resolution failed: '' @ m"
| "app_error_display RateLimited = ''Rate limited''"
| "app_error_display (Internal m) = ''Internal error: '' @ m"

record http_response =
  resp_status :: nat
  resp_body :: "json option"

definition error_response :: "app_error \<Rightarrow> http_response" where
  "error_response e =
     \<lparr>resp_status = fst (status_and_code e),
      resp_body = Some (jobj [(''error'', jobj
        [(''code'', JStr (snd (status_and_code e))),
         (''message'', JStr (app_error_display e)),
         (''request_id'', JNull)])])\<rparr>"

definition from_sqlx :: "sqlx_error \<Rightarrow> app_error" where
  "from_sqlx e = Internal ''Database error''"

section \<open>Third-party functions\<close>

text \<open>
  What the sources call and do not define. The model never assumes anything of these; a property
  that needs a law states it.
\<close>

record ext =
  json_to_string :: "json \<Rightarrow> string"
    \<comment> \<open>\<open>Display\<close> of \<open>serde_json::Value\<close>\<close>
  jsonb_text :: "json \<Rightarrow> string"
    \<comment> \<open>PostgreSQL's \<open>jsonb::TEXT\<close>\<close>
  pg_bigint :: "string \<Rightarrow> int option"
    \<comment> \<open>PostgreSQL's \<open>text::BIGINT\<close>\<close>
  sqlx_display :: "sqlx_error \<Rightarrow> string"
    \<comment> \<open>\<open>Display\<close> of \<open>sqlx::Error\<close>\<close>
  ts_rfc3339 :: "timestamp \<Rightarrow> string"
    \<comment> \<open>\<open>DateTime<Utc>::to_rfc3339\<close>, also its \<open>Serialize\<close>\<close>
  parse_rfc3339 :: "string \<Rightarrow> timestamp option"
    \<comment> \<open>\<open>DateTime::parse_from_rfc3339\<close>, converted to UTC\<close>
  parse_naive :: "string \<Rightarrow> string \<Rightarrow> timestamp option"
    \<comment> \<open>\<open>NaiveDateTime::parse_from_str s fmt\<close>, read as UTC\<close>
  cron_parse :: "string \<Rightarrow> string option"
    \<comment> \<open>\<open>parse::<cron::Schedule>\<close>: the error text, or \<open>None\<close> when it parses\<close>
  cron_after :: "string \<Rightarrow> string \<Rightarrow> timestamp \<Rightarrow> timestamp option"
    \<comment> \<open>\<open>schedule.after(t.with_timezone(tz)).next()\<close>\<close>
  tz_parse :: "string \<Rightarrow> bool"
    \<comment> \<open>\<open>parse::<chrono_tz::Tz>\<close> succeeds\<close>
  schema_compile :: "json \<Rightarrow> string option"
    \<comment> \<open>\<open>JSONSchema::compile\<close>: the error text, or \<open>None\<close>\<close>
  schema_validate :: "json \<Rightarrow> json \<Rightarrow> string list"
    \<comment> \<open>\<open>JSONSchema::validate\<close>: the messages of the errors of an instance\<close>
  b64url_encode :: "string \<Rightarrow> string"
  b64url_decode :: "string \<Rightarrow> string option"
    \<comment> \<open>\<open>URL_SAFE_NO_PAD\<close>; \<open>None\<close> also when the bytes are not UTF-8\<close>
  aes_seal :: "nat list \<Rightarrow> nat list \<Rightarrow> string \<Rightarrow> nat list option"
  aes_open :: "nat list \<Rightarrow> nat list \<Rightarrow> nat list \<Rightarrow> nat list option"
    \<comment> \<open>AES-256-GCM with key, nonce, and plaintext or ciphertext\<close>
  gen_range :: "nat \<Rightarrow> int \<Rightarrow> int \<Rightarrow> int"
    \<comment> \<open>\<open>Rng::gen_range(lo..=hi)\<close> at a point of the random stream\<close>

text \<open>\<open>Serialize\<close> of \<open>DateTime<Utc>\<close>.\<close>

definition jts :: "ext \<Rightarrow> timestamp \<Rightarrow> json" where
  "jts x t = JStr (ts_rfc3339 x t)"

definition jts_opt :: "ext \<Rightarrow> timestamp option \<Rightarrow> json" where
  "jts_opt x = jopt (jts x)"

definition jstr_opt :: "string option \<Rightarrow> json" where
  "jstr_opt = jopt JStr"

definition jval_opt :: "json option \<Rightarrow> json" where
  "jval_opt = jopt id"

definition jint_opt :: "int option \<Rightarrow> json" where
  "jint_opt = jopt JInt"

section \<open>Enumerations\<close>

datatype endpoint_type = HTTP | KAFKA | REDIS_STREAM | INTERNAL

fun endpoint_type_as_str :: "endpoint_type \<Rightarrow> string" where
  "endpoint_type_as_str HTTP = ''HTTP''"
| "endpoint_type_as_str KAFKA = ''KAFKA''"
| "endpoint_type_as_str REDIS_STREAM = ''REDIS_STREAM''"
| "endpoint_type_as_str INTERNAL = ''INTERNAL''"

definition endpoint_type_from_str :: "string \<Rightarrow> endpoint_type option" where
  "endpoint_type_from_str s =
     (if s = ''HTTP'' then Some HTTP
      else if s = ''KAFKA'' then Some KAFKA
      else if s = ''REDIS_STREAM'' then Some REDIS_STREAM
      else if s = ''INTERNAL'' then Some INTERNAL
      else None)"

datatype trigger_type = IMMEDIATE | DELAYED | CRON

fun trigger_type_as_str :: "trigger_type \<Rightarrow> string" where
  "trigger_type_as_str IMMEDIATE = ''IMMEDIATE''"
| "trigger_type_as_str DELAYED = ''DELAYED''"
| "trigger_type_as_str CRON = ''CRON''"

definition trigger_type_from_str :: "string \<Rightarrow> trigger_type option" where
  "trigger_type_from_str s =
     (if s = ''IMMEDIATE'' then Some IMMEDIATE
      else if s = ''DELAYED'' then Some DELAYED
      else if s = ''CRON'' then Some CRON
      else None)"

datatype job_status = ACTIVE | RETIRED

fun job_status_as_str :: "job_status \<Rightarrow> string" where
  "job_status_as_str ACTIVE = ''ACTIVE''"
| "job_status_as_str RETIRED = ''RETIRED''"

definition job_status_from_str :: "string \<Rightarrow> job_status option" where
  "job_status_from_str s =
     (if s = ''ACTIVE'' then Some ACTIVE
      else if s = ''RETIRED'' then Some RETIRED
      else None)"

datatype execution_status =
  PENDING | QUEUED | RUNNING | RETRYING | SUCCESS | FAILED | CANCELLED

fun execution_status_as_str :: "execution_status \<Rightarrow> string" where
  "execution_status_as_str PENDING = ''PENDING''"
| "execution_status_as_str QUEUED = ''QUEUED''"
| "execution_status_as_str RUNNING = ''RUNNING''"
| "execution_status_as_str RETRYING = ''RETRYING''"
| "execution_status_as_str SUCCESS = ''SUCCESS''"
| "execution_status_as_str FAILED = ''FAILED''"
| "execution_status_as_str CANCELLED = ''CANCELLED''"

datatype attempt_status = ATTEMPT_SUCCESS | ATTEMPT_FAILED

fun attempt_status_as_str :: "attempt_status \<Rightarrow> string" where
  "attempt_status_as_str ATTEMPT_SUCCESS = ''SUCCESS''"
| "attempt_status_as_str ATTEMPT_FAILED = ''FAILED''"

text \<open>What \<open>as_str\<close> and \<open>from_str_val\<close> of one enum promise together.\<close>

locale enum_codec =
  fixes enc :: "'a \<Rightarrow> string" and dec :: "string \<Rightarrow> 'a option"
  assumes dec_enc: "dec (enc a) = Some a"
    and enc_dec: "dec s = Some a \<Longrightarrow> enc a = s"
begin

lemma enc_inj: "enc a = enc b \<longleftrightarrow> a = b"
  by (metis dec_enc option.inject)

lemma dec_Some_iff: "dec s = Some a \<longleftrightarrow> s = enc a"
  using dec_enc enc_dec by blast

lemma dec_None_iff: "dec s = None \<longleftrightarrow> s \<notin> range enc"
  using dec_Some_iff by (metis not_None_eq rangeE rangeI)

lemma dec_list: "map_option (map enc) (those (map dec xs)) = (if set xs \<subseteq> range enc then Some xs else None)"
proof (induction xs)
  case (Cons s xs)
  show ?case
  proof (cases "dec s")
    case None
    moreover from None have "s \<notin> range enc" by (metis dec_enc option.distinct(1) rangeE)
    ultimately show ?thesis by auto
  next
    case (Some a)
    then have "s = enc a" by (simp add: dec_Some_iff)
    with Some Cons.IH show ?thesis
      by (cases "those (map dec xs)") (auto split: if_splits)
  qed
qed simp

end

interpretation endpoint_codec: enum_codec endpoint_type_as_str endpoint_type_from_str
proof
  fix a
  show "endpoint_type_from_str (endpoint_type_as_str a) = Some a"
    by (cases a) (simp_all add: endpoint_type_from_str_def)
qed (auto simp: endpoint_type_from_str_def split: if_splits)

interpretation trigger_codec: enum_codec trigger_type_as_str trigger_type_from_str
proof
  fix a
  show "trigger_type_from_str (trigger_type_as_str a) = Some a"
    by (cases a) (simp_all add: trigger_type_from_str_def)
qed (auto simp: trigger_type_from_str_def split: if_splits)

interpretation job_status_codec: enum_codec job_status_as_str job_status_from_str
proof
  fix a
  show "job_status_from_str (job_status_as_str a) = Some a"
    by (cases a) (simp_all add: job_status_from_str_def)
qed (auto simp: job_status_from_str_def split: if_splits)

section \<open>Rows\<close>

record retry_policy =
  max_attempts :: int
  backoff :: string
  initial_delay_ms :: int
  max_delay_ms :: int

definition default_retry_policy :: retry_policy where
  "default_retry_policy =
     \<lparr>max_attempts = 1, backoff = ''exponential'', initial_delay_ms = 1000, max_delay_ms = 60000\<rparr>"

record payload_spec =
  ps_name :: string
  schema_json :: json
  ps_created_at :: timestamp
  ps_updated_at :: timestamp

record config_row =
  cfg_name :: string
  values_json :: json
  cfg_created_at :: timestamp
  cfg_updated_at :: timestamp

record secret_row =
  sec_name :: string
  encrypted_value :: "nat list"
  sec_created_at :: timestamp
  sec_updated_at :: timestamp

record endpoint_row =
  ep_name :: string
  ep_type :: string
  payload_spec_ref :: "string option"
  config_ref :: "string option"
  ep_spec :: json
  ep_retry_policy :: "json option"
  ep_created_at :: timestamp
  ep_updated_at :: timestamp

record job_row =
  job_id :: string
  job_endpoint :: string
  job_endpoint_type :: string
  trigger_type :: string
  job_status :: string
  version :: int
  previous_version_id :: "string option"
  replaced_by_id :: "string option"
  job_idempotency_key :: "string option"
  job_input :: "json option"
  job_run_at :: "timestamp option"
  cron_expression :: "string option"
  cron_timezone :: "string option"
  cron_starts_at :: "timestamp option"
  cron_ends_at :: "timestamp option"
  cron_next_run_at :: "timestamp option"
  cron_last_tick_at :: "timestamp option"
  job_created_at :: timestamp
  retired_at :: "timestamp option"

record execution_row =
  execution_id :: string
  exec_job_id :: string
  exec_endpoint :: string
  exec_endpoint_type :: string
  exec_idempotency_key :: "string option"
  exec_status :: string
  exec_input :: "json option"
  exec_output :: "json option"
  attempt_count :: int
  exec_max_attempts :: int
  worker_id :: "string option"
  exec_run_at :: timestamp
  started_at :: "timestamp option"
  completed_at :: "timestamp option"
  duration_ms :: "int option"
  exec_created_at :: timestamp

record attempt_row =
  attempt_id :: string
  att_execution_id :: string
  attempt_number :: int
  att_status :: string
  att_started_at :: timestamp
  att_completed_at :: "timestamp option"
  att_duration_ms :: "int option"
  att_output :: "json option"
  att_error :: "json option"
  att_created_at :: timestamp

record log_row =
  log_id :: string
  log_execution_id :: string
  log_attempt_number :: int
  log_level :: string
  log_message :: string
  logged_at :: timestamp

record org_row =
  org_id :: string
  org_name :: string
  org_slug :: string
  org_status :: string
  org_created_at :: timestamp
  org_updated_at :: timestamp

record workspace_row =
  workspace_id :: string
  ws_org_id :: string
  ws_name :: string
  ws_slug :: string
  ws_schema_name :: string
  ws_status :: string
  ws_schema_version :: int
  ws_created_at :: timestamp
  ws_updated_at :: timestamp

section \<open>Retry policies\<close>

text \<open>
  \<open>serde_json::from_value::<RetryPolicy>\<close>: the derived visitor reads an object (unknown keys are
  ignored, absent ones take their default) or an array of at most four elements in field order.
\<close>

definition de_i64 :: "int \<Rightarrow> json option \<Rightarrow> int option" where
  "de_i64 d v = (case v of None \<Rightarrow> Some d | Some j \<Rightarrow> as_i64 j)"

definition de_string :: "string \<Rightarrow> json option \<Rightarrow> string option" where
  "de_string d v = (case v of None \<Rightarrow> Some d | Some j \<Rightarrow> as_str j)"

definition nth_opt :: "'a list \<Rightarrow> nat \<Rightarrow> 'a option" where
  "nth_opt xs i = (if i < length xs then Some (xs ! i) else None)"

definition retry_policy_fields ::
  "json option \<Rightarrow> json option \<Rightarrow> json option \<Rightarrow> json option \<Rightarrow> retry_policy option" where
  "retry_policy_fields a b c d =
     (case (de_i64 1 a, de_string ''exponential'' b, de_i64 1000 c, de_i64 60000 d) of
        (Some n, Some s, Some i, Some m) \<Rightarrow>
          Some \<lparr>max_attempts = n, backoff = s, initial_delay_ms = i, max_delay_ms = m\<rparr>
      | _ \<Rightarrow> None)"

fun retry_policy_from_value :: "json \<Rightarrow> retry_policy option" where
  "retry_policy_from_value (JObj kvs) =
     retry_policy_fields (map_of kvs ''max_attempts'') (map_of kvs ''backoff'')
       (map_of kvs ''initial_delay_ms'') (map_of kvs ''max_delay_ms'')"
| "retry_policy_from_value (JArr xs) =
     (if 4 < length xs then None
      else retry_policy_fields (nth_opt xs 0) (nth_opt xs 1) (nth_opt xs 2) (nth_opt xs 3))"
| "retry_policy_from_value _ = None"

definition retry_policy_to_value :: "retry_policy \<Rightarrow> json" where
  "retry_policy_to_value p = jobj
     [(''max_attempts'', JInt (max_attempts p)),
      (''backoff'', JStr (backoff p)),
      (''initial_delay_ms'', JInt (initial_delay_ms p)),
      (''max_delay_ms'', JInt (max_delay_ms p))]"

definition get_retry_policy :: "endpoint_row \<Rightarrow> retry_policy" where
  "get_retry_policy ep =
     (case Option.bind (ep_retry_policy ep) retry_policy_from_value of
        None \<Rightarrow> default_retry_policy
      | Some p \<Rightarrow> p)"

definition policy_in_range :: "retry_policy \<Rightarrow> bool" where
  "policy_in_range p \<longleftrightarrow> in_i64 (max_attempts p) \<and> in_i64 (initial_delay_ms p) \<and> in_i64 (max_delay_ms p)"

lemma retry_policy_roundtrip:
  assumes "policy_in_range p"
  shows "retry_policy_from_value (retry_policy_to_value p) = Some p"
proof -
  have "map_of (map_collect
     [(''max_attempts'', JInt (max_attempts p)), (''backoff'', JStr (backoff p)),
      (''initial_delay_ms'', JInt (initial_delay_ms p)), (''max_delay_ms'', JInt (max_delay_ms p))]) =
     map_of (rev [(''max_attempts'', JInt (max_attempts p)), (''backoff'', JStr (backoff p)),
      (''initial_delay_ms'', JInt (initial_delay_ms p)), (''max_delay_ms'', JInt (max_delay_ms p))])"
    by (rule map_of_map_collect)
  with assms show ?thesis
    by (simp add: retry_policy_to_value_def jobj_def retry_policy_fields_def de_i64_def
        de_string_def policy_in_range_def)
qed

lemma retry_policy_from_value_range:
  assumes "retry_policy_from_value v = Some p"
  shows "policy_in_range p"
proof -
  have a: "as_i64 j = Some n \<Longrightarrow> in_i64 n" for j n
    by (cases j) (auto split: if_splits)
  have r: "de_i64 d o' = Some n \<Longrightarrow> in_i64 d \<Longrightarrow> in_i64 n" for d n :: int and o'
    by (auto simp: de_i64_def a split: option.splits)
  have "in_i64 1" "in_i64 1000" "in_i64 60000"
    by (simp_all add: in_i64_def i64_min_def i64_max_def)
  with assms r show ?thesis
    by (cases v) (auto simp: retry_policy_fields_def policy_in_range_def split: option.splits if_splits)
qed

section \<open>Cron expressions\<close>

text \<open>A \<open>PgCronExpr\<close> is the string its constructor accepted.\<close>

definition to_seven_field :: "string \<Rightarrow> string" where
  "to_seven_field e = ''0 '' @ e @ '' *''"

definition pg_cron_try_from :: "ext \<Rightarrow> string \<Rightarrow> (string, app_error) outcome" where
  "pg_cron_try_from x value =
     (let field_count = split_whitespace_count value in
      if field_count \<noteq> 5 then
        Err (InvalidCron
          (''Cron expression must have exactly 5 fields (min hour dom month dow), got ''
           @ show_nat field_count))
      else (case cron_parse x (''0 '' @ value @ '' *'') of
          Some e \<Rightarrow> Err (InvalidCron e)
        | None \<Rightarrow> Ok value))"

definition to_schedule :: "ext \<Rightarrow> string \<Rightarrow> (string, app_error) outcome" where
  "to_schedule x e =
     (case cron_parse x (to_seven_field e) of
        None \<Rightarrow> Ok (to_seven_field e)
      | Some _ \<Rightarrow> Panic ''PgCronExpr was validated on construction'')"

lemma to_schedule_total: "pg_cron_try_from x s = Ok e \<Longrightarrow> to_schedule x e = Ok (to_seven_field e)"
  by (auto simp: pg_cron_try_from_def to_schedule_def to_seven_field_def Let_def
      split: if_splits option.splits)

section \<open>Request bodies\<close>

text \<open>\<open>flexible_datetime\<close>: RFC 3339 first, then the two \<open>datetime-local\<close> forms.\<close>

definition flexible_parse :: "ext \<Rightarrow> string \<Rightarrow> (timestamp, string) outcome" where
  "flexible_parse x s =
     (case parse_rfc3339 x s of
        Some t \<Rightarrow> Ok t
      | None \<Rightarrow> (case parse_naive x s ''%Y-%m-%dT%H:%M:%S'' of
          Some t \<Rightarrow> Ok t
        | None \<Rightarrow> (case parse_naive x s ''%Y-%m-%dT%H:%M'' of
            Some t \<Rightarrow> Ok t
          | None \<Rightarrow> Err (''invalid datetime '' @ quoted s @
              '': expected an RFC 3339 timestamp (e.g. 2026-06-09T17:18:00Z)'' @
              '' or a datetime-local value (e.g. 2026-06-09T17:18)''))))"

definition deserialize_opt :: "ext \<Rightarrow> string option \<Rightarrow> (timestamp option, string) outcome" where
  "deserialize_opt x v =
     (case v of
        None \<Rightarrow> Ok None
      | Some s \<Rightarrow> if trim s = [] then Ok None
                  else bind_outcome (flexible_parse x (trim s)) (\<lambda>t. Ok (Some t)))"

record create_job =
  cj_endpoint :: string
  cj_trigger :: string
  cj_idempotency_key :: "string option"
  cj_input :: "json option"
  cj_max_attempts :: "int option"
  cj_run_at :: "timestamp option"
  cj_cron :: "string option"
  cj_timezone :: "string option"
  cj_starts_at :: "timestamp option"
  cj_ends_at :: "timestamp option"

record update_job =
  uj_cron :: "string option"
  uj_timezone :: "string option"
  uj_input :: "json option"
  uj_starts_at :: "timestamp option"
  uj_ends_at :: "timestamp option"

record create_endpoint =
  ce_name :: string
  ce_type :: string
  ce_payload_spec :: "string option"
  ce_config :: "string option"
  ce_spec :: json
  ce_retry_policy :: "retry_policy option"

record update_endpoint =
  ue_spec :: "json option"
  ue_config :: "string option"
  ue_payload_spec :: "string option"
  ue_retry_policy :: "retry_policy option"

section \<open>A concrete instance of the third-party functions\<close>

definition sample_ext :: ext where
  "sample_ext =
     \<lparr>json_to_string = (\<lambda>_. ''json''), jsonb_text = (\<lambda>_. ''json''), pg_bigint = (\<lambda>_. Some 7),
      sqlx_display = (\<lambda>_. ''error''), ts_rfc3339 = (\<lambda>_. ''2026-01-01T00:00:00Z''),
      parse_rfc3339 = (\<lambda>_. None), parse_naive = (\<lambda>_ _. None), cron_parse = (\<lambda>_. None),
      cron_after = (\<lambda>_ _ t. Some (t + 60)), tz_parse = (\<lambda>tz. tz = ''UTC''),
      schema_compile = (\<lambda>_. None), schema_validate = (\<lambda>_ _. []),
      b64url_encode = id, b64url_decode = Some,
      aes_seal = (\<lambda>_ _ s. Some (map of_char s)), aes_open = (\<lambda>_ _ c. Some c),
      gen_range = (\<lambda>_ lo _. lo)\<rparr>"
section \<open>Properties\<close>

text \<open>A retry policy written by \<open>Serialize\<close> is read back by \<open>Deserialize\<close> unchanged, and only
  policies whose numbers fit \<open>i64\<close> are read.\<close>

lemma retry_policy_read_back:
  "(policy_in_range p \<longrightarrow> retry_policy_from_value (retry_policy_to_value p) = Some p) \<and>
   (retry_policy_from_value v = Some q \<longrightarrow> policy_in_range q)"
  using retry_policy_roundtrip retry_policy_from_value_range by blast

lemma retry_policy_read_back_example:
  "retry_policy_from_value (retry_policy_to_value
     \<lparr>max_attempts = 3, backoff = ''fixed'', initial_delay_ms = 100, max_delay_ms = 200\<rparr>) =
   Some \<lparr>max_attempts = 3, backoff = ''fixed'', initial_delay_ms = 100, max_delay_ms = 200\<rparr>"
  by (rule retry_policy_read_back [THEN conjunct1, THEN mp]) (simp add: policy_in_range_def in_i64_def i64_min_def i64_max_def)

text \<open>A cron expression that \<open>PgCronExpr\<close> accepted always has a schedule: \<open>to_schedule\<close> re-parses the
  seven-field form its constructor parsed, so its \<open>expect\<close> never fires.\<close>

lemma accepted_cron_has_schedule:
  "pg_cron_try_from x s = Ok e \<Longrightarrow> to_schedule x e = Ok (to_seven_field e)"
  by (rule to_schedule_total)

lemma accepted_cron_has_schedule_example:
  "to_schedule sample_ext ''*/5 * * * *'' = Ok (to_seven_field ''*/5 * * * *'')"
  by (rule accepted_cron_has_schedule [of _ "''*/5 * * * *''"]) code_simp

text \<open>The names of endpoint types, triggers and job statuses are read back as written, and no other
  text is read as one.\<close>

lemma enum_names_read_back:
  "(endpoint_type_from_str s = Some a \<longleftrightarrow> s = endpoint_type_as_str a) \<and>
   (trigger_type_from_str s = Some b \<longleftrightarrow> s = trigger_type_as_str b) \<and>
   (job_status_from_str s = Some c \<longleftrightarrow> s = job_status_as_str c)"
  by (simp add: endpoint_codec.dec_Some_iff trigger_codec.dec_Some_iff job_status_codec.dec_Some_iff)

end
