(* ===== verification/Pg.thy ===== *)
theory Pg
  imports Models
begin

text \<open>
  The PostgreSQL database of the program and a connection to it. The tables and their constraints
  are those of \<open>crates/common/migrations/workspace_v1.sql\<close> (one tenant per schema and table
  prefix) and \<open>migrations/20260318000000_multi_tenancy.sql\<close> (the control tables); \<open>cron.job\<close> is
  the table of pg_cron, in which \<open>cron.schedule\<close> upserts by name.

  \<open>stmt\<close> runs one SQL statement on the connection. Its environment decides how long it takes and
  whether the connection fails before or after the server applied it. Inside a transaction \<open>now()\<close>
  is the start of the transaction, an error aborts the transaction until its end, and \<open>tx_commit\<close>
  of an aborted transaction rolls back and reports success, as PostgreSQL does.
\<close>

section \<open>Tables\<close>

record tenant =
  payload_specs :: "payload_spec list"
  configs :: "config_row list"
  secrets :: "secret_row list"
  endpoints :: "endpoint_row list"
  jobs :: "job_row list"
  executions :: "execution_row list"
  attempts :: "attempt_row list"
  execution_logs :: "log_row list"

definition empty_tenant :: tenant where
  "empty_tenant =
     \<lparr>payload_specs = [], configs = [], secrets = [], endpoints = [], jobs = [], executions = [],
      attempts = [], execution_logs = []\<rparr>"

text \<open>The command of a pg_cron entry, by the parameters \<open>build_cron_command\<close> renders it from.\<close>

datatype cron_command = Cron_Command (cc_prefix: string) (cc_schema: string) (cc_job_id: string)

record database =
  organizations :: "org_row list"
  workspaces :: "workspace_row list"
  tenants :: "(string \<times> string) \<Rightarrow> tenant option"
  cron_job :: "string \<Rightarrow> (string \<times> cron_command) option"

section \<open>Connections\<close>

datatype fault = Fine | Lost_Before | Lost_After

record tx_state =
  tx_start :: timestamp
  tx_saved :: database
  tx_saved_path :: string
  tx_aborted :: bool

record pg =
  pg_db :: database
  pg_path :: string
  pg_tx :: "tx_state option"
  pg_clock :: timestamp
  pg_delays :: "nat list"
  pg_faults :: "fault list"
  pg_uuid :: "nat \<Rightarrow> string"
  pg_next :: nat
  pg_locked :: "(string \<times> string) list"

text \<open>What a statement sees besides the tables: \<open>now()\<close>, the search path, a fresh
  \<open>gen_random_uuid()\<close> and the executions other sessions hold row locks on.\<close>

record sql_env =
  env_now :: timestamp
  env_path :: string
  env_uuid :: string
  env_locked :: "(string \<times> string) list"

type_synonym 'a sql = "sql_env \<Rightarrow> database \<Rightarrow> ('a \<times> database, sqlx_error) outcome"

definition pg_now :: "'x pg_scheme \<Rightarrow> timestamp" where
  "pg_now s = (case pg_tx s of None \<Rightarrow> pg_clock s | Some t \<Rightarrow> tx_start t)"

definition pg_env :: "'x pg_scheme \<Rightarrow> sql_env" where
  "pg_env s = \<lparr>env_now = pg_now s, env_path = pg_path s, env_uuid = pg_uuid s (pg_next s),
               env_locked = pg_locked s\<rparr>"

definition pg_elapse :: "'x pg_scheme \<Rightarrow> 'x pg_scheme" where
  "pg_elapse s = (case pg_delays s of
       [] \<Rightarrow> s\<lparr>pg_next := Suc (pg_next s)\<rparr>
     | d # ds \<Rightarrow> s\<lparr>pg_clock := pg_clock s + int d, pg_delays := ds, pg_next := Suc (pg_next s)\<rparr>)"

definition pg_fault :: "'x pg_scheme \<Rightarrow> fault" where
  "pg_fault s = (case pg_faults s of [] \<Rightarrow> Fine | f # _ \<Rightarrow> f)"

definition pg_arrive :: "'x pg_scheme \<Rightarrow> 'x pg_scheme" where
  "pg_arrive s = (pg_elapse s)\<lparr>pg_faults := tl (pg_faults s)\<rparr>"

definition pg_abort :: "'x pg_scheme \<Rightarrow> 'x pg_scheme" where
  "pg_abort s = s\<lparr>pg_tx := map_option (\<lambda>t. t\<lparr>tx_aborted := True\<rparr>) (pg_tx s)\<rparr>"

definition in_aborted_tx :: "'x pg_scheme \<Rightarrow> bool" where
  "in_aborted_tx s \<longleftrightarrow> (case pg_tx s of None \<Rightarrow> False | Some t \<Rightarrow> tx_aborted t)"

definition pg_rollback :: "'x pg_scheme \<Rightarrow> 'x pg_scheme" where
  "pg_rollback s = (case pg_tx s of
       None \<Rightarrow> s
     | Some t \<Rightarrow> s\<lparr>pg_db := tx_saved t, pg_path := tx_saved_path t, pg_tx := None\<rparr>)"

definition stmt :: "'a sql \<Rightarrow> ('x pg_scheme, 'a, sqlx_error) prog" where
  "stmt f = State (\<lambda>s0.
     let s = pg_arrive s0 in
     if pg_fault s0 = Lost_Before then (Err Io, pg_abort s)
     else if in_aborted_tx s then (Err (Database OtherKind None), s)
     else (case f (pg_env s) (pg_db s) of
         Err e \<Rightarrow> (Err (if pg_fault s0 = Lost_After then Io else e), pg_abort s)
       | Panic p \<Rightarrow> (Panic p, s)
       | Ok (a, d) \<Rightarrow>
           if pg_fault s0 = Fine then (Ok a, s\<lparr>pg_db := d\<rparr>)
           else if pg_tx s = None then (Err Io, s\<lparr>pg_db := d\<rparr>)
           else (Err Io, pg_abort s)))"

definition tx_begin :: "('x pg_scheme, unit, sqlx_error) prog" where
  "tx_begin = State (\<lambda>s0.
     let s = pg_arrive s0 in
     if pg_fault s0 = Fine then
       (Ok (), s\<lparr>pg_tx := Some \<lparr>tx_start = pg_clock s, tx_saved = pg_db s, tx_saved_path = pg_path s,
                             tx_aborted = False\<rparr>\<rparr>)
     else (Err Io, s))"

definition tx_commit :: "('x pg_scheme, unit, sqlx_error) prog" where
  "tx_commit = State (\<lambda>s0.
     let s = pg_arrive s0;
         done = (if pg_fault s0 = Lost_Before \<or> in_aborted_tx s then pg_rollback s
                 else s\<lparr>pg_tx := None\<rparr>)
     in (if pg_fault s0 = Fine then Ok () else Err Io, done))"

text \<open>Leaving the scope of a \<open>Transaction\<close>: one that was not committed is rolled back, on every
  path out, unwinding included.\<close>

definition with_drop :: "('x pg_scheme, 'a, 'e) prog \<Rightarrow> ('x pg_scheme, 'a, 'e) prog" where
  "with_drop m = State (\<lambda>s. case run_state m s of (r, s') \<Rightarrow> (r, pg_rollback s'))"

definition set_search_path :: "string \<Rightarrow> ('x pg_scheme, unit, sqlx_error) prog" where
  "set_search_path schema =
     tryS (stmt (\<lambda>_ d. Ok ((), d))) (\<lambda>_. State (\<lambda>s. (Ok (), s\<lparr>pg_path := schema\<rparr>)))"

text \<open>\<open>Utc::now()\<close> and \<open>Uuid::new_v4()\<close> of the program itself.\<close>

definition utc_now :: "('x pg_scheme, timestamp) state" where
  "utc_now = State (\<lambda>s. (pg_clock s, s))"

definition new_v4 :: "('x pg_scheme, string) state" where
  "new_v4 = State (\<lambda>s. (pg_uuid s (pg_next s), s\<lparr>pg_next := Suc (pg_next s)\<rparr>))"

section \<open>Database invariants\<close>

text \<open>
  A predicate on databases holds of a connection when it holds of the tables as the connection
  sees them and of the tables a rollback would restore.
\<close>

definition committed :: "'x pg_scheme \<Rightarrow> database" where
  "committed s = (case pg_tx s of None \<Rightarrow> pg_db s | Some t \<Rightarrow> tx_saved t)"

definition db_inv :: "(database \<Rightarrow> bool) \<Rightarrow> 'x pg_scheme \<Rightarrow> bool" where
  "db_inv D s \<longleftrightarrow> D (pg_db s) \<and> D (committed s)"

definition sql_keeps :: "(database \<Rightarrow> bool) \<Rightarrow> 'a sql \<Rightarrow> bool" where
  "sql_keeps D f \<longleftrightarrow> (\<forall>env d a d'. D d \<longrightarrow> f env d = Ok (a, d') \<longrightarrow> D d')"

lemma sql_keepsI:
  "(\<And>env d a d'. D d \<Longrightarrow> f env d = Ok (a, d') \<Longrightarrow> D d') \<Longrightarrow> sql_keeps D f"
  by (auto simp: sql_keeps_def)

lemma pg_arrive_simps [simp]:
  "pg_db (pg_arrive s) = pg_db s" "pg_path (pg_arrive s) = pg_path s"
  "pg_tx (pg_arrive s) = pg_tx s" "pg_uuid (pg_arrive s) = pg_uuid s"
  "pg_locked (pg_arrive s) = pg_locked s" "in_aborted_tx (pg_arrive s) = in_aborted_tx s"
  "committed (pg_arrive s) = committed s" "pg_next (pg_arrive s) = Suc (pg_next s)"
  by (auto simp: pg_arrive_def pg_elapse_def in_aborted_tx_def committed_def
      split: list.splits option.splits)

lemma pg_abort_simps [simp]:
  "pg_db (pg_abort s) = pg_db s" "pg_path (pg_abort s) = pg_path s"
  "pg_uuid (pg_abort s) = pg_uuid s" "pg_clock (pg_abort s) = pg_clock s"
  "committed (pg_abort s) = committed s" "pg_tx (pg_abort s) = map_option (\<lambda>t. t\<lparr>tx_aborted := True\<rparr>) (pg_tx s)"
  "in_aborted_tx (pg_abort s) \<longleftrightarrow> pg_tx s \<noteq> None"
  by (auto simp: pg_abort_def committed_def in_aborted_tx_def split: option.splits)

lemma pg_rollback_simps [simp]:
  "pg_tx (pg_rollback s) = None" "pg_db (pg_rollback s) = committed s"
  "committed (pg_rollback s) = committed s" "pg_clock (pg_rollback s) = pg_clock s"
  "pg_uuid (pg_rollback s) = pg_uuid s"
  by (auto simp: pg_rollback_def committed_def split: option.splits)

lemma committed_no_tx [simp]: "pg_tx s = None \<Longrightarrow> committed s = pg_db s"
  by (simp add: committed_def)

lemma run_with_drop [simp]:
  "run_state (with_drop m) s = (case run_state m s of (r, s') \<Rightarrow> (r, pg_rollback s'))"
  by (simp add: with_drop_def)

lemma run_utc_now [simp]: "run_state utc_now s = (pg_clock s, s)"
  by (simp add: utc_now_def)

lemma run_new_v4 [simp]:
  "run_state new_v4 s = (pg_uuid s (pg_next s), s\<lparr>pg_next := Suc (pg_next s)\<rparr>)"
  by (simp add: new_v4_def)

lemma committed_updates [simp]:
  "committed (s\<lparr>pg_db := d\<rparr>) = (if pg_tx s = None then d else committed s)"
  "committed (s\<lparr>pg_path := p\<rparr>) = committed s" "committed (s\<lparr>pg_next := n\<rparr>) = committed s"
  "committed (s\<lparr>pg_tx := Some t\<rparr>) = tx_saved t" "committed (s\<lparr>pg_tx := None\<rparr>) = pg_db s"
  by (auto simp: committed_def split: option.splits)

lemma keeps_stmt: "sql_keeps D f \<Longrightarrow> keeps (db_inv D) (stmt f)"
  by (rule keepsI)
    (auto simp: stmt_def Let_def sql_keeps_def db_inv_def split: outcome.splits)

lemma keeps_tx_begin [keeps_intros]: "keeps (db_inv D) tx_begin"
  by (rule keepsI) (simp add: tx_begin_def Let_def db_inv_def)

lemma keeps_tx_commit [keeps_intros]: "keeps (db_inv D) tx_commit"
  by (rule keepsI) (auto simp: tx_commit_def Let_def db_inv_def)

lemma keeps_with_drop [keeps_intros]:
  fixes m :: "('x pg_scheme, 'a, 'e) prog"
  assumes "keeps (db_inv D) m"
  shows "keeps (db_inv D) (with_drop m)"
proof (rule keepsI)
  fix s :: "'x pg_scheme"
  assume "db_inv D s"
  then have "db_inv D (snd (run_state m s))" using assms by (simp add: keeps_def)
  then show "db_inv D (snd (run_state (with_drop m) s))"
    by (cases "run_state m s") (simp add: db_inv_def)
qed

lemma keeps_utc_now [keeps_intros]: "keeps I utc_now"
  by (simp add: keeps_def)

lemma keeps_new_v4 [keeps_intros]: "keeps (db_inv D) new_v4"
  by (simp add: keeps_def db_inv_def)

lemma sql_keeps_pure: "(\<And>env d. (\<exists>r. f env d = Ok (r, d)) \<or> (\<exists>e. f env d = Err e)) \<Longrightarrow> sql_keeps D f"
  by (rule sql_keepsI) (metis Pair_inject outcome.inject(1) outcome.distinct(1))

lemma keeps_set_search_path [keeps_intros]: "keeps (db_inv D) (set_search_path schema)"
  unfolding set_search_path_def
  by (intro keeps_tryS keeps_stmt sql_keeps_pure) (auto intro!: keepsI simp: db_inv_def)

section \<open>Transactions\<close>

text \<open>Between \<open>BEGIN\<close> and its end a transaction changes nothing that is committed.\<close>

definition in_tx :: "database \<Rightarrow> 'x pg_scheme \<Rightarrow> bool" where
  "in_tx d0 s \<longleftrightarrow> pg_tx s \<noteq> None \<and> committed s = d0"

definition live_tx :: "database \<Rightarrow> 'x pg_scheme \<Rightarrow> bool" where
  "live_tx d0 s \<longleftrightarrow> in_tx d0 s \<and> \<not> in_aborted_tx s"

lemma in_aborted_tx_updates [simp]:
  "in_aborted_tx (s\<lparr>pg_db := d\<rparr>) = in_aborted_tx s"
  "in_aborted_tx (s\<lparr>pg_path := p\<rparr>) = in_aborted_tx s"
  "in_aborted_tx (s\<lparr>pg_next := n\<rparr>) = in_aborted_tx s"
  "in_aborted_tx (s\<lparr>pg_tx := Some t\<rparr>) = tx_aborted t"
  "\<not> in_aborted_tx (s\<lparr>pg_tx := None\<rparr>)"
  by (auto simp: in_aborted_tx_def)

lemma keeps_in_tx_stmt: "keeps (in_tx d0) (stmt f)"
  by (rule keepsI) (auto simp: stmt_def Let_def in_tx_def split: outcome.splits)

lemma keeps_in_tx_set_search_path: "keeps (in_tx d0) (set_search_path schema)"
  unfolding set_search_path_def
  by (intro keeps_tryS keeps_in_tx_stmt) (auto intro!: keepsI simp: in_tx_def)

lemma keeps_in_tx_new_v4: "keeps (in_tx d0) new_v4"
  by (rule keepsI) (simp add: in_tx_def)

lemmas keeps_in_tx = keeps_in_tx_stmt keeps_in_tx_set_search_path keeps_in_tx_new_v4

text \<open>A statement that returns \<open>Ok\<close> ran, and did so in a transaction that is still live.\<close>

lemma stmt_Ok:
  assumes "run_state (stmt f) s = (Ok a, s')"
  shows "f (pg_env (pg_arrive s)) (pg_db s) = Ok (a, pg_db s')" and "\<not> in_aborted_tx s'"
    and "pg_tx s' = pg_tx s" and "pg_path s' = pg_path s"
    and "s' = (pg_arrive s)\<lparr>pg_db := pg_db s'\<rparr>" and "\<not> in_aborted_tx s"
  using assms by (auto simp: stmt_def Let_def split: outcome.splits if_splits prod.splits)

lemma stmt_Err:
  assumes "run_state (stmt f) s = (Err e, s')"
  shows "pg_tx s = None \<or> pg_db s' = pg_db s \<and> in_aborted_tx s'"
  using assms by (auto simp: stmt_def Let_def split: outcome.splits if_splits prod.splits)

lemma tx_begin_Ok:
  assumes "run_state tx_begin s = (Ok a, s')"
  shows "live_tx (pg_db s) s'" and "pg_db s' = pg_db s" and "pg_path s' = pg_path s"
  using assms by (auto simp: tx_begin_def Let_def live_tx_def in_tx_def split: if_splits)

lemma tx_begin_Err: "run_state tx_begin s = (Err e, s') \<Longrightarrow> s' = pg_arrive s"
  by (auto simp: tx_begin_def Let_def split: if_splits)

text \<open>The three ends of a transaction.\<close>

lemma tx_commit_cases:
  assumes "in_tx d0 s" and "run_state tx_commit s = (r, s')"
  shows "pg_tx s' = None" and "pg_db s' = d0 \<or> pg_db s' = pg_db s \<and> \<not> in_aborted_tx s"
    and "r = Ok u \<Longrightarrow> \<not> in_aborted_tx s \<Longrightarrow> pg_db s' = pg_db s"
    and "in_aborted_tx s \<Longrightarrow> pg_db s' = d0"
  using assms by (auto simp: tx_commit_def Let_def in_tx_def split: if_splits)

lemma with_drop_in_tx:
  assumes "keeps (in_tx d0) m" and "in_tx d0 s" and "run_state (with_drop m) s = (r, s')"
  shows "pg_db s' = d0 \<and> pg_tx s' = None"
proof -
  obtain s1 where m: "run_state m s = (r, s1)" and s': "s' = pg_rollback s1"
    using assms(3) by (auto split: prod.splits)
  from assms(1,2) m have "in_tx d0 s1" by (rule keepsD)
  with s' show ?thesis by (simp add: in_tx_def)
qed

section \<open>Statements on one tenant\<close>

text \<open>A table name resolves in the schema of the search path only; without the tables the
  statement fails.\<close>

definition on_tenant ::
  "string \<Rightarrow> (sql_env \<Rightarrow> tenant \<Rightarrow> ('a \<times> tenant, sqlx_error) outcome) \<Rightarrow> 'a sql" where
  "on_tenant prefix g env d =
     (case tenants d (env_path env, prefix) of
        None \<Rightarrow> Err (Database OtherKind None)
      | Some t \<Rightarrow> (case g env t of
          Ok (a, t') \<Rightarrow> Ok (a, d\<lparr>tenants := (tenants d)((env_path env, prefix) \<mapsto> t')\<rparr>)
        | Err e \<Rightarrow> Err e
        | Panic p \<Rightarrow> Panic p))"

definition tenant_keeps :: "(tenant \<Rightarrow> bool) \<Rightarrow> (sql_env \<Rightarrow> tenant \<Rightarrow> ('a \<times> tenant, sqlx_error) outcome) \<Rightarrow> bool" where
  "tenant_keeps T g \<longleftrightarrow> (\<forall>env t a t'. T t \<longrightarrow> g env t = Ok (a, t') \<longrightarrow> T t')"

definition all_tenants :: "(tenant \<Rightarrow> bool) \<Rightarrow> database \<Rightarrow> bool" where
  "all_tenants T d \<longleftrightarrow> (\<forall>k t. tenants d k = Some t \<longrightarrow> T t)"

lemma on_tenant_Ok:
  "on_tenant prefix g env d = Ok (a, d') \<longleftrightarrow>
     (\<exists>t t'. tenants d (env_path env, prefix) = Some t \<and> g env t = Ok (a, t') \<and>
        d' = d\<lparr>tenants := (tenants d)((env_path env, prefix) \<mapsto> t')\<rparr>)"
  by (auto simp: on_tenant_def split: option.splits outcome.splits)

lemma sql_keeps_on_tenant:
  "tenant_keeps T g \<Longrightarrow> sql_keeps (all_tenants T) (on_tenant prefix g)"
  by (rule sql_keepsI) (fastforce simp: on_tenant_Ok all_tenants_def tenant_keeps_def split: if_splits)

end
