(* ===== verification/Tenant.thy ===== *)
theory Tenant
  imports Pg
begin

text \<open>
  Tenancy: \<open>crates/common/src/tenant.rs\<close> (slugs, schema names, the cached registry of active
  schemas) and \<open>crates/common/src/db/scoped.rs\<close> (connections and transactions bound to the schema
  of a workspace).
\<close>

section \<open>Names\<close>

definition validate_schema_name :: "string \<Rightarrow> bool" where
  "validate_schema_name name \<longleftrightarrow>
     name \<noteq> [] \<and> list_all (\<lambda>c. is_ascii_alphanumeric c \<or> c = CHR ''_'') name"

definition validate_table_prefix :: "string \<Rightarrow> bool" where
  "validate_table_prefix prefix \<longleftrightarrow>
     prefix = [] \<or> list_all (\<lambda>c. is_ascii_alphanumeric c \<or> c = CHR ''_'') prefix"

definition max_slug_len :: nat where "max_slug_len = 25"

definition validate_slug :: "string \<Rightarrow> bool" where
  "validate_slug slug =
     (if slug = [] \<or> length slug > max_slug_len then False
      else if starts_with ''-'' slug \<or> ends_with ''-'' slug then False
      else list_all (\<lambda>c. is_ascii_lowercase c \<or> is_ascii_digit c \<or> c = CHR ''-'') slug)"

definition build_schema_name :: "string \<Rightarrow> string \<Rightarrow> string" where
  "build_schema_name org workspace_slug =
     replace_char (CHR ''-'') (CHR ''_'') org @ ''_'' @
     replace_char (CHR ''-'') (CHR ''_'') workspace_slug"

definition tbl :: "string \<Rightarrow> string \<Rightarrow> string" where
  "tbl prefix name = prefix @ name"

section \<open>Scoped connections\<close>

definition rust_assert :: "bool \<Rightarrow> string \<Rightarrow> ('s, unit, 'e) prog" where
  "rust_assert b msg = (if b then ok () else State_Monad.return (Panic msg))"

definition scoped_connection :: "string \<Rightarrow> ('x pg_scheme, unit, sqlx_error) prog" where
  "scoped_connection schema =
     tryS (rust_assert (validate_schema_name schema) (''Invalid schema name: '' @ schema)) (\<lambda>_.
     set_search_path schema)"

definition scoped_transaction :: "string \<Rightarrow> ('x pg_scheme, unit, sqlx_error) prog" where
  "scoped_transaction schema =
     tryS (rust_assert (validate_schema_name schema) (''Invalid schema name: '' @ schema)) (\<lambda>_.
     tryS tx_begin (\<lambda>_.
     matchS (set_search_path schema) ok (\<lambda>e. with_drop (err e))))"

section \<open>The registry of active schemas\<close>

text \<open>\<open>fetched_at\<close> and the clock are in microseconds; \<open>new\<close> puts \<open>fetched_at\<close> far enough back to
  force a first fetch.\<close>

record schema_registry =
  reg_schemas :: "string list"
  reg_fetched_at :: int
  reg_ttl :: int

definition registry_new :: "timestamp \<Rightarrow> nat \<Rightarrow> schema_registry" where
  "registry_new now ttl_secs =
     \<lparr>reg_schemas = [], reg_fetched_at = now - (int ttl_secs + 1) * 1000000,
      reg_ttl = int ttl_secs * 1000000\<rparr>"

definition sql_active_schemas :: "string list sql" where
  "sql_active_schemas env d =
     Ok (map ws_schema_name (filter (\<lambda>w. ws_status w = ''ACTIVE'') (workspaces d)), d)"

definition get_active_schemas ::
  "schema_registry \<Rightarrow> ('x pg_scheme, string list \<times> schema_registry, sqlx_error) prog" where
  "get_active_schemas reg = State_Monad.bind utc_now (\<lambda>now.
     if now - reg_fetched_at reg < reg_ttl reg \<and> reg_schemas reg \<noteq> [] then
       ok (reg_schemas reg, reg)
     else
       tryS (stmt sql_active_schemas) (\<lambda>schemas.
       State_Monad.bind utc_now (\<lambda>t.
       ok (schemas, reg\<lparr>reg_schemas := schemas, reg_fetched_at := t\<rparr>))))"

section \<open>Laws\<close>

lemma keeps_rust_assert [keeps_intros]: "keeps I (rust_assert b msg)"
  by (simp add: rust_assert_def keeps_def)

lemma keeps_scoped_connection [keeps_intros]: "keeps (db_inv D) (scoped_connection schema)"
  unfolding scoped_connection_def by (intro keeps_intros)

lemma keeps_scoped_transaction [keeps_intros]: "keeps (db_inv D) (scoped_transaction schema)"
  unfolding scoped_transaction_def by (intro keeps_intros)

lemma keeps_get_active_schemas [keeps_intros]: "keeps (db_inv D) (get_active_schemas reg)"
  unfolding get_active_schemas_def
  by (intro keeps_intros keeps_stmt sql_keeps_pure) (simp add: sql_active_schemas_def)

lemma set_search_path_Ok:
  assumes "run_state (set_search_path schema) s = (Ok u, s')"
  shows "pg_path s' = schema" and "pg_db s' = pg_db s" and "pg_tx s' = pg_tx s"
    and "\<not> in_aborted_tx s'"
  using assms
  by (auto simp: set_search_path_def dest: stmt_Ok split: outcome.splits prod.splits)

lemma set_search_path_Err:
  assumes "run_state (set_search_path schema) s = (Err e, s')"
  shows "pg_db s' = pg_db s" and "committed s' = committed s" and "pg_tx s' = None \<longleftrightarrow> pg_tx s = None"
  using assms
  by (auto simp: set_search_path_def stmt_def Let_def
      split: outcome.splits prod.splits if_splits)

lemma set_search_path_no_panic: "run_state (set_search_path schema) s \<noteq> (Panic p, s')"
  by (auto simp: set_search_path_def stmt_def Let_def split: outcome.splits prod.splits if_splits)

lemma tx_begin_no_panic: "run_state tx_begin s \<noteq> (Panic p, s')"
  by (auto simp: tx_begin_def Let_def)

text \<open>A scoped transaction that was handed out is live, sees the committed tables and resolves
  names in its schema; one that was not handed out changed nothing.\<close>

lemma scoped_transaction_Ok:
  assumes "run_state (scoped_transaction schema) s = (Ok u, s')"
  shows "live_tx (pg_db s) s'" and "pg_db s' = pg_db s" and "pg_path s' = schema"
    and "validate_schema_name schema"
proof -
  from assms obtain s1 where valid: "validate_schema_name schema"
    and b: "run_state tx_begin s = (Ok (), s1)"
    and p: "run_state (set_search_path schema) s1 = (Ok (), s')"
    by (auto simp: scoped_transaction_def rust_assert_def split: outcome.splits prod.splits if_splits)
  note b' = tx_begin_Ok [OF b] and p' = set_search_path_Ok [OF p]
  show "live_tx (pg_db s) s'"
    using b'(1) p' b'(2) by (simp add: live_tx_def in_tx_def committed_def split: option.splits)
  show "pg_db s' = pg_db s" "pg_path s' = schema" "validate_schema_name schema"
    using b' p' valid by simp_all
qed

lemma scoped_transaction_not_Ok:
  assumes "run_state (scoped_transaction schema) s = (r, s')" and "\<And>u. r \<noteq> Ok u" and "pg_tx s = None"
  shows "pg_db s' = pg_db s" and "pg_tx s' = None"
proof -
  have "pg_db s' = pg_db s \<and> pg_tx s' = None"
  proof (cases "validate_schema_name schema")
    case False
    with assms show ?thesis by (auto simp: scoped_transaction_def rust_assert_def)
  next
    case True
    obtain r1 s1 where b: "run_state tx_begin s = (r1, s1)" by fastforce
    show ?thesis
    proof (cases r1)
      case (Ok u)
      note b' = tx_begin_Ok [OF b [unfolded Ok]]
      from assms(1,2) True b Ok obtain e s2 where
        p: "run_state (set_search_path schema) s1 = (Err e, s2)" and s': "s' = pg_rollback s2"
        by (auto simp: scoped_transaction_def rust_assert_def set_search_path_no_panic
            split: outcome.splits prod.splits)
      with b' show ?thesis using set_search_path_Err [OF p] by (simp add: live_tx_def in_tx_def)
    next
      case (Err e)
      with b assms True show ?thesis
        using tx_begin_Err by (fastforce simp: scoped_transaction_def rust_assert_def)
    next
      case (Panic p)
      with b show ?thesis using tx_begin_no_panic by blast
    qed
  qed
  then show "pg_db s' = pg_db s" and "pg_tx s' = None" by simp_all
qed

section \<open>Laws of names\<close>

lemma replace_char_safe:
  "list_all (\<lambda>c. is_ascii_alphanumeric c \<or> c = CHR ''-'') s \<Longrightarrow>
   list_all (\<lambda>c. is_ascii_alphanumeric c \<or> c = CHR ''_'') (replace_char (CHR ''-'') (CHR ''_'') s)"
  by (auto simp: replace_char_def list_all_iff)

lemma replace_char_length [simp]: "length (replace_char a b s) = length s"
  by (simp add: replace_char_def)

lemma replace_char_inj:
  assumes "b \<notin> set s" and "b \<notin> set t"
  shows "replace_char a b s = replace_char a b t \<longleftrightarrow> s = t"
proof -
  have "inj_on (\<lambda>c. if c = a then b else c) (set s \<union> set t)" using assms by (auto simp: inj_on_def)
  then show ?thesis unfolding replace_char_def by (auto dest: map_inj_on)
qed

lemma slug_chars:
  assumes "validate_slug slug"
  shows "list_all (\<lambda>c. is_ascii_alphanumeric c \<or> c = CHR ''-'') slug" and "length slug \<le> 25"
    and "CHR ''_'' \<notin> set slug"
  using assms
  by (auto simp: validate_slug_def max_slug_len_def list_all_iff is_ascii_alphanumeric_def 
      is_ascii_lowercase_def is_ascii_digit_def split: if_splits)

text \<open>The shape of an organization's id: a UUID in its hyphenated form.\<close>

definition org_key :: "string \<Rightarrow> bool" where
  "org_key oid \<longleftrightarrow> length oid = 36 \<and> list_all (\<lambda>c. is_ascii_alphanumeric c \<or> c = CHR ''-'') oid"

lemma schema_name_safe:
  assumes "org_key oid" and "validate_slug slug"
  shows "validate_schema_name (build_schema_name oid slug)" and "length (build_schema_name oid slug) \<le> 63"
  using assms slug_chars [OF assms(2)] replace_char_safe [of oid] replace_char_safe [of slug]
  by (auto simp: org_key_def validate_schema_name_def build_schema_name_def)

lemma schema_name_inj:
  assumes "org_key oid" "org_key oid'" "validate_slug slug" "validate_slug slug'"
  shows "build_schema_name oid slug = build_schema_name oid' slug' \<longleftrightarrow> oid = oid' \<and> slug = slug'"
proof -
  have o: "CHR ''_'' \<notin> set oid" "CHR ''_'' \<notin> set oid'"
    using assms by (auto simp: org_key_def list_all_iff is_ascii_alphanumeric_def 
        is_ascii_lowercase_def is_ascii_uppercase_def is_ascii_digit_def)
  have "length (replace_char (CHR ''-'') (CHR ''_'') oid) = length (replace_char (CHR ''-'') (CHR ''_'') oid')"
    using assms by (simp add: org_key_def)
  then show ?thesis
    using o slug_chars(3) [OF assms(3)] slug_chars(3) [OF assms(4)]
    by (auto simp: build_schema_name_def replace_char_inj)
qed

section \<open>Properties\<close>

text \<open>C24: the schema of a workspace whose organization has a UUID and whose slug is valid passes
  \<open>validate_schema_name\<close>, fits PostgreSQL's limit of 63 bytes, and belongs to no other workspace.\<close>

theorem workspace_schema_names:
  assumes "org_key oid" and "validate_slug slug"
  shows "validate_schema_name (build_schema_name oid slug) \<and> length (build_schema_name oid slug) \<le> 63 \<and>
    (\<forall>oid' slug'. org_key oid' \<and> validate_slug slug' \<and>
       build_schema_name oid' slug' = build_schema_name oid slug \<longrightarrow> oid' = oid \<and> slug' = slug)"
  using schema_name_safe [OF assms] schema_name_inj [OF _ assms(1) _ assms(2)] by blast

theorem workspace_schema_names_witness:
  "validate_schema_name (build_schema_name ''0b0e7a3c-1f2d-4c5b-8a69-7d8e9fa0b1c2'' ''prod-eu'') \<and>
   length (build_schema_name ''0b0e7a3c-1f2d-4c5b-8a69-7d8e9fa0b1c2'' ''prod-eu'') \<le> 63"
proof -
  have "org_key ''0b0e7a3c-1f2d-4c5b-8a69-7d8e9fa0b1c2''" "validate_slug ''prod-eu''" by code_simp+
  from workspace_schema_names [OF this] show ?thesis by blast
qed

end
