(* ===== verification/Pagination.thy ===== *)
theory Pagination
  imports Models "HOL-Library.Multiset"
begin

text \<open>
  \<open>crates/common/src/pagination.rs\<close> and the keyset pagination the list queries and list handlers
  share: a query returns the rows after the cursor in key order, one more than the page asks for,
  and the handler cuts the page and hands out the key of its last row as the next cursor. \<open>walk\<close> is
  a client that follows the cursors; following them to the end yields every row once, in order.
\<close>

section \<open>Parameters and cursors\<close>

record pagination_params =
  pp_cursor :: "string option"
  pp_limit :: int

definition default_limit :: int where "default_limit = 50"

definition clamp :: "int \<Rightarrow> int \<Rightarrow> int \<Rightarrow> int" where
  "clamp x lo hi = (if x < lo then lo else if hi < x then hi else x)"

definition effective_limit :: "pagination_params \<Rightarrow> int" where
  "effective_limit p = clamp (pp_limit p) 1 200"

definition decode_cursor :: "ext \<Rightarrow> pagination_params \<Rightarrow> string option" where
  "decode_cursor x p = Option.bind (pp_cursor p) (b64url_decode x)"

definition encode_cursor :: "ext \<Rightarrow> string \<Rightarrow> string" where
  "encode_cursor x v = b64url_encode x v"

text \<open>\<open>PaginatedResponse\<close>: the cursor is left out when there is none.\<close>

definition paginated_response :: "json list \<Rightarrow> string option \<Rightarrow> json" where
  "paginated_response data next =
     jobj ([(''data'', JArr data)] @ (case next of None \<Rightarrow> [] | Some c \<Rightarrow> [(''cursor'', JStr c)]))"

section \<open>Pages\<close>

text \<open>\<open>WHERE key > $c ORDER BY key ASC LIMIT n\<close>.\<close>

definition after_cursor :: "('r \<Rightarrow> 'k::linorder) \<Rightarrow> 'k option \<Rightarrow> 'r \<Rightarrow> bool" where
  "after_cursor key c r \<longleftrightarrow> (case c of None \<Rightarrow> True | Some k \<Rightarrow> k < key r)"

definition list_page :: "('r \<Rightarrow> 'k::linorder) \<Rightarrow> 'k option \<Rightarrow> int \<Rightarrow> 'r list \<Rightarrow> 'r list" where
  "list_page key c n rows = take (nat n) (sort_key key (filter (after_cursor key c) rows))"

text \<open>The part every list handler shares: \<open>has_more\<close>, the truncated items, the next key.\<close>

definition cut_page :: "('r \<Rightarrow> 'k) \<Rightarrow> int \<Rightarrow> 'r list \<Rightarrow> 'r list \<times> 'k option" where
  "cut_page key limit items =
     (let has_more = int (length items) > limit;
          page = take (nat limit) items
      in (page, if has_more then (if page = [] then None else Some (key (last page))) else None))"

text \<open>A client that follows the cursors: \<open>fetch\<close> is the list query, asked for one row more than a page.\<close>

fun walk :: "('k option \<Rightarrow> int \<Rightarrow> 'r list) \<Rightarrow> ('r \<Rightarrow> 'k::linorder) \<Rightarrow> int \<Rightarrow> nat \<Rightarrow> 'k option \<Rightarrow> 'r list" where
  "walk fetch key limit 0 c = []"
| "walk fetch key limit (Suc fuel) c =
     (case cut_page key limit (fetch c (limit + 1)) of
        (page, None) \<Rightarrow> page
      | (page, Some c') \<Rightarrow> page @ walk fetch key limit fuel (Some c'))"

section \<open>Laws\<close>

lemma effective_limit_bounds: "1 \<le> effective_limit p" "effective_limit p \<le> 200"
  by (auto simp: effective_limit_def clamp_def)

lemma list_page_length: "length (list_page key c n rows) \<le> nat n"
  by (simp add: list_page_def)

lemma list_page_after: "r \<in> set (list_page key (Some c) n rows) \<Longrightarrow> r \<in> set rows \<and> c < key r"
  by (auto simp: list_page_def after_cursor_def dest: in_set_takeD)

lemma list_page_sorted: "sorted (map key (list_page key c n rows))"
  by (simp add: list_page_def sorted_wrt_take flip: take_map)

lemma list_page_sort:
  "list_page key c n rows = take (nat n) (filter (after_cursor key c) (sort_key key rows))"
  by (simp add: list_page_def filter_sort)

lemma strict_sort_key:
  assumes "distinct (map key rows)"
  shows "sorted_wrt (\<lambda>a b. key a < key b) (sort_key key rows)"
proof -
  have "distinct (map key (sort_key key rows))"
    using assms by (metis mset_map mset_sort mset_eq_imp_distinct_iff)
  then have "sorted_wrt (<) (map key (sort_key key rows))"
    by (simp add: strict_sorted_iff)
  then show ?thesis by (simp add: sorted_wrt_map)
qed

lemma filter_after_last:
  assumes "sorted_wrt (\<lambda>a b. key a < key b) (ys @ zs)" and "ys \<noteq> []"
  shows "filter (after_cursor key (Some (key (last ys)))) (ys @ zs) = zs"
proof -
  have "key y \<le> key (last ys)" if "y \<in> set ys" for y
  proof -
    have "sorted_wrt (\<lambda>a b. key a < key b) (butlast ys @ [last ys])"
      using assms by (simp add: sorted_wrt_append)
    with that assms(2) show ?thesis
      by (metis append_butlast_last_id in_set_conv_decomp less_imp_le order_refl
          rotate1.simps(2) set_ConsD set_rotate1 sorted_wrt_append list.set_intros(1))
  qed
  then have "filter (after_cursor key (Some (key (last ys)))) ys = []"
    by (auto simp: after_cursor_def filter_empty_conv not_less)
  moreover have "\<forall>z \<in> set zs. key (last ys) < key z"
    using assms by (auto simp: sorted_wrt_append)
  then have "filter (after_cursor key (Some (key (last ys)))) zs = zs"
    by (auto simp: after_cursor_def intro!: filter_True)
  ultimately show ?thesis by simp
qed

lemma walk_suffix:
  assumes "sorted_wrt (\<lambda>a b. key a < key b) (sort_key key rows)" and "1 \<le> limit"
    and "sort_key key rows = pre @ todo" and "filter (after_cursor key c) (sort_key key rows) = todo"
    and "length todo < fuel"
  shows "walk (\<lambda>c n. list_page key c n rows) key limit fuel c = todo"
  using assms(3-5)
proof (induction fuel arbitrary: c pre todo)
  case (Suc fuel)
  have items: "list_page key c (limit + 1) rows = take (nat (limit + 1)) todo"
    using Suc.prems by (simp add: list_page_sort)
  define page where "page = take (nat limit) todo"
  have cut: "take (nat limit) (take (nat (limit + 1)) todo) = page"
    using assms(2) by (simp add: page_def min_def)
  show ?case
  proof (cases "int (length todo) > limit")
    case False
    then have "page = todo" and "\<not> int (length (take (nat (limit + 1)) todo)) > limit"
      using assms(2) by (auto simp: page_def)
    with cut items show ?thesis by (simp add: cut_page_def Let_def)
  next
    case True
    then have more: "int (length (take (nat (limit + 1)) todo)) > limit" by auto
    from True assms(2) have ne: "page \<noteq> []" by (auto simp: page_def)
    define rest where "rest = drop (nat limit) todo"
    have todo: "todo = page @ rest" by (simp add: page_def rest_def)
    with Suc.prems(1) have split: "sort_key key rows = (pre @ page) @ rest" by simp
    have "filter (after_cursor key (Some (key (last page)))) (sort_key key rows) = rest"
      using filter_after_last [of key "pre @ page" rest] assms(1) ne split by simp
    moreover have "length rest < fuel"
      using Suc.prems(3) True assms(2) by (simp add: rest_def)
    ultimately have "walk (\<lambda>c n. list_page key c n rows) key limit fuel (Some (key (last page))) = rest"
      using Suc.IH split by blast
    moreover have "cut_page key limit (list_page key c (limit + 1) rows) = (page, Some (key (last page)))"
      using more ne by (simp only: items cut cut_page_def Let_def if_True if_False)
    ultimately show ?thesis using todo by simp
  qed
qed simp

lemma walk_all:
  assumes "distinct (map key rows)" and "1 \<le> limit" and "length rows < fuel"
  shows "walk (\<lambda>c n. list_page key c n rows) key limit fuel None = sort_key key rows"
  using walk_suffix [of key rows limit "[]" "sort_key key rows" None fuel]
    strict_sort_key [OF assms(1)] assms(2,3)
  by (simp add: after_cursor_def)

end
