(* ===== verification/Db_Catalog.thy ===== *)
theory Db_Catalog
  imports Tenant Pagination
begin

text \<open>
  The catalog tables of a workspace: \<open>db/payload_specs.rs\<close>, \<open>db/configs.rs\<close>, \<open>db/secrets.rs\<close> and
  \<open>db/endpoints.rs\<close> under \<open>crates/common/src\<close>. Each function is its SQL statement (\<open>sql_...\<close>, on
  the tables of one tenant, with the constraints of the schema) run on the connection. The locale
  \<open>named_table\<close> is the contract the four tables share.
\<close>

type_synonym 'a tsql = "sql_env \<Rightarrow> tenant \<Rightarrow> ('a \<times> tenant, sqlx_error) outcome"

type_synonym ('x, 'a) db_prog = "('x pg_scheme, 'a, sqlx_error) prog"

definition tstmt :: "string \<Rightarrow> 'a tsql \<Rightarrow> ('x, 'a) db_prog" where
  "tstmt prefix g = stmt (on_tenant prefix g)"

section \<open>Rows\<close>

text \<open>\<open>UPDATE ... WHERE p\<close> with its \<open>RETURNING\<close> rows.\<close>

definition update_rows :: "('r \<Rightarrow> bool) \<Rightarrow> ('r \<Rightarrow> 'r) \<Rightarrow> 'r list \<Rightarrow> 'r list" where
  "update_rows p f rows = map (\<lambda>r. if p r then f r else r) rows"

definition returning :: "('r \<Rightarrow> bool) \<Rightarrow> ('r \<Rightarrow> 'r) \<Rightarrow> 'r list \<Rightarrow> 'r list" where
  "returning p f rows = map f (filter p rows)"

definition first_row :: "'r list \<Rightarrow> 'r option" where
  "first_row rows = (case rows of [] \<Rightarrow> None | r # _ \<Rightarrow> Some r)"

lemma update_rows_keys: "(\<And>r. key (f r) = key r) \<Longrightarrow> map key (update_rows p f rows) = map key rows"
  by (simp add: update_rows_def)

lemma set_update_rows: "r \<in> set (update_rows p f rows) \<longleftrightarrow> (\<exists>q \<in> set rows. r = (if p q then f q else q))"
  by (auto simp: update_rows_def)

lemma first_returning: "first_row (returning p f rows) = map_option f (List.find p rows)"
  by (induction rows) (auto simp: first_row_def returning_def split: list.splits)

section \<open>Payload specs\<close>

definition sql_payload_specs_create :: "string \<Rightarrow> string \<Rightarrow> json \<Rightarrow> payload_spec tsql" where
  "sql_payload_specs_create prefix name schema env t =
     (if \<exists>r \<in> set (payload_specs t). ps_name r = name then
        Err (Database UniqueViolation (Some (''pk_'' @ prefix @ ''payload_specs'')))
      else
        let row = \<lparr>ps_name = name, schema_json = schema, ps_created_at = env_now env,
                   ps_updated_at = env_now env\<rparr>
        in Ok (row, t\<lparr>payload_specs := payload_specs t @ [row]\<rparr>))"

definition sql_payload_specs_get :: "string \<Rightarrow> payload_spec option tsql" where
  "sql_payload_specs_get name env t = Ok (List.find (\<lambda>r. ps_name r = name) (payload_specs t), t)"

definition sql_payload_specs_list :: "string option \<Rightarrow> int \<Rightarrow> payload_spec list tsql" where
  "sql_payload_specs_list cursor limit env t = Ok (list_page ps_name cursor limit (payload_specs t), t)"

definition sql_payload_specs_update :: "string \<Rightarrow> json \<Rightarrow> payload_spec option tsql" where
  "sql_payload_specs_update name schema env t =
     (let f = (\<lambda>r. r\<lparr>schema_json := schema, ps_updated_at := env_now env\<rparr>);
          p = (\<lambda>r. ps_name r = name)
      in Ok (first_row (returning p f (payload_specs t)),
             t\<lparr>payload_specs := update_rows p f (payload_specs t)\<rparr>))"

definition sql_payload_specs_delete :: "string \<Rightarrow> string \<Rightarrow> bool tsql" where
  "sql_payload_specs_delete prefix name env t =
     (if \<exists>e \<in> set (endpoints t). payload_spec_ref e = Some name then
        Err (Database ForeignKeyViolation (Some (''fk_'' @ prefix @ ''endpoints_payload_spec'')))
      else Ok (\<exists>r \<in> set (payload_specs t). ps_name r = name,
               t\<lparr>payload_specs := filter (\<lambda>r. ps_name r \<noteq> name) (payload_specs t)\<rparr>))"

definition sql_payload_specs_dependents :: "string \<Rightarrow> int tsql" where
  "sql_payload_specs_dependents name env t =
     Ok (int (length (filter (\<lambda>e. payload_spec_ref e = Some name) (endpoints t))), t)"

definition db_payload_specs_create :: "string \<Rightarrow> string \<Rightarrow> json \<Rightarrow> ('x, payload_spec) db_prog" where
  "db_payload_specs_create prefix name schema = tstmt prefix (sql_payload_specs_create prefix name schema)"

definition db_payload_specs_get :: "string \<Rightarrow> string \<Rightarrow> ('x, payload_spec option) db_prog" where
  "db_payload_specs_get prefix name = tstmt prefix (sql_payload_specs_get name)"

definition db_payload_specs_list ::
  "string \<Rightarrow> string option \<Rightarrow> int \<Rightarrow> ('x, payload_spec list) db_prog" where
  "db_payload_specs_list prefix cursor limit = tstmt prefix (sql_payload_specs_list cursor limit)"

definition db_payload_specs_update ::
  "string \<Rightarrow> string \<Rightarrow> json \<Rightarrow> ('x, payload_spec option) db_prog" where
  "db_payload_specs_update prefix name schema = tstmt prefix (sql_payload_specs_update name schema)"

definition db_payload_specs_delete :: "string \<Rightarrow> string \<Rightarrow> ('x, bool) db_prog" where
  "db_payload_specs_delete prefix name = tstmt prefix (sql_payload_specs_delete prefix name)"

definition db_payload_specs_has_dependent_endpoints :: "string \<Rightarrow> string \<Rightarrow> ('x, bool) db_prog" where
  "db_payload_specs_has_dependent_endpoints prefix name =
     tryS (tstmt prefix (sql_payload_specs_dependents name)) (\<lambda>n. ok (n > 0))"

section \<open>Configs\<close>

definition sql_configs_create :: "string \<Rightarrow> string \<Rightarrow> json \<Rightarrow> config_row tsql" where
  "sql_configs_create prefix name values env t =
     (if \<exists>r \<in> set (configs t). cfg_name r = name then
        Err (Database UniqueViolation (Some (''pk_'' @ prefix @ ''configs'')))
      else
        let row = \<lparr>cfg_name = name, values_json = values, cfg_created_at = env_now env,
                   cfg_updated_at = env_now env\<rparr>
        in Ok (row, t\<lparr>configs := configs t @ [row]\<rparr>))"

definition sql_configs_get :: "string \<Rightarrow> config_row option tsql" where
  "sql_configs_get name env t = Ok (List.find (\<lambda>r. cfg_name r = name) (configs t), t)"

definition sql_configs_list :: "string option \<Rightarrow> int \<Rightarrow> config_row list tsql" where
  "sql_configs_list cursor limit env t = Ok (list_page cfg_name cursor limit (configs t), t)"

definition sql_configs_update :: "string \<Rightarrow> json \<Rightarrow> config_row option tsql" where
  "sql_configs_update name values env t =
     (let f = (\<lambda>r. r\<lparr>values_json := values, cfg_updated_at := env_now env\<rparr>);
          p = (\<lambda>r. cfg_name r = name)
      in Ok (first_row (returning p f (configs t)), t\<lparr>configs := update_rows p f (configs t)\<rparr>))"

definition sql_configs_delete :: "string \<Rightarrow> string \<Rightarrow> bool tsql" where
  "sql_configs_delete prefix name env t =
     (if \<exists>e \<in> set (endpoints t). config_ref e = Some name then
        Err (Database ForeignKeyViolation (Some (''fk_'' @ prefix @ ''endpoints_config'')))
      else Ok (\<exists>r \<in> set (configs t). cfg_name r = name,
               t\<lparr>configs := filter (\<lambda>r. cfg_name r \<noteq> name) (configs t)\<rparr>))"

definition sql_configs_dependents :: "string \<Rightarrow> int tsql" where
  "sql_configs_dependents name env t =
     Ok (int (length (filter (\<lambda>e. config_ref e = Some name) (endpoints t))), t)"

definition db_configs_create :: "string \<Rightarrow> string \<Rightarrow> json \<Rightarrow> ('x, config_row) db_prog" where
  "db_configs_create prefix name values = tstmt prefix (sql_configs_create prefix name values)"

definition db_configs_get :: "string \<Rightarrow> string \<Rightarrow> ('x, config_row option) db_prog" where
  "db_configs_get prefix name = tstmt prefix (sql_configs_get name)"

definition db_configs_list :: "string \<Rightarrow> string option \<Rightarrow> int \<Rightarrow> ('x, config_row list) db_prog" where
  "db_configs_list prefix cursor limit = tstmt prefix (sql_configs_list cursor limit)"

definition db_configs_update :: "string \<Rightarrow> string \<Rightarrow> json \<Rightarrow> ('x, config_row option) db_prog" where
  "db_configs_update prefix name values = tstmt prefix (sql_configs_update name values)"

definition db_configs_delete :: "string \<Rightarrow> string \<Rightarrow> ('x, bool) db_prog" where
  "db_configs_delete prefix name = tstmt prefix (sql_configs_delete prefix name)"

definition db_configs_has_dependent_endpoints :: "string \<Rightarrow> string \<Rightarrow> ('x, bool) db_prog" where
  "db_configs_has_dependent_endpoints prefix name =
     tryS (tstmt prefix (sql_configs_dependents name)) (\<lambda>n. ok (n > 0))"

section \<open>LIKE\<close>

text \<open>PostgreSQL's \<open>LIKE\<close> with its default escape character. A pattern that ends in the escape
  character matches nothing here; the server rejects it.\<close>

fun like :: "string \<Rightarrow> string \<Rightarrow> bool" where
  "like [] s = (s = [])"
| "like (c # p) s =
     (if c = CHR ''%'' then like p s \<or> (case s of [] \<Rightarrow> False | _ # s' \<Rightarrow> like (c # p) s')
      else if c = CHR ''_'' then (case s of [] \<Rightarrow> False | _ # s' \<Rightarrow> like p s')
      else if c = CHR 0x5C then
        (case p of [] \<Rightarrow> False
         | e # p' \<Rightarrow> (case s of [] \<Rightarrow> False | d # s' \<Rightarrow> d = e \<and> like p' s'))
      else (case s of [] \<Rightarrow> False | d # s' \<Rightarrow> d = c \<and> like p s'))"

section \<open>Secrets\<close>

definition sql_secrets_create :: "string \<Rightarrow> string \<Rightarrow> nat list \<Rightarrow> secret_row tsql" where
  "sql_secrets_create prefix name v env t =
     (if \<exists>r \<in> set (secrets t). sec_name r = name then
        Err (Database UniqueViolation (Some (''pk_'' @ prefix @ ''secrets'')))
      else
        let row = \<lparr>sec_name = name, encrypted_value = v, sec_created_at = env_now env,
                   sec_updated_at = env_now env\<rparr>
        in Ok (row, t\<lparr>secrets := secrets t @ [row]\<rparr>))"

definition sql_secrets_get :: "string \<Rightarrow> secret_row option tsql" where
  "sql_secrets_get name env t = Ok (List.find (\<lambda>r. sec_name r = name) (secrets t), t)"

definition sql_secrets_list :: "string option \<Rightarrow> int \<Rightarrow> secret_row list tsql" where
  "sql_secrets_list cursor limit env t = Ok (list_page sec_name cursor limit (secrets t), t)"

definition sql_secrets_update :: "string \<Rightarrow> nat list \<Rightarrow> secret_row option tsql" where
  "sql_secrets_update name v env t =
     (let f = (\<lambda>r. r\<lparr>encrypted_value := v, sec_updated_at := env_now env\<rparr>);
          p = (\<lambda>r. sec_name r = name)
      in Ok (first_row (returning p f (secrets t)), t\<lparr>secrets := update_rows p f (secrets t)\<rparr>))"

definition sql_secrets_delete :: "string \<Rightarrow> bool tsql" where
  "sql_secrets_delete name env t =
     Ok (\<exists>r \<in> set (secrets t). sec_name r = name,
         t\<lparr>secrets := filter (\<lambda>r. sec_name r \<noteq> name) (secrets t)\<rparr>)"

definition secret_pattern :: "string \<Rightarrow> string" where
  "secret_pattern name = ''%{{secret.'' @ name @ ''}}%''"

definition sql_secrets_dependents :: "ext \<Rightarrow> string \<Rightarrow> int tsql" where
  "sql_secrets_dependents x name env t =
     Ok (int (length (filter (\<lambda>e. like (secret_pattern name) (jsonb_text x (ep_spec e))) (endpoints t))), t)"

definition db_secrets_create :: "string \<Rightarrow> string \<Rightarrow> nat list \<Rightarrow> ('x, secret_row) db_prog" where
  "db_secrets_create prefix name v = tstmt prefix (sql_secrets_create prefix name v)"

definition db_secrets_get :: "string \<Rightarrow> string \<Rightarrow> ('x, secret_row option) db_prog" where
  "db_secrets_get prefix name = tstmt prefix (sql_secrets_get name)"

definition db_secrets_list :: "string \<Rightarrow> string option \<Rightarrow> int \<Rightarrow> ('x, secret_row list) db_prog" where
  "db_secrets_list prefix cursor limit = tstmt prefix (sql_secrets_list cursor limit)"

definition db_secrets_update :: "string \<Rightarrow> string \<Rightarrow> nat list \<Rightarrow> ('x, secret_row option) db_prog" where
  "db_secrets_update prefix name v = tstmt prefix (sql_secrets_update name v)"

definition db_secrets_delete :: "string \<Rightarrow> string \<Rightarrow> ('x, bool) db_prog" where
  "db_secrets_delete prefix name = tstmt prefix (sql_secrets_delete name)"

definition db_secrets_has_dependent_endpoints :: "ext \<Rightarrow> string \<Rightarrow> string \<Rightarrow> ('x, bool) db_prog" where
  "db_secrets_has_dependent_endpoints x prefix name =
     tryS (tstmt prefix (sql_secrets_dependents x name)) (\<lambda>n. ok (n > 0))"

section \<open>Endpoints\<close>

definition endpoint_type_valid :: "string \<Rightarrow> bool" where
  "endpoint_type_valid s \<longleftrightarrow> s \<in> {''HTTP'', ''KAFKA'', ''REDIS_STREAM'', ''INTERNAL''}"

definition ref_ok :: "('r \<Rightarrow> string) \<Rightarrow> 'r list \<Rightarrow> string option \<Rightarrow> bool" where
  "ref_ok key rows r \<longleftrightarrow> (case r of None \<Rightarrow> True | Some k \<Rightarrow> \<exists>q \<in> set rows. key q = k)"

definition endpoint_refs_ok :: "tenant \<Rightarrow> endpoint_row \<Rightarrow> bool" where
  "endpoint_refs_ok t e \<longleftrightarrow>
     ref_ok ps_name (payload_specs t) (payload_spec_ref e) \<and> ref_ok cfg_name (configs t) (config_ref e)"

text \<open>The constraint an endpoint row violates, foreign keys after the others.\<close>

definition endpoint_violation :: "string \<Rightarrow> tenant \<Rightarrow> endpoint_row \<Rightarrow> sqlx_error option" where
  "endpoint_violation prefix t row =
     (if \<not> endpoint_type_valid (ep_type row) then
        Some (Database CheckViolation (Some (''chk_'' @ prefix @ ''endpoint_type'')))
      else if \<exists>r \<in> set (endpoints t). ep_name r = ep_name row then
        Some (Database UniqueViolation (Some (''pk_'' @ prefix @ ''endpoints'')))
      else if \<not> ref_ok ps_name (payload_specs t) (payload_spec_ref row) then
        Some (Database ForeignKeyViolation (Some (''fk_'' @ prefix @ ''endpoints_payload_spec'')))
      else if \<not> ref_ok cfg_name (configs t) (config_ref row) then
        Some (Database ForeignKeyViolation (Some (''fk_'' @ prefix @ ''endpoints_config'')))
      else None)"

definition insert_endpoint :: "string \<Rightarrow> endpoint_row \<Rightarrow> tenant \<Rightarrow> (endpoint_row \<times> tenant, sqlx_error) outcome" where
  "insert_endpoint prefix row t =
     (case endpoint_violation prefix t row of
        Some e \<Rightarrow> Err e
      | None \<Rightarrow> Ok (row, t\<lparr>endpoints := endpoints t @ [row]\<rparr>))"

definition sql_endpoints_create ::
  "string \<Rightarrow> string \<Rightarrow> string \<Rightarrow> string option \<Rightarrow> string option \<Rightarrow> json \<Rightarrow> json option \<Rightarrow> endpoint_row tsql" where
  "sql_endpoints_create prefix name etype ps cfg spec rp env t =
     insert_endpoint prefix
       \<lparr>ep_name = name, ep_type = etype, payload_spec_ref = ps, config_ref = cfg, ep_spec = spec,
        ep_retry_policy = rp, ep_created_at = env_now env, ep_updated_at = env_now env\<rparr> t"

definition sql_endpoints_get :: "string \<Rightarrow> endpoint_row option tsql" where
  "sql_endpoints_get name env t = Ok (List.find (\<lambda>r. ep_name r = name) (endpoints t), t)"

definition sql_endpoints_list :: "string option \<Rightarrow> int \<Rightarrow> endpoint_row list tsql" where
  "sql_endpoints_list cursor limit env t = Ok (list_page ep_name cursor limit (endpoints t), t)"

definition coalesce :: "'a option \<Rightarrow> 'a option \<Rightarrow> 'a option" where
  "coalesce a b = (case a of None \<Rightarrow> b | Some _ \<Rightarrow> a)"

definition sql_endpoints_update ::
  "string \<Rightarrow> string \<Rightarrow> json option \<Rightarrow> string option \<Rightarrow> string option \<Rightarrow> json option \<Rightarrow> endpoint_row option tsql" where
  "sql_endpoints_update prefix name spec cfg ps rp env t =
     (let f = (\<lambda>r. r\<lparr>ep_spec := (case spec of None \<Rightarrow> ep_spec r | Some v \<Rightarrow> v),
                     config_ref := coalesce cfg (config_ref r),
                     payload_spec_ref := coalesce ps (payload_spec_ref r),
                     ep_retry_policy := coalesce rp (ep_retry_policy r),
                     ep_updated_at := env_now env\<rparr>);
          p = (\<lambda>r. ep_name r = name);
          t' = t\<lparr>endpoints := update_rows p f (endpoints t)\<rparr>
      in if \<exists>r \<in> set (endpoints t'). \<not> ref_ok ps_name (payload_specs t') (payload_spec_ref r) then
           Err (Database ForeignKeyViolation (Some (''fk_'' @ prefix @ ''endpoints_payload_spec'')))
         else if \<exists>r \<in> set (endpoints t'). \<not> ref_ok cfg_name (configs t') (config_ref r) then
           Err (Database ForeignKeyViolation (Some (''fk_'' @ prefix @ ''endpoints_config'')))
         else Ok (first_row (returning p f (endpoints t)), t'))"

definition sql_endpoints_delete :: "string \<Rightarrow> string \<Rightarrow> bool tsql" where
  "sql_endpoints_delete prefix name env t =
     (if \<exists>j \<in> set (jobs t). job_endpoint j = name then
        Err (Database ForeignKeyViolation (Some (''fk_'' @ prefix @ ''jobs_endpoint'')))
      else Ok (\<exists>r \<in> set (endpoints t). ep_name r = name,
               t\<lparr>endpoints := filter (\<lambda>r. ep_name r \<noteq> name) (endpoints t)\<rparr>))"

definition sql_endpoints_active_jobs :: "string \<Rightarrow> int tsql" where
  "sql_endpoints_active_jobs name env t =
     Ok (int (length (filter (\<lambda>j. job_endpoint j = name \<and> job_status j = ''ACTIVE'') (jobs t))), t)"

definition db_endpoints_create ::
  "string \<Rightarrow> string \<Rightarrow> string \<Rightarrow> string option \<Rightarrow> string option \<Rightarrow> json \<Rightarrow> json option \<Rightarrow> ('x, endpoint_row) db_prog" where
  "db_endpoints_create prefix name etype ps cfg spec rp =
     tstmt prefix (sql_endpoints_create prefix name etype ps cfg spec rp)"

definition db_endpoints_get :: "string \<Rightarrow> string \<Rightarrow> ('x, endpoint_row option) db_prog" where
  "db_endpoints_get prefix name = tstmt prefix (sql_endpoints_get name)"

definition db_endpoints_list :: "string \<Rightarrow> string option \<Rightarrow> int \<Rightarrow> ('x, endpoint_row list) db_prog" where
  "db_endpoints_list prefix cursor limit = tstmt prefix (sql_endpoints_list cursor limit)"

definition db_endpoints_update ::
  "string \<Rightarrow> string \<Rightarrow> json option \<Rightarrow> string option \<Rightarrow> string option \<Rightarrow> json option \<Rightarrow> ('x, endpoint_row option) db_prog" where
  "db_endpoints_update prefix name spec cfg ps rp =
     tstmt prefix (sql_endpoints_update prefix name spec cfg ps rp)"

definition db_endpoints_delete :: "string \<Rightarrow> string \<Rightarrow> ('x, bool) db_prog" where
  "db_endpoints_delete prefix name = tstmt prefix (sql_endpoints_delete prefix name)"

definition db_endpoints_has_active_jobs :: "string \<Rightarrow> string \<Rightarrow> ('x, bool) db_prog" where
  "db_endpoints_has_active_jobs prefix name =
     tryS (tstmt prefix (sql_endpoints_active_jobs name)) (\<lambda>n. ok (n > 0))"

section \<open>The contract of a named table\<close>

definition listed :: "('a list \<times> tenant, sqlx_error) outcome \<Rightarrow> 'a list" where
  "listed r = (case r of Ok (rs, _) \<Rightarrow> rs | _ \<Rightarrow> [])"

locale named_table =
  fixes rows :: "tenant \<Rightarrow> 'r list" and key :: "'r \<Rightarrow> string"
    and create :: "'v \<Rightarrow> 'r tsql" and name_of :: "'v \<Rightarrow> string"
    and get :: "string \<Rightarrow> 'r option tsql"
    and update :: "string \<Rightarrow> 'u \<Rightarrow> 'r option tsql"
    and delete :: "string \<Rightarrow> bool tsql"
    and page :: "string option \<Rightarrow> int \<Rightarrow> 'r list tsql"
  assumes get_law: "get k env t = Ok (List.find (\<lambda>r. key r = k) (rows t), t)"
    and create_law: "create v env t = Ok (r, t') \<Longrightarrow>
      key r = name_of v \<and> name_of v \<notin> key ` set (rows t) \<and> rows t' = rows t @ [r]"
    and update_law: "update k u env t = Ok (o', t') \<Longrightarrow>
      \<exists>f. (\<forall>r. key (f r) = key r) \<and> rows t' = update_rows (\<lambda>r. key r = k) f (rows t) \<and>
          o' = map_option f (List.find (\<lambda>r. key r = k) (rows t))"
    and delete_law: "delete k env t = Ok (b, t') \<Longrightarrow>
      rows t' = filter (\<lambda>r. key r \<noteq> k) (rows t) \<and> (b \<longleftrightarrow> k \<in> key ` set (rows t))"
    and page_law: "page c n env t = Ok (list_page key c n (rows t), t)"
begin

definition unique_names :: "tenant \<Rightarrow> bool" where
  "unique_names t \<longleftrightarrow> distinct (map key (rows t))"

lemma create_unique: "create v env t = Ok (r, t') \<Longrightarrow> unique_names t \<Longrightarrow> unique_names t'"
  by (auto simp: unique_names_def dest!: create_law)

lemma update_unique:
  assumes "update k u env t = Ok (o', t')" and "unique_names t"
  shows "unique_names t'"
proof -
  from update_law [OF assms(1)] obtain f where f: "\<And>r. key (f r) = key r"
    and r: "rows t' = update_rows (\<lambda>r. key r = k) f (rows t)" by blast
  show ?thesis using assms(2) by (simp add: unique_names_def r update_rows_keys [of key f, OF f])
qed

lemma delete_unique: "delete k env t = Ok (b, t') \<Longrightarrow> unique_names t \<Longrightarrow> unique_names t'"
  by (auto simp: unique_names_def distinct_map_filter dest!: delete_law)

lemma get_after_create:
  assumes "create v env t = Ok (r, t')" and "get k env' t' = Ok (o', t'')"
  shows "o' = (if k = name_of v then Some r else List.find (\<lambda>q. key q = k) (rows t))"
proof -
  note c = create_law [OF assms(1)]
  then have n: "List.find (\<lambda>q. key q = name_of v) (rows t) = None"
    by (auto simp: find_None_iff image_iff)
  from assms(2) c have "o' = List.find (\<lambda>q. key q = k) (rows t @ [r])" by (simp add: get_law)
  with n c show ?thesis
    by (cases "k = name_of v") (simp_all add: find_snoc split: option.splits)
qed

lemma get_after_update:
  assumes "update n u env t = Ok (o', t')" and "get k env' t' = Ok (q, t'')"
  shows "q = (if k = n then o' else List.find (\<lambda>r. key r = k) (rows t))"
proof -
  from update_law [OF assms(1)] obtain f where f: "\<And>r. key (f r) = key r"
    and r: "rows t' = update_rows (\<lambda>r. key r = n) f (rows t)"
    and o': "o' = map_option f (List.find (\<lambda>r. key r = n) (rows t))" by blast
  have "List.find (\<lambda>r. key r = k) (update_rows (\<lambda>r. key r = n) f xs) =
      map_option (\<lambda>r. if key r = n then f r else r) (List.find (\<lambda>r. key r = k) xs)" for xs
    by (induction xs) (auto simp: update_rows_def f)
  with assms(2) r o' show ?thesis
    by (cases "List.find (\<lambda>r. key r = k) (rows t)") (auto simp: get_law dest: find_Some_D)
qed

lemma get_after_delete:
  assumes "delete n env t = Ok (b, t')" and "get k env' t' = Ok (q, t'')"
  shows "q = (if k = n then None else List.find (\<lambda>r. key r = k) (rows t))"
proof -
  have "List.find (\<lambda>r. key r = k) (filter (\<lambda>r. key r \<noteq> n) xs) =
      (if k = n then None else List.find (\<lambda>r. key r = k) xs)" for xs
    by (induction xs) auto
  with delete_law [OF assms(1)] assms(2) show ?thesis by (simp add: get_law)
qed

lemma pages_complete:
  assumes "unique_names t" and "1 \<le> limit" and "length (rows t) < fuel"
  shows "walk (\<lambda>c n. listed (page c n env t)) key limit fuel None = sort_key key (rows t)"
  using walk_all [of key "rows t" limit fuel] assms by (simp add: unique_names_def page_law listed_def)

end

interpretation payload_specs_table: named_table payload_specs ps_name
  "\<lambda>(name, v). sql_payload_specs_create prefix name v" fst sql_payload_specs_get
  sql_payload_specs_update "sql_payload_specs_delete prefix" sql_payload_specs_list
proof
  fix k u env t o' and t' :: tenant
  assume "sql_payload_specs_update k u env t = Ok (o', t')"
  then show "\<exists>f. (\<forall>r. ps_name (f r) = ps_name r) \<and>
      payload_specs t' = update_rows (\<lambda>r. ps_name r = k) f (payload_specs t) \<and>
      o' = map_option f (List.find (\<lambda>r. ps_name r = k) (payload_specs t))"
    by (intro exI [of _ "\<lambda>r. r\<lparr>schema_json := u, ps_updated_at := env_now env\<rparr>"])
      (auto simp: sql_payload_specs_update_def Let_def first_returning)
qed (auto simp: sql_payload_specs_create_def sql_payload_specs_get_def sql_payload_specs_delete_def
    sql_payload_specs_list_def Let_def image_iff split: if_splits)

interpretation configs_table: named_table configs cfg_name
  "\<lambda>(name, v). sql_configs_create prefix name v" fst sql_configs_get
  sql_configs_update "sql_configs_delete prefix" sql_configs_list
proof
  fix k u env t o' and t' :: tenant
  assume "sql_configs_update k u env t = Ok (o', t')"
  then show "\<exists>f. (\<forall>r. cfg_name (f r) = cfg_name r) \<and>
      configs t' = update_rows (\<lambda>r. cfg_name r = k) f (configs t) \<and>
      o' = map_option f (List.find (\<lambda>r. cfg_name r = k) (configs t))"
    by (intro exI [of _ "\<lambda>r. r\<lparr>values_json := u, cfg_updated_at := env_now env\<rparr>"])
      (auto simp: sql_configs_update_def Let_def first_returning)
qed (auto simp: sql_configs_create_def sql_configs_get_def sql_configs_delete_def
    sql_configs_list_def Let_def image_iff split: if_splits)

interpretation secrets_table: named_table secrets sec_name
  "\<lambda>(name, v). sql_secrets_create prefix name v" fst sql_secrets_get
  sql_secrets_update sql_secrets_delete sql_secrets_list
proof
  fix k u env t o' and t' :: tenant
  assume "sql_secrets_update k u env t = Ok (o', t')"
  then show "\<exists>f. (\<forall>r. sec_name (f r) = sec_name r) \<and>
      secrets t' = update_rows (\<lambda>r. sec_name r = k) f (secrets t) \<and>
      o' = map_option f (List.find (\<lambda>r. sec_name r = k) (secrets t))"
    by (intro exI [of _ "\<lambda>r. r\<lparr>encrypted_value := u, sec_updated_at := env_now env\<rparr>"])
      (auto simp: sql_secrets_update_def Let_def first_returning)
qed (auto simp: sql_secrets_create_def sql_secrets_get_def sql_secrets_delete_def
    sql_secrets_list_def Let_def image_iff split: if_splits)

interpretation endpoints_table: named_table endpoints ep_name
  "\<lambda>(name, etype, ps, cfg, spec, rp). sql_endpoints_create prefix name etype ps cfg spec rp" fst
  sql_endpoints_get "\<lambda>name (spec, cfg, ps, rp). sql_endpoints_update prefix name spec cfg ps rp"
  "sql_endpoints_delete prefix" sql_endpoints_list
proof
  fix k u env t o' and t' :: tenant
  assume u: "(case u of (spec, cfg, ps, rp) \<Rightarrow> sql_endpoints_update prefix k spec cfg ps rp) env t = Ok (o', t')"
  obtain spec cfg ps rp where [simp]: "u = (spec, cfg, ps, rp)" by (cases u)
  show "\<exists>f. (\<forall>r. ep_name (f r) = ep_name r) \<and>
      endpoints t' = update_rows (\<lambda>r. ep_name r = k) f (endpoints t) \<and>
      o' = map_option f (List.find (\<lambda>r. ep_name r = k) (endpoints t))"
    by (intro exI [of _ "\<lambda>r. r\<lparr>ep_spec := (case spec of None \<Rightarrow> ep_spec r | Some v \<Rightarrow> v),
        config_ref := coalesce cfg (config_ref r), payload_spec_ref := coalesce ps (payload_spec_ref r),
        ep_retry_policy := coalesce rp (ep_retry_policy r), ep_updated_at := env_now env\<rparr>"])
      (use u in \<open>auto simp: sql_endpoints_update_def Let_def first_returning split: if_splits\<close>)
qed (auto simp: sql_endpoints_create_def insert_endpoint_def endpoint_violation_def sql_endpoints_get_def
    sql_endpoints_delete_def sql_endpoints_list_def Let_def image_iff split: if_splits option.splits)

section \<open>Properties\<close>

definition sample_endpoint :: "string \<Rightarrow> endpoint_row" where
  "sample_endpoint name =
     \<lparr>ep_name = name, ep_type = ''HTTP'', payload_spec_ref = None, config_ref = None,
      ep_spec = jobj [(''url'', JStr ''http://h/''), (''method'', JStr ''POST'')],
      ep_retry_policy = None, ep_created_at = 0, ep_updated_at = 0\<rparr>"

text \<open>C22: a client that follows the cursors of the endpoints list from the first page, with any page size,
  sees every endpoint of an unchanging table exactly once, in the order of names.\<close>

theorem endpoint_pages_complete:
  fixes t :: tenant
  assumes "distinct (map ep_name (endpoints t))" and "1 \<le> limit" and "length (endpoints t) < fuel"
  shows "walk (\<lambda>c n. listed (sql_endpoints_list c n env t)) ep_name limit fuel None = sort_key ep_name (endpoints t)"
  using assms by (intro endpoints_table.pages_complete) (simp_all add: endpoints_table.unique_names_def)

theorem endpoint_pages_complete_witness:
  "\<forall>env. map ep_name (walk (\<lambda>c n. listed (sql_endpoints_list c n env
     (empty_tenant\<lparr>endpoints := [sample_endpoint ''b'', sample_endpoint ''a'']\<rparr>))) ep_name 1 3 None) = [''a'', ''b'']"
  using endpoint_pages_complete [of "empty_tenant\<lparr>endpoints := [sample_endpoint ''b'', sample_endpoint ''a'']\<rparr>" 1 3]
  by (simp add: sample_endpoint_def)

text \<open>The configs table is a map from names: a lookup after a create, an update or a delete finds what
  the operation reported for its name and what was there before for every other one.\<close>

lemma config_table_is_a_map:
  "(sql_configs_create prefix n v env t = Ok (r, t') \<longrightarrow>
      sql_configs_get k env' t' = Ok (if k = n then Some r else List.find (\<lambda>q. cfg_name q = k) (configs t), t')) \<and>
   (sql_configs_update n v env t = Ok (o', t') \<longrightarrow>
      sql_configs_get k env' t' = Ok (if k = n then o' else List.find (\<lambda>q. cfg_name q = k) (configs t), t')) \<and>
   (sql_configs_delete prefix n env t = Ok (b, t') \<longrightarrow>
      sql_configs_get k env' t' = Ok (if k = n then None else List.find (\<lambda>q. cfg_name q = k) (configs t), t'))"
  using configs_table.get_after_create [of prefix "(n, v)" env t r t' k env' _ t']
    configs_table.get_after_update [of n v env t o' t' k env' _ t']
    configs_table.get_after_delete [of prefix n env t b t' k env' _ t']
  by (simp add: configs_table.get_law)

lemma config_table_is_a_map_example:
  "sql_configs_create [] ''c'' JNull \<lparr>env_now = 1, env_path = ''s'', env_uuid = ''u'', env_locked = []\<rparr> empty_tenant =
     Ok (\<lparr>cfg_name = ''c'', values_json = JNull, cfg_created_at = 1, cfg_updated_at = 1\<rparr>,
         empty_tenant\<lparr>configs := [\<lparr>cfg_name = ''c'', values_json = JNull, cfg_created_at = 1, cfg_updated_at = 1\<rparr>]\<rparr>) \<and>
   sql_configs_get ''c'' \<lparr>env_now = 2, env_path = ''s'', env_uuid = ''u'', env_locked = []\<rparr>
     (empty_tenant\<lparr>configs := [\<lparr>cfg_name = ''c'', values_json = JNull, cfg_created_at = 1, cfg_updated_at = 1\<rparr>]\<rparr>) =
   Ok (Some \<lparr>cfg_name = ''c'', values_json = JNull, cfg_created_at = 1, cfg_updated_at = 1\<rparr>,
     empty_tenant\<lparr>configs := [\<lparr>cfg_name = ''c'', values_json = JNull, cfg_created_at = 1, cfg_updated_at = 1\<rparr>]\<rparr>)"
proof -
  let ?env = "\<lparr>env_now = 1, env_path = ''s'', env_uuid = ''u'', env_locked = []\<rparr>"
  let ?row = "\<lparr>cfg_name = ''c'', values_json = JNull, cfg_created_at = 1, cfg_updated_at = 1\<rparr>"
  have "sql_configs_create [] ''c'' JNull ?env empty_tenant = Ok (?row, empty_tenant\<lparr>configs := [?row]\<rparr>)"
    by (simp add: sql_configs_create_def empty_tenant_def Let_def)
  with config_table_is_a_map [of "[]" "''c''" JNull ?env empty_tenant ?row "empty_tenant\<lparr>configs := [?row]\<rparr>" "''c''"
      "?env\<lparr>env_now := 2\<rparr>"]
  show ?thesis by simp
qed

end
