(* ===== verification/Db_Jobs.thy ===== *)
theory Db_Jobs
  imports Db_Catalog "HOL-Library.Product_Lexorder"
begin

text \<open>
  \<open>crates/common/src/db/jobs.rs\<close>: the jobs table, the filtered listing, job versions, and the
  pg_cron entries that materialize the executions of CRON jobs. \<open>run_cron_command\<close> is the statement
  \<open>build_cron_command\<close> renders, which pg_cron runs at each tick.
\<close>

section \<open>Inserting\<close>

definition job_violation :: "string \<Rightarrow> tenant \<Rightarrow> job_row \<Rightarrow> sqlx_error option" where
  "job_violation prefix t j =
     (if trigger_type j \<notin> {''IMMEDIATE'', ''DELAYED'', ''CRON''} then
        Some (Database CheckViolation (Some (''chk_'' @ prefix @ ''trigger_type'')))
      else if job_status j \<notin> {''ACTIVE'', ''RETIRED''} then
        Some (Database CheckViolation (Some (''chk_'' @ prefix @ ''job_status'')))
      else if \<not> endpoint_type_valid (job_endpoint_type j) then
        Some (Database CheckViolation (Some (''chk_'' @ prefix @ ''job_endpoint_type'')))
      else if \<exists>r \<in> set (jobs t). job_id r = job_id j then
        Some (Database UniqueViolation (Some (''pk_'' @ prefix @ ''jobs'')))
      else if job_idempotency_key j \<noteq> None \<and>
              (\<exists>r \<in> set (jobs t). job_endpoint r = job_endpoint j \<and>
                 job_idempotency_key r = job_idempotency_key j) then
        Some (Database UniqueViolation (Some (''idx_'' @ prefix @ ''jobs_idempotency'')))
      else if \<not> (\<exists>e \<in> set (endpoints t). ep_name e = job_endpoint j) then
        Some (Database ForeignKeyViolation (Some (''fk_'' @ prefix @ ''jobs_endpoint'')))
      else None)"

definition insert_job :: "string \<Rightarrow> job_row \<Rightarrow> tenant \<Rightarrow> (job_row \<times> tenant, sqlx_error) outcome" where
  "insert_job prefix j t =
     (case job_violation prefix t j of
        Some e \<Rightarrow> Err e
      | None \<Rightarrow> Ok (j, t\<lparr>jobs := jobs t @ [j]\<rparr>))"

text \<open>The column defaults of the jobs table.\<close>

definition job_defaults :: "sql_env \<Rightarrow> string \<Rightarrow> string \<Rightarrow> string \<Rightarrow> job_row" where
  "job_defaults env ep etype trig =
     \<lparr>job_id = env_uuid env, job_endpoint = ep, job_endpoint_type = etype, trigger_type = trig,
      job_status = ''ACTIVE'', version = 1, previous_version_id = None, replaced_by_id = None,
      job_idempotency_key = None, job_input = None, job_run_at = None, cron_expression = None,
      cron_timezone = None, cron_starts_at = None, cron_ends_at = None, cron_next_run_at = None,
      cron_last_tick_at = None, job_created_at = env_now env, retired_at = None\<rparr>"

definition execution_violation :: "string \<Rightarrow> tenant \<Rightarrow> execution_row \<Rightarrow> sqlx_error option" where
  "execution_violation prefix t e =
     (if exec_status e \<notin> {''PENDING'', ''QUEUED'', ''RUNNING'', ''RETRYING'', ''SUCCESS'',
                          ''FAILED'', ''CANCELLED''} then
        Some (Database CheckViolation (Some (''chk_'' @ prefix @ ''exec_status'')))
      else if \<exists>r \<in> set (executions t). execution_id r = execution_id e then
        Some (Database UniqueViolation (Some (''pk_'' @ prefix @ ''executions'')))
      else if exec_idempotency_key e \<noteq> None \<and>
              (\<exists>r \<in> set (executions t). exec_job_id r = exec_job_id e \<and>
                 exec_idempotency_key r = exec_idempotency_key e) then
        Some (Database UniqueViolation (Some (''idx_'' @ prefix @ ''executions_cron_dedup'')))
      else if \<not> (\<exists>j \<in> set (jobs t). job_id j = exec_job_id e) then
        Some (Database ForeignKeyViolation (Some (''fk_'' @ prefix @ ''executions_job'')))
      else None)"

definition insert_execution ::
  "string \<Rightarrow> execution_row \<Rightarrow> tenant \<Rightarrow> (execution_row \<times> tenant, sqlx_error) outcome" where
  "insert_execution prefix e t =
     (case execution_violation prefix t e of
        Some viol \<Rightarrow> Err viol
      | None \<Rightarrow> Ok (e, t\<lparr>executions := executions t @ [e]\<rparr>))"

definition new_execution ::
  "sql_env \<Rightarrow> string \<Rightarrow> string \<Rightarrow> string \<Rightarrow> string option \<Rightarrow> string \<Rightarrow> timestamp \<Rightarrow> json option \<Rightarrow> int \<Rightarrow> execution_row" where
  "new_execution env jid ep etype key st run_at inp n =
     \<lparr>execution_id = env_uuid env, exec_job_id = jid, exec_endpoint = ep, exec_endpoint_type = etype,
      exec_idempotency_key = key, exec_status = st, exec_input = inp, exec_output = None,
      attempt_count = 0, exec_max_attempts = n, worker_id = None, exec_run_at = run_at,
      started_at = None, completed_at = None, duration_ms = None, exec_created_at = env_now env\<rparr>"

record create_job_result =
  cjr_job :: job_row
  cjr_execution_id :: string
  cjr_execution_status :: string
  cjr_execution_created_at :: timestamp

definition sql_insert_immediate_job :: "string \<Rightarrow> string \<Rightarrow> string \<Rightarrow> string \<Rightarrow> json option \<Rightarrow> job_row tsql" where
  "sql_insert_immediate_job prefix ep etype key inp env =
     insert_job prefix ((job_defaults env ep etype ''IMMEDIATE'')
       \<lparr>job_idempotency_key := Some key, job_input := inp\<rparr>)"

definition sql_insert_execution ::
  "string \<Rightarrow> string \<Rightarrow> string \<Rightarrow> string \<Rightarrow> string \<Rightarrow> string \<Rightarrow> timestamp option \<Rightarrow> json option \<Rightarrow> int \<Rightarrow> execution_row tsql" where
  "sql_insert_execution prefix jid ep etype key st run_at inp n env =
     insert_execution prefix (new_execution env jid ep etype (Some key) st
       (case run_at of None \<Rightarrow> env_now env | Some r \<Rightarrow> r) inp n)"

definition create_immediate ::
  "string \<Rightarrow> string \<Rightarrow> string \<Rightarrow> string \<Rightarrow> json option \<Rightarrow> int \<Rightarrow> ('x, create_job_result) db_prog" where
  "create_immediate prefix ep etype key inp n =
     tryS (tstmt prefix (sql_insert_immediate_job prefix ep etype key inp)) (\<lambda>job.
     tryS (tstmt prefix (sql_insert_execution prefix (job_id job) ep etype key ''QUEUED'' None inp n)) (\<lambda>e.
     ok \<lparr>cjr_job = job, cjr_execution_id = execution_id e, cjr_execution_status = exec_status e,
         cjr_execution_created_at = exec_created_at e\<rparr>))"

definition sql_insert_delayed_job ::
  "string \<Rightarrow> string \<Rightarrow> string \<Rightarrow> string \<Rightarrow> json option \<Rightarrow> timestamp \<Rightarrow> job_row tsql" where
  "sql_insert_delayed_job prefix ep etype key inp run_at env =
     insert_job prefix ((job_defaults env ep etype ''DELAYED'')
       \<lparr>job_idempotency_key := Some key, job_input := inp, job_run_at := Some run_at\<rparr>)"

definition create_delayed ::
  "string \<Rightarrow> string \<Rightarrow> string \<Rightarrow> string \<Rightarrow> json option \<Rightarrow> timestamp \<Rightarrow> int \<Rightarrow> ('x, create_job_result) db_prog" where
  "create_delayed prefix ep etype key inp run_at n =
     tryS (tstmt prefix (sql_insert_delayed_job prefix ep etype key inp run_at)) (\<lambda>job.
     tryS (tstmt prefix (sql_insert_execution prefix (job_id job) ep etype key ''PENDING'' (Some run_at) inp n)) (\<lambda>e.
     ok \<lparr>cjr_job = job, cjr_execution_id = execution_id e, cjr_execution_status = exec_status e,
         cjr_execution_created_at = exec_created_at e\<rparr>))"

definition sql_create_cron ::
  "string \<Rightarrow> string \<Rightarrow> string \<Rightarrow> string option \<Rightarrow> json option \<Rightarrow> string \<Rightarrow> string \<Rightarrow> timestamp option \<Rightarrow>
   timestamp option \<Rightarrow> timestamp \<Rightarrow> job_row tsql" where
  "sql_create_cron prefix ep etype key inp expr tz starts ends next_run env =
     insert_job prefix ((job_defaults env ep etype ''CRON'')
       \<lparr>job_idempotency_key := key, job_input := inp, cron_expression := Some expr,
        cron_timezone := Some tz, cron_starts_at := starts, cron_ends_at := ends,
        cron_next_run_at := Some next_run\<rparr>)"

definition create_cron ::
  "string \<Rightarrow> string \<Rightarrow> string \<Rightarrow> string option \<Rightarrow> json option \<Rightarrow> string \<Rightarrow> string \<Rightarrow> timestamp option \<Rightarrow>
   timestamp option \<Rightarrow> timestamp \<Rightarrow> ('x, job_row) db_prog" where
  "create_cron prefix ep etype key inp expr tz starts ends next_run =
     tstmt prefix (sql_create_cron prefix ep etype key inp expr tz starts ends next_run)"

section \<open>Reading\<close>

definition sql_jobs_get :: "string \<Rightarrow> job_row option tsql" where
  "sql_jobs_get jid env t = Ok (List.find (\<lambda>j. job_id j = jid) (jobs t), t)"

definition jobs_get :: "string \<Rightarrow> string \<Rightarrow> ('x, job_row option) db_prog" where
  "jobs_get prefix jid = tstmt prefix (sql_jobs_get jid)"

definition sql_get_by_idempotency :: "string \<Rightarrow> string \<Rightarrow> job_row option tsql" where
  "sql_get_by_idempotency ep key env t =
     Ok (List.find (\<lambda>j. job_endpoint j = ep \<and> job_idempotency_key j = Some key) (jobs t), t)"

definition get_by_idempotency :: "string \<Rightarrow> string \<Rightarrow> string \<Rightarrow> ('x, job_row option) db_prog" where
  "get_by_idempotency prefix ep key = tstmt prefix (sql_get_by_idempotency ep key)"

section \<open>Filtered listing\<close>

record job_filters =
  f_job_id :: "string option"
  f_status :: "job_status list"
  f_trigger :: "trigger_type list"
  f_endpoint :: "string option"
  f_endpoint_type :: "endpoint_type list"
  f_created_after :: "timestamp option"
  f_created_before :: "timestamp option"

definition default_filters :: job_filters where
  "default_filters =
     \<lparr>f_job_id = None, f_status = [], f_trigger = [], f_endpoint = None, f_endpoint_type = [],
      f_created_after = None, f_created_before = None\<rparr>"

datatype bind_value = Scalar string | Array "string list"

fun escape_like :: "string \<Rightarrow> string" where
  "escape_like [] = []"
| "escape_like (ch # s) =
     (if ch = CHR 0x5C \<or> ch = CHR ''%'' \<or> ch = CHR ''_'' then CHR 0x5C # ch # escape_like s
      else ch # escape_like s)"

text \<open>\<open>conditions.push(..); binds.push(..); n += 1\<close>: the text of a condition depends on the number
  its bind gets.\<close>

type_synonym query_part = "(nat \<Rightarrow> string) \<times> bind_value"

definition when_some :: "'a option \<Rightarrow> ('a \<Rightarrow> query_part) \<Rightarrow> query_part list" where
  "when_some v f = (case v of None \<Rightarrow> [] | Some a \<Rightarrow> [f a])"

definition when_nonempty :: "'a list \<Rightarrow> ('a list \<Rightarrow> query_part) \<Rightarrow> query_part list" where
  "when_nonempty vs f = (if vs = [] then [] else [f vs])"

definition list_query_parts :: "ext \<Rightarrow> string \<Rightarrow> string option \<Rightarrow> job_filters \<Rightarrow> query_part list" where
  "list_query_parts x t cursor fs =
     when_some cursor (\<lambda>c.
       (\<lambda>n. ''(created_at, job_id) < ((SELECT created_at FROM '' @ t @ '' WHERE job_id = $''
            @ show_nat n @ ''), $'' @ show_nat n @ '')'', Scalar c)) @
     when_nonempty (f_status fs) (\<lambda>vs.
       (\<lambda>n. ''status = ANY($'' @ show_nat n @ '')'', Array (map job_status_as_str vs))) @
     when_nonempty (f_trigger fs) (\<lambda>vs.
       (\<lambda>n. ''trigger_type = ANY($'' @ show_nat n @ '')'', Array (map trigger_type_as_str vs))) @
     when_nonempty (f_endpoint_type fs) (\<lambda>vs.
       (\<lambda>n. ''endpoint_type = ANY($'' @ show_nat n @ '')'', Array (map endpoint_type_as_str vs))) @
     when_some (f_endpoint fs) (\<lambda>e.
       (\<lambda>n. ''endpoint ILIKE '' @ quoted ''%'' @ '' || $'' @ show_nat n @ '' || '' @ quoted ''%''
            @ '' ESCAPE '' @ quoted [CHR 0x5C], Scalar (escape_like e))) @
     when_some (f_created_after fs) (\<lambda>a.
       (\<lambda>n. ''created_at >= $'' @ show_nat n @ ''::timestamptz'', Scalar (ts_rfc3339 x a))) @
     when_some (f_created_before fs) (\<lambda>b.
       (\<lambda>n. ''created_at <= $'' @ show_nat n @ ''::timestamptz'', Scalar (ts_rfc3339 x b))) @
     when_some (f_job_id fs) (\<lambda>j. (\<lambda>n. ''job_id = $'' @ show_nat n, Scalar j))"

definition build_list_query ::
  "ext \<Rightarrow> string \<Rightarrow> string option \<Rightarrow> job_filters \<Rightarrow> string \<times> bind_value list" where
  "build_list_query x t cursor fs =
     (let parts = list_query_parts x t cursor fs;
          conditions = map (\<lambda>(i, f, _). f (i + 1)) (enumerate 0 parts);
          binds = map snd parts;
          n = length parts + 1;
          where_clause = (if conditions = [] then [] else '' WHERE '' @ join '' AND '' conditions)
      in (''SELECT * FROM '' @ t @ where_clause
            @ '' ORDER BY created_at DESC, job_id DESC LIMIT $'' @ show_nat n, binds))"

text \<open>The rows that query selects: each condition as PostgreSQL evaluates it. A cursor naming no
  job makes the row comparison null, so nothing matches.\<close>

definition job_key :: "job_row \<Rightarrow> timestamp \<times> string" where
  "job_key j = (job_created_at j, job_id j)"

definition ilike :: "string \<Rightarrow> string \<Rightarrow> bool" where
  "ilike p s \<longleftrightarrow> like (to_lowercase p) (to_lowercase s)"

definition before_cursor :: "job_row list \<Rightarrow> string option \<Rightarrow> job_row \<Rightarrow> bool" where
  "before_cursor rows cursor j \<longleftrightarrow>
     (case cursor of
        None \<Rightarrow> True
      | Some c \<Rightarrow> (case List.find (\<lambda>r. job_id r = c) rows of
          None \<Rightarrow> False
        | Some r \<Rightarrow> job_key j < (job_created_at r, c)))"

definition job_matches :: "job_filters \<Rightarrow> job_row \<Rightarrow> bool" where
  "job_matches fs j \<longleftrightarrow>
     (f_status fs = [] \<or> job_status j \<in> job_status_as_str ` set (f_status fs)) \<and>
     (f_trigger fs = [] \<or> trigger_type j \<in> trigger_type_as_str ` set (f_trigger fs)) \<and>
     (f_endpoint_type fs = [] \<or> job_endpoint_type j \<in> endpoint_type_as_str ` set (f_endpoint_type fs)) \<and>
     (case f_endpoint fs of None \<Rightarrow> True | Some e \<Rightarrow> ilike (''%'' @ escape_like e @ ''%'') (job_endpoint j)) \<and>
     (case f_created_after fs of None \<Rightarrow> True | Some a \<Rightarrow> a \<le> job_created_at j) \<and>
     (case f_created_before fs of None \<Rightarrow> True | Some b \<Rightarrow> job_created_at j \<le> b) \<and>
     (case f_job_id fs of None \<Rightarrow> True | Some i \<Rightarrow> job_id j = i)"

definition sql_jobs_list :: "string option \<Rightarrow> int \<Rightarrow> job_filters \<Rightarrow> job_row list tsql" where
  "sql_jobs_list cursor limit fs env t =
     Ok (take (nat limit) (rev (sort_key job_key
           (filter (\<lambda>j. before_cursor (jobs t) cursor j \<and> job_matches fs j) (jobs t)))), t)"

definition jobs_list ::
  "string \<Rightarrow> string option \<Rightarrow> int \<Rightarrow> job_filters \<Rightarrow> ('x, job_row list) db_prog" where
  "jobs_list prefix cursor limit fs = tstmt prefix (sql_jobs_list cursor limit fs)"

section \<open>Retiring and replacing\<close>

definition sql_jobs_cancel :: "string \<Rightarrow> job_row option tsql" where
  "sql_jobs_cancel jid env t =
     (let p = (\<lambda>j. job_id j = jid \<and> job_status j = ''ACTIVE'');
          f = (\<lambda>j. j\<lparr>job_status := ''RETIRED'', retired_at := Some (env_now env)\<rparr>)
      in Ok (first_row (returning p f (jobs t)), t\<lparr>jobs := update_rows p f (jobs t)\<rparr>))"

definition jobs_cancel :: "string \<Rightarrow> string \<Rightarrow> ('x, job_row option) db_prog" where
  "jobs_cancel prefix jid = tstmt prefix (sql_jobs_cancel jid)"

definition sql_retire :: "string \<Rightarrow> string \<Rightarrow> unit tsql" where
  "sql_retire old_id new_id env t =
     Ok ((), t\<lparr>jobs := update_rows (\<lambda>j. job_id j = old_id \<and> job_status j = ''ACTIVE'')
               (\<lambda>j. j\<lparr>job_status := ''RETIRED'', retired_at := Some (env_now env),
                      replaced_by_id := Some new_id\<rparr>) (jobs t)\<rparr>)"

definition sql_insert_version :: "string \<Rightarrow> string \<Rightarrow> job_row \<Rightarrow> job_row tsql" where
  "sql_insert_version prefix old_id new_job env =
     insert_job prefix ((job_defaults env (job_endpoint new_job) (job_endpoint_type new_job) ''CRON'')
       \<lparr>job_input := job_input new_job, cron_expression := cron_expression new_job,
        cron_timezone := cron_timezone new_job, cron_starts_at := cron_starts_at new_job,
        cron_ends_at := cron_ends_at new_job, cron_next_run_at := cron_next_run_at new_job,
        version := version new_job, previous_version_id := Some old_id\<rparr>)"

definition retire_and_replace :: "string \<Rightarrow> string \<Rightarrow> job_row \<Rightarrow> ('x, job_row) db_prog" where
  "retire_and_replace prefix old_id new_job =
     tryS (tstmt prefix (sql_retire old_id (job_id new_job))) (\<lambda>_.
     tstmt prefix (sql_insert_version prefix old_id new_job))"

text \<open>\<open>WITH RECURSIVE chain\<close>: the fixpoint follows \<open>previous_version_id\<close> until it yields no row.
  The chain of a table without a cycle has at most as many rows as the table; \<open>None\<close> is a query
  that never returns.\<close>

fun version_chain :: "nat \<Rightarrow> job_row list \<Rightarrow> string \<Rightarrow> job_row list option" where
  "version_chain fuel rows jid =
     (case List.find (\<lambda>j. job_id j = jid) rows of
        None \<Rightarrow> Some []
      | Some j \<Rightarrow> (case fuel of
          0 \<Rightarrow> None
        | Suc fuel' \<Rightarrow> (case previous_version_id j of
            None \<Rightarrow> Some [j]
          | Some p \<Rightarrow> map_option ((#) j) (version_chain fuel' rows p))))"

declare version_chain.simps [simp del]

definition sql_get_versions :: "string \<Rightarrow> job_row list option tsql" where
  "sql_get_versions jid env t =
     Ok (map_option (sort_key version) (version_chain (length (jobs t)) (jobs t) jid), t)"

definition get_versions :: "string \<Rightarrow> string \<Rightarrow> ('x, job_row list option) db_prog" where
  "get_versions prefix jid = tstmt prefix (sql_get_versions jid)"

definition cron_expired :: "timestamp \<Rightarrow> job_row \<Rightarrow> bool" where
  "cron_expired now j \<longleftrightarrow>
     trigger_type j = ''CRON'' \<and> job_status j = ''ACTIVE'' \<and>
     (case cron_ends_at j of None \<Rightarrow> False | Some e \<Rightarrow> e \<le> now)"

definition sql_retire_expired :: "string list tsql" where
  "sql_retire_expired env t =
     (let f = (\<lambda>j. j\<lparr>job_status := ''RETIRED'', retired_at := Some (env_now env)\<rparr>)
      in Ok (map job_id (returning (cron_expired (env_now env)) f (jobs t)),
             t\<lparr>jobs := update_rows (cron_expired (env_now env)) f (jobs t)\<rparr>))"

definition retire_expired_cron_jobs :: "string \<Rightarrow> ('x, string list) db_prog" where
  "retire_expired_cron_jobs prefix = tstmt prefix sql_retire_expired"

section \<open>pg_cron\<close>

definition cron_job_name :: "string \<Rightarrow> string \<Rightarrow> string" where
  "cron_job_name schema jid = ''invokr_'' @ schema @ ''_'' @ jid"

definition build_cron_command :: "string \<Rightarrow> string \<Rightarrow> string \<Rightarrow> cron_command" where
  "build_cron_command prefix schema jid = Cron_Command prefix schema jid"

text \<open>\<open>(EXTRACT(EPOCH FROM x) * 1000)::BIGINT\<close>, rounded half away from zero.\<close>

definition epoch_ms :: "int \<Rightarrow> int" where
  "epoch_ms us = sgn us * ((\<bar>us\<bar> + 500) div 1000)"

text \<open>\<open>COALESCE((retry_policy->>'max_attempts')::BIGINT, 1)\<close>.\<close>

definition policy_max_attempts :: "ext \<Rightarrow> json option \<Rightarrow> (int, sqlx_error) outcome" where
  "policy_max_attempts x rp =
     (case Option.bind rp (\<lambda>v. jget v ''max_attempts'') of
        None \<Rightarrow> Ok 1
      | Some JNull \<Rightarrow> Ok 1
      | Some (JInt n) \<Rightarrow> if in_i64 n then Ok n else Err (Database OtherKind None)
      | Some (JStr s) \<Rightarrow> ok_or (pg_bigint x s) (Database OtherKind None)
      | Some v \<Rightarrow> ok_or (pg_bigint x (jsonb_text x v)) (Database OtherKind None))"

definition cron_window :: "timestamp \<Rightarrow> job_row \<Rightarrow> bool" where
  "cron_window now j \<longleftrightarrow>
     job_status j = ''ACTIVE'' \<and>
     (case cron_starts_at j of None \<Rightarrow> True | Some a \<Rightarrow> a \<le> now) \<and>
     (case cron_ends_at j of None \<Rightarrow> True | Some e \<Rightarrow> e > now)"

text \<open>\<open>INSERT ... SELECT ... ON CONFLICT (job_id, idempotency_key) DO NOTHING\<close>; the job id is the
  primary key, so at most one row is selected.\<close>

definition tick_execution :: "sql_env \<Rightarrow> job_row \<Rightarrow> int \<Rightarrow> execution_row" where
  "tick_execution env j n =
     new_execution env (job_id j) (job_endpoint j) (job_endpoint_type j)
       (Some (''cron_'' @ job_id j @ ''_'' @ show_int (epoch_ms (env_now env))))
       ''QUEUED'' (env_now env) (job_input j) n"

definition sql_cron_tick :: "ext \<Rightarrow> string \<Rightarrow> string \<Rightarrow> unit tsql" where
  "sql_cron_tick x prefix jid env t =
     (case List.find (\<lambda>j. job_id j = jid \<and> cron_window (env_now env) j) (jobs t) of
        None \<Rightarrow> Ok ((), t)
      | Some j \<Rightarrow> (case List.find (\<lambda>e. ep_name e = job_endpoint j) (endpoints t) of
          None \<Rightarrow> Ok ((), t)
        | Some e \<Rightarrow> bind_outcome (policy_max_attempts x (ep_retry_policy e)) (\<lambda>n.
            let row = tick_execution env j n in
            if \<exists>r \<in> set (executions t). exec_job_id r = exec_job_id row \<and>
                 exec_idempotency_key r = exec_idempotency_key row
            then Ok ((), t)
            else bind_outcome (insert_execution prefix row t) (\<lambda>(_, t'). Ok ((), t')))))"

text \<open>The tables of a cron command are schema-qualified: it runs outside any search path.\<close>

definition run_cron_command :: "ext \<Rightarrow> cron_command \<Rightarrow> ('x, unit) db_prog" where
  "run_cron_command x c = stmt (\<lambda>env.
     on_tenant (cc_prefix c) (\<lambda>_. sql_cron_tick x (cc_prefix c) (cc_job_id c) env)
       (env\<lparr>env_path := cc_schema c\<rparr>))"

definition sql_cron_schedule :: "string \<Rightarrow> string \<Rightarrow> cron_command \<Rightarrow> unit sql" where
  "sql_cron_schedule name expr cmd env d = Ok ((), d\<lparr>cron_job := (cron_job d)(name \<mapsto> (expr, cmd))\<rparr>)"

definition register_pg_cron :: "string \<Rightarrow> string \<Rightarrow> string \<Rightarrow> string \<Rightarrow> ('x, unit) db_prog" where
  "register_pg_cron prefix schema jid expr =
     stmt (sql_cron_schedule (cron_job_name schema jid) expr (build_cron_command prefix schema jid))"

definition register_pg_cron_conn :: "string \<Rightarrow> string \<Rightarrow> string \<Rightarrow> string \<Rightarrow> ('x, unit) db_prog" where
  "register_pg_cron_conn prefix schema jid expr =
     stmt (sql_cron_schedule (cron_job_name schema jid) expr (build_cron_command prefix schema jid))"

text \<open>\<open>cron.unschedule(name)\<close> raises when the entry is absent.\<close>

definition sql_cron_unschedule :: "string \<Rightarrow> unit sql" where
  "sql_cron_unschedule name env d =
     (if cron_job d name = None then Err (Database OtherKind None)
      else Ok ((), d\<lparr>cron_job := (cron_job d)(name := None)\<rparr>))"

definition unregister_pg_cron :: "string \<Rightarrow> string \<Rightarrow> ('x, unit) db_prog" where
  "unregister_pg_cron schema jid = stmt (sql_cron_unschedule (cron_job_name schema jid))"

text \<open>\<open>SELECT cron.unschedule(jobid) FROM cron.job WHERE jobname = $1\<close>.\<close>

definition sql_cron_unschedule_existing :: "string \<Rightarrow> unit sql" where
  "sql_cron_unschedule_existing name env d = Ok ((), d\<lparr>cron_job := (cron_job d)(name := None)\<rparr>)"

definition unregister_pg_cron_conn :: "string \<Rightarrow> string \<Rightarrow> ('x, unit) db_prog" where
  "unregister_pg_cron_conn schema jid = stmt (sql_cron_unschedule_existing (cron_job_name schema jid))"

section \<open>Laws of LIKE\<close>

lemma like_any: "like (CHR ''%'' # p) s \<longleftrightarrow> (\<exists>a b. s = a @ b \<and> like p b)"
proof (induction s)
  case (Cons c s)
  have "like (CHR ''%'' # p) (c # s) \<longleftrightarrow> like p (c # s) \<or> like (CHR ''%'' # p) s"
    by simp
  also have "\<dots> \<longleftrightarrow> (\<exists>a b. c # s = a @ b \<and> like p b)"
    unfolding Cons.IH by (auto simp: Cons_eq_append_conv)
  finally show ?case .
qed simp

lemma like_escaped: "like (escape_like w @ p) s \<longleftrightarrow> (\<exists>b. s = w @ b \<and> like p b)"
proof (induction w arbitrary: s)
  case (Cons c w)
  then show ?case by (cases s) auto
qed simp

lemma like_contains: "like (''%'' @ escape_like w @ ''%'') s \<longleftrightarrow> str_contains w s"
proof -
  have "like ''%'' b" for b using like_any [of "[]" b] by simp
  then have "like (CHR ''%'' # escape_like w @ ''%'') s \<longleftrightarrow> (\<exists>a b. s = a @ w @ b)"
    unfolding like_any [of "escape_like w @ ''%''" s] like_escaped by blast
  then show ?thesis by (simp only: append_Cons append_Nil str_contains_iff)
qed

lemma to_lowercase_escape: "to_lowercase (escape_like w) = escape_like (to_lowercase w)"
proof (induction w)
  case (Cons c w)
  have "to_ascii_lower c = d \<longleftrightarrow> c = d" if "d \<in> {CHR 0x5C, CHR ''%'', CHR ''_''}" for d
    using that by (intro to_ascii_lower_iff) (auto simp: is_ascii_lowercase_def is_ascii_uppercase_def)
  moreover have "to_ascii_lower (CHR 0x5C) = CHR 0x5C"
    by (simp add: to_ascii_lower_def is_ascii_uppercase_def)
  ultimately show ?case using Cons by (simp add: to_lowercase_def)
qed (simp add: to_lowercase_def)

lemma ilike_contains:
  "ilike (''%'' @ escape_like w @ ''%'') s \<longleftrightarrow> str_contains (to_lowercase w) (to_lowercase s)"
proof -
  have "to_lowercase (''%'' @ escape_like w @ ''%'') = ''%'' @ escape_like (to_lowercase w) @ ''%''"
    unfolding to_lowercase_escape [symmetric] by (simp add: to_lowercase_def to_ascii_lower_def is_ascii_uppercase_def)
  then show ?thesis unfolding ilike_def by (simp only: like_contains)
qed

section \<open>Laws of version chains\<close>

text \<open>A table in which every version names an earlier row, as inserts leave it.\<close>

definition versions_ordered :: "job_row list \<Rightarrow> bool" where
  "versions_ordered js \<longleftrightarrow> distinct (map job_id js) \<and>
     (\<forall>i < length js. \<forall>p. previous_version_id (js ! i) = Some p \<longrightarrow> p \<in> job_id ` set (take i js))"

section \<open>Laws of ticks\<close>

lemma sql_cron_tick_Ok:
  assumes "sql_cron_tick x prefix jid env t = Ok ((), t')"
  shows "t' = t \<or> (\<exists>j n. j \<in> set (jobs t) \<and> job_id j = jid \<and> cron_window (env_now env) j \<and>
    t' = t\<lparr>executions := executions t @ [tick_execution env j n]\<rparr> \<and>
    (\<forall>e \<in> set (executions t). exec_job_id e \<noteq> jid \<or>
       exec_idempotency_key e \<noteq> exec_idempotency_key (tick_execution env j n)))"
proof (cases "List.find (\<lambda>j. job_id j = jid \<and> cron_window (env_now env) j) (jobs t)")
  case None
  then show ?thesis using assms by (simp add: sql_cron_tick_def)
next
  case (Some j)
  note j = find_Some_D [OF Some]
  show ?thesis
  proof (cases "List.find (\<lambda>e. ep_name e = job_endpoint j) (endpoints t)")
    case None
    then show ?thesis using assms Some by (simp add: sql_cron_tick_def)
  next
    case ep: (Some e)
    with assms Some obtain n where n: "(let row = tick_execution env j n in
            if \<exists>r \<in> set (executions t). exec_job_id r = exec_job_id row \<and>
                 exec_idempotency_key r = exec_idempotency_key row
            then Ok ((), t)
            else bind_outcome (insert_execution prefix row t) (\<lambda>(_, t'). Ok ((), t'))) = Ok ((), t')"
      by (auto simp: sql_cron_tick_def bind_outcome_Ok)
    have "exec_job_id (tick_execution env j n) = jid" using j by (simp add: tick_execution_def new_execution_def)
    with n show ?thesis
      unfolding Let_def insert_execution_def
      by (cases "execution_violation prefix t (tick_execution env j n)") (use j in \<open>fastforce split: if_splits\<close>)+
  qed
qed

text \<open>Two ticks of a job in the same millisecond make one execution.\<close>

lemma sql_cron_tick_once:
  assumes tick: "sql_cron_tick x prefix jid env t = Ok ((), t')" and new: "t' \<noteq> t"
    and ids: "distinct (map job_id (jobs t))"
    and again: "sql_cron_tick x prefix jid env' t' = Ok ((), t'')"
    and same: "epoch_ms (env_now env') = epoch_ms (env_now env)"
  shows "t'' = t'"
proof (rule ccontr)
  assume "t'' \<noteq> t'"
  with sql_cron_tick_Ok [OF again] obtain j' n' where j': "j' \<in> set (jobs t')" "job_id j' = jid"
    and fresh: "\<forall>e \<in> set (executions t'). exec_job_id e \<noteq> jid \<or>
       exec_idempotency_key e \<noteq> exec_idempotency_key (tick_execution env' j' n')" by blast
  from sql_cron_tick_Ok [OF tick] new obtain j n where j: "job_id j = jid"
    and t': "t' = t\<lparr>executions := executions t @ [tick_execution env j n]\<rparr>" by blast
  then have "tick_execution env j n \<in> set (executions t')" by simp
  with fresh j j' same show False by (fastforce simp: tick_execution_def new_execution_def)
qed

section \<open>Properties\<close>

text \<open>C21: the endpoint filter of the jobs list matches exactly the jobs whose endpoint contains the text,
  ignoring case: \<open>escape_like\<close> leaves no character of it with a special meaning.\<close>

theorem endpoint_filter_is_substring:
  "job_matches (default_filters\<lparr>f_endpoint := Some w\<rparr>) j \<longleftrightarrow>
     str_contains (to_lowercase w) (to_lowercase (job_endpoint j))"
  using ilike_contains [of w "job_endpoint j"] by (simp add: job_matches_def default_filters_def)

end
