(* ===== verification/Db_Executions.thy ===== *)
theory Db_Executions
  imports Db_Jobs
begin

text \<open>
  \<open>db/executions.rs\<close>, \<open>db/attempts.rs\<close> and \<open>db/execution_logs.rs\<close> of \<open>crates/common/src\<close>: claiming an
  execution, finishing an attempt, cancelling, and the records an attempt leaves.
\<close>

section \<open>Claiming\<close>

record claimed_execution =
  cl_execution_id :: string
  cl_job_id :: string
  cl_endpoint :: string
  cl_endpoint_type :: string
  cl_input :: "json option"
  cl_attempt_count :: int
  cl_max_attempts :: int

definition claimed_of :: "execution_row \<Rightarrow> claimed_execution" where
  "claimed_of e =
     \<lparr>cl_execution_id = execution_id e, cl_job_id = exec_job_id e, cl_endpoint = exec_endpoint e,
      cl_endpoint_type = exec_endpoint_type e, cl_input = exec_input e,
      cl_attempt_count = attempt_count e, cl_max_attempts = exec_max_attempts e\<rparr>"

definition claimable :: "sql_env \<Rightarrow> execution_row \<Rightarrow> bool" where
  "claimable env e \<longleftrightarrow>
     exec_status e \<in> {''QUEUED'', ''RETRYING'', ''PENDING''} \<and> exec_run_at e \<le> env_now env \<and>
     (env_path env, execution_id e) \<notin> set (env_locked env)"

text \<open>\<open>ORDER BY run_at ASC LIMIT 1 FOR UPDATE SKIP LOCKED\<close>.\<close>

definition next_claim :: "sql_env \<Rightarrow> tenant \<Rightarrow> execution_row option" where
  "next_claim env t = first_row (sort_key exec_run_at (filter (claimable env) (executions t)))"

definition claim_row :: "sql_env \<Rightarrow> string \<Rightarrow> execution_row \<Rightarrow> execution_row" where
  "claim_row env wid e =
     e\<lparr>exec_status := ''RUNNING'', worker_id := Some wid, started_at := Some (env_now env),
       attempt_count := attempt_count e + 1\<rparr>"

definition sql_claim :: "string \<Rightarrow> claimed_execution option tsql" where
  "sql_claim wid env t =
     (case next_claim env t of
        None \<Rightarrow> Ok (None, t)
      | Some e \<Rightarrow>
          if \<not> in_i64 (attempt_count e + 1) then Err (Database OtherKind None)
          else Ok (Some (claimed_of (claim_row env wid e)),
                   t\<lparr>executions := update_rows (\<lambda>r. execution_id r = execution_id e)
                       (claim_row env wid) (executions t)\<rparr>))"

definition claim :: "string \<Rightarrow> string \<Rightarrow> ('x, claimed_execution option) db_prog" where
  "claim prefix wid = tstmt prefix (sql_claim wid)"

section \<open>Finishing\<close>

definition elapsed_ms :: "timestamp \<Rightarrow> execution_row \<Rightarrow> int option" where
  "elapsed_ms now e = map_option (\<lambda>t0. epoch_ms (now - t0)) (started_at e)"

definition running :: "string \<Rightarrow> execution_row \<Rightarrow> bool" where
  "running eid e \<longleftrightarrow> execution_id e = eid \<and> exec_status e = ''RUNNING''"

definition success_row :: "timestamp \<Rightarrow> json \<Rightarrow> execution_row \<Rightarrow> execution_row" where
  "success_row now out e =
     e\<lparr>exec_status := ''SUCCESS'', exec_output := Some out, completed_at := Some now,
       duration_ms := elapsed_ms now e\<rparr>"

definition sql_complete_success :: "string \<Rightarrow> json \<Rightarrow> unit tsql" where
  "sql_complete_success eid out env t =
     Ok ((), t\<lparr>executions := update_rows (running eid) (success_row (env_now env) out) (executions t)\<rparr>)"

definition complete_success :: "string \<Rightarrow> string \<Rightarrow> json \<Rightarrow> ('x, unit) db_prog" where
  "complete_success prefix eid out = tstmt prefix (sql_complete_success eid out)"

definition retry_row :: "timestamp \<Rightarrow> int \<Rightarrow> execution_row \<Rightarrow> execution_row" where
  "retry_row now backoff_ms e =
     (let spent = attempt_count e \<ge> exec_max_attempts e in
      e\<lparr>exec_status := (if spent then ''FAILED'' else ''RETRYING''),
        exec_run_at := (if spent then exec_run_at e else now + backoff_ms * 1000),
        worker_id := None,
        completed_at := (if spent then Some now else None),
        duration_ms := (if spent then elapsed_ms now e else None)\<rparr>)"

text \<open>The last microsecond a \<open>TIMESTAMPTZ\<close> can hold, before the year 294277. The sum \<open>now() + $2 * interval
  '1 millisecond'\<close> fails beyond it, for a row whose \<open>CASE\<close> computes it.\<close>

definition max_timestamp :: timestamp where
  "max_timestamp = 9224318015999999999"

definition sql_complete_retry :: "string \<Rightarrow> int \<Rightarrow> unit tsql" where
  "sql_complete_retry eid backoff_ms env t =
     (if max_timestamp < env_now env + backoff_ms * 1000 \<and>
         (\<exists>e \<in> set (executions t). running eid e \<and> attempt_count e < exec_max_attempts e)
      then Err (Database OtherKind None)
      else Ok ((), t\<lparr>executions := update_rows (running eid) (retry_row (env_now env) backoff_ms) (executions t)\<rparr>))"

definition complete_retry :: "string \<Rightarrow> string \<Rightarrow> int \<Rightarrow> ('x, unit) db_prog" where
  "complete_retry prefix eid backoff_ms = tstmt prefix (sql_complete_retry eid backoff_ms)"

definition failed_row :: "timestamp \<Rightarrow> execution_row \<Rightarrow> execution_row" where
  "failed_row now e =
     e\<lparr>exec_status := ''FAILED'', completed_at := Some now, duration_ms := elapsed_ms now e,
       worker_id := None\<rparr>"

definition sql_complete_failed :: "string \<Rightarrow> unit tsql" where
  "sql_complete_failed eid env t =
     Ok ((), t\<lparr>executions := update_rows (running eid) (failed_row (env_now env)) (executions t)\<rparr>)"

definition complete_failed :: "string \<Rightarrow> string \<Rightarrow> ('x, unit) db_prog" where
  "complete_failed prefix eid = tstmt prefix (sql_complete_failed eid)"

section \<open>Reading\<close>

definition sql_executions_get :: "string \<Rightarrow> execution_row option tsql" where
  "sql_executions_get eid env t = Ok (List.find (\<lambda>e. execution_id e = eid) (executions t), t)"

definition executions_get :: "string \<Rightarrow> string \<Rightarrow> ('x, execution_row option) db_prog" where
  "executions_get prefix eid = tstmt prefix (sql_executions_get eid)"

text \<open>\<open>ORDER BY created_at DESC\<close>.\<close>

definition newest_first :: "execution_row list \<Rightarrow> execution_row list" where
  "newest_first es = sort_key (\<lambda>e. - exec_created_at e) es"

definition sql_get_for_job :: "string \<Rightarrow> execution_row option tsql" where
  "sql_get_for_job jid env t =
     Ok (first_row (newest_first (filter (\<lambda>e. exec_job_id e = jid) (executions t))), t)"

definition get_for_job :: "string \<Rightarrow> string \<Rightarrow> ('x, execution_row option) db_prog" where
  "get_for_job prefix jid = tstmt prefix (sql_get_for_job jid)"

definition older_than_cursor :: "execution_row list \<Rightarrow> string option \<Rightarrow> execution_row \<Rightarrow> bool" where
  "older_than_cursor es cursor e \<longleftrightarrow>
     (case cursor of
        None \<Rightarrow> True
      | Some c \<Rightarrow> (case List.find (\<lambda>r. execution_id r = c) es of
          None \<Rightarrow> False
        | Some r \<Rightarrow> exec_created_at e < exec_created_at r))"

definition sql_list_for_job :: "string \<Rightarrow> string option \<Rightarrow> int \<Rightarrow> execution_row list tsql" where
  "sql_list_for_job jid cursor limit env t =
     Ok (take (nat limit) (newest_first
           (filter (\<lambda>e. exec_job_id e = jid \<and> older_than_cursor (executions t) cursor e) (executions t))), t)"

definition list_for_job ::
  "string \<Rightarrow> string \<Rightarrow> string option \<Rightarrow> int \<Rightarrow> ('x, execution_row list) db_prog" where
  "list_for_job prefix jid cursor limit = tstmt prefix (sql_list_for_job jid cursor limit)"

section \<open>Cancelling\<close>

definition cancel_row :: "timestamp \<Rightarrow> execution_row \<Rightarrow> execution_row" where
  "cancel_row now e = e\<lparr>exec_status := ''CANCELLED'', completed_at := Some now\<rparr>"

definition sql_executions_cancel :: "string \<Rightarrow> execution_row option tsql" where
  "sql_executions_cancel eid env t =
     (let p = (\<lambda>e. execution_id e = eid \<and> exec_status e \<in> {''PENDING'', ''QUEUED''});
          f = cancel_row (env_now env)
      in Ok (first_row (returning p f (executions t)), t\<lparr>executions := update_rows p f (executions t)\<rparr>))"

definition executions_cancel :: "string \<Rightarrow> string \<Rightarrow> ('x, execution_row option) db_prog" where
  "executions_cancel prefix eid = tstmt prefix (sql_executions_cancel eid)"

definition sql_cancel_pending :: "string \<Rightarrow> nat tsql" where
  "sql_cancel_pending jid env t =
     (let p = (\<lambda>e. exec_job_id e = jid \<and> exec_status e \<in> {''PENDING'', ''QUEUED''});
          f = cancel_row (env_now env)
      in Ok (length (filter p (executions t)), t\<lparr>executions := update_rows p f (executions t)\<rparr>))"

definition cancel_pending_for_job :: "string \<Rightarrow> string \<Rightarrow> ('x, nat) db_prog" where
  "cancel_pending_for_job prefix jid = tstmt prefix (sql_cancel_pending jid)"

section \<open>Attempts and logs\<close>

definition attempt_violation :: "string \<Rightarrow> tenant \<Rightarrow> attempt_row \<Rightarrow> sqlx_error option" where
  "attempt_violation prefix t a =
     (if att_status a \<notin> {''SUCCESS'', ''FAILED''} then
        Some (Database CheckViolation (Some (''chk_'' @ prefix @ ''attempt_status'')))
      else if \<exists>r \<in> set (attempts t). attempt_id r = attempt_id a then
        Some (Database UniqueViolation (Some (''pk_'' @ prefix @ ''attempts'')))
      else if \<exists>r \<in> set (attempts t). att_execution_id r = att_execution_id a \<and>
                 attempt_number r = attempt_number a then
        Some (Database UniqueViolation (Some (''uq_'' @ prefix @ ''attempts_exec_number'')))
      else if \<not> (\<exists>e \<in> set (executions t). execution_id e = att_execution_id a) then
        Some (Database ForeignKeyViolation (Some (''fk_'' @ prefix @ ''attempts_execution'')))
      else None)"

definition sql_attempts_insert ::
  "string \<Rightarrow> string \<Rightarrow> int \<Rightarrow> string \<Rightarrow> timestamp \<Rightarrow> timestamp \<Rightarrow> int \<Rightarrow> json option \<Rightarrow> json option \<Rightarrow> attempt_row tsql" where
  "sql_attempts_insert prefix eid n st t0 t1 dur out er env t =
     (let a = \<lparr>attempt_id = env_uuid env, att_execution_id = eid, attempt_number = n, att_status = st,
               att_started_at = t0, att_completed_at = Some t1, att_duration_ms = Some dur,
               att_output = out, att_error = er, att_created_at = env_now env\<rparr>
      in case attempt_violation prefix t a of
           Some viol \<Rightarrow> Err viol
         | None \<Rightarrow> Ok (a, t\<lparr>attempts := attempts t @ [a]\<rparr>))"

definition attempts_insert ::
  "string \<Rightarrow> string \<Rightarrow> int \<Rightarrow> string \<Rightarrow> timestamp \<Rightarrow> timestamp \<Rightarrow> int \<Rightarrow> json option \<Rightarrow> json option \<Rightarrow> ('x, attempt_row) db_prog" where
  "attempts_insert prefix eid n st t0 t1 dur out er =
     tstmt prefix (sql_attempts_insert prefix eid n st t0 t1 dur out er)"

definition sql_attempts_list :: "string \<Rightarrow> attempt_row list tsql" where
  "sql_attempts_list eid env t =
     Ok (sort_key attempt_number (filter (\<lambda>a. att_execution_id a = eid) (attempts t)), t)"

definition attempts_list_for_execution :: "string \<Rightarrow> string \<Rightarrow> ('x, attempt_row list) db_prog" where
  "attempts_list_for_execution prefix eid = tstmt prefix (sql_attempts_list eid)"

definition sql_logs_insert :: "string \<Rightarrow> string \<Rightarrow> int \<Rightarrow> string \<Rightarrow> string \<Rightarrow> unit tsql" where
  "sql_logs_insert prefix eid n level msg env t =
     (if level \<notin> {''DEBUG'', ''INFO'', ''WARN'', ''ERROR''} then
        Err (Database CheckViolation (Some (''chk_'' @ prefix @ ''log_level'')))
      else if \<exists>r \<in> set (execution_logs t). log_id r = env_uuid env then
        Err (Database UniqueViolation (Some (''pk_'' @ prefix @ ''execution_logs'')))
      else if \<not> (\<exists>e \<in> set (executions t). execution_id e = eid) then
        Err (Database ForeignKeyViolation (Some (''fk_'' @ prefix @ ''logs_execution'')))
      else Ok ((), t\<lparr>execution_logs := execution_logs t @
             [\<lparr>log_id = env_uuid env, log_execution_id = eid, log_attempt_number = n,
               log_level = level, log_message = msg, logged_at = env_now env\<rparr>]\<rparr>))"

definition logs_insert :: "string \<Rightarrow> string \<Rightarrow> int \<Rightarrow> string \<Rightarrow> string \<Rightarrow> ('x, unit) db_prog" where
  "logs_insert prefix eid n level msg = tstmt prefix (sql_logs_insert prefix eid n level msg)"

definition sql_logs_list :: "string \<Rightarrow> log_row list tsql" where
  "sql_logs_list eid env t =
     Ok (sort_key logged_at (filter (\<lambda>l. log_execution_id l = eid) (execution_logs t)), t)"

definition logs_list_for_execution :: "string \<Rightarrow> string \<Rightarrow> ('x, log_row list) db_prog" where
  "logs_list_for_execution prefix eid = tstmt prefix (sql_logs_list eid)"

end
