(* ===== verification/Steps.thy ===== *)
theory Steps
  imports Db_Executions
begin

text \<open>
  The interface between the database functions and their clients. \<open>tenant_step\<close> is what one
  statement of the API, the reaper or pg_cron can do to the tables of a tenant, one rule per writing
  statement; \<open>worker_step\<close> adds the statements of a claimed execution; \<open>db_step\<close> lifts them to the
  database. The locale \<open>api_invariant\<close> is a predicate on databases that these steps keep; inside it
  every database function is shown to keep it, in a transaction or not, and the handlers add their
  own lemmas in the theories that define them. \<open>update_invariant\<close> extends it to the insertion of a new
  version, \<open>worker_invariant\<close> to the worker's statements.
\<close>

section \<open>Steps\<close>

inductive tenant_step :: "tenant \<Rightarrow> tenant \<Rightarrow> bool" where
  read: "tenant_step t t"
| spec_create: "sql_payload_specs_create prefix name v env t = Ok (r1, t') \<Longrightarrow> tenant_step t t'"
| spec_update: "sql_payload_specs_update name v env t = Ok (r2, t') \<Longrightarrow> tenant_step t t'"
| spec_delete: "sql_payload_specs_delete prefix name env t = Ok (b, t') \<Longrightarrow> tenant_step t t'"
| config_create: "sql_configs_create prefix name v env t = Ok (r3, t') \<Longrightarrow> tenant_step t t'"
| config_update: "sql_configs_update name v env t = Ok (r4, t') \<Longrightarrow> tenant_step t t'"
| config_delete: "sql_configs_delete prefix name env t = Ok (b, t') \<Longrightarrow> tenant_step t t'"
| secret_create: "sql_secrets_create prefix name w env t = Ok (r5, t') \<Longrightarrow> tenant_step t t'"
| secret_update: "sql_secrets_update name w env t = Ok (r6, t') \<Longrightarrow> tenant_step t t'"
| secret_delete: "sql_secrets_delete name env t = Ok (b, t') \<Longrightarrow> tenant_step t t'"
| endpoint_insert: "insert_endpoint prefix e t = Ok (r7, t') \<Longrightarrow> tenant_step t t'"
| endpoint_update: "sql_endpoints_update prefix name ov cfg ps rp env t = Ok (r8, t') \<Longrightarrow> tenant_step t t'"
| endpoint_delete: "sql_endpoints_delete prefix name env t = Ok (b, t') \<Longrightarrow> tenant_step t t'"
| job_insert: "previous_version_id j = None \<Longrightarrow> insert_job prefix j t = Ok (r9, t') \<Longrightarrow> tenant_step t t'"
| job_cancel: "sql_jobs_cancel jid env t = Ok (r10, t') \<Longrightarrow> tenant_step t t'"
| job_retire: "sql_retire jid new_id env t = Ok (u, t') \<Longrightarrow> tenant_step t t'"
| jobs_expire: "sql_retire_expired env t = Ok (ids, t') \<Longrightarrow> tenant_step t t'"
| execution_insert: "st \<in> {''QUEUED'', ''PENDING''} \<Longrightarrow>
    insert_execution prefix (new_execution env jid ep etype key st run_at inp n) t = Ok (r11, t') \<Longrightarrow>
    tenant_step t t'"
| execution_cancel: "sql_executions_cancel eid env t = Ok (r12, t') \<Longrightarrow> tenant_step t t'"
| executions_cancel: "sql_cancel_pending jid env t = Ok (m, t') \<Longrightarrow> tenant_step t t'"

inductive worker_step :: "tenant \<Rightarrow> tenant \<Rightarrow> bool" where
  claim: "sql_claim wid env t = Ok (c, t') \<Longrightarrow> worker_step t t'"
| success: "sql_complete_success eid out env t = Ok (u, t') \<Longrightarrow> worker_step t t'"
| retry: "sql_complete_retry eid ms env t = Ok (u, t') \<Longrightarrow> worker_step t t'"
| failed: "sql_complete_failed eid env t = Ok (u, t') \<Longrightarrow> worker_step t t'"
| attempt: "sql_attempts_insert prefix eid n st t0 t1 dur o1 o2 env t = Ok (a, t') \<Longrightarrow> worker_step t t'"
| log: "sql_logs_insert prefix eid n level msg env t = Ok (u, t') \<Longrightarrow> worker_step t t'"

definition with_tenant :: "string \<times> string \<Rightarrow> tenant \<Rightarrow> database \<Rightarrow> database" where
  "with_tenant k t d = d\<lparr>tenants := (tenants d)(k \<mapsto> t)\<rparr>"

inductive db_step :: "database \<Rightarrow> database \<Rightarrow> bool" where
  in_tenant: "tenants d k = Some t \<Longrightarrow> tenant_step t t' \<Longrightarrow> db_step d (with_tenant k t' d)"
| new_tenant: "tenants d k = None \<Longrightarrow> db_step d (with_tenant k empty_tenant d)"
| control: "tenants d' = tenants d \<Longrightarrow> db_step d d'"

lemma on_tenant_Ok':
  "on_tenant prefix g env d = Ok (a, d') \<longleftrightarrow>
     (\<exists>t t'. tenants d (env_path env, prefix) = Some t \<and> g env t = Ok (a, t') \<and>
        d' = with_tenant (env_path env, prefix) t' d)"
  unfolding with_tenant_def by (rule on_tenant_Ok)

text \<open>Two writes to the same tenant.\<close>

lemma with_tenant_simps [simp]:
  "tenants (with_tenant k t d) = (tenants d)(k \<mapsto> t)"
  "with_tenant k t' (with_tenant k t d) = with_tenant k t' d"
  "cron_job (with_tenant k t d) = cron_job d"
  "organizations (with_tenant k t d) = organizations d" "workspaces (with_tenant k t d) = workspaces d"
  by (simp_all add: with_tenant_def)

section \<open>Predicates the API keeps\<close>

definition api_stmt :: "'a tsql \<Rightarrow> bool" where
  "api_stmt g \<longleftrightarrow> (\<forall>env t a t'. g env t = Ok (a, t') \<longrightarrow> tenant_step t t')"

lemma api_read: "(\<And>env t. \<exists>a. g env t = Ok (a, t)) \<Longrightarrow> api_stmt g"
  unfolding api_stmt_def by (metis Pair_inject outcome.inject(1) tenant_step.read)

lemma api_reads:
  "api_stmt (sql_payload_specs_get name)" "api_stmt (sql_payload_specs_list cursor limit)"
  "api_stmt (sql_payload_specs_dependents name)" "api_stmt (sql_configs_get name)"
  "api_stmt (sql_configs_list cursor limit)" "api_stmt (sql_configs_dependents name)"
  "api_stmt (sql_secrets_get name)" "api_stmt (sql_secrets_list cursor limit)"
  "api_stmt (sql_secrets_dependents x name)" "api_stmt (sql_endpoints_get name)"
  "api_stmt (sql_endpoints_list cursor limit)" "api_stmt (sql_endpoints_active_jobs name)"
  "api_stmt (sql_jobs_get jid)" "api_stmt (sql_get_by_idempotency ep key)"
  "api_stmt (sql_jobs_list cursor limit fs)" "api_stmt (sql_get_versions jid)"
  "api_stmt (sql_executions_get eid)" "api_stmt (sql_get_for_job jid)"
  "api_stmt (sql_list_for_job jid cursor limit)" "api_stmt (sql_attempts_list eid)" "api_stmt (sql_logs_list eid)"
  by (rule api_read;
      simp add: sql_payload_specs_get_def sql_payload_specs_list_def sql_payload_specs_dependents_def
        sql_configs_get_def sql_configs_list_def sql_configs_dependents_def sql_secrets_get_def
        sql_secrets_list_def sql_secrets_dependents_def sql_endpoints_get_def sql_endpoints_list_def
        sql_endpoints_active_jobs_def sql_jobs_get_def sql_get_by_idempotency_def sql_jobs_list_def
        sql_get_versions_def sql_executions_get_def sql_get_for_job_def sql_list_for_job_def
        sql_attempts_list_def sql_logs_list_def)+

lemma api_writes:
  "api_stmt (sql_payload_specs_create prefix name v)" "api_stmt (sql_payload_specs_update name v)"
  "api_stmt (sql_payload_specs_delete prefix name)" "api_stmt (sql_configs_create prefix name v)"
  "api_stmt (sql_configs_update name v)" "api_stmt (sql_configs_delete prefix name)"
  "api_stmt (sql_secrets_create prefix name w)" "api_stmt (sql_secrets_update name w)"
  "api_stmt (sql_secrets_delete name)" "api_stmt (sql_endpoints_create prefix name etype ps cfg v rp)"
  "api_stmt (sql_endpoints_update prefix name ov cfg ps rp)" "api_stmt (sql_endpoints_delete prefix name)"
  "api_stmt (sql_jobs_cancel jid)"
  "api_stmt sql_retire_expired"
  "api_stmt (sql_insert_execution prefix jid ep etype key ''QUEUED'' orun inp n)"
  "api_stmt (sql_insert_execution prefix jid ep etype key ''PENDING'' orun inp n)"
  "api_stmt (sql_executions_cancel eid)" "api_stmt (sql_cancel_pending jid)"
  unfolding api_stmt_def sql_endpoints_create_def sql_insert_execution_def
  by (auto intro: tenant_step.intros)

lemma api_retire: "api_stmt (sql_retire jid new_id)"
  unfolding api_stmt_def by (auto intro: tenant_step.intros)

lemma api_job_inserts:
  "api_stmt (sql_insert_immediate_job prefix ep etype key inp)"
  "api_stmt (sql_insert_delayed_job prefix ep etype key inp run_at)"
  "api_stmt (sql_create_cron prefix ep etype okey inp expr tz starts ends next_run)"
  unfolding api_stmt_def sql_insert_immediate_job_def sql_insert_delayed_job_def sql_create_cron_def
  by (intro allI impI, erule tenant_step.job_insert [rotated], simp add: job_defaults_def)+

lemma api_cron_tick: "sql_cron_tick x prefix jid env t = Ok (a, t') \<Longrightarrow> tenant_step t t'"
  by (auto simp: sql_cron_tick_def tick_execution_def Let_def bind_outcome_Ok
      intro: tenant_step.intros split: option.splits if_splits)

lemmas api_stmts = api_reads api_writes api_job_inserts

locale api_invariant =
  fixes D :: "database \<Rightarrow> bool"
  assumes step: "db_step d d' \<Longrightarrow> D d \<Longrightarrow> D d'"
begin

lemma in_tenant: "tenants d k = Some t \<Longrightarrow> D d \<Longrightarrow> tenant_step t t' \<Longrightarrow> D (with_tenant k t' d)"
  by (blast intro: step db_step.in_tenant)

lemma on_tenant_step:
  assumes "on_tenant prefix g env d = Ok (a, d')" and "D d"
    and "\<And>t t'. g env t = Ok (a, t') \<Longrightarrow> tenant_step t t'"
  shows "D d'"
proof -
  from assms(1) obtain t t' where "tenants d (env_path env, prefix) = Some t" and "g env t = Ok (a, t')"
    and "d' = with_tenant (env_path env, prefix) t' d" unfolding on_tenant_Ok' by blast
  with assms show ?thesis by (simp add: in_tenant)
qed

lemma keeps_tstmt: "api_stmt g \<Longrightarrow> keeps (db_inv D) (tstmt prefix g)"
  unfolding tstmt_def by (rule keeps_stmt, rule sql_keepsI) (simp add: on_tenant_step api_stmt_def)

lemma keeps_control_stmt:
  "(\<And>env d a d'. f env d = Ok (a, d') \<Longrightarrow> tenants d' = tenants d) \<Longrightarrow> keeps (db_inv D) (stmt f)"
  by (rule keeps_stmt, rule sql_keepsI) (blast intro: step db_step.control)

lemma keeps_catalog [keeps_intros]:
  "keeps (db_inv D) (db_payload_specs_create prefix name schema)"
  "keeps (db_inv D) (db_payload_specs_get prefix name)"
  "keeps (db_inv D) (db_payload_specs_list prefix cursor limit)"
  "keeps (db_inv D) (db_payload_specs_update prefix name schema)"
  "keeps (db_inv D) (db_payload_specs_delete prefix name)"
  "keeps (db_inv D) (db_payload_specs_has_dependent_endpoints prefix name)"
  "keeps (db_inv D) (db_configs_create prefix name schema)"
  "keeps (db_inv D) (db_configs_get prefix name)"
  "keeps (db_inv D) (db_configs_list prefix cursor limit)"
  "keeps (db_inv D) (db_configs_update prefix name schema)"
  "keeps (db_inv D) (db_configs_delete prefix name)"
  "keeps (db_inv D) (db_configs_has_dependent_endpoints prefix name)"
  "keeps (db_inv D) (db_secrets_create prefix name v)"
  "keeps (db_inv D) (db_secrets_get prefix name)"
  "keeps (db_inv D) (db_secrets_list prefix cursor limit)"
  "keeps (db_inv D) (db_secrets_update prefix name v)"
  "keeps (db_inv D) (db_secrets_delete prefix name)"
  "keeps (db_inv D) (db_secrets_has_dependent_endpoints x prefix name)"
  "keeps (db_inv D) (db_endpoints_create prefix name etype ps cfg spec rp)"
  "keeps (db_inv D) (db_endpoints_get prefix name)"
  "keeps (db_inv D) (db_endpoints_list prefix cursor limit)"
  "keeps (db_inv D) (db_endpoints_update prefix name spec' cfg ps rp)"
  "keeps (db_inv D) (db_endpoints_delete prefix name)"
  "keeps (db_inv D) (db_endpoints_has_active_jobs prefix name)"
  unfolding db_payload_specs_create_def db_payload_specs_get_def db_payload_specs_list_def
    db_payload_specs_update_def db_payload_specs_delete_def db_payload_specs_has_dependent_endpoints_def
    db_configs_create_def db_configs_get_def db_configs_list_def db_configs_update_def
    db_configs_delete_def db_configs_has_dependent_endpoints_def db_secrets_create_def
    db_secrets_get_def db_secrets_list_def db_secrets_update_def db_secrets_delete_def
    db_secrets_has_dependent_endpoints_def db_endpoints_create_def db_endpoints_get_def
    db_endpoints_list_def db_endpoints_update_def db_endpoints_delete_def db_endpoints_has_active_jobs_def
  by (intro keeps_intros keeps_tstmt api_stmts)+

lemma keeps_jobs [keeps_intros]:
  "keeps (db_inv D) (create_immediate prefix ep etype key inp n)"
  "keeps (db_inv D) (create_delayed prefix ep etype key inp run_at n)"
  "keeps (db_inv D) (create_cron prefix ep etype okey inp expr tz starts ends next_run)"
  "keeps (db_inv D) (jobs_get prefix jid)"
  "keeps (db_inv D) (get_by_idempotency prefix ep key)"
  "keeps (db_inv D) (jobs_list prefix cursor limit fs)"
  "keeps (db_inv D) (jobs_cancel prefix jid)"
  "keeps (db_inv D) (get_versions prefix jid)"
  "keeps (db_inv D) (retire_expired_cron_jobs prefix)"
  unfolding create_immediate_def create_delayed_def create_cron_def jobs_get_def get_by_idempotency_def
    jobs_list_def jobs_cancel_def get_versions_def retire_expired_cron_jobs_def
  by (intro keeps_intros keeps_tstmt api_stmts)+

lemma keeps_executions [keeps_intros]:
  "keeps (db_inv D) (executions_get prefix eid)"
  "keeps (db_inv D) (get_for_job prefix jid)"
  "keeps (db_inv D) (list_for_job prefix jid cursor limit)"
  "keeps (db_inv D) (executions_cancel prefix eid)"
  "keeps (db_inv D) (cancel_pending_for_job prefix jid)"
  "keeps (db_inv D) (attempts_list_for_execution prefix eid)"
  "keeps (db_inv D) (logs_list_for_execution prefix eid)"
  unfolding executions_get_def get_for_job_def list_for_job_def executions_cancel_def
    cancel_pending_for_job_def attempts_list_for_execution_def logs_list_for_execution_def
  by (intro keeps_intros keeps_tstmt api_stmts)+

lemma keeps_pg_cron [keeps_intros]:
  "keeps (db_inv D) (register_pg_cron prefix schema jid expr)"
  "keeps (db_inv D) (register_pg_cron_conn prefix schema jid expr)"
  "keeps (db_inv D) (unregister_pg_cron schema jid)"
  "keeps (db_inv D) (unregister_pg_cron_conn schema jid)"
  unfolding register_pg_cron_def register_pg_cron_conn_def unregister_pg_cron_def unregister_pg_cron_conn_def
  by (rule keeps_control_stmt,
      auto simp: sql_cron_schedule_def sql_cron_unschedule_def sql_cron_unschedule_existing_def split: if_splits)+

lemma keeps_run_cron_command [keeps_intros]: "keeps (db_inv D) (run_cron_command x c)"
  unfolding run_cron_command_def
  by (rule keeps_stmt, rule sql_keepsI) (erule on_tenant_step, assumption, erule api_cron_tick)

end

section \<open>Predicates an update keeps\<close>

text \<open>The second statement of an update inserts a row that names its predecessor. Nothing in the table
  checks that name, so it is not a \<open>tenant_step\<close>; a predicate every insertion keeps is kept by updates too.\<close>

locale update_invariant = api_invariant +
  assumes version: "tenants d k = Some t \<Longrightarrow> insert_job prefix j t = Ok (r, t') \<Longrightarrow> D d \<Longrightarrow> D (with_tenant k t' d)"
begin

lemma keeps_retire_and_replace [keeps_intros]: "keeps (db_inv D) (retire_and_replace prefix jid new_job)"
proof -
  have "keeps (db_inv D) (tstmt prefix (sql_insert_version prefix jid new_job))"
    unfolding tstmt_def
    by (rule keeps_stmt, rule sql_keepsI) (auto simp: on_tenant_Ok' sql_insert_version_def intro: version)
  then show ?thesis
    unfolding retire_and_replace_def by (intro keeps_tryS keeps_tstmt [OF api_retire]) assumption
qed

end

section \<open>Predicates the worker keeps\<close>

locale worker_invariant = api_invariant +
  assumes work: "tenants d k = Some t \<Longrightarrow> worker_step t t' \<Longrightarrow> D d \<Longrightarrow> D (with_tenant k t' d)"
begin

lemma keeps_worker_stmt:
  "(\<And>env t a t'. g env t = Ok (a, t') \<Longrightarrow> worker_step t t') \<Longrightarrow> keeps (db_inv D) (tstmt prefix g)"
  unfolding tstmt_def
  by (rule keeps_stmt, rule sql_keepsI) (auto simp: on_tenant_Ok' intro: work)

lemma keeps_work [keeps_intros]:
  "keeps (db_inv D) (claim prefix wid)"
  "keeps (db_inv D) (complete_success prefix eid out)"
  "keeps (db_inv D) (complete_retry prefix eid ms)"
  "keeps (db_inv D) (complete_failed prefix eid)"
  "keeps (db_inv D) (attempts_insert prefix eid m st t0 t1 dur o1 o2)"
  "keeps (db_inv D) (logs_insert prefix eid m level msg)"
  unfolding claim_def complete_success_def complete_retry_def complete_failed_def attempts_insert_def
    logs_insert_def
  by (rule keeps_worker_stmt, blast intro: worker_step.intros)+

end

end
