(* ===== verification/Crypto.thy ===== *)
theory Crypto
  imports Models
begin

text \<open>
  \<open>crates/common/src/crypto.rs\<close>: secrets at rest. The AES-256-GCM primitives are parameters
  (\<open>aes_seal\<close>, \<open>aes_open\<close>); the key decoding, the nonce framing and the UTF-8 check are here. The
  \<open>nonce\<close> argument of \<open>encrypt\<close> is the twelve bytes \<open>thread_rng().fill_bytes\<close> produced.
\<close>

definition bytes :: "string \<Rightarrow> nat list" where
  "bytes s = map of_char s"

definition hex_digit :: "char \<Rightarrow> nat option" where
  "hex_digit c =
     (let n = of_char c in
      if is_ascii_digit c then Some (n - 48)
      else if 97 \<le> n \<and> n \<le> 102 then Some (n - 87)
      else if 65 \<le> n \<and> n \<le> 70 then Some (n - 55)
      else None)"

text \<open>\<open>u8::from_str_radix(s, 16)\<close> of two bytes: a leading plus sign is accepted.\<close>

definition hex_byte :: "char \<Rightarrow> char \<Rightarrow> (nat, string) outcome" where
  "hex_byte a b =
     (if a = CHR ''+'' then ok_or (hex_digit b) ''invalid digit found in string''
      else bind_outcome (ok_or (hex_digit a) ''invalid digit found in string'') (\<lambda>h.
           bind_outcome (ok_or (hex_digit b) ''invalid digit found in string'') (\<lambda>l.
           Ok (16 * h + l))))"

fun hex_pairs :: "string \<Rightarrow> (nat list, string) outcome" where
  "hex_pairs (a # b # s) =
     (if \<not> is_char_boundary (a # b # s) 0 \<or> \<not> is_char_boundary (a # b # s) 2 then
        Panic ''byte index is not a char boundary''
      else bind_outcome (hex_byte a b) (\<lambda>v. bind_outcome (hex_pairs s) (\<lambda>vs. Ok (v # vs))))"
| "hex_pairs _ = Ok []"

definition hex_decode :: "string \<Rightarrow> (nat list, string) outcome" where
  "hex_decode hex =
     (if length hex \<noteq> 64 then Err ''Encryption key must be 64 hex chars (32 bytes)''
      else hex_pairs hex)"

text \<open>\<open>String::from_utf8\<close>.\<close>

definition from_utf8 :: "nat list \<Rightarrow> (string, string) outcome" where
  "from_utf8 bs = (if utf8_ok bs then Ok (map char_of bs) else Err ''invalid utf-8 sequence'')"

definition encrypt :: "ext \<Rightarrow> nat list \<Rightarrow> string \<Rightarrow> string \<Rightarrow> (nat list, string) outcome" where
  "encrypt x nonce plaintext key_hex =
     bind_outcome (hex_decode key_hex) (\<lambda>key_bytes.
     bind_outcome (ok_or (aes_seal x key_bytes nonce plaintext) ''Encryption failed: aead::Error'') (\<lambda>ciphertext.
     Ok (nonce @ ciphertext)))"

definition decrypt :: "ext \<Rightarrow> nat list \<Rightarrow> string \<Rightarrow> (string, string) outcome" where
  "decrypt x encrypted key_hex =
     (if length encrypted < 12 then Err ''Encrypted data too short''
      else bind_outcome (hex_decode key_hex) (\<lambda>key_bytes.
           bind_outcome (ok_or (aes_open x key_bytes (take 12 encrypted) (drop 12 encrypted))
             ''Decryption failed: aead::Error'') (\<lambda>plaintext.
           from_utf8 plaintext)))"

section \<open>Laws\<close>

lemma hex_pairs_length: "hex_pairs s = Ok bs \<Longrightarrow> length bs = length s div 2"
  by (induction s arbitrary: bs rule: hex_pairs.induct) (auto simp: bind_outcome_Ok split: if_splits)

lemma hex_decode_length: "hex_decode s = Ok bs \<Longrightarrow> length bs = 32"
  by (auto simp: hex_decode_def dest: hex_pairs_length split: if_splits)

lemma map_char_of_bytes [simp]: "map char_of (bytes s) = s"
  by (simp add: bytes_def comp_def)

text \<open>The law of the cipher: opening what was sealed under the same key and nonce gives the bytes back.\<close>

definition aes_law :: "ext \<Rightarrow> bool" where
  "aes_law x \<longleftrightarrow> (\<forall>key nonce s c. aes_seal x key nonce s = Some c \<longrightarrow> aes_open x key nonce c = Some (bytes s))"

lemma encrypt_decrypt:
  assumes "aes_law x" and "length nonce = 12" and "utf8_ok (bytes s)"
    and "encrypt x nonce s key = Ok c"
  shows "decrypt x c key = Ok s"
proof -
  from assms(4) obtain kb ct where k: "hex_decode key = Ok kb" and s: "aes_seal x kb nonce s = Some ct"
    and c: "c = nonce @ ct" by (auto simp: encrypt_def bind_outcome_Ok)
  from assms(1) s have "aes_open x kb nonce ct = Some (bytes s)" by (auto simp: aes_law_def)
  with k c assms(2,3) show ?thesis by (simp add: decrypt_def from_utf8_def)
qed

lemma hex_pairs_ascii_no_panic:
  "(\<forall>c \<in> set s. (of_char c :: nat) < 128) \<Longrightarrow> hex_pairs s \<noteq> Panic p"
proof (induction s rule: hex_pairs.induct)
  case (1 a b s)
  have "is_char_boundary (a # b # s) 0" "is_char_boundary (a # b # s) 2"
    using "1.prems" by (cases s; auto simp: is_char_boundary_def utf8_cont_def)+
  moreover have "hex_byte a b \<noteq> Panic p"
    by (cases "hex_digit a"; cases "hex_digit b") (auto simp: hex_byte_def)
  ultimately show ?case using 1 by (cases "hex_byte a b"; cases "hex_pairs s") auto
qed auto

section \<open>Properties\<close>

text \<open>C19: what \<open>encrypt\<close> produces under a key decrypts to the plaintext under that key, given that the
  cipher opens what it sealed.\<close>

theorem decrypt_encrypt:
  assumes "aes_law x" and "length nonce = 12" and "utf8_ok (bytes s)" and "encrypt x nonce s key = Ok c"
  shows "decrypt x c key = Ok s"
  using assms by (rule encrypt_decrypt)

theorem decrypt_encrypt_witness:
  "decrypt sample_ext (replicate 12 7 @ bytes ''pw'') (replicate 64 (CHR ''0'')) = Ok ''pw''"
proof (rule decrypt_encrypt [of _ "replicate 12 7"])
  show "aes_law sample_ext" by (simp add: aes_law_def sample_ext_def bytes_def)
qed code_simp+

end
