(* ===== verification/Handlers_Catalog.thy ===== *)
theory Handlers_Catalog
  imports Steps Crypto
begin

text \<open>
  The request handlers of the catalog: \<open>handlers/payload_specs.rs\<close>, \<open>handlers/configs.rs\<close>,
  \<open>handlers/secrets.rs\<close> and \<open>handlers/endpoints.rs\<close> under \<open>crates/api/src\<close>, after the extractors
  have run: a handler gets the table prefix of the application state, the schema name of its
  \<open>Workspace\<close>, the path segment and the deserialized body, and returns a response or an error.
\<close>

section \<open>Handlers\<close>

type_synonym 'x handler = "('x pg_scheme, http_response, app_error) prog"

definition json_response :: "nat \<Rightarrow> json \<Rightarrow> http_response" where
  "json_response status body = \<lparr>resp_status = status, resp_body = Some body\<rparr>"

definition jdata :: "json \<Rightarrow> json" where
  "jdata v = jobj [(''data'', v)]"

text \<open>\<open>HttpResponse::NoContent().finish()\<close>.\<close>

definition no_content :: http_response where
  "no_content = \<lparr>resp_status = 204, resp_body = None\<rparr>"

text \<open>\<open>?\<close> on a database result, through \<open>From<sqlx::Error>\<close>.\<close>

definition sqlS :: "('x, 'a) db_prog \<Rightarrow> ('x pg_scheme, 'a, app_error) prog" where
  "sqlS m = map_errS from_sqlx m"

text \<open>\<open>ok_or(e)?\<close> on an option.\<close>

definition ok_orS :: "'a option \<Rightarrow> 'e \<Rightarrow> ('s, 'a, 'e) prog" where
  "ok_orS v e = State_Monad.return (ok_or v e)"

text \<open>\<open>sqlx::Error::Database(ref db_err) if db_err.constraint().is_some()\<close>.\<close>

fun conflict_on_constraint :: "string \<Rightarrow> sqlx_error \<Rightarrow> app_error" where
  "conflict_on_constraint msg (Database k (Some c)) = Conflict msg"
| "conflict_on_constraint msg e = from_sqlx e"

definition page_response :: "ext \<Rightarrow> ('r \<Rightarrow> string) \<Rightarrow> ('r \<Rightarrow> json) \<Rightarrow> int \<Rightarrow> 'r list \<Rightarrow> http_response" where
  "page_response x key to_json limit items =
     (case cut_page key limit items of (page, next_key) \<Rightarrow>
        json_response 200 (paginated_response (map to_json page) (map_option (encode_cursor x) next_key)))"

fun is_object :: "json \<Rightarrow> bool" where
  "is_object (JObj _) = True"
| "is_object _ = False"

section \<open>Payload specs\<close>

definition payload_spec_json :: "ext \<Rightarrow> payload_spec \<Rightarrow> json" where
  "payload_spec_json x s = jobj
     [(''name'', JStr (ps_name s)), (''schema'', schema_json s),
      (''created_at'', jts x (ps_created_at s)), (''updated_at'', jts x (ps_updated_at s))]"

definition handle_payload_specs_create ::
  "ext \<Rightarrow> string \<Rightarrow> string \<Rightarrow> string \<Rightarrow> json \<Rightarrow> 'x handler" where
  "handle_payload_specs_create x prefix schema_name name schema =
     (if \<not> is_object schema then err (InvalidSchema ''Schema must be a JSON object'')
      else
        tryS (sqlS (scoped_connection schema_name)) (\<lambda>_.
        tryS (map_errS (conflict_on_constraint (''Payload spec '' @ quoted name @ '' already exists''))
               (db_payload_specs_create prefix name schema)) (\<lambda>spec.
        ok (json_response 201 (jdata (payload_spec_json x spec))))))"

definition handle_payload_specs_list ::
  "ext \<Rightarrow> string \<Rightarrow> string \<Rightarrow> pagination_params \<Rightarrow> 'x handler" where
  "handle_payload_specs_list x prefix schema_name params =
     tryS (sqlS (scoped_connection schema_name)) (\<lambda>_.
     let limit = effective_limit params; cursor = decode_cursor x params in
     tryS (sqlS (db_payload_specs_list prefix cursor (limit + 1))) (\<lambda>items.
     ok (page_response x ps_name (payload_spec_json x) limit items)))"

definition handle_payload_specs_get :: "ext \<Rightarrow> string \<Rightarrow> string \<Rightarrow> string \<Rightarrow> 'x handler" where
  "handle_payload_specs_get x prefix schema_name name =
     tryS (sqlS (scoped_connection schema_name)) (\<lambda>_.
     tryS (sqlS (db_payload_specs_get prefix name)) (\<lambda>found.
     tryS (ok_orS found (PayloadSpecNotFound name)) (\<lambda>spec.
     ok (json_response 200 (jdata (payload_spec_json x spec))))))"

definition handle_payload_specs_update ::
  "ext \<Rightarrow> string \<Rightarrow> string \<Rightarrow> string \<Rightarrow> json \<Rightarrow> 'x handler" where
  "handle_payload_specs_update x prefix schema_name name schema =
     (if \<not> is_object schema then err (InvalidSchema ''Schema must be a JSON object'')
      else
        tryS (sqlS (scoped_connection schema_name)) (\<lambda>_.
        tryS (sqlS (db_payload_specs_update prefix name schema)) (\<lambda>found.
        tryS (ok_orS found (PayloadSpecNotFound name)) (\<lambda>spec.
        ok (json_response 200 (jdata (payload_spec_json x spec)))))))"

definition handle_payload_specs_delete :: "string \<Rightarrow> string \<Rightarrow> string \<Rightarrow> 'x handler" where
  "handle_payload_specs_delete prefix schema_name name =
     tryS (sqlS (scoped_connection schema_name)) (\<lambda>_.
     tryS (sqlS (db_payload_specs_has_dependent_endpoints prefix name)) (\<lambda>used.
     if used then err (Conflict (''Payload spec '' @ quoted name @ '' has dependent endpoints''))
     else
       tryS (sqlS (db_payload_specs_delete prefix name)) (\<lambda>deleted.
       if \<not> deleted then err (PayloadSpecNotFound name) else ok no_content)))"

section \<open>Configs\<close>

definition config_json :: "ext \<Rightarrow> config_row \<Rightarrow> json" where
  "config_json x c = jobj
     [(''name'', JStr (cfg_name c)), (''values'', values_json c),
      (''created_at'', jts x (cfg_created_at c)), (''updated_at'', jts x (cfg_updated_at c))]"

definition handle_configs_create :: "ext \<Rightarrow> string \<Rightarrow> string \<Rightarrow> string \<Rightarrow> json \<Rightarrow> 'x handler" where
  "handle_configs_create x prefix schema_name name vals =
     (if \<not> is_object vals then err (InvalidRequest ''Values must be a JSON object'')
      else
        tryS (sqlS (scoped_connection schema_name)) (\<lambda>_.
        tryS (map_errS (conflict_on_constraint (''Config '' @ quoted name @ '' already exists''))
               (db_configs_create prefix name vals)) (\<lambda>config.
        ok (json_response 201 (jdata (config_json x config))))))"

definition handle_configs_list :: "ext \<Rightarrow> string \<Rightarrow> string \<Rightarrow> pagination_params \<Rightarrow> 'x handler" where
  "handle_configs_list x prefix schema_name params =
     tryS (sqlS (scoped_connection schema_name)) (\<lambda>_.
     let limit = effective_limit params; cursor = decode_cursor x params in
     tryS (sqlS (db_configs_list prefix cursor (limit + 1))) (\<lambda>items.
     ok (page_response x cfg_name (config_json x) limit items)))"

definition handle_configs_get :: "ext \<Rightarrow> string \<Rightarrow> string \<Rightarrow> string \<Rightarrow> 'x handler" where
  "handle_configs_get x prefix schema_name name =
     tryS (sqlS (scoped_connection schema_name)) (\<lambda>_.
     tryS (sqlS (db_configs_get prefix name)) (\<lambda>found.
     tryS (ok_orS found (ConfigNotFound name)) (\<lambda>config.
     ok (json_response 200 (jdata (config_json x config))))))"

definition handle_configs_update :: "ext \<Rightarrow> string \<Rightarrow> string \<Rightarrow> string \<Rightarrow> json \<Rightarrow> 'x handler" where
  "handle_configs_update x prefix schema_name name vals =
     (if \<not> is_object vals then err (InvalidRequest ''Values must be a JSON object'')
      else
        tryS (sqlS (scoped_connection schema_name)) (\<lambda>_.
        tryS (sqlS (db_configs_update prefix name vals)) (\<lambda>found.
        tryS (ok_orS found (ConfigNotFound name)) (\<lambda>config.
        ok (json_response 200 (jdata (config_json x config)))))))"

definition handle_configs_delete :: "string \<Rightarrow> string \<Rightarrow> string \<Rightarrow> 'x handler" where
  "handle_configs_delete prefix schema_name name =
     tryS (sqlS (scoped_connection schema_name)) (\<lambda>_.
     tryS (sqlS (db_configs_has_dependent_endpoints prefix name)) (\<lambda>used.
     if used then err (Conflict (''Config '' @ quoted name @ '' has dependent endpoints''))
     else
       tryS (sqlS (db_configs_delete prefix name)) (\<lambda>deleted.
       if \<not> deleted then err (ConfigNotFound name) else ok no_content)))"

section \<open>Secrets\<close>

text \<open>A secret's value never leaves the server: the response has the name and the times only. The
  nonce is the one \<open>encrypt\<close> draws.\<close>

definition secret_response :: "ext \<Rightarrow> secret_row \<Rightarrow> json" where
  "secret_response x s = jobj
     [(''name'', JStr (sec_name s)), (''created_at'', jts x (sec_created_at s)),
      (''updated_at'', jts x (sec_updated_at s))]"

definition encrypt_secret ::
  "ext \<Rightarrow> nat list \<Rightarrow> string \<Rightarrow> string \<Rightarrow> ('s, nat list, app_error) prog" where
  "encrypt_secret x nonce v key_hex =
     State_Monad.return (map_err (\<lambda>e. Internal (''Encryption failed: '' @ e)) (encrypt x nonce v key_hex))"

definition handle_secrets_create ::
  "ext \<Rightarrow> string \<Rightarrow> string \<Rightarrow> nat list \<Rightarrow> string \<Rightarrow> string \<Rightarrow> string \<Rightarrow> 'x handler" where
  "handle_secrets_create x key_hex prefix nonce schema_name name v =
     tryS (encrypt_secret x nonce v key_hex) (\<lambda>encrypted.
     tryS (sqlS (scoped_connection schema_name)) (\<lambda>_.
     tryS (map_errS (conflict_on_constraint (''Secret '' @ quoted name @ '' already exists''))
            (db_secrets_create prefix name encrypted)) (\<lambda>secret.
     ok (json_response 201 (jdata (secret_response x secret))))))"

definition handle_secrets_list :: "ext \<Rightarrow> string \<Rightarrow> string \<Rightarrow> pagination_params \<Rightarrow> 'x handler" where
  "handle_secrets_list x prefix schema_name params =
     tryS (sqlS (scoped_connection schema_name)) (\<lambda>_.
     let limit = effective_limit params; cursor = decode_cursor x params in
     tryS (sqlS (db_secrets_list prefix cursor (limit + 1))) (\<lambda>items.
     ok (page_response x sec_name (secret_response x) limit items)))"

definition handle_secrets_get :: "ext \<Rightarrow> string \<Rightarrow> string \<Rightarrow> string \<Rightarrow> 'x handler" where
  "handle_secrets_get x prefix schema_name name =
     tryS (sqlS (scoped_connection schema_name)) (\<lambda>_.
     tryS (sqlS (db_secrets_get prefix name)) (\<lambda>found.
     tryS (ok_orS found (SecretNotFound name)) (\<lambda>secret.
     ok (json_response 200 (jdata (secret_response x secret))))))"

definition handle_secrets_update ::
  "ext \<Rightarrow> string \<Rightarrow> string \<Rightarrow> nat list \<Rightarrow> string \<Rightarrow> string \<Rightarrow> string \<Rightarrow> 'x handler" where
  "handle_secrets_update x key_hex prefix nonce schema_name name v =
     tryS (encrypt_secret x nonce v key_hex) (\<lambda>encrypted.
     tryS (sqlS (scoped_connection schema_name)) (\<lambda>_.
     tryS (sqlS (db_secrets_update prefix name encrypted)) (\<lambda>found.
     tryS (ok_orS found (SecretNotFound name)) (\<lambda>secret.
     ok (json_response 200 (jdata (secret_response x secret)))))))"

definition handle_secrets_delete :: "ext \<Rightarrow> string \<Rightarrow> string \<Rightarrow> string \<Rightarrow> 'x handler" where
  "handle_secrets_delete x prefix schema_name name =
     tryS (sqlS (scoped_connection schema_name)) (\<lambda>_.
     tryS (sqlS (db_secrets_has_dependent_endpoints x prefix name)) (\<lambda>used.
     if used then err (Conflict (''Secret '' @ quoted name @ '' is referenced by endpoints''))
     else
       tryS (sqlS (db_secrets_delete prefix name)) (\<lambda>deleted.
       if \<not> deleted then err (SecretNotFound name) else ok no_content)))"

section \<open>Endpoints\<close>

definition endpoint_to_json :: "ext \<Rightarrow> endpoint_row \<Rightarrow> json" where
  "endpoint_to_json x ep = jobj
     [(''name'', JStr (ep_name ep)), (''type'', JStr (ep_type ep)),
      (''payload_spec'', jstr_opt (payload_spec_ref ep)), (''config'', jstr_opt (config_ref ep)),
      (''spec'', ep_spec ep), (''retry_policy'', jval_opt (ep_retry_policy ep)),
      (''created_at'', jts x (ep_created_at ep)), (''updated_at'', jts x (ep_updated_at ep))]"

text \<open>The checks \<open>create\<close> and \<open>update\<close> make of the references in the body.\<close>

definition check_payload_spec_ref :: "string \<Rightarrow> string option \<Rightarrow> ('x pg_scheme, unit, app_error) prog" where
  "check_payload_spec_ref prefix ps = (case ps of
       None \<Rightarrow> ok ()
     | Some n \<Rightarrow> tryS (sqlS (db_payload_specs_get prefix n)) (\<lambda>found.
         if found = None then err (InvalidPayloadSpecRef n) else ok ()))"

definition check_config_ref :: "string \<Rightarrow> string option \<Rightarrow> ('x pg_scheme, unit, app_error) prog" where
  "check_config_ref prefix cfg = (case cfg of
       None \<Rightarrow> ok ()
     | Some n \<Rightarrow> tryS (sqlS (db_configs_get prefix n)) (\<lambda>found.
         if found = None then err (InvalidConfigRef n) else ok ()))"

definition handle_endpoints_create :: "ext \<Rightarrow> string \<Rightarrow> string \<Rightarrow> create_endpoint \<Rightarrow> 'x handler" where
  "handle_endpoints_create x prefix schema_name body =
     (if endpoint_type_from_str (ce_type body) \<in> {None, Some INTERNAL} then
        err (InvalidRequest (''Invalid endpoint type: '' @ ce_type body
               @ ''. Must be HTTP, KAFKA, or REDIS_STREAM''))
      else
        tryS (sqlS (scoped_connection schema_name)) (\<lambda>_.
        tryS (check_payload_spec_ref prefix (ce_payload_spec body)) (\<lambda>_.
        tryS (check_config_ref prefix (ce_config body)) (\<lambda>_.
        tryS (map_errS (conflict_on_constraint (''Endpoint '' @ quoted (ce_name body) @ '' already exists''))
               (db_endpoints_create prefix (ce_name body) (ce_type body) (ce_payload_spec body)
                  (ce_config body) (ce_spec body)
                  (map_option retry_policy_to_value (ce_retry_policy body)))) (\<lambda>ep.
        ok (json_response 201 (jdata (endpoint_to_json x ep))))))))"

definition handle_endpoints_list :: "ext \<Rightarrow> string \<Rightarrow> string \<Rightarrow> pagination_params \<Rightarrow> 'x handler" where
  "handle_endpoints_list x prefix schema_name params =
     tryS (sqlS (scoped_connection schema_name)) (\<lambda>_.
     let limit = effective_limit params; cursor = decode_cursor x params in
     tryS (sqlS (db_endpoints_list prefix cursor (limit + 1))) (\<lambda>items.
     ok (page_response x ep_name (endpoint_to_json x) limit items)))"

definition handle_endpoints_get :: "ext \<Rightarrow> string \<Rightarrow> string \<Rightarrow> string \<Rightarrow> 'x handler" where
  "handle_endpoints_get x prefix schema_name name =
     tryS (sqlS (scoped_connection schema_name)) (\<lambda>_.
     tryS (sqlS (db_endpoints_get prefix name)) (\<lambda>found.
     tryS (ok_orS found (EndpointNotFound name)) (\<lambda>ep.
     ok (json_response 200 (jdata (endpoint_to_json x ep))))))"

definition handle_endpoints_update ::
  "ext \<Rightarrow> string \<Rightarrow> string \<Rightarrow> string \<Rightarrow> update_endpoint \<Rightarrow> 'x handler" where
  "handle_endpoints_update x prefix schema_name name body =
     tryS (sqlS (scoped_connection schema_name)) (\<lambda>_.
     tryS (check_payload_spec_ref prefix (ue_payload_spec body)) (\<lambda>_.
     tryS (check_config_ref prefix (ue_config body)) (\<lambda>_.
     tryS (sqlS (db_endpoints_update prefix name (ue_spec body) (ue_config body)
                   (ue_payload_spec body) (map_option retry_policy_to_value (ue_retry_policy body)))) (\<lambda>found.
     tryS (ok_orS found (EndpointNotFound name)) (\<lambda>ep.
     ok (json_response 200 (jdata (endpoint_to_json x ep))))))))"

definition handle_endpoints_delete :: "string \<Rightarrow> string \<Rightarrow> string \<Rightarrow> 'x handler" where
  "handle_endpoints_delete prefix schema_name name =
     tryS (sqlS (scoped_connection schema_name)) (\<lambda>_.
     tryS (sqlS (db_endpoints_has_active_jobs prefix name)) (\<lambda>used.
     if used then err (Conflict (''Endpoint '' @ quoted name @ '' has active jobs''))
     else
       tryS (sqlS (db_endpoints_delete prefix name)) (\<lambda>deleted.
       if \<not> deleted then err (EndpointNotFound name) else ok no_content)))"

section \<open>What the handlers keep\<close>

lemma keeps_sqlS [keeps_intros]: "keeps I m \<Longrightarrow> keeps I (sqlS m)"
  unfolding sqlS_def by (rule keeps_map_errS)

lemma keeps_ok_orS [keeps_intros]: "keeps I (ok_orS v e)"
  unfolding ok_orS_def by (rule keeps_return)

lemma keeps_encrypt_secret [keeps_intros]: "keeps I (encrypt_secret x nonce v key_hex)"
  unfolding encrypt_secret_def by (rule keeps_return)

context api_invariant
begin

lemma keeps_check_refs [keeps_intros]:
  "keeps (db_inv D) (check_payload_spec_ref prefix ps)"
  "keeps (db_inv D) (check_config_ref prefix cfg)"
  unfolding check_payload_spec_ref_def check_config_ref_def by (intro keeps_intros)+

lemma keeps_handlers_catalog [keeps_intros]:
  "keeps (db_inv D) (handle_payload_specs_create x prefix schema_name name v)"
  "keeps (db_inv D) (handle_payload_specs_list x prefix schema_name params)"
  "keeps (db_inv D) (handle_payload_specs_get x prefix schema_name name)"
  "keeps (db_inv D) (handle_payload_specs_update x prefix schema_name name v)"
  "keeps (db_inv D) (handle_payload_specs_delete prefix schema_name name)"
  "keeps (db_inv D) (handle_configs_create x prefix schema_name name v)"
  "keeps (db_inv D) (handle_configs_list x prefix schema_name params)"
  "keeps (db_inv D) (handle_configs_get x prefix schema_name name)"
  "keeps (db_inv D) (handle_configs_update x prefix schema_name name v)"
  "keeps (db_inv D) (handle_configs_delete prefix schema_name name)"
  "keeps (db_inv D) (handle_secrets_create x key_hex prefix nonce schema_name name sv)"
  "keeps (db_inv D) (handle_secrets_list x prefix schema_name params)"
  "keeps (db_inv D) (handle_secrets_get x prefix schema_name name)"
  "keeps (db_inv D) (handle_secrets_update x key_hex prefix nonce schema_name name sv)"
  "keeps (db_inv D) (handle_secrets_delete x prefix schema_name name)"
  "keeps (db_inv D) (handle_endpoints_create x prefix schema_name ce)"
  "keeps (db_inv D) (handle_endpoints_list x prefix schema_name params)"
  "keeps (db_inv D) (handle_endpoints_get x prefix schema_name name)"
  "keeps (db_inv D) (handle_endpoints_update x prefix schema_name name ue)"
  "keeps (db_inv D) (handle_endpoints_delete prefix schema_name name)"
  unfolding handle_payload_specs_create_def handle_payload_specs_list_def handle_payload_specs_get_def
    handle_payload_specs_update_def handle_payload_specs_delete_def handle_configs_create_def
    handle_configs_list_def handle_configs_get_def handle_configs_update_def handle_configs_delete_def
    handle_secrets_create_def handle_secrets_list_def handle_secrets_get_def handle_secrets_update_def
    handle_secrets_delete_def handle_endpoints_create_def handle_endpoints_list_def
    handle_endpoints_get_def handle_endpoints_update_def handle_endpoints_delete_def Let_def
  by (intro keeps_intros)+

end

end
