(* ===== verification/Handlers_Jobs.thy ===== *)
theory Handlers_Jobs
  imports Handlers_Catalog
begin

text \<open>
  \<open>handlers/jobs.rs\<close> under \<open>crates/api/src\<close>: creating, listing, updating and cancelling jobs, their
  status, versions and executions. \<open>body.cron\<close> is a \<open>PgCronExpr\<close>, the string its constructor
  accepted when the body was deserialized.
\<close>

section \<open>Responses\<close>

definition job_summary :: "ext \<Rightarrow> job_row \<Rightarrow> json" where
  "job_summary x j = jobj
     [(''job_id'', JStr (job_id j)), (''endpoint'', JStr (job_endpoint j)),
      (''endpoint_type'', JStr (job_endpoint_type j)), (''trigger'', JStr (trigger_type j)),
      (''status'', JStr (job_status j)), (''version'', JInt (version j)),
      (''idempotency_key'', jstr_opt (job_idempotency_key j)), (''input'', jval_opt (job_input j)),
      (''run_at'', jts_opt x (job_run_at j)), (''cron'', jstr_opt (cron_expression j)),
      (''timezone'', jstr_opt (cron_timezone j)), (''starts_at'', jts_opt x (cron_starts_at j)),
      (''ends_at'', jts_opt x (cron_ends_at j)), (''next_run_at'', jts_opt x (cron_next_run_at j)),
      (''created_at'', jts x (job_created_at j))]"

fun object_insert :: "string \<Rightarrow> json \<Rightarrow> json \<Rightarrow> json" where
  "object_insert k v (JObj kvs) = JObj (map_insert k v kvs)"
| "object_insert k v j = j"

definition job_response :: "ext \<Rightarrow> job_row \<Rightarrow> execution_row option \<Rightarrow> json" where
  "job_response x j exec =
     (case exec of
        None \<Rightarrow> job_summary x j
      | Some e \<Rightarrow> object_insert ''execution''
          (jobj [(''execution_id'', JStr (execution_id e)), (''status'', JStr (exec_status e)),
                 (''created_at'', jts x (exec_created_at e))]) (job_summary x j))"

definition validate_input :: "ext \<Rightarrow> json \<Rightarrow> json \<Rightarrow> (unit, app_error) outcome" where
  "validate_input x inp schema =
     (case schema_compile x schema of
        Some e \<Rightarrow> Err (InvalidSchema e)
      | None \<Rightarrow>
          let msgs = schema_validate x schema inp in
          if msgs \<noteq> [] then Err (InputValidationFailed (join ''; '' msgs)) else Ok ())"

definition compute_next_cron :: "ext \<Rightarrow> string \<Rightarrow> string \<Rightarrow> timestamp \<Rightarrow> timestamp option" where
  "compute_next_cron x schedule tz after = cron_after x schedule tz after"

section \<open>Creating\<close>

text \<open>\<open>body.max_attempts.filter(|&n| n > 0).unwrap_or(retry_policy.max_attempts)\<close>.\<close>

definition job_max_attempts :: "create_job \<Rightarrow> endpoint_row \<Rightarrow> int" where
  "job_max_attempts body ep =
     (case cj_max_attempts body of
        None \<Rightarrow> max_attempts (get_retry_policy ep)
      | Some n \<Rightarrow> if n > 0 then n else max_attempts (get_retry_policy ep))"

definition check_job_input ::
  "ext \<Rightarrow> string \<Rightarrow> endpoint_row \<Rightarrow> json option \<Rightarrow> ('x pg_scheme, unit, app_error) prog" where
  "check_job_input x prefix ep inp =
     (case (payload_spec_ref ep, inp) of
        (Some ps, Some v) \<Rightarrow>
          tryS (sqlS (db_payload_specs_get prefix ps)) (\<lambda>found.
          tryS (ok_orS found (InvalidPayloadSpecRef ps)) (\<lambda>spec.
          State_Monad.return (validate_input x v (schema_json spec))))
      | _ \<Rightarrow> ok ())"

definition existing_job ::
  "string \<Rightarrow> create_job \<Rightarrow> ('x pg_scheme, (job_row \<times> execution_row option) option, app_error) prog" where
  "existing_job prefix body =
     (case cj_idempotency_key body of
        None \<Rightarrow> ok None
      | Some key \<Rightarrow>
          tryS (sqlS (get_by_idempotency prefix (cj_endpoint body) key)) (\<lambda>found.
          case found of
            None \<Rightarrow> ok None
          | Some existing \<Rightarrow>
              tryS (sqlS (get_for_job prefix (job_id existing))) (\<lambda>exec. ok (Some (existing, exec)))))"

definition created_execution_json :: "ext \<Rightarrow> create_job_result \<Rightarrow> json" where
  "created_execution_json x r = jobj
     [(''execution_id'', JStr (cjr_execution_id r)), (''status'', JStr (cjr_execution_status r)),
      (''created_at'', jts x (cjr_execution_created_at r))]"

definition created_job_fields :: "job_row \<Rightarrow> (string \<times> json) list" where
  "created_job_fields j =
     [(''job_id'', JStr (job_id j)), (''endpoint'', JStr (job_endpoint j)),
      (''endpoint_type'', JStr (job_endpoint_type j)), (''trigger'', JStr (trigger_type j)),
      (''status'', JStr (job_status j)), (''version'', JInt (version j)),
      (''idempotency_key'', jstr_opt (job_idempotency_key j)), (''input'', jval_opt (job_input j))]"

definition create_immediate_job ::
  "ext \<Rightarrow> string \<Rightarrow> string \<Rightarrow> create_job \<Rightarrow> endpoint_row \<Rightarrow> 'x handler" where
  "create_immediate_job x prefix schema_name body ep =
     State_Monad.bind
       (case cj_idempotency_key body of Some k \<Rightarrow> State_Monad.return k | None \<Rightarrow> new_v4) (\<lambda>key.
     tryS (sqlS (scoped_transaction schema_name)) (\<lambda>_.
     with_drop (
       tryS (map_errS (conflict_on_constraint ''Job with this idempotency key already exists'')
              (create_immediate prefix (cj_endpoint body) (ep_type ep) key (cj_input body)
                 (job_max_attempts body ep))) (\<lambda>result.
       tryS (sqlS tx_commit) (\<lambda>_.
       ok (json_response 201 (jdata (jobj (created_job_fields (cjr_job result) @
         [(''execution'', created_execution_json x result),
          (''created_at'', jts x (job_created_at (cjr_job result)))])))))))))"

definition create_delayed_job ::
  "ext \<Rightarrow> string \<Rightarrow> string \<Rightarrow> create_job \<Rightarrow> endpoint_row \<Rightarrow> 'x handler" where
  "create_delayed_job x prefix schema_name body ep =
     tryS (ok_orS (cj_idempotency_key body) (InvalidRequest ''idempotency_key required for DELAYED jobs'')) (\<lambda>key.
     tryS (ok_orS (cj_run_at body) (InvalidRequest ''run_at required for DELAYED jobs'')) (\<lambda>run_at.
     tryS (sqlS (scoped_transaction schema_name)) (\<lambda>_.
     with_drop (
       tryS (sqlS (create_delayed prefix (cj_endpoint body) (ep_type ep) key (cj_input body) run_at
                     (job_max_attempts body ep))) (\<lambda>result.
       tryS (sqlS tx_commit) (\<lambda>_.
       ok (json_response 201 (jdata (jobj (created_job_fields (cjr_job result) @
         [(''run_at'', jts_opt x (job_run_at (cjr_job result))),
          (''execution'', created_execution_json x result),
          (''created_at'', jts x (job_created_at (cjr_job result)))]))))))))))"

fun cron_create_error :: "string \<Rightarrow> sqlx_error \<Rightarrow> app_error" where
  "cron_create_error ep (Database UniqueViolation c) = Conflict ''Job with this idempotency key already exists''"
| "cron_create_error ep (Database ForeignKeyViolation c) = EndpointNotFound ep"
| "cron_create_error ep e = from_sqlx e"

definition create_cron_job ::
  "ext \<Rightarrow> string \<Rightarrow> string \<Rightarrow> create_job \<Rightarrow> endpoint_row \<Rightarrow> 'x handler" where
  "create_cron_job x prefix schema_name body ep =
     tryS (ok_orS (cj_cron body) (InvalidRequest ''cron required for CRON jobs'')) (\<lambda>cron_expr.
     tryS (ok_orS (cj_timezone body) (InvalidRequest ''timezone required for CRON jobs'')) (\<lambda>tz_str.
     tryS (State_Monad.return (to_schedule x cron_expr)) (\<lambda>schedule.
     if \<not> tz_parse x tz_str then err (InvalidRequest (''Invalid timezone: '' @ tz_str))
     else State_Monad.bind
       (case cj_starts_at body of Some t \<Rightarrow> State_Monad.return t | None \<Rightarrow> utc_now) (\<lambda>starts_at.
     tryS (ok_orS (compute_next_cron x schedule tz_str starts_at)
             (InvalidCron ''No upcoming run for this cron schedule'')) (\<lambda>next_run.
     tryS (sqlS (scoped_transaction schema_name)) (\<lambda>_.
     with_drop (
       tryS (map_errS (cron_create_error (cj_endpoint body))
              (create_cron prefix (cj_endpoint body) (ep_type ep) (cj_idempotency_key body)
                 (cj_input body) cron_expr tz_str (Some starts_at) (cj_ends_at body) next_run)) (\<lambda>job.
       tryS (sqlS (register_pg_cron_conn prefix schema_name (job_id job) cron_expr)) (\<lambda>_.
       tryS (sqlS tx_commit) (\<lambda>_.
       ok (json_response 201 (jdata (jobj
         [(''job_id'', JStr (job_id job)), (''endpoint'', JStr (job_endpoint job)),
          (''endpoint_type'', JStr (job_endpoint_type job)), (''trigger'', JStr (trigger_type job)),
          (''status'', JStr (job_status job)), (''version'', JInt (version job)),
          (''idempotency_key'', jstr_opt (job_idempotency_key job)),
          (''cron'', jstr_opt (cron_expression job)), (''timezone'', jstr_opt (cron_timezone job)),
          (''starts_at'', jts_opt x (cron_starts_at job)), (''ends_at'', jts_opt x (cron_ends_at job)),
          (''next_run_at'', jts_opt x (cron_next_run_at job)), (''input'', jval_opt (job_input job)),
          (''created_at'', jts x (job_created_at job))])))))))))))))"

definition handle_jobs_create :: "ext \<Rightarrow> string \<Rightarrow> string \<Rightarrow> create_job \<Rightarrow> 'x handler" where
  "handle_jobs_create x prefix schema_name body =
     tryS (ok_orS (trigger_type_from_str (cj_trigger body))
             (InvalidRequest (''Invalid trigger: '' @ cj_trigger body))) (\<lambda>trigger.
     tryS (sqlS (scoped_connection schema_name)) (\<lambda>_.
     tryS (sqlS (db_endpoints_get prefix (cj_endpoint body))) (\<lambda>found.
     tryS (ok_orS found (EndpointNotFound (cj_endpoint body))) (\<lambda>ep.
     if endpoint_type_from_str (ep_type ep) = Some INTERNAL then
       err (InvalidRequest (''Endpoint '' @ quoted (cj_endpoint body)
              @ '' is internal and cannot be used for user-created jobs''))
     else
       tryS (check_job_input x prefix ep (cj_input body)) (\<lambda>_.
       tryS (existing_job prefix body) (\<lambda>existing.
       case existing of
         Some (job, exec) \<Rightarrow> ok (json_response 200 (jdata (job_response x job exec)))
       | None \<Rightarrow> (case trigger of
           IMMEDIATE \<Rightarrow> create_immediate_job x prefix schema_name body ep
         | DELAYED \<Rightarrow> create_delayed_job x prefix schema_name body ep
         | CRON \<Rightarrow> create_cron_job x prefix schema_name body ep)))))))"

section \<open>Reading\<close>

definition handle_jobs_list ::
  "ext \<Rightarrow> string \<Rightarrow> string \<Rightarrow> pagination_params \<Rightarrow> job_filters \<Rightarrow> 'x handler" where
  "handle_jobs_list x prefix schema_name params filters =
     tryS (sqlS (scoped_connection schema_name)) (\<lambda>_.
     let limit = effective_limit params; cursor = decode_cursor x params in
     tryS (sqlS (jobs_list prefix cursor (limit + 1) filters)) (\<lambda>items.
     ok (page_response x job_id (job_summary x) limit items)))"

definition handle_jobs_get :: "ext \<Rightarrow> string \<Rightarrow> string \<Rightarrow> string \<Rightarrow> 'x handler" where
  "handle_jobs_get x prefix schema_name jid =
     tryS (sqlS (scoped_connection schema_name)) (\<lambda>_.
     tryS (sqlS (jobs_get prefix jid)) (\<lambda>found.
     tryS (ok_orS found (JobNotFound jid)) (\<lambda>job.
     tryS (sqlS (get_for_job prefix (job_id job))) (\<lambda>exec.
     ok (json_response 200 (jdata (job_response x job exec)))))))"

section \<open>Updating\<close>

definition update_cron_expr :: "ext \<Rightarrow> update_job \<Rightarrow> job_row \<Rightarrow> (string, app_error) outcome" where
  "update_cron_expr x body old_job =
     (case uj_cron body of
        Some c \<Rightarrow> Ok c
      | None \<Rightarrow> bind_outcome
          (ok_or (cron_expression old_job) (InvalidCron ''Existing job has no cron expression''))
          (pg_cron_try_from x))"

definition update_timezone :: "update_job \<Rightarrow> job_row \<Rightarrow> string" where
  "update_timezone body old_job =
     (case uj_timezone body of
        Some tz \<Rightarrow> tz
      | None \<Rightarrow> (case cron_timezone old_job of Some tz \<Rightarrow> tz | None \<Rightarrow> ''UTC''))"

definition new_version :: "update_job \<Rightarrow> job_row \<Rightarrow> string \<Rightarrow> string \<Rightarrow> timestamp \<Rightarrow> int \<Rightarrow> job_row" where
  "new_version body old_job cron_expr tz_str next_run v =
     old_job\<lparr>cron_expression := Some cron_expr, cron_timezone := Some tz_str,
       cron_next_run_at := Some next_run, version := v,
       job_input := (case uj_input body of Some i \<Rightarrow> Some i | None \<Rightarrow> job_input old_job),
       cron_starts_at := (case uj_starts_at body of Some t \<Rightarrow> Some t | None \<Rightarrow> cron_starts_at old_job),
       cron_ends_at := (case uj_ends_at body of Some t \<Rightarrow> Some t | None \<Rightarrow> cron_ends_at old_job)\<rparr>"

definition replace_job ::
  "ext \<Rightarrow> string \<Rightarrow> string \<Rightarrow> string \<Rightarrow> job_row \<Rightarrow> string \<Rightarrow> 'x handler" where
  "replace_job x prefix schema_name jid new_job cron_expr =
     tryS (sqlS (scoped_transaction schema_name)) (\<lambda>_.
     with_drop (
       tryS (sqlS (retire_and_replace prefix jid new_job)) (\<lambda>created.
       tryS (sqlS (unregister_pg_cron_conn schema_name jid)) (\<lambda>_.
       tryS (sqlS (register_pg_cron_conn prefix schema_name (job_id created) cron_expr)) (\<lambda>_.
       tryS (sqlS tx_commit) (\<lambda>_.
       ok (json_response 200 (jdata (jobj
         [(''job_id'', JStr (job_id created)), (''endpoint'', JStr (job_endpoint created)),
          (''endpoint_type'', JStr (job_endpoint_type created)),
          (''trigger'', JStr (trigger_type created)), (''status'', JStr (job_status created)),
          (''version'', JInt (version created)),
          (''previous_version_id'', jstr_opt (previous_version_id created)),
          (''cron'', jstr_opt (cron_expression created)),
          (''timezone'', jstr_opt (cron_timezone created)),
          (''next_run_at'', jts_opt x (cron_next_run_at created)),
          (''input'', jval_opt (job_input created)),
          (''created_at'', jts x (job_created_at created))])))))))))"

definition handle_jobs_update ::
  "ext \<Rightarrow> bool \<Rightarrow> string \<Rightarrow> string \<Rightarrow> string \<Rightarrow> update_job \<Rightarrow> 'x handler" where
  "handle_jobs_update x overflow_checks prefix schema_name jid body =
     tryS (sqlS (scoped_connection schema_name)) (\<lambda>_.
     tryS (sqlS (jobs_get prefix jid)) (\<lambda>found.
     tryS (ok_orS found (JobNotFound jid)) (\<lambda>old_job.
     if trigger_type old_job \<noteq> ''CRON'' then err (JobNotUpdatable ''Only CRON jobs can be updated'')
     else if job_status old_job \<noteq> ''ACTIVE'' then err (JobNotUpdatable ''Job is not active'')
     else if endpoint_type_from_str (job_endpoint_type old_job) = Some INTERNAL then
       err (JobNotUpdatable ''Internal invokr jobs cannot be modified through the API'')
     else
       tryS (State_Monad.return (update_cron_expr x body old_job)) (\<lambda>cron_expr.
       let tz_str = update_timezone body old_job in
       tryS (State_Monad.return (to_schedule x cron_expr)) (\<lambda>schedule.
       if \<not> tz_parse x tz_str then err (InvalidRequest (''Invalid timezone: '' @ tz_str))
       else State_Monad.bind utc_now (\<lambda>now.
       tryS (ok_orS (compute_next_cron x schedule tz_str now) (InvalidCron ''No upcoming run'')) (\<lambda>next_run.
       tryS (State_Monad.return (arith_i64 overflow_checks (version old_job + 1))) (\<lambda>v.
       replace_job x prefix schema_name jid (new_version body old_job cron_expr tz_str next_run v)
         cron_expr))))))))"

section \<open>Cancelling\<close>

definition handle_jobs_cancel :: "ext \<Rightarrow> string \<Rightarrow> string \<Rightarrow> string \<Rightarrow> 'x handler" where
  "handle_jobs_cancel x prefix schema_name jid =
     tryS (sqlS (scoped_transaction schema_name)) (\<lambda>_.
     with_drop (
       tryS (sqlS (jobs_get prefix jid)) (\<lambda>found.
       tryS (ok_orS found (JobNotFound jid)) (\<lambda>job.
       if job_status job = ''RETIRED'' then err (Conflict ''Job is already retired'')
       else if endpoint_type_from_str (job_endpoint_type job) = Some INTERNAL then
         err (Conflict ''Internal invokr jobs cannot be cancelled through the API'')
       else
         tryS (if trigger_type job \<noteq> ''CRON''
               then tryS (sqlS (cancel_pending_for_job prefix jid)) (\<lambda>_. ok ()) else ok ()) (\<lambda>_.
         tryS (sqlS (jobs_cancel prefix jid)) (\<lambda>done'.
         tryS (ok_orS done' (Conflict ''Job could not be cancelled'')) (\<lambda>cancelled.
         tryS (if trigger_type job = ''CRON'' then sqlS (unregister_pg_cron_conn schema_name jid) else ok ()) (\<lambda>_.
         tryS (sqlS tx_commit) (\<lambda>_.
         ok (json_response 200 (jdata (job_summary x cancelled))))))))))))"

section \<open>Status, versions and executions\<close>

definition count_status :: "string list \<Rightarrow> execution_row list \<Rightarrow> nat" where
  "count_status sts es = length (filter (\<lambda>e. exec_status e \<in> set sts) es)"

definition job_health :: "execution_row list \<Rightarrow> string" where
  "job_health es =
     (let succeeded = count_status [''SUCCESS''] es; failed = count_status [''FAILED''] es in
      if es = [] then ''IDLE''
      else if failed > succeeded then ''FAILING''
      else if failed > 0 then ''DEGRADED''
      else ''HEALTHY'')"

definition job_status_json :: "ext \<Rightarrow> job_row \<Rightarrow> execution_row list \<Rightarrow> json" where
  "job_status_json x job es = jobj
     [(''job_id'', JStr (job_id job)), (''job_status'', JStr (job_status job)),
      (''latest_execution'', jopt (\<lambda>e. jobj
         [(''execution_id'', JStr (execution_id e)), (''status'', JStr (exec_status e)),
          (''attempt_count'', JInt (attempt_count e)), (''max_attempts'', JInt (exec_max_attempts e)),
          (''started_at'', jts_opt x (started_at e)), (''completed_at'', jts_opt x (completed_at e))])
         (first_row es)),
      (''endpoint'', JStr (job_endpoint job)), (''endpoint_type'', JStr (job_endpoint_type job)),
      (''trigger'', JStr (trigger_type job)), (''health'', JStr (job_health es)),
      (''version'', JInt (version job)),
      (''last_execution'', jopt (\<lambda>e. jobj
         [(''execution_id'', JStr (execution_id e)), (''status'', JStr (exec_status e)),
          (''started_at'', jts_opt x (started_at e)), (''completed_at'', jts_opt x (completed_at e)),
          (''attempt_number'', JInt (attempt_count e))])
         (List.find (\<lambda>e. exec_status e = ''SUCCESS'' \<or> exec_status e = ''FAILED'') es)),
      (''active_executions'', jobj
         [(''pending'', JInt (int (count_status [''PENDING'', ''QUEUED''] es))),
          (''running'', JInt (int (count_status [''RUNNING'', ''RETRYING''] es))),
          (''total'', JInt (int (count_status [''PENDING'', ''QUEUED'', ''RUNNING'', ''RETRYING''] es)))]),
      (''cron'', if trigger_type job = ''CRON'' then jobj
         [(''expression'', jstr_opt (cron_expression job)),
          (''next_run_at'', jts_opt x (cron_next_run_at job)),
          (''last_tick_at'', jts_opt x (cron_last_tick_at job))] else JNull)]"

definition handle_jobs_status :: "ext \<Rightarrow> string \<Rightarrow> string \<Rightarrow> string \<Rightarrow> 'x handler" where
  "handle_jobs_status x prefix schema_name jid =
     tryS (sqlS (scoped_connection schema_name)) (\<lambda>_.
     tryS (sqlS (jobs_get prefix jid)) (\<lambda>found.
     tryS (ok_orS found (JobNotFound jid)) (\<lambda>job.
     tryS (sqlS (list_for_job prefix jid None 200)) (\<lambda>execs.
     ok (json_response 200 (jdata (job_status_json x job execs)))))))"

text \<open>A version query that never returns is \<open>None\<close> of \<open>get_versions\<close>; it has no response.\<close>

definition handle_jobs_versions :: "ext \<Rightarrow> string \<Rightarrow> string \<Rightarrow> string \<Rightarrow> 'x handler" where
  "handle_jobs_versions x prefix schema_name jid =
     tryS (sqlS (scoped_connection schema_name)) (\<lambda>_.
     tryS (sqlS (jobs_get prefix jid)) (\<lambda>found.
     tryS (ok_orS found (JobNotFound jid)) (\<lambda>_.
     tryS (sqlS (get_versions prefix jid)) (\<lambda>versions.
     case versions of
       None \<Rightarrow> State_Monad.return (Panic ''the recursive query does not terminate'')
     | Some vs \<Rightarrow> ok (json_response 200 (jdata (JArr (map (job_summary x) vs))))))))"

definition execution_summary_json :: "ext \<Rightarrow> execution_row \<Rightarrow> json" where
  "execution_summary_json x e = jobj
     [(''execution_id'', JStr (execution_id e)), (''job_id'', JStr (exec_job_id e)),
      (''status'', JStr (exec_status e)), (''attempt_count'', JInt (attempt_count e)),
      (''max_attempts'', JInt (exec_max_attempts e)), (''input'', jval_opt (exec_input e)),
      (''output'', jval_opt (exec_output e)), (''run_at'', jts x (exec_run_at e)),
      (''started_at'', jts_opt x (started_at e)), (''completed_at'', jts_opt x (completed_at e)),
      (''created_at'', jts x (exec_created_at e))]"

definition handle_jobs_list_executions ::
  "ext \<Rightarrow> string \<Rightarrow> string \<Rightarrow> string \<Rightarrow> pagination_params \<Rightarrow> 'x handler" where
  "handle_jobs_list_executions x prefix schema_name jid params =
     tryS (sqlS (scoped_connection schema_name)) (\<lambda>_.
     tryS (sqlS (jobs_get prefix jid)) (\<lambda>found.
     tryS (ok_orS found (JobNotFound jid)) (\<lambda>_.
     let limit = effective_limit params; cursor = decode_cursor x params in
     tryS (sqlS (list_for_job prefix jid cursor (limit + 1))) (\<lambda>items.
     ok (page_response x execution_id (execution_summary_json x) limit items)))))"

section \<open>What the handlers keep\<close>

lemma keeps_case_trigger [keeps_intros]:
  "keeps I a \<Longrightarrow> keeps I b \<Longrightarrow> keeps I c \<Longrightarrow> keeps I (case_trigger_type a b c t)"
  by (cases t) auto

context api_invariant
begin

lemma keeps_check_job_input [keeps_intros]: "keeps (db_inv D) (check_job_input x prefix ep inp)"
  unfolding check_job_input_def by (intro keeps_intros)

lemma keeps_existing_job [keeps_intros]: "keeps (db_inv D) (existing_job prefix body)"
  unfolding existing_job_def by (intro keeps_intros)

lemma keeps_create_jobs [keeps_intros]:
  "keeps (db_inv D) (create_immediate_job x prefix schema_name body ep)"
  "keeps (db_inv D) (create_delayed_job x prefix schema_name body ep)"
  "keeps (db_inv D) (create_cron_job x prefix schema_name body ep)"
  unfolding create_immediate_job_def create_delayed_job_def create_cron_job_def
  by (intro keeps_intros)+

lemma keeps_handlers_jobs [keeps_intros]:
  "keeps (db_inv D) (handle_jobs_create x prefix schema_name cj)"
  "keeps (db_inv D) (handle_jobs_list x prefix schema_name params fs)"
  "keeps (db_inv D) (handle_jobs_get x prefix schema_name jid)"
  "keeps (db_inv D) (handle_jobs_cancel x prefix schema_name jid)"
  "keeps (db_inv D) (handle_jobs_status x prefix schema_name jid)"
  "keeps (db_inv D) (handle_jobs_versions x prefix schema_name jid)"
  "keeps (db_inv D) (handle_jobs_list_executions x prefix schema_name jid params)"
  unfolding handle_jobs_create_def handle_jobs_list_def handle_jobs_get_def handle_jobs_cancel_def handle_jobs_status_def handle_jobs_versions_def
    handle_jobs_list_executions_def Let_def
  by (intro keeps_intros)+

end

context update_invariant
begin

lemma keeps_handle_jobs_update [keeps_intros]: "keeps (db_inv D) (handle_jobs_update x c prefix schema_name jid uj)"
  unfolding handle_jobs_update_def replace_job_def Let_def by (intro keeps_intros)

end

end
