(* ===== verification/Handlers_Executions.thy ===== *)
theory Handlers_Executions
  imports Handlers_Catalog
begin

text \<open>\<open>handlers/executions.rs\<close> under \<open>crates/api/src\<close>: reading and cancelling one execution, and the
  attempts and logs it left.\<close>

definition execution_json :: "ext \<Rightarrow> execution_row \<Rightarrow> json" where
  "execution_json x e = jobj
     [(''execution_id'', JStr (execution_id e)), (''job_id'', JStr (exec_job_id e)),
      (''endpoint'', JStr (exec_endpoint e)), (''endpoint_type'', JStr (exec_endpoint_type e)),
      (''status'', JStr (exec_status e)), (''input'', jval_opt (exec_input e)),
      (''output'', jval_opt (exec_output e)), (''attempt_count'', JInt (attempt_count e)),
      (''max_attempts'', JInt (exec_max_attempts e)), (''worker_id'', jstr_opt (worker_id e)),
      (''run_at'', jts x (exec_run_at e)), (''started_at'', jts_opt x (started_at e)),
      (''completed_at'', jts_opt x (completed_at e)), (''duration_ms'', jint_opt (duration_ms e)),
      (''created_at'', jts x (exec_created_at e))]"

definition handle_executions_get :: "ext \<Rightarrow> string \<Rightarrow> string \<Rightarrow> string \<Rightarrow> 'x handler" where
  "handle_executions_get x prefix schema_name eid =
     tryS (sqlS (scoped_connection schema_name)) (\<lambda>_.
     tryS (sqlS (executions_get prefix eid)) (\<lambda>found.
     tryS (ok_orS found (ExecutionNotFound eid)) (\<lambda>exec.
     ok (json_response 200 (jdata (execution_json x exec))))))"

definition handle_executions_cancel :: "string \<Rightarrow> string \<Rightarrow> string \<Rightarrow> 'x handler" where
  "handle_executions_cancel prefix schema_name eid =
     tryS (sqlS (scoped_connection schema_name)) (\<lambda>_.
     tryS (sqlS (executions_get prefix eid)) (\<lambda>found.
     tryS (ok_orS found (ExecutionNotFound eid)) (\<lambda>exec.
     if exec_status exec = ''PENDING'' \<or> exec_status exec = ''QUEUED'' then
       tryS (sqlS (executions_cancel prefix eid)) (\<lambda>done'.
       tryS (ok_orS done' (ExecutionNotCancellable ''Could not cancel'')) (\<lambda>cancelled.
       ok (json_response 200 (jdata (jobj
         [(''execution_id'', JStr (execution_id cancelled)), (''status'', JStr (exec_status cancelled))])))))
     else err (ExecutionNotCancellable (''Execution is in '' @ exec_status exec @ '' state'')))))"

definition attempt_json :: "ext \<Rightarrow> attempt_row \<Rightarrow> json" where
  "attempt_json x a = jobj
     [(''attempt_id'', JStr (attempt_id a)), (''attempt_number'', JInt (attempt_number a)),
      (''status'', JStr (att_status a)), (''started_at'', jts x (att_started_at a)),
      (''completed_at'', jts_opt x (att_completed_at a)), (''duration_ms'', jint_opt (att_duration_ms a)),
      (''output'', jval_opt (att_output a)), (''error'', jval_opt (att_error a))]"

definition handle_list_attempts :: "ext \<Rightarrow> string \<Rightarrow> string \<Rightarrow> string \<Rightarrow> 'x handler" where
  "handle_list_attempts x prefix schema_name eid =
     tryS (sqlS (scoped_connection schema_name)) (\<lambda>_.
     tryS (sqlS (executions_get prefix eid)) (\<lambda>found.
     tryS (ok_orS found (ExecutionNotFound eid)) (\<lambda>_.
     tryS (sqlS (attempts_list_for_execution prefix eid)) (\<lambda>atts.
     ok (json_response 200 (jdata (JArr (map (attempt_json x) atts))))))))"

definition log_json :: "ext \<Rightarrow> log_row \<Rightarrow> json" where
  "log_json x l = jobj
     [(''log_id'', JStr (log_id l)), (''attempt_number'', JInt (log_attempt_number l)),
      (''level'', JStr (log_level l)), (''message'', JStr (log_message l)),
      (''logged_at'', jts x (logged_at l))]"

definition handle_list_logs :: "ext \<Rightarrow> string \<Rightarrow> string \<Rightarrow> string \<Rightarrow> 'x handler" where
  "handle_list_logs x prefix schema_name eid =
     tryS (sqlS (scoped_connection schema_name)) (\<lambda>_.
     tryS (sqlS (executions_get prefix eid)) (\<lambda>found.
     tryS (ok_orS found (ExecutionNotFound eid)) (\<lambda>_.
     tryS (sqlS (logs_list_for_execution prefix eid)) (\<lambda>logs.
     ok (json_response 200 (jdata (JArr (map (log_json x) logs))))))))"

context api_invariant
begin

lemma keeps_handlers_executions [keeps_intros]:
  "keeps (db_inv D) (handle_executions_get x prefix schema_name eid)"
  "keeps (db_inv D) (handle_executions_cancel prefix schema_name eid)"
  "keeps (db_inv D) (handle_list_attempts x prefix schema_name eid)"
  "keeps (db_inv D) (handle_list_logs x prefix schema_name eid)"
  unfolding handle_executions_get_def handle_executions_cancel_def handle_list_attempts_def
    handle_list_logs_def
  by (intro keeps_intros)+

end

end
