(* ===== verification/Control.thy ===== *)
theory Control
  imports Handlers_Catalog
begin

text \<open>
  The control plane: \<open>db/organizations.rs\<close> and \<open>db/workspaces.rs\<close> under \<open>crates/common/src\<close> and
  their handlers \<open>handlers/organizations.rs\<close> and \<open>handlers/workspaces.rs\<close> under \<open>crates/api/src\<close>.
  The tables of a tenant come into being with the last of the statements of \<open>workspace_v1.sql\<close>;
  all of them are \<open>IF NOT EXISTS\<close>, so a second run leaves existing tables alone.
\<close>

section \<open>Organizations\<close>

definition sql_organizations_create :: "string \<Rightarrow> string \<Rightarrow> org_row sql" where
  "sql_organizations_create name slug env d =
     (if \<exists>o' \<in> set (organizations d). org_id o' = env_uuid env then
        Err (Database UniqueViolation (Some ''pk_organizations''))
      else if \<exists>o' \<in> set (organizations d). org_slug o' = slug then
        Err (Database UniqueViolation (Some ''organizations_slug_key''))
      else
        let row = \<lparr>org_id = env_uuid env, org_name = name, org_slug = slug, org_status = ''ACTIVE'',
                   org_created_at = env_now env, org_updated_at = env_now env\<rparr>
        in Ok (row, d\<lparr>organizations := organizations d @ [row]\<rparr>))"

definition organizations_create :: "string \<Rightarrow> string \<Rightarrow> ('x, org_row) db_prog" where
  "organizations_create name slug = stmt (sql_organizations_create name slug)"

text \<open>\<open>WHERE org_id = $1 OR slug = $1 ORDER BY (org_id = $1) DESC LIMIT 1\<close>.\<close>

definition find_org :: "string \<Rightarrow> org_row list \<Rightarrow> org_row option" where
  "find_org org_ref orgs =
     first_row (sort_key (\<lambda>o'. org_id o' \<noteq> org_ref)
       (filter (\<lambda>o'. org_id o' = org_ref \<or> org_slug o' = org_ref) orgs))"

definition organizations_get :: "string \<Rightarrow> ('x, org_row option) db_prog" where
  "organizations_get org_ref = stmt (\<lambda>env d. Ok (find_org org_ref (organizations d), d))"

definition organizations_list :: "('x, org_row list) db_prog" where
  "organizations_list = stmt (\<lambda>env d.
     Ok (sort_key (\<lambda>o'. - org_created_at o') (filter (\<lambda>o'. org_status o' = ''ACTIVE'') (organizations d)), d))"

definition sql_organizations_update :: "string \<Rightarrow> string \<Rightarrow> org_row option sql" where
  "sql_organizations_update org_ref name env d =
     (case find_org org_ref (filter (\<lambda>o'. org_status o' = ''ACTIVE'') (organizations d)) of
        None \<Rightarrow> Ok (None, d)
      | Some target \<Rightarrow>
          let p = (\<lambda>o'. org_id o' = org_id target);
              f = (\<lambda>o'. o'\<lparr>org_name := name, org_updated_at := env_now env\<rparr>)
          in Ok (first_row (returning p f (organizations d)),
                 d\<lparr>organizations := update_rows p f (organizations d)\<rparr>))"

definition db_organizations_update :: "string \<Rightarrow> string \<Rightarrow> ('x, org_row option) db_prog" where
  "db_organizations_update org_ref name = stmt (sql_organizations_update org_ref name)"

section \<open>Workspaces\<close>

definition sql_workspaces_insert :: "string \<Rightarrow> string \<Rightarrow> string \<Rightarrow> string \<Rightarrow> workspace_row sql" where
  "sql_workspaces_insert oid name slug schema_name env d =
     (if \<exists>w \<in> set (workspaces d). workspace_id w = env_uuid env then
        Err (Database UniqueViolation (Some ''pk_workspaces''))
      else if \<exists>w \<in> set (workspaces d). ws_schema_name w = schema_name then
        Err (Database UniqueViolation (Some ''workspaces_schema_name_key''))
      else if \<exists>w \<in> set (workspaces d). ws_org_id w = oid \<and> ws_slug w = slug then
        Err (Database UniqueViolation (Some ''uq_workspace_slug''))
      else if \<not> (\<exists>o' \<in> set (organizations d). org_id o' = oid) then
        Err (Database ForeignKeyViolation (Some ''fk_workspaces_org''))
      else
        let row = \<lparr>workspace_id = env_uuid env, ws_org_id = oid, ws_name = name, ws_slug = slug,
                   ws_schema_name = schema_name, ws_status = ''ACTIVE'', ws_schema_version = 0,
                   ws_created_at = env_now env, ws_updated_at = env_now env\<rparr>
        in Ok (row, d\<lparr>workspaces := workspaces d @ [row]\<rparr>))"

text \<open>The non-empty pieces of \<open>workspace_v1.sql\<close> between semicolons.\<close>

definition ddl_statements :: nat where "ddl_statements = 21"

definition sql_create_tables :: "string \<Rightarrow> string \<Rightarrow> unit sql" where
  "sql_create_tables schema_name prefix env d =
     (if tenants d (schema_name, prefix) \<noteq> None then Ok ((), d)
      else Ok ((), d\<lparr>tenants := (tenants d)((schema_name, prefix) \<mapsto> empty_tenant)\<rparr>))"

fun run_ddl :: "string \<Rightarrow> string \<Rightarrow> nat \<Rightarrow> ('x, unit) db_prog" where
  "run_ddl schema_name prefix 0 = stmt (sql_create_tables schema_name prefix)"
| "run_ddl schema_name prefix (Suc n) =
     tryS (stmt (\<lambda>_ d. Ok ((), d))) (\<lambda>_. run_ddl schema_name prefix n)"

definition provision_schema :: "string \<Rightarrow> string \<Rightarrow> ('x, unit) db_prog" where
  "provision_schema schema_name prefix =
     tryS (stmt (\<lambda>_ d. Ok ((), d))) (\<lambda>_.
     tryS (scoped_connection schema_name) (\<lambda>_.
     tryS (run_ddl schema_name prefix (ddl_statements - 1)) (\<lambda>_.
     set_search_path ''public'')))"

definition reaper_endpoint_name :: string where "reaper_endpoint_name = ''invokr.reaper''"

definition reaper_spec :: json where "reaper_spec = jobj [(''task'', JStr ''reaper'')]"

definition sql_insert_reaper_endpoint :: "unit tsql" where
  "sql_insert_reaper_endpoint env t =
     bind_outcome (insert_endpoint []
       \<lparr>ep_name = reaper_endpoint_name, ep_type = endpoint_type_as_str INTERNAL,
        payload_spec_ref = None, config_ref = None, ep_spec = reaper_spec, ep_retry_policy = None,
        ep_created_at = env_now env, ep_updated_at = env_now env\<rparr> t) (\<lambda>(_, t'). Ok ((), t'))"

definition sql_insert_reaper_job :: "string \<Rightarrow> string tsql" where
  "sql_insert_reaper_job expr env t =
     bind_outcome (insert_job []
       ((job_defaults env reaper_endpoint_name (endpoint_type_as_str INTERNAL) (trigger_type_as_str CRON))
         \<lparr>cron_expression := Some expr, cron_timezone := Some ''UTC'',
          cron_next_run_at := Some (env_now env)\<rparr>) t) (\<lambda>(j, t'). Ok (job_id j, t'))"

definition provision_reaper :: "string \<Rightarrow> string \<Rightarrow> ('x, unit) db_prog" where
  "provision_reaper schema_name expr =
     tryS (scoped_transaction schema_name) (\<lambda>_.
     with_drop (
       tryS (tstmt [] sql_insert_reaper_endpoint) (\<lambda>_.
       tryS (tstmt [] (sql_insert_reaper_job expr)) (\<lambda>jid.
       tryS (register_pg_cron_conn [] schema_name jid expr) (\<lambda>_.
       tx_commit)))))"

definition sql_set_schema_version :: "string \<Rightarrow> unit sql" where
  "sql_set_schema_version wid env d =
     Ok ((), d\<lparr>workspaces := update_rows (\<lambda>w. workspace_id w = wid)
               (\<lambda>w. w\<lparr>ws_schema_version := 1\<rparr>) (workspaces d)\<rparr>)"

definition sql_workspaces_get :: "string \<Rightarrow> workspace_row option sql" where
  "sql_workspaces_get wid env d = Ok (List.find (\<lambda>w. workspace_id w = wid) (workspaces d), d)"

definition workspaces_create ::
  "string \<Rightarrow> string \<Rightarrow> string \<Rightarrow> string \<Rightarrow> string \<Rightarrow> ('x, workspace_row) db_prog" where
  "workspaces_create oid name slug schema_name reaper_cron =
     tryS (rust_assert (validate_schema_name schema_name) (''Invalid schema name: '' @ schema_name)) (\<lambda>_.
     tryS (stmt (sql_workspaces_insert oid name slug schema_name)) (\<lambda>workspace.
     tryS (provision_schema schema_name []) (\<lambda>_.
     tryS (provision_reaper schema_name reaper_cron) (\<lambda>_.
     tryS (stmt (sql_set_schema_version (workspace_id workspace))) (\<lambda>_.
     tryS (stmt (sql_workspaces_get (workspace_id workspace))) (\<lambda>row.
     ok_orS row RowNotFound))))))"

definition workspaces_get :: "string \<Rightarrow> ('x, workspace_row option) db_prog" where
  "workspaces_get wid = stmt (sql_workspaces_get wid)"

text \<open>The join of \<open>workspaces\<close> with \<open>organizations\<close>, the rows both references match, and the order
  that prefers exact ids.\<close>

definition org_ws_pairs :: "database \<Rightarrow> (org_row \<times> workspace_row) list" where
  "org_ws_pairs d =
     concat (map (\<lambda>w. map (\<lambda>o'. (o', w)) (filter (\<lambda>o'. org_id o' = ws_org_id w) (organizations d))) (workspaces d))"

definition resolve_pairs ::
  "string \<Rightarrow> string \<Rightarrow> (org_row \<times> workspace_row) list \<Rightarrow> workspace_row option" where
  "resolve_pairs org_ref ws_ref ps =
     map_option snd (first_row (sort_key (\<lambda>(o', w). (org_id o' \<noteq> org_ref, workspace_id w \<noteq> ws_ref))
       (filter (\<lambda>(o', w). (org_id o' = org_ref \<or> org_slug o' = org_ref) \<and>
                         (workspace_id w = ws_ref \<or> ws_slug w = ws_ref)) ps)))"

definition get_by_org_and_id :: "string \<Rightarrow> string \<Rightarrow> ('x, workspace_row option) db_prog" where
  "get_by_org_and_id org_ref ws_ref = stmt (\<lambda>env d. Ok (resolve_pairs org_ref ws_ref (org_ws_pairs d), d))"

definition list_for_org :: "string \<Rightarrow> ('x, workspace_row list) db_prog" where
  "list_for_org org_ref = stmt (\<lambda>env d.
     Ok (sort_key (\<lambda>w. - ws_created_at w) (map snd (filter (\<lambda>(o', w).
           (org_id o' = org_ref \<or> org_slug o' = org_ref) \<and> ws_status w = ''ACTIVE'') (org_ws_pairs d))), d))"

definition resolve_schema :: "string \<Rightarrow> string \<Rightarrow> ('x, string option) db_prog" where
  "resolve_schema org_ref ws_ref = stmt (\<lambda>env d.
     Ok (map_option ws_schema_name (resolve_pairs org_ref ws_ref
           (filter (\<lambda>(o', w). ws_status w = ''ACTIVE'') (org_ws_pairs d))), d))"

section \<open>Handlers\<close>

definition invalid_slug :: "string \<Rightarrow> app_error" where
  "invalid_slug slug = InvalidRequest (''Invalid slug '' @ quoted slug @
     '': must be 1-25 chars of lowercase letters, digits, and interior hyphens (no leading or trailing hyphen)'')"

definition org_not_found :: "string \<Rightarrow> app_error" where
  "org_not_found org_ref = OrgNotFound (''Organization '' @ org_ref @ '' not found'')"

definition org_fields :: "ext \<Rightarrow> org_row \<Rightarrow> (string \<times> json) list" where
  "org_fields x o' =
     [(''org_id'', JStr (org_id o')), (''name'', JStr (org_name o')), (''slug'', JStr (org_slug o')),
      (''status'', JStr (org_status o')), (''created_at'', jts x (org_created_at o'))]"

definition handle_organizations_create :: "ext \<Rightarrow> string \<Rightarrow> string \<Rightarrow> 'x handler" where
  "handle_organizations_create x name slug =
     (if \<not> validate_slug slug then err (invalid_slug slug)
      else
        tryS (map_errS (conflict_on_constraint (''Organization with slug '' @ quoted slug @ '' already exists''))
               (organizations_create name slug)) (\<lambda>o'.
        ok (json_response 201 (jdata (jobj (org_fields x o'))))))"

definition handle_organizations_list :: "ext \<Rightarrow> 'x handler" where
  "handle_organizations_list x =
     tryS (sqlS organizations_list) (\<lambda>orgs.
     ok (json_response 200 (jdata (JArr (map (\<lambda>o'. jobj (org_fields x o')) orgs)))))"

definition org_json :: "ext \<Rightarrow> org_row \<Rightarrow> json" where
  "org_json x o' = jobj (org_fields x o' @ [(''updated_at'', jts x (org_updated_at o'))])"

definition handle_organizations_get :: "ext \<Rightarrow> string \<Rightarrow> 'x handler" where
  "handle_organizations_get x oid =
     tryS (sqlS (organizations_get oid)) (\<lambda>found.
     tryS (ok_orS found (org_not_found oid)) (\<lambda>o'.
     ok (json_response 200 (jdata (org_json x o')))))"

definition handle_organizations_update :: "ext \<Rightarrow> string \<Rightarrow> string option \<Rightarrow> 'x handler" where
  "handle_organizations_update x oid name_opt =
     tryS (ok_orS name_opt (InvalidRequest ''name is required'')) (\<lambda>name.
     tryS (sqlS (db_organizations_update oid name)) (\<lambda>found.
     tryS (ok_orS found (org_not_found oid)) (\<lambda>o'.
     ok (json_response 200 (jdata (org_json x o'))))))"

definition workspace_fields :: "ext \<Rightarrow> workspace_row \<Rightarrow> (string \<times> json) list" where
  "workspace_fields x w =
     [(''workspace_id'', JStr (workspace_id w)), (''org_id'', JStr (ws_org_id w)),
      (''name'', JStr (ws_name w)), (''slug'', JStr (ws_slug w)),
      (''schema_name'', JStr (ws_schema_name w)), (''status'', JStr (ws_status w)),
      (''schema_version'', JInt (ws_schema_version w)), (''created_at'', jts x (ws_created_at w))]"

definition handle_workspaces_create ::
  "ext \<Rightarrow> string \<Rightarrow> string \<Rightarrow> string \<Rightarrow> string \<Rightarrow> 'x handler" where
  "handle_workspaces_create x reaper_cron org_ref name slug =
     (if \<not> validate_slug slug then err (invalid_slug slug)
      else
        tryS (sqlS (organizations_get org_ref)) (\<lambda>found.
        tryS (ok_orS found (org_not_found org_ref)) (\<lambda>o'.
        tryS (map_errS (conflict_on_constraint
                 (''Workspace with slug '' @ quoted slug @ '' already exists in this org''))
               (workspaces_create (org_id o') name slug (build_schema_name (org_id o') slug) reaper_cron)) (\<lambda>w.
        ok (json_response 201 (jdata (jobj (workspace_fields x w))))))))"

definition handle_workspaces_list :: "ext \<Rightarrow> string \<Rightarrow> 'x handler" where
  "handle_workspaces_list x oid =
     tryS (sqlS (organizations_get oid)) (\<lambda>found.
     tryS (ok_orS found (org_not_found oid)) (\<lambda>_.
     tryS (sqlS (list_for_org oid)) (\<lambda>ws.
     ok (json_response 200 (jdata (JArr (map (\<lambda>w. jobj (workspace_fields x w)) ws)))))))"

definition handle_workspaces_get :: "ext \<Rightarrow> string \<Rightarrow> string \<Rightarrow> 'x handler" where
  "handle_workspaces_get x oid wid =
     tryS (sqlS (get_by_org_and_id oid wid)) (\<lambda>found.
     tryS (ok_orS found (WorkspaceNotFound (''Workspace '' @ wid @ '' not found in org '' @ oid))) (\<lambda>w.
     ok (json_response 200 (jdata (jobj (workspace_fields x w @ [(''updated_at'', jts x (ws_updated_at w))]))))))"

section \<open>What the control plane keeps\<close>

lemma api_reaper_endpoint: "api_stmt sql_insert_reaper_endpoint"
  unfolding api_stmt_def sql_insert_reaper_endpoint_def
  by (auto simp: bind_outcome_Ok intro: tenant_step.intros)

lemma api_reaper_job: "api_stmt (sql_insert_reaper_job expr)"
  unfolding api_stmt_def sql_insert_reaper_job_def bind_outcome_Ok
  by (clarsimp, erule tenant_step.job_insert [rotated], simp add: job_defaults_def)

lemmas api_reaper = api_reaper_endpoint api_reaper_job

context api_invariant
begin

lemma keeps_control_stmts [keeps_intros]:
  "keeps (db_inv D) (organizations_create name slug)"
  "keeps (db_inv D) (organizations_get org_ref)"
  "keeps (db_inv D) organizations_list"
  "keeps (db_inv D) (db_organizations_update org_ref name)"
  "keeps (db_inv D) (stmt (sql_workspaces_insert oid name slug schema_name))"
  "keeps (db_inv D) (stmt (sql_set_schema_version wid))"
  "keeps (db_inv D) (workspaces_get wid)"
  "keeps (db_inv D) (stmt (sql_workspaces_get wid))"
  "keeps (db_inv D) (get_by_org_and_id org_ref ws_ref)"
  "keeps (db_inv D) (list_for_org org_ref)"
  "keeps (db_inv D) (resolve_schema org_ref ws_ref)"
  "keeps (db_inv D) (stmt (\<lambda>_ d. Ok ((), d)))"
  unfolding organizations_create_def organizations_get_def organizations_list_def
    db_organizations_update_def workspaces_get_def get_by_org_and_id_def list_for_org_def resolve_schema_def
  by (rule keeps_control_stmt,
      auto simp: sql_organizations_create_def sql_organizations_update_def sql_workspaces_insert_def
        sql_set_schema_version_def sql_workspaces_get_def Let_def split: if_splits option.splits)+

lemma keeps_create_tables [keeps_intros]: "keeps (db_inv D) (stmt (sql_create_tables schema_name prefix))"
  by (rule keeps_stmt, rule sql_keepsI)
    (auto simp: sql_create_tables_def simp flip: with_tenant_def split: if_splits
      intro: step db_step.new_tenant)

lemma keeps_run_ddl [keeps_intros]: "keeps (db_inv D) (run_ddl schema_name prefix n)"
  by (induction n) (auto intro!: keeps_intros)

lemma keeps_control [keeps_intros]:
  "keeps (db_inv D) (provision_schema schema_name prefix)"
  "keeps (db_inv D) (provision_reaper schema_name expr)"
  "keeps (db_inv D) (workspaces_create oid name slug schema_name expr)"
  unfolding provision_schema_def provision_reaper_def workspaces_create_def
  by (intro keeps_intros keeps_tstmt api_reaper)+

lemma keeps_handlers_control [keeps_intros]:
  "keeps (db_inv D) (handle_organizations_create x name slug)"
  "keeps (db_inv D) (handle_organizations_list x)"
  "keeps (db_inv D) (handle_organizations_get x org_ref)"
  "keeps (db_inv D) (handle_organizations_update x org_ref name_opt)"
  "keeps (db_inv D) (handle_workspaces_create x expr org_ref name slug)"
  "keeps (db_inv D) (handle_workspaces_list x org_ref)"
  "keeps (db_inv D) (handle_workspaces_get x org_ref ws_ref)"
  unfolding handle_organizations_create_def handle_organizations_list_def handle_organizations_get_def
    handle_organizations_update_def handle_workspaces_create_def handle_workspaces_list_def
    handle_workspaces_get_def
  by (intro keeps_intros)+

end

end
