(* ===== verification/Extractors.thy ===== *)
theory Extractors
  imports Control
begin

text \<open>
  What runs before a handler: \<open>crates/api/src/extractors.rs\<close> (the authentication proof, the workspace of a
  request, the filters of the jobs list).
\<close>

section \<open>Authentication\<close>

text \<open>A resolved caller, as far as the extractor looks at it: present or absent.\<close>

definition authenticated_request :: "'c option \<Rightarrow> ('c, http_response) outcome" where
  "authenticated_request caller = ok_or caller (json_response 401 (jobj [(''error'', jobj
     [(''code'', JStr ''UNAUTHORIZED''), (''message'', JStr ''Authentication required'')])]))"

section \<open>The workspace of a request\<close>

record workspace_context =
  wc_org_id :: string
  wc_workspace_id :: string
  wc_schema_name :: string

definition extractor_error :: "nat \<Rightarrow> string \<Rightarrow> string \<Rightarrow> http_response" where
  "extractor_error status code msg = json_response status (jobj [(''error'', jobj
     [(''code'', JStr code), (''message'', JStr msg)])])"

text \<open>\<open>stored\<close> is a context already put into the request extensions; the headers are absent when
  missing or not visible ASCII.\<close>

definition workspace_from_request ::
  "workspace_context option \<Rightarrow> string option \<Rightarrow> string option \<Rightarrow>
   ('x pg_scheme, workspace_context, http_response) prog" where
  "workspace_from_request stored org_header ws_header =
     (case stored of
        Some ctx \<Rightarrow> ok ctx
      | None \<Rightarrow> (case (org_header, ws_header) of
          (Some oid, Some wid) \<Rightarrow>
            tryS (map_errS (\<lambda>_. extractor_error 500 ''INTERNAL_ERROR'' ''Failed to resolve workspace'')
                    (resolve_schema oid wid)) (\<lambda>found.
            tryS (ok_orS found (extractor_error 404 ''WORKSPACE_NOT_FOUND''
                    (''Workspace '' @ wid @ '' not found in org '' @ oid))) (\<lambda>schema_name.
            ok \<lparr>wc_org_id = oid, wc_workspace_id = wid, wc_schema_name = schema_name\<rparr>))
        | _ \<Rightarrow> err (extractor_error 400 ''MISSING_WORKSPACE''
                 ''X-Org-Id and X-Workspace-Id headers are required'')))"

section \<open>Filters of the jobs list\<close>

definition blank_to_none :: "string option \<Rightarrow> string option" where
  "blank_to_none v = Option.bind v (\<lambda>s. if trim s = [] then None else Some (trim s))"

definition values_for :: "(string \<times> string) list \<Rightarrow> string \<Rightarrow> string list" where
  "values_for pairs key = map snd (filter (\<lambda>(k, _). k = key) pairs)"

definition last_scalar :: "(string \<times> string) list \<Rightarrow> string \<Rightarrow> string option" where
  "last_scalar pairs key =
     (let vs = List.map_filter (\<lambda>v. blank_to_none (Some v)) (values_for pairs key)
      in if vs = [] then None else Some (last vs))"

fun push_tokens ::
  "(string \<Rightarrow> 'a option) \<Rightarrow> string \<Rightarrow> string list \<Rightarrow> 'a list \<Rightarrow> ('a list, app_error) outcome" where
  "push_tokens parse label [] out = Ok out"
| "push_tokens parse label (token # ts) out =
     (let token = trim token in
      if token = [] then push_tokens parse label ts out
      else (case parse token of
          None \<Rightarrow> Err (InvalidRequest (''Invalid '' @ label @ '': '' @ token))
        | Some v \<Rightarrow> push_tokens parse label ts (if v \<in> set out then out else out @ [v])))"

fun push_values ::
  "(string \<Rightarrow> 'a option) \<Rightarrow> string \<Rightarrow> string list \<Rightarrow> 'a list \<Rightarrow> ('a list, app_error) outcome" where
  "push_values parse label [] out = Ok out"
| "push_values parse label (v # vs) out =
     bind_outcome (push_tokens parse label (split_char (CHR '','') v) out) (push_values parse label vs)"

definition parse_filter_list ::
  "(string \<times> string) list \<Rightarrow> string \<Rightarrow> (string \<Rightarrow> 'a option) \<Rightarrow> string \<Rightarrow> ('a list, app_error) outcome" where
  "parse_filter_list pairs key parse label = push_values parse label (values_for pairs key) []"

definition parse_datetime :: "ext \<Rightarrow> string option \<Rightarrow> string \<Rightarrow> (timestamp option, app_error) outcome" where
  "parse_datetime x v label =
     (case blank_to_none v of
        None \<Rightarrow> Ok None
      | Some s \<Rightarrow> (case parse_rfc3339 x s of
          None \<Rightarrow> Err (InvalidRequest (''Invalid '' @ label @ '': '' @ s))
        | Some t \<Rightarrow> Ok (Some t)))"

definition parse_job_filters :: "ext \<Rightarrow> (string \<times> string) list \<Rightarrow> (job_filters, app_error) outcome" where
  "parse_job_filters x pairs =
     bind_outcome (parse_datetime x (last_scalar pairs ''created_after'') ''created_after'') (\<lambda>created_after.
     bind_outcome (parse_datetime x (last_scalar pairs ''created_before'') ''created_before'') (\<lambda>created_before.
     if (case (created_after, created_before) of (Some a, Some b) \<Rightarrow> a > b | _ \<Rightarrow> False) then
       Err (InvalidRequest ''created_after must not be after created_before'')
     else
       bind_outcome (parse_filter_list pairs ''status'' job_status_from_str ''status'') (\<lambda>status.
       bind_outcome (parse_filter_list pairs ''trigger_type'' trigger_type_from_str ''trigger'') (\<lambda>trigger.
       bind_outcome (parse_filter_list pairs ''endpoint_type'' endpoint_type_from_str ''endpoint_type'') (\<lambda>etype.
       Ok \<lparr>f_job_id = last_scalar pairs ''job_id'', f_status = status, f_trigger = trigger,
           f_endpoint = last_scalar pairs ''endpoint'', f_endpoint_type = etype,
           f_created_after = created_after, f_created_before = created_before\<rparr>)))))"

text \<open>\<open>web::Query::from_query\<close> either yields the raw pairs or an error text.\<close>

definition job_filters_from_request ::
  "ext \<Rightarrow> ((string \<times> string) list, string) outcome \<Rightarrow> (job_filters, app_error) outcome" where
  "job_filters_from_request x query =
     bind_outcome (map_err (\<lambda>e. InvalidRequest (''Invalid query string: '' @ e)) query) (parse_job_filters x)"

section \<open>Laws\<close>

context api_invariant
begin

lemma keeps_workspace_from_request [keeps_intros]:
  "keeps (db_inv D) (workspace_from_request stored oh wh)"
  unfolding workspace_from_request_def by (intro keeps_intros)

end

text \<open>The tokens of a filter parameter: the non-blank pieces between commas of every value.\<close>

definition filter_tokens :: "string list \<Rightarrow> string list" where
  "filter_tokens vs = filter (\<lambda>t. t \<noteq> []) (map trim (concat (map (split_char (CHR '','')) vs)))"

fun add_new :: "'a list \<Rightarrow> 'a list \<Rightarrow> 'a list" where
  "add_new out [] = out"
| "add_new out (v # vs) = add_new (if v \<in> set out then out else out @ [v]) vs"

lemma add_new_append: "add_new out (us @ vs) = add_new (add_new out us) vs"
  by (induction us arbitrary: out) auto

lemma add_new_set: "set (add_new out vs) = set out \<union> set vs"
  by (induction vs arbitrary: out) auto

lemma add_new_distinct: "distinct out \<Longrightarrow> distinct (add_new out vs)"
  by (induction vs arbitrary: out) auto

lemma push_tokens_spec:
  "push_tokens parse label ts out = Ok out' \<longleftrightarrow>
     (\<exists>vs. map parse (filter (\<lambda>t. t \<noteq> []) (map trim ts)) = map Some vs \<and> out' = add_new out vs)"
proof (induction ts arbitrary: out)
  case (Cons t ts)
  show ?case
  proof (cases "trim t = [] \<or> parse (trim t) = None")
    case True
    then show ?thesis using Cons by (auto simp: Let_def)
  next
    case False
    then obtain v where v: "trim t \<noteq> []" "parse (trim t) = Some v" by auto
    then show ?thesis
      using Cons [of "if v \<in> set out then out else out @ [v]"]
      by (auto simp: Let_def Cons_eq_map_conv)
  qed
qed auto

lemma push_values_spec:
  "push_values parse label vs out = Ok out' \<longleftrightarrow>
     (\<exists>us. map parse (filter_tokens vs) = map Some us \<and> out' = add_new out us)"
proof (induction vs arbitrary: out)
  case (Cons v vs)
  show ?case
    unfolding push_values.simps bind_outcome_Ok push_tokens_spec Cons.IH
    by (auto simp: filter_tokens_def append_eq_map_conv add_new_append)
qed (auto simp: filter_tokens_def)

section \<open>Properties\<close>

text \<open>A list filter is accepted exactly when every non-blank token, over all occurrences of the
  parameter and all commas in them, is a valid name; the result has the values in the order of their
  first occurrence and none twice.\<close>

lemma filter_list_accepts:
  "parse_filter_list pairs key parse label = Ok out \<longleftrightarrow>
     (\<exists>vs. map parse (filter_tokens (values_for pairs key)) = map Some vs \<and> out = add_new [] vs \<and>
        set out = set vs \<and> distinct out)"
  unfolding parse_filter_list_def push_values_spec by (auto simp: add_new_set add_new_distinct)

end
