(* ===== verification/Library_Client.thy ===== *)
theory Library_Client
  imports Handlers_Catalog
begin

text \<open>
  \<open>InvokrLibraryClient\<close> of \<open>crates/worker/src/client.rs\<close>: the operations an embedding application
  calls. They run on a scoped connection without a transaction, so each statement commits by itself.
  An \<open>anyhow::Error\<close> is the database error it wraps or a message.
\<close>

datatype client_error = Db_Error sqlx_error | Message string

type_synonym ('x, 'a) client_prog = "('x pg_scheme, 'a, client_error) prog"

datatype job_trigger =
    Immediate
  | Delayed timestamp
  | Cron string string "timestamp option" "timestamp option" timestamp

abbreviation dbS :: "('x, 'a) db_prog \<Rightarrow> ('x, 'a) client_prog" where
  "dbS m \<equiv> map_errS Db_Error m"

definition client_new :: "string \<Rightarrow> (string, client_error) outcome" where
  "client_new table_prefix =
     (if \<not> validate_table_prefix table_prefix then
        Err (Message (''table_prefix '' @ quoted table_prefix
               @ '' is invalid: only alphanumeric and underscore allowed''))
      else Ok table_prefix)"

definition client_create_job ::
  "string \<Rightarrow> string \<Rightarrow> string \<Rightarrow> json \<Rightarrow> int \<Rightarrow> job_trigger \<Rightarrow> string option \<Rightarrow> ('x, string) client_prog" where
  "client_create_job prefix schema_name ep inp n trigger key =
     (let ikey = (case key of None \<Rightarrow> [] | Some k \<Rightarrow> k) in
      tryS (dbS (scoped_connection schema_name)) (\<lambda>_.
      tryS (dbS (db_endpoints_get prefix ep)) (\<lambda>found.
      tryS (ok_orS found (Message (''Endpoint '' @ quoted ep @ '' not found in schema ''
                                   @ quoted schema_name))) (\<lambda>e.
      case trigger of
        Immediate \<Rightarrow>
          tryS (dbS (create_immediate prefix ep (ep_type e) ikey (Some inp) n)) (\<lambda>r.
          ok (cjr_execution_id r))
      | Delayed run_at \<Rightarrow>
          tryS (dbS (create_delayed prefix ep (ep_type e) ikey (Some inp) run_at n)) (\<lambda>r.
          ok (cjr_execution_id r))
      | Cron expr tz starts ends first_run \<Rightarrow>
          tryS (dbS (create_cron prefix ep (ep_type e) key (Some inp) expr tz starts ends first_run)) (\<lambda>job.
          ok (job_id job))))))"

definition client_register_endpoint ::
  "string \<Rightarrow> string \<Rightarrow> string \<Rightarrow> string \<Rightarrow> json \<Rightarrow> json option \<Rightarrow> ('x, unit) client_prog" where
  "client_register_endpoint prefix schema_name name etype spec rp =
     tryS (dbS (scoped_connection schema_name)) (\<lambda>_.
     tryS (dbS (db_endpoints_get prefix name)) (\<lambda>existing.
     if existing = None then
       tryS (dbS (db_endpoints_create prefix name etype None None spec rp)) (\<lambda>_. ok ())
     else
       tryS (dbS (db_endpoints_update prefix name (Some spec) None None rp)) (\<lambda>_. ok ())))"

definition client_delete_endpoint :: "string \<Rightarrow> string \<Rightarrow> string \<Rightarrow> ('x, unit) client_prog" where
  "client_delete_endpoint prefix schema_name name =
     tryS (dbS (scoped_connection schema_name)) (\<lambda>_.
     tryS (dbS (db_endpoints_delete prefix name)) (\<lambda>_. ok ()))"

definition client_upsert_secret ::
  "ext \<Rightarrow> string \<Rightarrow> nat list \<Rightarrow> string \<Rightarrow> string \<Rightarrow> string \<Rightarrow> string \<Rightarrow> ('x, unit) client_prog" where
  "client_upsert_secret x key_hex nonce prefix schema_name name plaintext =
     tryS (State_Monad.return (map_err Message (encrypt x nonce plaintext key_hex))) (\<lambda>encrypted.
     tryS (dbS (scoped_connection schema_name)) (\<lambda>_.
     tryS (dbS (db_secrets_get prefix name)) (\<lambda>existing.
     if existing \<noteq> None then
       tryS (dbS (db_secrets_update prefix name encrypted)) (\<lambda>_. ok ())
     else
       tryS (dbS (db_secrets_create prefix name encrypted)) (\<lambda>_. ok ()))))"

definition client_delete_secret :: "string \<Rightarrow> string \<Rightarrow> string \<Rightarrow> ('x, unit) client_prog" where
  "client_delete_secret prefix schema_name name =
     tryS (dbS (scoped_connection schema_name)) (\<lambda>_.
     tryS (dbS (db_secrets_delete prefix name)) (\<lambda>_. ok ()))"

definition client_cancel_job :: "string \<Rightarrow> string \<Rightarrow> string \<Rightarrow> ('x, unit) client_prog" where
  "client_cancel_job prefix schema_name jid =
     tryS (dbS (scoped_connection schema_name)) (\<lambda>_.
     tryS (dbS (jobs_get prefix jid)) (\<lambda>found.
     tryS (ok_orS found (Message (''Job '' @ quoted jid @ '' not found''))) (\<lambda>job.
     tryS (if trigger_type job \<noteq> ''CRON''
           then tryS (dbS (cancel_pending_for_job prefix jid)) (\<lambda>_. ok ()) else ok ()) (\<lambda>_.
     tryS (dbS (jobs_cancel prefix jid)) (\<lambda>_.
     if trigger_type job = ''CRON'' then dbS (unregister_pg_cron schema_name jid) else ok ())))))"

definition client_get_execution ::
  "string \<Rightarrow> string \<Rightarrow> string \<Rightarrow> ('x, execution_row option) client_prog" where
  "client_get_execution prefix schema_name eid =
     tryS (dbS (scoped_connection schema_name)) (\<lambda>_. dbS (executions_get prefix eid))"

lemma keeps_case_job_trigger [keeps_intros]:
  "keeps I a \<Longrightarrow> (\<And>t. keeps I (b t)) \<Longrightarrow> (\<And>e z s n f. keeps I (c e z s n f)) \<Longrightarrow>
   keeps I (case_job_trigger a b c t)"
  by (cases t) auto

context api_invariant
begin

lemma keeps_client [keeps_intros]:
  "keeps (db_inv D) (client_create_job prefix schema_name ep inp n trigger key)"
  "keeps (db_inv D) (client_register_endpoint prefix schema_name name etype spec rp)"
  "keeps (db_inv D) (client_delete_endpoint prefix schema_name name)"
  "keeps (db_inv D) (client_upsert_secret x key_hex nonce prefix schema_name name plaintext)"
  "keeps (db_inv D) (client_delete_secret prefix schema_name name)"
  "keeps (db_inv D) (client_cancel_job prefix schema_name jid)"
  "keeps (db_inv D) (client_get_execution prefix schema_name eid)"
  unfolding client_create_job_def client_register_endpoint_def client_delete_endpoint_def
    client_upsert_secret_def client_delete_secret_def client_cancel_job_def client_get_execution_def Let_def
  by (intro keeps_intros)+

end

end
