(* ===== verification/Integrity.thy ===== *)
theory Integrity
  imports Steps
begin

text \<open>
  What every statement of the program keeps of the tables of a tenant. \<open>tenant_wf\<close> is the integrity
  the schema declares (keys, foreign keys, checks); \<open>tenant_le\<close> is the history of a tenant: jobs and
  executions are never deleted and keep their identity, finished executions and retired jobs never
  change again, statuses follow \<open>exec_step\<close>, attempts and logs are append-only. \<open>sound\<close> statements
  keep both, and \<open>good d0\<close> is what then holds of any run that began at the database \<open>d0\<close>.
\<close>

section \<open>Integrity\<close>

definition catalog_wf :: "tenant \<Rightarrow> bool" where
  "catalog_wf t \<longleftrightarrow>
     distinct (map ps_name (payload_specs t)) \<and> distinct (map cfg_name (configs t)) \<and>
     distinct (map sec_name (secrets t)) \<and> distinct (map ep_name (endpoints t)) \<and>
     (\<forall>e \<in> set (endpoints t). endpoint_type_valid (ep_type e) \<and> endpoint_refs_ok t e)"

definition keyed_jobs :: "job_row list \<Rightarrow> (string \<times> string option) list" where
  "keyed_jobs js = map (\<lambda>j. (job_endpoint j, job_idempotency_key j)) (filter (\<lambda>j. job_idempotency_key j \<noteq> None) js)"

definition jobs_wf :: "tenant \<Rightarrow> bool" where
  "jobs_wf t \<longleftrightarrow>
     distinct (map job_id (jobs t)) \<and> distinct (keyed_jobs (jobs t)) \<and>
     job_endpoint ` set (jobs t) \<subseteq> ep_name ` set (endpoints t) \<and>
     (\<forall>j \<in> set (jobs t). trigger_type j \<in> {''IMMEDIATE'', ''DELAYED'', ''CRON''} \<and>
        job_status j \<in> {''ACTIVE'', ''RETIRED''} \<and> endpoint_type_valid (job_endpoint_type j))"

definition keyed_executions :: "execution_row list \<Rightarrow> (string \<times> string option) list" where
  "keyed_executions es =
     map (\<lambda>e. (exec_job_id e, exec_idempotency_key e)) (filter (\<lambda>e. exec_idempotency_key e \<noteq> None) es)"

definition exec_status_valid :: "string \<Rightarrow> bool" where
  "exec_status_valid s \<longleftrightarrow>
     s \<in> {''PENDING'', ''QUEUED'', ''RUNNING'', ''RETRYING'', ''SUCCESS'', ''FAILED'', ''CANCELLED''}"

definition executions_wf :: "tenant \<Rightarrow> bool" where
  "executions_wf t \<longleftrightarrow>
     distinct (map execution_id (executions t)) \<and> distinct (keyed_executions (executions t)) \<and>
     exec_job_id ` set (executions t) \<subseteq> job_id ` set (jobs t) \<and>
     (\<forall>e \<in> set (executions t). exec_status_valid (exec_status e))"

definition attempts_wf :: "tenant \<Rightarrow> bool" where
  "attempts_wf t \<longleftrightarrow>
     distinct (map attempt_id (attempts t)) \<and>
     distinct (map (\<lambda>a. (att_execution_id a, attempt_number a)) (attempts t)) \<and>
     att_execution_id ` set (attempts t) \<subseteq> execution_id ` set (executions t) \<and>
     distinct (map log_id (execution_logs t)) \<and>
     log_execution_id ` set (execution_logs t) \<subseteq> execution_id ` set (executions t)"

definition tenant_wf :: "tenant \<Rightarrow> bool" where
  "tenant_wf t \<longleftrightarrow> catalog_wf t \<and> jobs_wf t \<and> executions_wf t \<and> attempts_wf t"

section \<open>History\<close>

inductive exec_step :: "string \<Rightarrow> string \<Rightarrow> bool" where
  claim_step: "s \<in> {''PENDING'', ''QUEUED'', ''RETRYING''} \<Longrightarrow> exec_step s ''RUNNING''"
| finish_step: "s \<in> {''SUCCESS'', ''FAILED'', ''RETRYING''} \<Longrightarrow> exec_step ''RUNNING'' s"
| cancel_step: "s \<in> {''PENDING'', ''QUEUED''} \<Longrightarrow> exec_step s ''CANCELLED''"

definition terminal :: "execution_row \<Rightarrow> bool" where
  "terminal e \<longleftrightarrow> exec_status e \<in> {''SUCCESS'', ''FAILED'', ''CANCELLED''}"

definition exec_le :: "execution_row \<Rightarrow> execution_row \<Rightarrow> bool" where
  "exec_le e e' \<longleftrightarrow>
     execution_id e' = execution_id e \<and> exec_job_id e' = exec_job_id e \<and>
     exec_endpoint e' = exec_endpoint e \<and> exec_endpoint_type e' = exec_endpoint_type e \<and>
     exec_idempotency_key e' = exec_idempotency_key e \<and> exec_input e' = exec_input e \<and>
     exec_max_attempts e' = exec_max_attempts e \<and> exec_created_at e' = exec_created_at e \<and>
     attempt_count e \<le> attempt_count e' \<and> exec_step\<^sup>*\<^sup>* (exec_status e) (exec_status e') \<and>
     (terminal e \<longrightarrow> e' = e)"

definition job_le :: "job_row \<Rightarrow> job_row \<Rightarrow> bool" where
  "job_le j j' \<longleftrightarrow>
     j' = j\<lparr>job_status := job_status j', retired_at := retired_at j', replaced_by_id := replaced_by_id j'\<rparr> \<and>
     (job_status j = ''RETIRED'' \<longrightarrow> j' = j)"

text \<open>A table whose rows only evolve along \<open>le\<close> and which only grows at its end.\<close>

definition table_le :: "('r \<Rightarrow> 'r \<Rightarrow> bool) \<Rightarrow> 'r list \<Rightarrow> 'r list \<Rightarrow> bool" where
  "table_le le xs ys \<longleftrightarrow> (\<exists>zs ws. ys = zs @ ws \<and> list_all2 le xs zs)"

definition tenant_le :: "tenant \<Rightarrow> tenant \<Rightarrow> bool" where
  "tenant_le t t' \<longleftrightarrow>
     table_le job_le (jobs t) (jobs t') \<and> table_le exec_le (executions t) (executions t') \<and>
     table_le (=) (attempts t) (attempts t') \<and> table_le (=) (execution_logs t) (execution_logs t')"

definition db_le :: "database \<Rightarrow> database \<Rightarrow> bool" where
  "db_le d d' \<longleftrightarrow> (\<forall>k t. tenants d k = Some t \<longrightarrow> (\<exists>t'. tenants d' k = Some t' \<and> tenant_le t t'))"

definition good :: "database \<Rightarrow> database \<Rightarrow> bool" where
  "good d0 d \<longleftrightarrow> all_tenants tenant_wf d \<and> db_le d0 d"

definition sound :: "'a tsql \<Rightarrow> bool" where
  "sound g \<longleftrightarrow> (\<forall>env t a t'. tenant_wf t \<longrightarrow> g env t = Ok (a, t') \<longrightarrow> tenant_wf t' \<and> tenant_le t t')"

section \<open>The order\<close>

lemma exec_step_terminal: "exec_step s s' \<Longrightarrow> s \<notin> {''SUCCESS'', ''FAILED'', ''CANCELLED''}"
  by (induction rule: exec_step.induct) auto

lemma exec_le_refl [simp]: "exec_le e e"
  by (simp add: exec_le_def)

lemma exec_le_trans: "exec_le a b \<Longrightarrow> exec_le b c \<Longrightarrow> exec_le a c"
  unfolding exec_le_def by (auto intro: rtranclp_trans)

lemma job_le_refl [simp]: "job_le j j"
  by (simp add: job_le_def)

lemma job_le_trans: "job_le a b \<Longrightarrow> job_le b c \<Longrightarrow> job_le a c"
  unfolding job_le_def by (cases a; cases b; cases c) auto

lemma table_leI: "list_all2 le xs zs \<Longrightarrow> table_le le xs (zs @ ws)"
  by (auto simp: table_le_def)

lemma table_leE:
  assumes "table_le le xs ys"
  obtains zs ws where "ys = zs @ ws" and "list_all2 le xs zs"
  using assms by (auto simp: table_le_def)

lemma table_le_refl: "(\<And>x. le x x) \<Longrightarrow> table_le le xs xs"
  using table_leI [of le xs xs "[]"] by (simp add: list_all2_refl)

lemma table_le_append: "(\<And>x. le x x) \<Longrightarrow> table_le le xs (xs @ ws)"
  by (rule table_leI) (simp add: list_all2_refl)

lemma table_le_update:
  assumes "\<And>x. le x x" and "\<And>x. x \<in> set xs \<Longrightarrow> p x \<Longrightarrow> le x (f x)"
  shows "table_le le xs (update_rows p f xs)"
  using table_leI [of le xs "update_rows p f xs" "[]"] assms
  by (auto simp: update_rows_def list_all2_conv_all_nth)

lemma table_le_trans:
  assumes "\<And>x y z. le x y \<Longrightarrow> le y z \<Longrightarrow> le x z" and "table_le le xs ys" and "table_le le ys zs"
  shows "table_le le xs zs"
proof -
  from assms(2) obtain y1 y2 where y: "ys = y1 @ y2" "list_all2 le xs y1" by (rule table_leE)
  from assms(3) y(1) obtain u w where z: "zs = u @ w" "list_all2 le (y1 @ y2) u" by (metis table_leE)
  from z(2) obtain u1 u2 where u: "u = u1 @ u2" "list_all2 le y1 u1"
    by (auto simp: list_all2_append1)
  have "list_all2 le xs u1" using y(2) u(2) assms(1) by (rule list_all2_trans [rotated]) auto
  with z(1) u(1) show ?thesis by (metis append.assoc table_leI)
qed

lemma table_le_mem:
  assumes "table_le le xs ys" and "x \<in> set xs"
  shows "\<exists>y. y \<in> set ys \<and> le x y"
  using assms by (elim table_leE) (auto simp: list_all2_conv_all_nth in_set_conv_nth)

lemma tenant_le_refl: "tenant_le t t"
  by (simp add: tenant_le_def table_le_refl)

lemma tenant_le_trans: "tenant_le a b \<Longrightarrow> tenant_le b c \<Longrightarrow> tenant_le a c"
  unfolding tenant_le_def
  using table_le_trans [of job_le] table_le_trans [of exec_le] table_le_trans [of "(=)"]
    job_le_trans exec_le_trans by (metis (mono_tags, lifting))

lemma db_le_refl: "db_le d d"
  by (auto simp: db_le_def tenant_le_refl)

lemma db_le_trans: "db_le a b \<Longrightarrow> db_le b c \<Longrightarrow> db_le a c"
  unfolding db_le_def by (meson tenant_le_trans)

section \<open>Sound statements\<close>

lemma soundI:
  "(\<And>env t a t'. tenant_wf t \<Longrightarrow> g env t = Ok (a, t') \<Longrightarrow> tenant_wf t' \<and> tenant_le t t') \<Longrightarrow> sound g"
  by (auto simp: sound_def)

text \<open>The tables other than the catalog are untouched.\<close>

lemma tenant_le_catalog:
  assumes "jobs t' = jobs t" "executions t' = executions t" "attempts t' = attempts t"
    "execution_logs t' = execution_logs t"
  shows "tenant_le t t'"
  using tenant_le_refl [of t] assms by (simp add: tenant_le_def)

lemma wf_catalog_change:
  assumes "tenant_wf t" and "catalog_wf t'" and "job_endpoint ` set (jobs t) \<subseteq> ep_name ` set (endpoints t')"
    and "jobs t' = jobs t" "executions t' = executions t" "attempts t' = attempts t"
    "execution_logs t' = execution_logs t"
  shows "tenant_wf t' \<and> tenant_le t t'"
  using assms tenant_le_catalog [of t' t]
  by (simp add: tenant_wf_def jobs_wf_def executions_wf_def attempts_wf_def)

lemma catalog_wf_specs:
  assumes "catalog_wf t" and "distinct (map ps_name rows)"
    and "\<And>n. n \<in> ps_name ` set (payload_specs t) \<Longrightarrow>
      (\<exists>e \<in> set (endpoints t). payload_spec_ref e = Some n) \<Longrightarrow> n \<in> ps_name ` set rows"
  shows "catalog_wf (t\<lparr>payload_specs := rows\<rparr>)"
  using assms unfolding catalog_wf_def endpoint_refs_ok_def ref_ok_def
  by (fastforce split: option.splits)

lemma catalog_wf_configs:
  assumes "catalog_wf t" and "distinct (map cfg_name rows)"
    and "\<And>n. n \<in> cfg_name ` set (configs t) \<Longrightarrow>
      (\<exists>e \<in> set (endpoints t). config_ref e = Some n) \<Longrightarrow> n \<in> cfg_name ` set rows"
  shows "catalog_wf (t\<lparr>configs := rows\<rparr>)"
  using assms unfolding catalog_wf_def endpoint_refs_ok_def ref_ok_def
  by (fastforce split: option.splits)

lemma sound_payload_specs:
  "sound (sql_payload_specs_create prefix name schema)" "sound (sql_payload_specs_update name schema)"
  "sound (sql_payload_specs_delete prefix name)"
proof -
  show "sound (sql_payload_specs_create prefix name schema)"
  proof (rule soundI)
    fix env t a t'
    assume wf: "tenant_wf t" and run: "sql_payload_specs_create prefix name schema env t = Ok (a, t')"
    let ?rows = "payload_specs t @ [a]"
    from run have t': "t' = t\<lparr>payload_specs := ?rows\<rparr>" and new: "ps_name a \<notin> ps_name ` set (payload_specs t)"
      by (auto simp: sql_payload_specs_create_def Let_def split: if_splits)
    have "catalog_wf t'" unfolding t'
      by (rule catalog_wf_specs) (use wf new in \<open>auto simp: tenant_wf_def catalog_wf_def\<close>)
    then show "tenant_wf t' \<and> tenant_le t t'"
      by (rule wf_catalog_change [OF wf]) (use wf in \<open>simp_all add: t' tenant_wf_def jobs_wf_def\<close>)
  qed
  show "sound (sql_payload_specs_update name schema)"
  proof (rule soundI)
    fix env t a t'
    assume wf: "tenant_wf t" and run: "sql_payload_specs_update name schema env t = Ok (a, t')"
    let ?rows = "update_rows (\<lambda>r. ps_name r = name)
      (\<lambda>r. r\<lparr>schema_json := schema, ps_updated_at := env_now env\<rparr>) (payload_specs t)"
    have keys: "map ps_name ?rows = map ps_name (payload_specs t)" by (rule update_rows_keys) simp
    from run have t': "t' = t\<lparr>payload_specs := ?rows\<rparr>"
      by (auto simp: sql_payload_specs_update_def Let_def)
    have "catalog_wf t'" unfolding t'
      by (rule catalog_wf_specs) (use wf keys in \<open>auto simp: tenant_wf_def catalog_wf_def simp flip: set_map\<close>)
    then show "tenant_wf t' \<and> tenant_le t t'"
      by (rule wf_catalog_change [OF wf]) (use wf in \<open>simp_all add: t' tenant_wf_def jobs_wf_def\<close>)
  qed
  show "sound (sql_payload_specs_delete prefix name)"
  proof (rule soundI)
    fix env t a t'
    assume wf: "tenant_wf t" and run: "sql_payload_specs_delete prefix name env t = Ok (a, t')"
    let ?rows = "filter (\<lambda>r. ps_name r \<noteq> name) (payload_specs t)"
    from run have t': "t' = t\<lparr>payload_specs := ?rows\<rparr>"
      and free: "\<forall>e \<in> set (endpoints t). payload_spec_ref e \<noteq> Some name"
      by (auto simp: sql_payload_specs_delete_def split: if_splits)
    have "catalog_wf t'" unfolding t'
      by (rule catalog_wf_specs)
        (use wf free in \<open>auto simp: tenant_wf_def catalog_wf_def distinct_map_filter\<close>)
    then show "tenant_wf t' \<and> tenant_le t t'"
      by (rule wf_catalog_change [OF wf]) (use wf in \<open>simp_all add: t' tenant_wf_def jobs_wf_def\<close>)
  qed
qed

lemma sound_configs:
  "sound (sql_configs_create prefix name vals)" "sound (sql_configs_update name vals)"
  "sound (sql_configs_delete prefix name)"
proof -
  show "sound (sql_configs_create prefix name vals)"
  proof (rule soundI)
    fix env t a t'
    assume wf: "tenant_wf t" and run: "sql_configs_create prefix name vals env t = Ok (a, t')"
    let ?rows = "configs t @ [a]"
    from run have t': "t' = t\<lparr>configs := ?rows\<rparr>" and new: "cfg_name a \<notin> cfg_name ` set (configs t)"
      by (auto simp: sql_configs_create_def Let_def split: if_splits)
    have "catalog_wf t'" unfolding t'
      by (rule catalog_wf_configs) (use wf new in \<open>auto simp: tenant_wf_def catalog_wf_def\<close>)
    then show "tenant_wf t' \<and> tenant_le t t'"
      by (rule wf_catalog_change [OF wf]) (use wf in \<open>simp_all add: t' tenant_wf_def jobs_wf_def\<close>)
  qed
  show "sound (sql_configs_update name vals)"
  proof (rule soundI)
    fix env t a t'
    assume wf: "tenant_wf t" and run: "sql_configs_update name vals env t = Ok (a, t')"
    let ?rows = "update_rows (\<lambda>r. cfg_name r = name)
      (\<lambda>r. r\<lparr>values_json := vals, cfg_updated_at := env_now env\<rparr>) (configs t)"
    have keys: "map cfg_name ?rows = map cfg_name (configs t)" by (rule update_rows_keys) simp
    from run have t': "t' = t\<lparr>configs := ?rows\<rparr>"
      by (auto simp: sql_configs_update_def Let_def)
    have "catalog_wf t'" unfolding t'
      by (rule catalog_wf_configs) (use wf keys in \<open>auto simp: tenant_wf_def catalog_wf_def simp flip: set_map\<close>)
    then show "tenant_wf t' \<and> tenant_le t t'"
      by (rule wf_catalog_change [OF wf]) (use wf in \<open>simp_all add: t' tenant_wf_def jobs_wf_def\<close>)
  qed
  show "sound (sql_configs_delete prefix name)"
  proof (rule soundI)
    fix env t a t'
    assume wf: "tenant_wf t" and run: "sql_configs_delete prefix name env t = Ok (a, t')"
    let ?rows = "filter (\<lambda>r. cfg_name r \<noteq> name) (configs t)"
    from run have t': "t' = t\<lparr>configs := ?rows\<rparr>"
      and free: "\<forall>e \<in> set (endpoints t). config_ref e \<noteq> Some name"
      by (auto simp: sql_configs_delete_def split: if_splits)
    have "catalog_wf t'" unfolding t'
      by (rule catalog_wf_configs)
        (use wf free in \<open>auto simp: tenant_wf_def catalog_wf_def distinct_map_filter\<close>)
    then show "tenant_wf t' \<and> tenant_le t t'"
      by (rule wf_catalog_change [OF wf]) (use wf in \<open>simp_all add: t' tenant_wf_def jobs_wf_def\<close>)
  qed
qed

lemma sound_secrets_change:
  assumes "\<And>env t a t'. g env t = Ok (a, t') \<Longrightarrow> t' = t\<lparr>secrets := secrets t'\<rparr>"
    and "\<And>env t a t'. g env t = Ok (a, t') \<Longrightarrow> distinct (map sec_name (secrets t)) \<Longrightarrow>
      distinct (map sec_name (secrets t'))"
  shows "sound g"
proof (rule soundI)
  fix env t a t'
  assume wf: "tenant_wf t" and run: "g env t = Ok (a, t')"
  define rows where "rows = secrets t'"
  have t': "t' = t\<lparr>secrets := rows\<rparr>" using assms(1) [OF run] by (simp add: rows_def)
  have "distinct (map sec_name rows)"
    using wf assms(2) [OF run] by (simp add: rows_def tenant_wf_def catalog_wf_def)
  then have "catalog_wf t'"
    using wf by (simp add: t' tenant_wf_def catalog_wf_def endpoint_refs_ok_def)
  then show "tenant_wf t' \<and> tenant_le t t'"
    by (rule wf_catalog_change [OF wf]) (use wf in \<open>simp_all add: t' tenant_wf_def jobs_wf_def\<close>)
qed

lemma sound_secrets:
  "sound (sql_secrets_create prefix name v)" "sound (sql_secrets_update name v)"
  "sound (sql_secrets_delete name)"
proof -
  show "sound (sql_secrets_create prefix name v)"
    by (rule sound_secrets_change)
      (auto simp: sql_secrets_create_def Let_def split: if_splits)
  show "sound (sql_secrets_update name v)"
    by (rule sound_secrets_change)
      (auto simp: sql_secrets_update_def Let_def update_rows_keys)
  show "sound (sql_secrets_delete name)"
    by (rule sound_secrets_change)
      (auto simp: sql_secrets_delete_def distinct_map_filter)
qed

lemma wf_insert_endpoint:
  assumes wf: "tenant_wf t" and run: "insert_endpoint prefix row t = Ok (a, t')"
  shows "tenant_wf t' \<and> tenant_le t t'"
proof -
  from run have t': "t' = t\<lparr>endpoints := endpoints t @ [a]\<rparr>" and none: "endpoint_violation prefix t a = None"
    by (auto simp: insert_endpoint_def split: option.splits)
  have "catalog_wf t'"
    using wf none unfolding t' tenant_wf_def catalog_wf_def endpoint_violation_def endpoint_refs_ok_def
    by (auto split: if_splits)
  then show ?thesis
    by (rule wf_catalog_change [OF wf]) (use wf in \<open>auto simp: t' tenant_wf_def jobs_wf_def\<close>)
qed

lemma sound_endpoints:
  "sound (sql_endpoints_create prefix name etype ps cfg spec rp)"
  "sound (sql_endpoints_update prefix name spec' cfg ps rp)"
  "sound (sql_endpoints_delete prefix name)"
proof -
  show "sound (sql_endpoints_create prefix name etype ps cfg spec rp)"
    by (rule soundI) (auto simp: sql_endpoints_create_def dest: wf_insert_endpoint)
  show "sound (sql_endpoints_update prefix name spec' cfg ps rp)"
  proof (rule soundI)
    fix env t a t'
    assume wf: "tenant_wf t" and run: "sql_endpoints_update prefix name spec' cfg ps rp env t = Ok (a, t')"
    let ?f = "\<lambda>r. r\<lparr>ep_spec := (case spec' of None \<Rightarrow> ep_spec r | Some v \<Rightarrow> v),
      config_ref := coalesce cfg (config_ref r), payload_spec_ref := coalesce ps (payload_spec_ref r),
      ep_retry_policy := coalesce rp (ep_retry_policy r), ep_updated_at := env_now env\<rparr>"
    let ?rows = "update_rows (\<lambda>r. ep_name r = name) ?f (endpoints t)"
    from run have t': "t' = t\<lparr>endpoints := ?rows\<rparr>"
      and refs: "\<forall>r \<in> set ?rows. ref_ok ps_name (payload_specs t) (payload_spec_ref r) \<and>
        ref_ok cfg_name (configs t) (config_ref r)"
      by (auto simp: sql_endpoints_update_def Let_def split: if_splits)
    have keys: "map ep_name ?rows = map ep_name (endpoints t)" by (rule update_rows_keys) simp
    have "\<forall>r \<in> set ?rows. endpoint_type_valid (ep_type r)"
      using wf by (auto simp: tenant_wf_def catalog_wf_def set_update_rows)
    with wf refs keys have "catalog_wf t'"
      by (simp add: t' tenant_wf_def catalog_wf_def endpoint_refs_ok_def)
    moreover have "ep_name ` set ?rows = ep_name ` set (endpoints t)"
      using keys by (metis set_map)
    then have "job_endpoint ` set (jobs t) \<subseteq> ep_name ` set (endpoints t')"
      using wf by (simp add: t' tenant_wf_def jobs_wf_def)
    ultimately show "tenant_wf t' \<and> tenant_le t t'"
      by (rule wf_catalog_change [OF wf]) (simp_all add: t')
  qed
  show "sound (sql_endpoints_delete prefix name)"
  proof (rule soundI)
    fix env t a t'
    assume wf: "tenant_wf t" and run: "sql_endpoints_delete prefix name env t = Ok (a, t')"
    let ?rows = "filter (\<lambda>r. ep_name r \<noteq> name) (endpoints t)"
    from run have t': "t' = t\<lparr>endpoints := ?rows\<rparr>" and free: "\<forall>j \<in> set (jobs t). job_endpoint j \<noteq> name"
      by (auto simp: sql_endpoints_delete_def split: if_splits)
    have "catalog_wf t'"
      using wf by (auto simp: t' tenant_wf_def catalog_wf_def endpoint_refs_ok_def distinct_map_filter)
    moreover have "job_endpoint ` set (jobs t) \<subseteq> ep_name ` set (endpoints t) - {name}"
      using wf free by (simp add: tenant_wf_def jobs_wf_def image_subset_iff)
    then have "job_endpoint ` set (jobs t) \<subseteq> ep_name ` set (endpoints t')"
      by (rule subset_trans) (auto simp: t')
    ultimately show "tenant_wf t' \<and> tenant_le t t'"
      by (rule wf_catalog_change [OF wf]) (simp_all add: t')
  qed
qed

subsection \<open>Jobs\<close>

lemma update_rows_map:
  "(\<And>x. x \<in> set xs \<Longrightarrow> p x \<Longrightarrow> key (f x) = key x) \<Longrightarrow> map key (update_rows p f xs) = map key xs"
  by (simp add: update_rows_def)

lemma update_rows_filter_map:
  "(\<And>x. x \<in> set xs \<Longrightarrow> p x \<Longrightarrow> key (f x) = key x \<and> q (f x) = q x) \<Longrightarrow>
   map key (filter q (update_rows p f xs)) = map key (filter q xs)"
  by (induction xs) (auto simp: update_rows_def)

lemma wf_update_jobs:
  assumes wf: "tenant_wf t"
    and f: "\<And>j. j \<in> set (jobs t) \<Longrightarrow> p j \<Longrightarrow> job_le j (f j) \<and> job_status (f j) \<in> {''ACTIVE'', ''RETIRED''}"
  shows "tenant_wf (t\<lparr>jobs := update_rows p f (jobs t)\<rparr>) \<and> tenant_le t (t\<lparr>jobs := update_rows p f (jobs t)\<rparr>)"
proof -
  let ?js = "update_rows p f (jobs t)"
  have same: "job_id (f j) = job_id j \<and> job_endpoint (f j) = job_endpoint j \<and>
      job_idempotency_key (f j) = job_idempotency_key j \<and> trigger_type (f j) = trigger_type j \<and>
      job_endpoint_type (f j) = job_endpoint_type j" if "j \<in> set (jobs t)" "p j" for j
    using f [OF that] by (cases j; cases "f j") (auto simp: job_le_def)
  have ids: "map job_id ?js = map job_id (jobs t)" and eps: "map job_endpoint ?js = map job_endpoint (jobs t)"
    using same by (simp_all add: update_rows_map)
  have keyed: "keyed_jobs ?js = keyed_jobs (jobs t)"
    unfolding keyed_jobs_def by (rule update_rows_filter_map) (simp add: same)
  have checks: "\<forall>j \<in> set ?js. trigger_type j \<in> {''IMMEDIATE'', ''DELAYED'', ''CRON''} \<and>
      job_status j \<in> {''ACTIVE'', ''RETIRED''} \<and> endpoint_type_valid (job_endpoint_type j)"
    using wf same f by (auto simp: tenant_wf_def jobs_wf_def update_rows_def)
  have sets: "job_id ` set ?js = job_id ` set (jobs t)" "job_endpoint ` set ?js = job_endpoint ` set (jobs t)"
    using ids eps by (metis set_map)+
  have "tenant_wf (t\<lparr>jobs := ?js\<rparr>)"
    using wf ids keyed checks sets
    by (simp add: tenant_wf_def catalog_wf_def jobs_wf_def executions_wf_def attempts_wf_def endpoint_refs_ok_def)
  moreover have "tenant_le t (t\<lparr>jobs := ?js\<rparr>)"
    using f by (simp add: tenant_le_def table_le_refl table_le_update)
  ultimately show ?thesis ..
qed

lemma wf_insert_job:
  assumes wf: "tenant_wf t" and run: "insert_job prefix j t = Ok (a, t')"
  shows "tenant_wf t' \<and> tenant_le t t'"
proof -
  from run have t': "t' = t\<lparr>jobs := jobs t @ [j]\<rparr>" and ok: "job_violation prefix t j = None"
    by (auto simp: insert_job_def split: option.splits)
  from ok have new: "job_id j \<notin> job_id ` set (jobs t)" and ep: "job_endpoint j \<in> ep_name ` set (endpoints t)"
    and checks: "trigger_type j \<in> {''IMMEDIATE'', ''DELAYED'', ''CRON''}"
      "job_status j \<in> {''ACTIVE'', ''RETIRED''}" "endpoint_type_valid (job_endpoint_type j)"
    and key: "job_idempotency_key j \<noteq> None \<Longrightarrow> (job_endpoint j, job_idempotency_key j) \<notin> set (keyed_jobs (jobs t))"
    by (auto simp: job_violation_def keyed_jobs_def split: if_splits intro: rev_image_eqI)
  have "distinct (keyed_jobs (jobs t @ [j]))"
    using wf key by (auto simp: tenant_wf_def jobs_wf_def keyed_jobs_def)
  then have "tenant_wf t'"
    using wf new ep checks
    by (auto simp: t' tenant_wf_def catalog_wf_def jobs_wf_def executions_wf_def attempts_wf_def
        endpoint_refs_ok_def)
  moreover have "tenant_le t t'" by (simp add: t' tenant_le_def table_le_refl table_le_append)
  ultimately show ?thesis ..
qed

lemma job_le_retire:
  "job_status j = ''ACTIVE'' \<Longrightarrow> job_le j (j\<lparr>job_status := ''RETIRED'', retired_at := r\<rparr>)"
  "job_status j = ''ACTIVE'' \<Longrightarrow> job_le j (j\<lparr>job_status := ''RETIRED'', retired_at := r, replaced_by_id := b\<rparr>)"
  by (simp_all add: job_le_def)

lemma sound_jobs:
  "sound (sql_insert_immediate_job prefix ep etype key inp)"
  "sound (sql_insert_delayed_job prefix ep etype key inp run_at)"
  "sound (sql_create_cron prefix ep etype okey inp expr tz starts ends next_run)"
  "sound (sql_insert_version prefix old_id new_job)"
  "sound (sql_jobs_cancel jid)" "sound (sql_retire old_id new_id)" "sound sql_retire_expired"
  by (rule soundI;
      auto simp: sql_insert_immediate_job_def sql_insert_delayed_job_def sql_create_cron_def
        sql_insert_version_def sql_jobs_cancel_def sql_retire_def sql_retire_expired_def Let_def
        cron_expired_def job_le_retire
        dest: wf_insert_job intro!: wf_update_jobs [THEN conjunct1] wf_update_jobs [THEN conjunct2])+

subsection \<open>Executions\<close>

lemma wf_update_executions:
  assumes wf: "tenant_wf t"
    and f: "\<And>e. e \<in> set (executions t) \<Longrightarrow> p e \<Longrightarrow> exec_le e (f e) \<and> exec_status_valid (exec_status (f e))"
  shows "tenant_wf (t\<lparr>executions := update_rows p f (executions t)\<rparr>) \<and>
    tenant_le t (t\<lparr>executions := update_rows p f (executions t)\<rparr>)"
proof -
  let ?es = "update_rows p f (executions t)"
  have same: "execution_id (f e) = execution_id e \<and> exec_job_id (f e) = exec_job_id e \<and>
      exec_idempotency_key (f e) = exec_idempotency_key e" if "e \<in> set (executions t)" "p e" for e
    using f [OF that] by (simp add: exec_le_def)
  have ids: "map execution_id ?es = map execution_id (executions t)"
    and js: "map exec_job_id ?es = map exec_job_id (executions t)"
    using same by (simp_all add: update_rows_map)
  have keyed: "keyed_executions ?es = keyed_executions (executions t)"
    unfolding keyed_executions_def by (rule update_rows_filter_map) (simp add: same)
  have checks: "\<forall>e \<in> set ?es. exec_status_valid (exec_status e)"
    using wf f by (auto simp: tenant_wf_def executions_wf_def update_rows_def)
  have sets: "execution_id ` set ?es = execution_id ` set (executions t)"
      "exec_job_id ` set ?es = exec_job_id ` set (executions t)"
    using ids js by (metis set_map)+
  have "tenant_wf (t\<lparr>executions := ?es\<rparr>)"
    using wf ids keyed checks sets
    by (simp add: tenant_wf_def catalog_wf_def jobs_wf_def executions_wf_def attempts_wf_def endpoint_refs_ok_def)
  moreover have "tenant_le t (t\<lparr>executions := ?es\<rparr>)"
    using f by (simp add: tenant_le_def table_le_refl table_le_update)
  ultimately show ?thesis ..
qed

lemma wf_insert_execution:
  assumes wf: "tenant_wf t" and run: "insert_execution prefix e t = Ok (a, t')"
  shows "tenant_wf t' \<and> tenant_le t t'"
proof -
  from run have t': "t' = t\<lparr>executions := executions t @ [e]\<rparr>" and ok: "execution_violation prefix t e = None"
    by (auto simp: insert_execution_def split: option.splits)
  from ok have new: "execution_id e \<notin> execution_id ` set (executions t)"
    and job: "exec_job_id e \<in> job_id ` set (jobs t)" and st: "exec_status_valid (exec_status e)"
    and key: "exec_idempotency_key e \<noteq> None \<Longrightarrow>
      (exec_job_id e, exec_idempotency_key e) \<notin> set (keyed_executions (executions t))"
    by (auto simp: execution_violation_def keyed_executions_def exec_status_valid_def split: if_splits
        intro: rev_image_eqI)
  have "distinct (keyed_executions (executions t @ [e]))"
    using wf key by (auto simp: tenant_wf_def executions_wf_def keyed_executions_def)
  then have "tenant_wf t'"
    using wf new job st
    by (auto simp: t' tenant_wf_def catalog_wf_def jobs_wf_def executions_wf_def attempts_wf_def
        endpoint_refs_ok_def)
  moreover have "tenant_le t t'" by (simp add: t' tenant_le_def table_le_refl table_le_append)
  ultimately show ?thesis ..
qed

lemma exec_le_claim: "claimable env e \<Longrightarrow> exec_le e (claim_row env wid e)"
  by (auto simp: exec_le_def claim_row_def claimable_def terminal_def intro!: r_into_rtranclp claim_step)

lemma exec_le_finish:
  assumes "running eid e"
  shows "exec_le e (success_row now out e)" and "exec_le e (retry_row now ms e)"
    and "exec_le e (failed_row now e)"
  using assms
  by (auto simp: exec_le_def success_row_def retry_row_def failed_row_def running_def terminal_def Let_def
      intro!: r_into_rtranclp finish_step)

lemma exec_le_cancel: "exec_status e \<in> {''PENDING'', ''QUEUED''} \<Longrightarrow> exec_le e (cancel_row now e)"
  by (auto simp: exec_le_def cancel_row_def terminal_def intro!: r_into_rtranclp cancel_step)

lemma next_claim_Some:
  assumes "next_claim env t = Some e"
  shows "e \<in> set (executions t)" and "claimable env e"
    and "\<And>e'. e' \<in> set (executions t) \<Longrightarrow> claimable env e' \<Longrightarrow> exec_run_at e \<le> exec_run_at e'"
proof -
  let ?xs = "sort_key exec_run_at (filter (claimable env) (executions t))"
  from assms obtain rest where xs: "?xs = e # rest"
    by (auto simp: next_claim_def first_row_def split: list.splits)
  have mem: "set ?xs = {r \<in> set (executions t). claimable env r}" by simp
  from xs mem show "e \<in> set (executions t)" "claimable env e" by auto
  show "exec_run_at e \<le> exec_run_at e'" if "e' \<in> set (executions t)" "claimable env e'" for e'
  proof -
    from that mem have "e' \<in> set (e # rest)" using xs by simp
    moreover have "sorted (map exec_run_at (e # rest))" using xs by (metis sorted_sort_key)
    ultimately show ?thesis by auto
  qed
qed

lemma next_claim_None: "next_claim env t = None \<longleftrightarrow> (\<forall>e \<in> set (executions t). \<not> claimable env e)"
proof -
  have "next_claim env t = None \<longleftrightarrow> sort_key exec_run_at (filter (claimable env) (executions t)) = []"
    by (auto simp: next_claim_def first_row_def split: list.splits)
  also have "\<dots> \<longleftrightarrow> set (sort_key exec_run_at (filter (claimable env) (executions t))) = {}"
    by (simp only: set_empty)
  finally show ?thesis by auto
qed

lemma finish_valid:
  "exec_status_valid (exec_status (success_row now out e))"
  "exec_status_valid (exec_status (retry_row now ms e))"
  "exec_status_valid (exec_status (failed_row now e))"
  "exec_status_valid (exec_status (cancel_row now e))"
  "exec_status_valid (exec_status (claim_row env wid e))"
  by (simp_all add: exec_status_valid_def success_row_def retry_row_def failed_row_def cancel_row_def
      claim_row_def Let_def)

lemma sound_update_executions:
  assumes "\<And>env t a t'. g env t = Ok (a, t') \<Longrightarrow> t' = t\<lparr>executions := update_rows p (f env) (executions t)\<rparr>"
    and "\<And>env e. p e \<Longrightarrow> exec_le e (f env e) \<and> exec_status_valid (exec_status (f env e))"
  shows "sound g"
proof (rule soundI)
  fix env t a t'
  assume wf: "tenant_wf t" and run: "g env t = Ok (a, t')"
  show "tenant_wf t' \<and> tenant_le t t'"
    unfolding assms(1) [OF run] by (rule wf_update_executions [OF wf]) (rule assms(2))
qed

lemma sound_finish:
  "sound (sql_complete_success eid out)" "sound (sql_complete_retry eid ms)" "sound (sql_complete_failed eid)"
  "sound (sql_executions_cancel eid)" "sound (sql_cancel_pending jid)"
proof -
  show "sound (sql_complete_success eid out)"
    by (rule sound_update_executions [where p = "running eid" and f = "\<lambda>env. success_row (env_now env) out"])
      (simp_all add: sql_complete_success_def exec_le_finish finish_valid)
  show "sound (sql_complete_retry eid ms)"
    by (rule sound_update_executions [where p = "running eid" and f = "\<lambda>env. retry_row (env_now env) ms"])
      (simp_all add: sql_complete_retry_def exec_le_finish finish_valid split: if_splits)
  show "sound (sql_complete_failed eid)"
    by (rule sound_update_executions [where p = "running eid" and f = "\<lambda>env. failed_row (env_now env)"])
      (simp_all add: sql_complete_failed_def exec_le_finish finish_valid)
  show "sound (sql_executions_cancel eid)"
    by (rule sound_update_executions
          [where p = "\<lambda>e. execution_id e = eid \<and> exec_status e \<in> {''PENDING'', ''QUEUED''}"
            and f = "\<lambda>env. cancel_row (env_now env)"])
      (auto simp: sql_executions_cancel_def Let_def exec_le_cancel finish_valid)
  show "sound (sql_cancel_pending jid)"
    by (rule sound_update_executions
          [where p = "\<lambda>e. exec_job_id e = jid \<and> exec_status e \<in> {''PENDING'', ''QUEUED''}"
            and f = "\<lambda>env. cancel_row (env_now env)"])
      (auto simp: sql_cancel_pending_def Let_def exec_le_cancel finish_valid)
qed

lemma sound_claim: "sound (sql_claim wid)"
proof (rule soundI)
  fix env t a t'
  assume wf: "tenant_wf t" and run: "sql_claim wid env t = Ok (a, t')"
  show "tenant_wf t' \<and> tenant_le t t'"
  proof (cases "next_claim env t")
    case None
    with run wf show ?thesis by (simp add: sql_claim_def tenant_le_refl)
  next
    case (Some e)
    note e = next_claim_Some [OF Some]
    from run Some have t': "t' = t\<lparr>executions := update_rows (\<lambda>r. execution_id r = execution_id e)
        (claim_row env wid) (executions t)\<rparr>"
      by (auto simp: sql_claim_def split: if_splits)
    have "exec_le r (claim_row env wid r)" if "r \<in> set (executions t)" "execution_id r = execution_id e" for r
    proof -
      have "r = e" using wf that e(1) by (auto simp: tenant_wf_def executions_wf_def distinct_map inj_on_def)
      with e(2) show ?thesis by (simp add: exec_le_claim)
    qed
    then show ?thesis unfolding t' by (intro wf_update_executions [OF wf]) (simp add: finish_valid)
  qed
qed

subsection \<open>Attempts and logs\<close>

lemma sound_attempts_insert: "sound (sql_attempts_insert prefix eid n st t0 t1 dur out er)"
proof (rule soundI)
  fix env t a t'
  assume wf: "tenant_wf t" and run: "sql_attempts_insert prefix eid n st t0 t1 dur out er env t = Ok (a, t')"
  from run have t': "t' = t\<lparr>attempts := attempts t @ [a]\<rparr>" and ok: "attempt_violation prefix t a = None"
    by (auto simp: sql_attempts_insert_def Let_def split: option.splits)
  from ok have "attempt_id a \<notin> attempt_id ` set (attempts t)"
    "(att_execution_id a, attempt_number a) \<notin> (\<lambda>a. (att_execution_id a, attempt_number a)) ` set (attempts t)"
    "att_execution_id a \<in> execution_id ` set (executions t)"
    by (auto simp: attempt_violation_def split: if_splits intro: rev_image_eqI)
  then have "attempts_wf t'" using wf by (simp add: t' tenant_wf_def attempts_wf_def)
  then have "tenant_wf t'"
    using wf by (simp add: t' tenant_wf_def catalog_wf_def jobs_wf_def executions_wf_def endpoint_refs_ok_def)
  moreover have "tenant_le t t'" by (simp add: t' tenant_le_def table_le_refl table_le_append)
  ultimately show "tenant_wf t' \<and> tenant_le t t'" ..
qed

lemma sound_logs_insert: "sound (sql_logs_insert prefix eid n level msg)"
proof (rule soundI)
  fix env t a t'
  assume wf: "tenant_wf t" and run: "sql_logs_insert prefix eid n level msg env t = Ok (a, t')"
  define l where "l = \<lparr>log_id = env_uuid env, log_execution_id = eid, log_attempt_number = n,
    log_level = level, log_message = msg, logged_at = env_now env\<rparr>"
  from run have t': "t' = t\<lparr>execution_logs := execution_logs t @ [l]\<rparr>"
    by (auto simp: sql_logs_insert_def l_def split: if_splits)
  from run have l: "log_id l \<notin> log_id ` set (execution_logs t)"
      "log_execution_id l \<in> execution_id ` set (executions t)"
    by (auto simp: sql_logs_insert_def l_def split: if_splits)
  then have "attempts_wf t'" using wf by (simp add: t' tenant_wf_def attempts_wf_def)
  then have "tenant_wf t'"
    using wf by (simp add: t' tenant_wf_def catalog_wf_def jobs_wf_def executions_wf_def endpoint_refs_ok_def)
  moreover have "tenant_le t t'" by (simp add: t' tenant_le_def table_le_refl table_le_append)
  ultimately show "tenant_wf t' \<and> tenant_le t t'" ..
qed

section \<open>Every database function keeps the tables good\<close>

lemmas sound_all = sound_payload_specs sound_configs sound_secrets sound_endpoints sound_jobs sound_finish
  sound_claim sound_attempts_insert sound_logs_insert

lemma soundD: "g env t = Ok (a, t') \<Longrightarrow> tenant_wf t \<Longrightarrow> sound g \<Longrightarrow> tenant_wf t' \<and> tenant_le t t'"
  by (auto simp: sound_def)

lemma sound_step: "tenant_step t t' \<Longrightarrow> tenant_wf t \<Longrightarrow> tenant_wf t' \<and> tenant_le t t'"
proof (induction rule: tenant_step.induct)
  case (read t)
  then show ?case by (simp add: tenant_le_refl)
next
  case (endpoint_insert prefix e t r t')
  then show ?case using wf_insert_endpoint by blast
next
  case (job_insert prefix j t r t')
  then show ?case using wf_insert_job by blast
next
  case (execution_insert st prefix env jid ep etype key run_at inp n t r t')
  then show ?case using wf_insert_execution by blast
qed (erule (1) soundD, rule sound_all)+

lemma sound_worker_step: "worker_step t t' \<Longrightarrow> tenant_wf t \<Longrightarrow> tenant_wf t' \<and> tenant_le t t'"
  by (induction rule: worker_step.induct) (erule (1) soundD, rule sound_all)+

lemma empty_tenant_wf: "tenant_wf empty_tenant"
  by (simp add: tenant_wf_def catalog_wf_def jobs_wf_def executions_wf_def attempts_wf_def
      empty_tenant_def keyed_jobs_def keyed_executions_def)

lemma good_with_tenant:
  assumes "good d0 d" and "tenant_wf t'" and "\<And>t. tenants d k = Some t \<Longrightarrow> tenant_le t t'"
  shows "good d0 (with_tenant k t' d)"
proof -
  have "db_le d (with_tenant k t' d)" using assms(3) by (auto simp: db_le_def tenant_le_refl)
  moreover have "all_tenants tenant_wf (with_tenant k t' d)"
    using assms(1,2) by (auto simp: good_def all_tenants_def)
  ultimately show ?thesis using assms(1) db_le_trans by (auto simp: good_def)
qed

interpretation good_inv: worker_invariant "good d0"
proof
  fix d d'
  assume "db_step d d'" and "good d0 d"
  then show "good d0 d'"
  proof (induction rule: db_step.induct)
    case (in_tenant d k t t')
    then have "tenant_wf t" unfolding good_def all_tenants_def by blast
    with in_tenant show ?case using sound_step by (intro good_with_tenant) auto
  next
    case (new_tenant d k)
    then show ?case by (intro good_with_tenant) (auto simp: empty_tenant_wf)
  qed (auto simp: good_def all_tenants_def db_le_def)
next
  fix d k t t'
  assume t: "tenants d k = Some t" and w: "worker_step t t'" and g: "good d0 d"
  then have "tenant_wf t" unfolding good_def all_tenants_def by blast
  with t w g show "good d0 (with_tenant k t' d)" using sound_worker_step by (intro good_with_tenant) auto
qed

interpretation good_versions: update_invariant "good d0"
proof
  fix d k t t' prefix j r
  assume t: "tenants d k = Some t" and i: "insert_job prefix j t = Ok (r, t')" and g: "good d0 d"
  then have "tenant_wf t" unfolding good_def all_tenants_def by blast
  with t i g show "good d0 (with_tenant k t' d)" using wf_insert_job by (intro good_with_tenant) auto
qed

end
