(* ===== verification/Template.thy ===== *)
theory Template
  imports Models
begin

text \<open>
  \<open>crates/common/src/template.rs\<close>: resolution of \<open>{{namespace.key}}\<close> variables in the spec of an
  endpoint. \<open>interpolate\<close> is the loop of \<open>resolve_string\<close> with its mutated \<open>result\<close> and its offset
  \<open>start\<close>; a slice or a replacement out of range or off a character boundary panics (\<open>Rust_Str\<close>).
  \<open>expand\<close> is the specification: one left-to-right pass
  over the text, in which substituted values are never looked at again.
\<close>

section \<open>The code\<close>

record template_env =
  t_input :: "string \<Rightarrow> json option"
  t_config :: "string \<Rightarrow> json option"
  t_secrets :: "string \<Rightarrow> string option"
  t_execution :: "string \<Rightarrow> json option"

definition resolve_variable :: "template_env \<Rightarrow> string \<Rightarrow> (json, string) outcome" where
  "resolve_variable env var =
     (let unresolved = ''Unresolved template variable: '' @ var in
      case strip_prefix ''input.'' var of Some key \<Rightarrow> ok_or (t_input env key) unresolved
      | None \<Rightarrow> (case strip_prefix ''config.'' var of Some key \<Rightarrow> ok_or (t_config env key) unresolved
      | None \<Rightarrow> (case strip_prefix ''secret.'' var of
          Some key \<Rightarrow> ok_or (map_option JStr (t_secrets env key)) unresolved
      | None \<Rightarrow> (case strip_prefix ''execution.'' var of Some key \<Rightarrow> ok_or (t_execution env key) unresolved
      | None \<Rightarrow> Err (''Unknown template namespace in: '' @ var)))))"

definition is_single_template :: "string \<Rightarrow> (string option, 'e) outcome" where
  "is_single_template s =
     (let trimmed = trim s in
      if starts_with ''{{'' trimmed \<and> ends_with ''}}'' trimmed then
        bind_outcome (str_slice trimmed 2 (length trimmed - 2)) (\<lambda>i.
          let inner = trim i in
          Ok (if \<not> str_contains ''{{'' inner then Some inner else None))
      else Ok None)"

fun render :: "ext \<Rightarrow> json \<Rightarrow> string" where
  "render x (JStr s) = s"
| "render x v = json_to_string x v"

text \<open>The congruence by which the recursion below knows that its slices succeeded.\<close>

lemma bind_outcome_cong:
  "r = r' \<Longrightarrow> (\<And>a. r' = Ok a \<Longrightarrow> f a = f' a) \<Longrightarrow> bind_outcome r f = bind_outcome r' f'"
  by (cases r') auto

declare bind_outcome_cong [fundef_cong]

function interpolate ::
  "(string \<Rightarrow> (json, string) outcome) \<Rightarrow> (json \<Rightarrow> string) \<Rightarrow> string \<Rightarrow> nat \<Rightarrow> (string, string) outcome" where
  "interpolate rv rend result start =
     bind_outcome (str_slice result start (length result)) (\<lambda>rest.
     case str_find ''{{'' rest of
       None \<Rightarrow> Ok result
     | Some o' \<Rightarrow>
         let open = start + o' in
         bind_outcome (str_slice result open (length result)) (\<lambda>from_open.
         case str_find ''}}'' from_open of
           None \<Rightarrow> Ok result
         | Some c \<Rightarrow>
             let close = open + c + 2 in
             bind_outcome (str_slice result (open + 2) (close - 2)) (\<lambda>v.
             bind_outcome (rv (trim v)) (\<lambda>resolved.
             let replacement = rend resolved in
             bind_outcome (replace_range result open close replacement) (\<lambda>result'.
             interpolate rv rend result' (open + length replacement))))))"
  by pat_completeness auto

termination
proof (relation "measure (\<lambda>(_, _, result, start). length result - start)")
  fix rv :: "string \<Rightarrow> (json, string) outcome" and rend :: "json \<Rightarrow> string" and result start
  fix tail o' op from_open c cl v resolved repl result'
  assume slice: "str_slice result start (length result) = (Ok tail :: (string, string) outcome)"
    and find: "str_find ''{{'' tail = Some o'" and op: "op = start + o'"
    and slice2: "str_slice result op (length result) = (Ok from_open :: (string, string) outcome)"
    and find2: "str_find ''}}'' from_open = Some c" and cl: "cl = op + c + 2"
    and repl: "repl = rend resolved"
    and new: "replace_range result op cl repl = (Ok result' :: (string, string) outcome)"
  from slice slice2 have "tail = drop start result" "from_open = drop op result"
    by (auto simp: str_slice_def split: if_splits)
  with str_find_Some [OF find] str_find_Some [OF find2] op cl
  have "start \<le> op" "op + 2 \<le> cl" "cl \<le> length result" by auto
  moreover from new have "result' = take op result @ repl @ drop cl result"
    by (auto simp: replace_range_def split: if_splits)
  ultimately show "((rv, rend, result', op + length repl), (rv, rend, result, start))
      \<in> measure (\<lambda>(_, _, result, start). length result - start)"
    by simp
qed simp

declare bind_outcome_cong [fundef_cong del]
declare interpolate.simps [simp del]

definition resolve_string :: "ext \<Rightarrow> template_env \<Rightarrow> string \<Rightarrow> (json, string) outcome" where
  "resolve_string x env s =
     bind_outcome (is_single_template s) (\<lambda>single. case single of
        Some var \<Rightarrow> resolve_variable env var
      | None \<Rightarrow> bind_outcome (interpolate (resolve_variable env) (render x) s 0) (\<lambda>r. Ok (JStr r)))"

fun resolve :: "ext \<Rightarrow> template_env \<Rightarrow> json \<Rightarrow> (json, string) outcome"
  and resolve_fields ::
    "ext \<Rightarrow> template_env \<Rightarrow> (string \<times> json) list \<Rightarrow> (string \<times> json) list \<Rightarrow> ((string \<times> json) list, string) outcome"
  and resolve_items :: "ext \<Rightarrow> template_env \<Rightarrow> json list \<Rightarrow> (json list, string) outcome" where
  "resolve x env (JStr s) = resolve_string x env s"
| "resolve x env (JObj kvs) = bind_outcome (resolve_fields x env kvs []) (\<lambda>m. Ok (JObj m))"
| "resolve x env (JArr vs) = bind_outcome (resolve_items x env vs) (\<lambda>ws. Ok (JArr ws))"
| "resolve x env JNull = Ok JNull"
| "resolve x env (JBool b) = Ok (JBool b)"
| "resolve x env (JInt n) = Ok (JInt n)"
| "resolve x env (JFloat f) = Ok (JFloat f)"
| "resolve_fields x env [] acc = Ok acc"
| "resolve_fields x env ((k, v) # kvs) acc =
     bind_outcome (resolve_string x env k) (\<lambda>rk.
     bind_outcome (resolve x env v) (\<lambda>rv.
     resolve_fields x env kvs (map_insert (render x rk) rv acc)))"
| "resolve_items x env [] = Ok []"
| "resolve_items x env (v # vs) =
     bind_outcome (resolve x env v) (\<lambda>w.
     bind_outcome (resolve_items x env vs) (\<lambda>ws. Ok (w # ws)))"

section \<open>The specification of interpolation\<close>

function expand ::
  "(string \<Rightarrow> (json, string) outcome) \<Rightarrow> (json \<Rightarrow> string) \<Rightarrow> string \<Rightarrow> (string, string) outcome" where
  "expand rv rend s =
     (case str_find ''{{'' s of
        None \<Rightarrow> Ok s
      | Some i \<Rightarrow>
          (case str_find ''}}'' (drop (i + 2) s) of
             None \<Rightarrow> Ok s
           | Some j \<Rightarrow>
               bind_outcome (rv (trim (take j (drop (i + 2) s)))) (\<lambda>v.
               bind_outcome (expand rv rend (drop (i + 2 + j + 2) s)) (\<lambda>rest.
               Ok (take i s @ rend v @ rest)))))"
  by pat_completeness auto

termination
proof (relation "measure (\<lambda>(_, _, s). length s)")
  fix rv :: "string \<Rightarrow> (json, string) outcome" and rend :: "json \<Rightarrow> string" and s i j v
  assume "str_find ''{{'' s = Some i" and "str_find ''}}'' (drop (i + 2) s) = Some j"
  then have "i + 2 \<le> length s" and "j + 2 \<le> length (drop (i + 2) s)"
    using str_find_Some by fastforce+
  then show "((rv, rend, drop (i + 2 + j + 2) s), (rv, rend, s)) \<in> measure (\<lambda>(_, _, s). length s)"
    by auto
qed simp

declare expand.simps [simp del]

section \<open>The loop meets the specification\<close>

lemma find_close:
  assumes "starts_with ''{{'' s"
  shows "str_find ''}}'' s = map_option (\<lambda>j. j + 2) (str_find ''}}'' (drop 2 s))"
proof -
  from assms obtain t where "s = CHR ''{'' # CHR ''{'' # t" by (auto simp: starts_with_iff)
  then show ?thesis by (simp add: starts_with_def option.map_comp comp_def)
qed

lemma str_slice_whole:
  assumes "a \<le> b" and "b \<le> length s" and "whole_chars (drop a s)" and "whole_chars (drop b s)"
  shows "str_slice s a b = Ok (take (b - a) (drop a s))"
  using assms boundary_whole [of a s] boundary_whole [of b s] by (simp add: str_slice_def)

lemma replace_range_whole:
  assumes "a \<le> b" and "b \<le> length s" and "whole_chars (drop a s)" and "whole_chars (drop b s)"
  shows "replace_range s a b t = Ok (take a s @ t @ drop b s)"
  using assms boundary_whole [of a s] boundary_whole [of b s] by (simp add: replace_range_def)

lemma whole_chars_Nil [simp]: "whole_chars []"
  by (simp add: whole_chars_def)

text \<open>The offsets of an opening and a closing delimiter are on character boundaries.\<close>

lemma delimiter_boundaries:
  assumes "whole_chars s" and "str_find ''{{'' s = Some i" and "str_find ''}}'' (drop (i + 2) s) = Some j"
  shows "whole_chars (drop i s)" and "whole_chars (drop (i + 2) s)" and "whole_chars (drop (i + 2 + j) s)"
    and "whole_chars (drop (i + 2 + j + 2) s)"
proof -
  show i: "whole_chars (drop i s)" and i2: "whole_chars (drop (i + 2) s)"
    using whole_chars_find [OF assms(1,2)] by simp_all
  show "whole_chars (drop (i + 2 + j) s)" and "whole_chars (drop (i + 2 + j + 2) s)"
    using whole_chars_find [OF i2 assms(3)] by (simp_all add: add.commute add.left_commute)
qed

lemma interpolate_expand_gen:
  "start \<le> length result \<Longrightarrow> whole_chars (drop start result) \<Longrightarrow>
   interpolate rv rend result start =
     bind_outcome (expand rv rend (drop start result)) (\<lambda>e. Ok (take start result @ e))"
proof (induction rv rend result start rule: interpolate.induct)
  case (1 rv rend result start)
  let ?s = "drop start result"
  have rest: "str_slice result start (length result) = (Ok ?s :: (string, string) outcome)"
    using "1.prems" by (simp add: str_slice_whole)
  show ?case
  proof (cases "str_find ''{{'' ?s")
    case None
    with rest show ?thesis by (subst interpolate.simps, subst expand.simps) simp
  next
    case (Some i)
    note i = str_find_Some [OF Some]
    let ?open = "start + i"
    have "whole_chars (drop i ?s)" using whole_chars_find(1) [OF "1.prems"(2) Some] by simp
    then have wo: "whole_chars (drop ?open result)" by (simp add: add.commute)
    have io: "?open \<le> length result" using i "1.prems"(1) by (simp add: le_diff_conv2)
    have from_open: "str_slice result ?open (length result) = (Ok (drop ?open result) :: (string, string) outcome)"
      using wo io by (simp add: str_slice_whole)
    from i have close: "str_find ''}}'' (drop ?open result) =
        map_option (\<lambda>j. j + 2) (str_find ''}}'' (drop (i + 2) ?s))"
      using find_close [of "drop i ?s"] by (simp add: add.commute add.left_commute)
    show ?thesis
    proof (cases "str_find ''}}'' (drop (i + 2) ?s)")
      case None
      with Some close rest from_open show ?thesis by (subst interpolate.simps, subst expand.simps) simp
    next
      case j: (Some j)
      note jb = str_find_Some [OF j] and w = delimiter_boundaries [OF "1.prems"(2) Some j]
      let ?close = "start + i + (j + 2) + 2"
      have len: "?close \<le> length result" using jb i "1.prems"(1) by auto
      have wc: "whole_chars (drop ?close result)" using w(4) by (simp add: add.commute add.left_commute)
      have slice: "str_slice result (?open + 2) (?close - 2) = (Ok (take j (drop (i + 2) ?s)) :: (string, string) outcome)"
        using str_slice_whole [of "?open + 2" "?close - 2" result] len w(2,3) by (simp add: add.commute add.left_commute)
      show ?thesis
      proof (cases "rv (trim (take j (drop (i + 2) ?s)))")
        case (Ok v)
        let ?res = "take ?open result @ rend v @ drop ?close result"
        have new: "replace_range result ?open ?close (rend v) = (Ok ?res :: (string, string) outcome)"
          using len wo wc by (intro replace_range_whole) simp_all
        have "interpolate rv rend ?res (?open + length (rend v)) =
            bind_outcome (expand rv rend (drop ?close result)) (\<lambda>e. Ok (take ?open result @ rend v @ e))"
          using "1.IH" [OF rest Some refl from_open _ refl slice Ok refl new] close j len wc io by simp
        moreover have "drop ?close result = drop (i + 2 + j + 2) ?s" by (simp add: add.commute add.left_commute)
        moreover have "take ?open result = take start result @ take i ?s" by (simp add: take_add)
        ultimately show ?thesis using Some close j rest from_open slice Ok new
          by (subst interpolate.simps, subst expand.simps)
            (cases "expand rv rend (drop (i + 2 + j + 2) ?s)"; simp add: Let_def)
      qed (use Some close j rest from_open slice in \<open>subst interpolate.simps, subst expand.simps, simp add: Let_def\<close>)+
    qed
  qed
qed

lemma bind_outcome_Ok_id [simp]: "bind_outcome r Ok = r"
  by (cases r) auto

lemma interpolate_is_expand: "valid_str s \<Longrightarrow> interpolate rv rend s 0 = expand rv rend s"
  using interpolate_expand_gen [of 0 s rv rend] by (simp add: valid_str_whole)

lemma resolve_variable_no_panic: "resolve_variable env var \<noteq> Panic p"
proof -
  have "ok_or a e \<noteq> Panic p" for a :: "json option" and e :: string by (cases a) auto
  then show ?thesis by (simp add: resolve_variable_def Let_def split: option.splits)
qed

lemma expand_no_panic: "(\<And>v p. rv v \<noteq> Panic p) \<Longrightarrow> expand rv rend s \<noteq> Panic p"
proof (induction rv rend s rule: expand.induct)
  case (1 rv rend s)
  have bind: "bind_outcome r f \<noteq> Panic p" if "r \<noteq> Panic p" "\<And>a. r = Ok a \<Longrightarrow> f a \<noteq> Panic p"
    for r :: "('u, string) outcome" and f :: "'u \<Rightarrow> (string, string) outcome"
    using that by (cases r) auto
  have rec: "expand rv rend (drop (i + 2 + j + 2) s) \<noteq> Panic p"
    if "str_find ''{{'' s = Some i" "str_find ''}}'' (drop (i + 2) s) = Some j" for i j
    using "1.IH" [OF that] "1.prems" by blast
  show ?case
  proof (cases "str_find ''{{'' s")
    case i: (Some i)
    show ?thesis
    proof (cases "str_find ''}}'' (drop (i + 2) s)")
      case j: (Some j)
      have "bind_outcome (rv (trim (take j (drop (i + 2) s)))) (\<lambda>v.
          bind_outcome (expand rv rend (drop (i + 2 + j + 2) s)) (\<lambda>rest. Ok (take i s @ rend v @ rest)))
        \<noteq> Panic p"
        by (intro bind "1.prems" rec [OF i j]) simp
      with i j show ?thesis by (subst expand.simps) simp
    qed (use i in \<open>subst expand.simps, simp\<close>)
  qed (subst expand.simps, simp)
qed

lemma delimiters_disjoint: "starts_with ''{{'' t \<Longrightarrow> ends_with ''}}'' t \<Longrightarrow> 4 \<le> length t"
proof (rule ccontr)
  assume s: "starts_with ''{{'' t" and e: "ends_with ''}}'' t" and "\<not> 4 \<le> length t"
  from s obtain u where u: "t = CHR ''{'' # CHR ''{'' # u" by (auto simp: starts_with_iff)
  with \<open>\<not> 4 \<le> length t\<close> have "u = [] \<or> (\<exists>c. u = [c])" by (cases u; cases "tl u") auto
  with e u show False by (auto simp: ends_with_def)
qed

lemma braces_whole:
  assumes "char_ok t" and "starts_with ''{{'' t" and "ends_with ''}}'' t"
  shows "whole_chars (drop 2 t)" and "whole_chars (drop (length t - 2) t)"
proof -
  obtain u where "t = ''{'' @ CHR ''{'' # u" using assms(2) by (auto simp: starts_with_iff)
  then show "whole_chars (drop 2 t)" using char_ok_after(2) [of "''{''" "CHR ''{''" u] assms(1) by simp
  obtain u where "t = u @ CHR ''}'' # ''}''" using assms(3) by (auto simp: ends_with_iff)
  then show "whole_chars (drop (length t - 2) t)"
    using char_ok_after(1) [of u "CHR ''}''" "''}''"] assms(1) by simp
qed

lemma braces_slice:
  assumes "char_ok t" and "starts_with ''{{'' t" and "ends_with ''}}'' t"
  shows "str_slice t 2 (length t - 2) = Ok (take (length t - 2 - 2) (drop 2 t))"
  using delimiters_disjoint [OF assms(2,3)] braces_whole [OF assms] by (intro str_slice_whole) simp_all

lemma is_single_template_no_panic: "valid_str s \<Longrightarrow> is_single_template s \<noteq> Panic p"
proof -
  assume "valid_str s"
  then have "char_ok s" using valid_str_whole [of s] by (simp add: whole_chars_def)
  moreover obtain a b where "s = a @ trim s @ b" using trim_decompose [of s] by blast
  ultimately have "char_ok (trim s)"
    by (metis append_eq_conv_conj char_ok_append char_ok_drop)
  then show ?thesis by (simp add: is_single_template_def Let_def braces_slice)
qed

lemma resolve_string_cases:
  assumes "valid_str s"
  shows "resolve_string x env s =
     (case is_single_template s of
        Ok (Some var) \<Rightarrow> resolve_variable env var
      | Ok None \<Rightarrow> bind_outcome (expand (resolve_variable env) (render x) s) (\<lambda>r. Ok (JStr r))
      | Err e \<Rightarrow> Err e
      | Panic p \<Rightarrow> Panic p)"
  using assms by (auto simp: resolve_string_def interpolate_is_expand split: outcome.splits option.splits)

section \<open>Text without variables\<close>

fun template_free :: "json \<Rightarrow> bool" where
  "template_free (JStr s) \<longleftrightarrow> \<not> str_contains ''{{'' s"
| "template_free (JObj kvs) \<longleftrightarrow>
     sorted_keys kvs \<and> (\<forall>(k, v) \<in> set kvs. \<not> str_contains ''{{'' k \<and> template_free v)"
| "template_free (JArr vs) \<longleftrightarrow> (\<forall>v \<in> set vs. template_free v)"
| "template_free _ \<longleftrightarrow> True"

lemma str_contains_trim:
  assumes "str_contains p (trim s)"
  shows "str_contains p s"
proof -
  from assms obtain u v where "trim s = u @ p @ v" by (auto simp: str_contains_iff)
  moreover obtain a b where "s = a @ trim s @ b" using trim_decompose [of s] by blast
  ultimately have "s = (a @ u) @ p @ (v @ b)" by simp
  then show ?thesis unfolding str_contains_iff by blast
qed

lemma resolve_string_literal:
  assumes "\<not> str_contains ''{{'' s"
  shows "resolve_string x env s = Ok (JStr s)"
proof -
  have "\<not> starts_with ''{{'' (trim s)"
    using assms str_contains_trim [of "''{{''" s]
    by (metis append_Nil starts_with_iff str_contains_iff)
  moreover have "str_find ''{{'' s = None" using assms by (simp add: str_contains_def)
  moreover have "str_slice s 0 (length s) = (Ok s :: (string, string) outcome)"
    by (simp add: str_slice_def is_char_boundary_def)
  ultimately show ?thesis
    by (simp add: resolve_string_def is_single_template_def Let_def interpolate.simps [of _ _ s 0])
qed

lemma map_insert_last: "sorted_keys (acc @ [(k, v)]) \<Longrightarrow> map_insert k v acc = acc @ [(k, v)]"
  by (induction acc) (auto simp: sorted_keys_def dest: order.asym)

lemma resolve_literal:
  "template_free v \<Longrightarrow> resolve x env v = Ok v"
  "(\<forall>(k, v) \<in> set kvs. \<not> str_contains ''{{'' k \<and> template_free v) \<Longrightarrow> sorted_keys (acc @ kvs) \<Longrightarrow>
     resolve_fields x env kvs acc = Ok (acc @ kvs)"
  "(\<forall>v \<in> set vs. template_free v) \<Longrightarrow> resolve_items x env vs = Ok vs"
proof (induction x env v and x env kvs acc and x env vs rule: resolve_resolve_fields_resolve_items.induct)
  case (9 x env k v kvs acc)
  have "sorted_keys (acc @ [(k, v)])"
    using "9.prems"(2) by (auto simp: sorted_keys_def sorted_wrt_append)
  then have "map_insert k v acc = acc @ [(k, v)]" by (rule map_insert_last)
  moreover have "resolve_fields x env kvs (acc @ [(k, v)]) = Ok (acc @ (k, v) # kvs)"
    using "9.IH"(2) [of "JStr k" v] "9.prems" calculation by simp
  ultimately show ?case using 9 by (simp add: resolve_string_literal)
qed (simp_all add: resolve_string_literal)

section \<open>Properties\<close>

text \<open>The strings and keys of a \<open>serde_json::Value\<close> are \<open>String\<close>s.\<close>

fun valid_json :: "json \<Rightarrow> bool" where
  "valid_json (JStr s) \<longleftrightarrow> valid_str s"
| "valid_json (JObj kvs) \<longleftrightarrow> (\<forall>(k, v) \<in> set kvs. valid_str k \<and> valid_json v)"
| "valid_json (JArr vs) \<longleftrightarrow> (\<forall>v \<in> set vs. valid_json v)"
| "valid_json _ \<longleftrightarrow> True"

lemma resolve_string_no_panic: "valid_str s \<Longrightarrow> resolve_string x env s \<noteq> Panic p"
  using resolve_variable_no_panic expand_no_panic [of "resolve_variable env"]
  by (auto simp: resolve_string_def interpolate_is_expand bind_outcome_Panic is_single_template_no_panic
      split: option.splits)

lemma resolve_no_panic_all:
  "valid_json v \<Longrightarrow> resolve x env v \<noteq> Panic p"
  "\<forall>(k, v) \<in> set kvs. valid_str k \<and> valid_json v \<Longrightarrow> resolve_fields x env kvs acc \<noteq> Panic p"
  "\<forall>v \<in> set vs. valid_json v \<Longrightarrow> resolve_items x env vs \<noteq> Panic p"
  by (induction x env v and x env kvs acc and x env vs rule: resolve_resolve_fields_resolve_items.induct)
    (auto simp: bind_outcome_Panic resolve_string_no_panic)

text \<open>C16: the loop of \<open>resolve_string\<close>, which rewrites the text in place and restarts behind each
  replacement, computes the one-pass expansion: every \<open>{{variable}}\<close> of the original text is replaced
  once, from left to right whatever its namespace, and the text of a resolved value is never expanded
  again. The text is a \<open>&str\<close>, that is valid UTF-8.\<close>

theorem interpolation_is_one_pass:
  assumes "valid_str s"
  shows "resolve_string x env s =
     (case is_single_template s of
        Ok (Some var) \<Rightarrow> resolve_variable env var
      | Ok None \<Rightarrow> bind_outcome (expand (resolve_variable env) (render x) s) (\<lambda>r. Ok (JStr r))
      | Err e \<Rightarrow> Err e
      | Panic p \<Rightarrow> Panic p)"
  using assms by (rule resolve_string_cases)

text \<open>The sample text is \<open>\<acute>e{{ input.a }}-{{input.b}}\<acute>e\<close> with a two-byte letter at both ends; the value of
  \<open>a\<close> looks like a variable and is not expanded.\<close>

definition sample_text :: string where
  "sample_text = [CHR 0xC3, CHR 0xA9] @ ''{{ input.a }}-{{input.b}}'' @ [CHR 0xC3, CHR 0xA9]"

definition sample_vars :: template_env where
  "sample_vars = \<lparr>t_input = (\<lambda>k. if k = ''a'' then Some (JStr ''{{input.b}}'') else if k = ''b'' then Some (JInt 7) else None),
     t_config = (\<lambda>_. None), t_secrets = (\<lambda>_. None), t_execution = (\<lambda>_. None)\<rparr>"

theorem interpolation_is_one_pass_witness:
  "valid_str sample_text \<and>
   resolve_string sample_ext sample_vars sample_text =
     bind_outcome (expand (resolve_variable sample_vars) (render sample_ext) sample_text) (\<lambda>r. Ok (JStr r)) \<and>
   (\<exists>n. expand (resolve_variable sample_vars) (render sample_ext) sample_text =
      Ok ([CHR 0xC3, CHR 0xA9] @ ''{{input.b}}-'' @ n @ [CHR 0xC3, CHR 0xA9]))"
proof -
  have v: "valid_str sample_text" by code_simp
  have "is_single_template sample_text = (Ok None :: (string option, string) outcome)" by code_simp
  moreover have "expand (resolve_variable sample_vars) (render sample_ext) sample_text =
      Ok ([CHR 0xC3, CHR 0xA9] @ ''{{input.b}}-'' @ render sample_ext (JInt 7) @ [CHR 0xC3, CHR 0xA9])"
    by code_simp
  ultimately show ?thesis using v interpolation_is_one_pass [OF v, of sample_ext sample_vars] by auto
qed

text \<open>C17: resolving a value never panics, whatever the value and the variables: every slice and every
  replacement of the loop lies inside the text and on character boundaries, also around substituted
  values and letters of several bytes. The strings of the value are \<open>String\<close>s, that is valid UTF-8.\<close>

theorem resolve_never_panics:
  assumes "valid_json v"
  shows "resolve x env v \<noteq> Panic p"
  using assms by (rule resolve_no_panic_all)

theorem resolve_never_panics_witness:
  "valid_json (JObj [(''k'', JArr [JStr sample_text, JNull])]) \<and>
   (\<forall>p. resolve sample_ext sample_vars (JObj [(''k'', JArr [JStr sample_text, JNull])]) \<noteq> Panic p)"
proof -
  have "valid_str sample_text" and "valid_str ''k''" by code_simp+
  then have "valid_json (JObj [(''k'', JArr [JStr sample_text, JNull])])" by simp
  then show ?thesis using resolve_never_panics by blast
qed

text \<open>A value in which no string and no key contains an opening \<open>{{\<close> is resolved to itself.\<close>

lemma resolve_without_templates:
  "template_free v \<Longrightarrow> resolve x env v = Ok v"
  by (rule resolve_literal)

lemma resolve_without_templates_example:
  "template_free (JObj [(''a'', JArr [JStr ''x}}'', JInt 1])]) \<and>
   resolve sample_ext \<lparr>t_input = (\<lambda>_. None), t_config = (\<lambda>_. None), t_secrets = (\<lambda>_. None), t_execution = (\<lambda>_. None)\<rparr>
     (JObj [(''a'', JArr [JStr ''x}}'', JInt 1])]) = Ok (JObj [(''a'', JArr [JStr ''x}}'', JInt 1])])"
proof -
  have "template_free (JObj [(''a'', JArr [JStr ''x}}'', JInt 1])])" by code_simp
  with resolve_without_templates show ?thesis by blast
qed

end
