(* ===== verification/Backoff.thy ===== *)
theory Backoff
  imports Pagination
begin

text \<open>
  \<open>crates/worker/src/backoff.rs\<close>: the delay before a retry. All arithmetic is on \<open>i64\<close>; \<open>checks\<close>
  is the build profile (overflow panics with it, wraps without it), \<open>rng\<close> the random source of
  \<open>gen_range\<close>. \<open>clamp\<close> of the standard library panics when its bounds are crossed, in both profiles.
\<close>

section \<open>The code\<close>

text \<open>\<open>2_i64.pow(e as u32)\<close>: the cast keeps the low 32 bits, the power overflows from 63 on.\<close>

definition pow2_i64 :: "bool \<Rightarrow> int \<Rightarrow> (int, unit) outcome" where
  "pow2_i64 checks e = arith_i64 checks (2 ^ nat (e mod 2 ^ 32))"

definition base_delay :: "bool \<Rightarrow> retry_policy \<Rightarrow> int \<Rightarrow> (int, unit) outcome" where
  "base_delay checks policy attempt =
     (if backoff policy = ''fixed'' then Ok (initial_delay_ms policy)
      else if backoff policy = ''linear'' then arith_i64 checks (initial_delay_ms policy * attempt)
      else bind_outcome (arith_i64 checks (attempt - 1)) (\<lambda>a.
           bind_outcome (pow2_i64 checks (max a 0)) (\<lambda>p.
           arith_i64 checks (initial_delay_ms policy * p))))"

definition clamp_i64 :: "int \<Rightarrow> int \<Rightarrow> int \<Rightarrow> (int, unit) outcome" where
  "clamp_i64 x lo hi =
     (if lo > hi then Panic ''assertion failed: min <= max'' else Ok (clamp x lo hi))"

definition compute_backoff ::
  "bool \<Rightarrow> (int \<Rightarrow> int \<Rightarrow> int) \<Rightarrow> retry_policy \<Rightarrow> int \<Rightarrow> (int, unit) outcome" where
  "compute_backoff checks rng policy attempt =
     bind_outcome (base_delay checks policy attempt) (\<lambda>delay.
     let jitter_range = rust_quot delay 4;
         jitter = (if jitter_range > 0 then rng (- jitter_range) jitter_range else 0)
     in bind_outcome (arith_i64 checks (delay + jitter)) (\<lambda>d.
        clamp_i64 d 0 (max_delay_ms policy)))"

section \<open>Laws\<close>

text \<open>\<open>gen_range\<close> stays in its range.\<close>

definition in_range_rng :: "(int \<Rightarrow> int \<Rightarrow> int) \<Rightarrow> bool" where
  "in_range_rng rng \<longleftrightarrow> (\<forall>lo hi. lo \<le> hi \<longrightarrow> lo \<le> rng lo hi \<and> rng lo hi \<le> hi)"

text \<open>The delay the documentation gives: constant, growing by the initial delay, doubling.\<close>

definition ideal_delay :: "retry_policy \<Rightarrow> int \<Rightarrow> int" where
  "ideal_delay policy attempt =
     (if backoff policy = ''fixed'' then initial_delay_ms policy
      else if backoff policy = ''linear'' then initial_delay_ms policy * attempt
      else initial_delay_ms policy * 2 ^ nat (attempt - 1))"

lemma clamp_bounds: "lo \<le> hi \<Longrightarrow> lo \<le> clamp x lo hi \<and> clamp x lo hi \<le> hi"
  by (auto simp: clamp_def)

lemma clamp_mono: "x \<le> y \<Longrightarrow> lo \<le> hi \<Longrightarrow> clamp x lo hi \<le> clamp y lo hi"
  by (auto simp: clamp_def)

lemma base_delay_ideal:
  assumes "1 \<le> attempt" and "attempt < 2 ^ 32" and "0 \<le> initial_delay_ms policy"
    and "in_i64 (ideal_delay policy attempt)" and "initial_delay_ms policy = 0 \<longrightarrow> attempt \<le> 63"
    and "in_i64 (initial_delay_ms policy)"
  shows "base_delay checks policy attempt = Ok (ideal_delay policy attempt)"
proof (cases "backoff policy = ''fixed'' \<or> backoff policy = ''linear''")
  case False
  let ?p = "2 ^ nat (attempt - 1) :: int"
  have small: "in_i64 (attempt - 1)" "max (attempt - 1) 0 mod 2 ^ 32 = attempt - 1"
    using assms(1,2) by (auto simp: in_i64_def i64_min_def i64_max_def)
  have "?p \<le> i64_max"
  proof (cases "initial_delay_ms policy = 0")
    case True
    with assms(5) have "nat (attempt - 1) \<le> 62" by simp
    then have "?p \<le> 2 ^ 62" by (rule power_increasing) simp
    then show ?thesis by (simp add: i64_max_def)
  next
    case False
    with assms(3) have "1 \<le> initial_delay_ms policy" by simp
    then have "?p \<le> initial_delay_ms policy * ?p" by simp
    also have "\<dots> \<le> i64_max"
      using assms(4) \<open>\<not> (backoff policy = ''fixed'' \<or> backoff policy = ''linear'')\<close>
      by (simp add: ideal_delay_def in_i64_def)
    finally show ?thesis .
  qed
  then have "in_i64 ?p" by (simp add: in_i64_def i64_min_def order_trans [of _ 0])
  with False small assms(4) show ?thesis by (simp add: base_delay_def pow2_i64_def ideal_delay_def)
qed (use assms(4) in \<open>auto simp: base_delay_def ideal_delay_def\<close>)

lemma compute_backoff_range:
  assumes "compute_backoff checks rng policy attempt = Ok d"
  shows "0 \<le> d" and "d \<le> max_delay_ms policy"
  using assms
  by (auto simp: compute_backoff_def bind_outcome_Ok clamp_i64_def Let_def clamp_def split: if_splits)

lemma jitter_bounds:
  assumes "in_range_rng rng" and "0 \<le> delay"
  shows "\<bar>if rust_quot delay 4 > 0 then rng (- rust_quot delay 4) (rust_quot delay 4) else 0\<bar> \<le> delay div 4"
proof -
  have q: "rust_quot delay 4 = delay div 4" using assms(2) by (simp add: rust_quot_nonneg)
  show ?thesis
  proof (cases "delay div 4 > 0")
    case True
    then have "- (delay div 4) \<le> rng (- (delay div 4)) (delay div 4)" "rng (- (delay div 4)) (delay div 4) \<le> delay div 4"
      using assms(1) by (auto simp: in_range_rng_def)
    with True q show ?thesis by (simp add: abs_le_iff)
  next
    case False
    moreover have "0 \<le> delay div 4" using assms(2) by simp
    ultimately show ?thesis using q by simp
  qed
qed

lemma compute_backoff_ideal:
  assumes "1 \<le> attempt" and "attempt < 2 ^ 32" and "0 \<le> initial_delay_ms policy"
    and "0 \<le> max_delay_ms policy" and "in_range_rng rng"
    and "in_i64 (initial_delay_ms policy)" and "initial_delay_ms policy = 0 \<longrightarrow> attempt \<le> 63"
    and "in_i64 (ideal_delay policy attempt + ideal_delay policy attempt div 4)"
  shows "\<exists>d. compute_backoff checks rng policy attempt = Ok d \<and>
    clamp (ideal_delay policy attempt - ideal_delay policy attempt div 4) 0 (max_delay_ms policy) \<le> d \<and>
    d \<le> clamp (ideal_delay policy attempt + ideal_delay policy attempt div 4) 0 (max_delay_ms policy)"
proof -
  let ?D = "ideal_delay policy attempt"
  let ?j = "if rust_quot ?D 4 > 0 then rng (- rust_quot ?D 4) (rust_quot ?D 4) else 0"
  have nonneg: "0 \<le> ?D" using assms(1,3) by (simp add: ideal_delay_def)
  then have "?D \<le> ?D + ?D div 4" by simp
  then have D: "in_i64 ?D" using nonneg assms(8) by (auto simp: in_i64_def i64_min_def)
  have base: "base_delay checks policy attempt = Ok ?D"
    by (rule base_delay_ideal [OF assms(1-3) D assms(7,6)])
  have j: "\<bar>?j\<bar> \<le> ?D div 4" by (rule jitter_bounds [OF assms(5) nonneg])
  then have lo: "?D - ?D div 4 \<le> ?D + ?j" and hi: "?D + ?j \<le> ?D + ?D div 4" by (auto simp: abs_le_iff)
  have "0 \<le> ?D - ?D div 4" using nonneg by linarith
  with lo hi assms(8) have in_range: "in_i64 (?D + ?j)" by (auto simp: in_i64_def i64_min_def)
  have "compute_backoff checks rng policy attempt = Ok (clamp (?D + ?j) 0 (max_delay_ms policy))"
    using base in_range assms(4) by (simp add: compute_backoff_def clamp_i64_def Let_def)
  moreover have "clamp (?D - ?D div 4) 0 (max_delay_ms policy) \<le> clamp (?D + ?j) 0 (max_delay_ms policy)"
    "clamp (?D + ?j) 0 (max_delay_ms policy) \<le> clamp (?D + ?D div 4) 0 (max_delay_ms policy)"
    using lo hi assms(4) by (simp_all only: clamp_mono)
  ultimately show ?thesis by blast
qed

lemma compute_backoff_negative_cap:
  assumes "max_delay_ms policy < 0"
  shows "\<exists>msg. compute_backoff checks rng policy attempt = Panic msg"
proof -
  have "arith_i64 c i \<noteq> Err e" for c i and e :: unit by (simp add: arith_i64_def)
  then have "compute_backoff checks rng policy attempt \<noteq> Err e" for e
    by (auto simp: compute_backoff_def base_delay_def pow2_i64_def clamp_i64_def Let_def bind_outcome_Err split: if_splits)
  moreover have "compute_backoff checks rng policy attempt \<noteq> Ok d" for d
    using compute_backoff_range [of checks rng policy attempt d] assms by fastforce
  ultimately show ?thesis by (cases "compute_backoff checks rng policy attempt") auto
qed

section \<open>Properties\<close>

text \<open>For every policy, attempt, random source and build profile, a delay that is returned lies between
  zero and the policy's cap, and a policy whose cap is negative makes the computation panic, since the
  \<open>clamp\<close> of the standard library refuses crossed bounds.\<close>

lemma backoff_within_cap:
  "(compute_backoff checks rng policy attempt = Ok d \<longrightarrow> 0 \<le> d \<and> d \<le> max_delay_ms policy) \<and>
   (max_delay_ms policy < 0 \<longrightarrow> (\<exists>msg. compute_backoff checks rng policy attempt = Panic msg))"
  using compute_backoff_range compute_backoff_negative_cap by blast

lemma backoff_within_cap_example:
  "compute_backoff True (\<lambda>lo hi. hi) \<lparr>max_attempts = 3, backoff = ''exponential'', initial_delay_ms = 1000,
     max_delay_ms = 2200\<rparr> 2 = Ok 2200 \<and> (0::int) \<le> 2200 \<and> (2200::int) \<le> 2200 \<and>
   (\<exists>msg. compute_backoff True (\<lambda>lo hi. lo) \<lparr>max_attempts = 3, backoff = ''fixed'', initial_delay_ms = 100,
     max_delay_ms = -1\<rparr> 1 = Panic msg)"
proof -
  have "compute_backoff True (\<lambda>lo hi. hi) \<lparr>max_attempts = 3, backoff = ''exponential'', initial_delay_ms = 1000,
     max_delay_ms = 2200\<rparr> 2 = Ok 2200" by code_simp
  moreover have "\<exists>msg. compute_backoff True (\<lambda>lo hi. lo) \<lparr>max_attempts = 3, backoff = ''fixed'', initial_delay_ms = 100,
     max_delay_ms = -1\<rparr> 1 = Panic msg" by (rule backoff_within_cap [THEN conjunct2, THEN mp]) simp
  ultimately show ?thesis using backoff_within_cap [THEN conjunct1, THEN mp] by blast
qed

text \<open>C18: for the attempts and delays that do not overflow, the delay is the documented one (constant,
  linear or doubling), moved by at most a quarter of itself and cut to the cap; neither build profile
  panics there.\<close>

theorem backoff_is_documented_delay:
  assumes "1 \<le> attempt" and "attempt < 2 ^ 32" and "0 \<le> initial_delay_ms policy"
    and "0 \<le> max_delay_ms policy" and "in_range_rng rng"
    and "in_i64 (initial_delay_ms policy)" and "initial_delay_ms policy = 0 \<longrightarrow> attempt \<le> 63"
    and "in_i64 (ideal_delay policy attempt + ideal_delay policy attempt div 4)"
  shows "\<exists>d. compute_backoff checks rng policy attempt = Ok d \<and>
    clamp (ideal_delay policy attempt - ideal_delay policy attempt div 4) 0 (max_delay_ms policy) \<le> d \<and>
    d \<le> clamp (ideal_delay policy attempt + ideal_delay policy attempt div 4) 0 (max_delay_ms policy)"
  using assms by (rule compute_backoff_ideal)

theorem backoff_is_documented_delay_witness:
  "\<exists>d. compute_backoff False (\<lambda>lo hi. lo) \<lparr>max_attempts = 5, backoff = ''exponential'', initial_delay_ms = 1000,
     max_delay_ms = 60000\<rparr> 4 = Ok d \<and> 6000 \<le> d \<and> d \<le> 10000"
proof -
  let ?p = "\<lparr>max_attempts = 5, backoff = ''exponential'', initial_delay_ms = 1000, max_delay_ms = 60000\<rparr>"
  have i: "ideal_delay ?p 4 = 8000" by (simp add: ideal_delay_def)
  have r: "in_range_rng (\<lambda>lo hi. lo)" by (simp add: in_range_rng_def)
  show ?thesis
    using backoff_is_documented_delay [of 4 ?p "\<lambda>lo hi. lo" False] r
    by (simp add: i clamp_def in_i64_def i64_min_def i64_max_def)
qed

end
