(* ===== verification/Cache.thy ===== *)
theory Cache
  imports Models
begin

text \<open>
  \<open>crates/common/src/cache/config_cache.rs\<close> and \<open>secret_cache.rs\<close>: maps from names to values with the
  instant they were stored; an entry older than the time to live is removed by the lookup that finds
  it. Times are in microseconds. The locale \<open>ttl_cache\<close> is what both promise.
\<close>

type_synonym 'v cache_map = "string \<Rightarrow> ('v \<times> int) option"

record config_cache =
  cc_entries :: "json cache_map"
  cc_ttl :: int

record secret_cache =
  sc_entries :: "string cache_map"
  sc_ttl :: int

definition config_cache_new :: "nat \<Rightarrow> config_cache" where
  "config_cache_new ttl_secs = \<lparr>cc_entries = (\<lambda>_. None), cc_ttl = int ttl_secs * 1000000\<rparr>"

definition config_cache_get :: "int \<Rightarrow> string \<Rightarrow> config_cache \<Rightarrow> json option \<times> config_cache" where
  "config_cache_get now name c =
     (case cc_entries c name of
        None \<Rightarrow> (None, c)
      | Some (v, t) \<Rightarrow>
          if now - t < cc_ttl c then (Some v, c)
          else (None, c\<lparr>cc_entries := (cc_entries c)(name := None)\<rparr>))"

definition config_cache_set :: "int \<Rightarrow> string \<Rightarrow> json \<Rightarrow> config_cache \<Rightarrow> config_cache" where
  "config_cache_set now name v c = c\<lparr>cc_entries := (cc_entries c)(name \<mapsto> (v, now))\<rparr>"

definition config_cache_invalidate :: "string \<Rightarrow> config_cache \<Rightarrow> config_cache" where
  "config_cache_invalidate name c = c\<lparr>cc_entries := (cc_entries c)(name := None)\<rparr>"

definition secret_cache_new :: "nat \<Rightarrow> secret_cache" where
  "secret_cache_new ttl_secs = \<lparr>sc_entries = (\<lambda>_. None), sc_ttl = int ttl_secs * 1000000\<rparr>"

definition secret_cache_get :: "int \<Rightarrow> string \<Rightarrow> secret_cache \<Rightarrow> string option \<times> secret_cache" where
  "secret_cache_get now name c =
     (case sc_entries c name of
        None \<Rightarrow> (None, c)
      | Some (v, t) \<Rightarrow>
          if now - t < sc_ttl c then (Some v, c)
          else (None, c\<lparr>sc_entries := (sc_entries c)(name := None)\<rparr>))"

definition secret_cache_set :: "int \<Rightarrow> string \<Rightarrow> string \<Rightarrow> secret_cache \<Rightarrow> secret_cache" where
  "secret_cache_set now name v c = c\<lparr>sc_entries := (sc_entries c)(name \<mapsto> (v, now))\<rparr>"

definition secret_cache_invalidate :: "string \<Rightarrow> secret_cache \<Rightarrow> secret_cache" where
  "secret_cache_invalidate name c = c\<lparr>sc_entries := (sc_entries c)(name := None)\<rparr>"

section \<open>The contract\<close>

text \<open>\<open>view now c\<close> is what a lookup at time \<open>now\<close> would find.\<close>

locale ttl_cache =
  fixes get :: "int \<Rightarrow> string \<Rightarrow> 'c \<Rightarrow> 'v option \<times> 'c"
    and set :: "int \<Rightarrow> string \<Rightarrow> 'v \<Rightarrow> 'c \<Rightarrow> 'c"
    and invalidate :: "string \<Rightarrow> 'c \<Rightarrow> 'c"
    and ttl :: "'c \<Rightarrow> int"
    and view :: "int \<Rightarrow> 'c \<Rightarrow> string \<Rightarrow> 'v option"
  assumes get_value: "fst (get now k c) = view now c k"
    and get_state: "now \<le> now' \<Longrightarrow> view now' (snd (get now k c)) = view now' c"
    and set_view: "0 < ttl c \<Longrightarrow> view now' (set now k v c) k' =
      (if k' = k then (if now' - now < ttl c then Some v else None) else view now' c k')"
    and invalidate_view: "view now' (invalidate k c) k' = (if k' = k then None else view now' c k')"
    and ttl_const: "ttl (set now k v c) = ttl c" "ttl (snd (get now k c)) = ttl c" "ttl (invalidate k c) = ttl c"
begin

lemma get_after_set:
  "0 < ttl c \<Longrightarrow> fst (get now' k (set now k v c)) = (if now' - now < ttl c then Some v else None)"
  by (simp add: get_value set_view)

lemma get_after_set_other: "0 < ttl c \<Longrightarrow> k' \<noteq> k \<Longrightarrow> fst (get now' k' (set now k v c)) = fst (get now' k' c)"
  by (simp add: get_value set_view)

lemma get_after_invalidate: "fst (get now' k (invalidate k c)) = None"
  by (simp add: get_value invalidate_view)

lemma get_idempotent: "now \<le> now' \<Longrightarrow> fst (get now' k' (snd (get now k c))) = fst (get now' k' c)"
  by (simp add: get_value get_state)

end

definition config_cache_view :: "int \<Rightarrow> config_cache \<Rightarrow> string \<Rightarrow> json option" where
  "config_cache_view now c name =
     (case cc_entries c name of None \<Rightarrow> None | Some (v, t) \<Rightarrow> if now - t < cc_ttl c then Some v else None)"

definition secret_cache_view :: "int \<Rightarrow> secret_cache \<Rightarrow> string \<Rightarrow> string option" where
  "secret_cache_view now c name =
     (case sc_entries c name of None \<Rightarrow> None | Some (v, t) \<Rightarrow> if now - t < sc_ttl c then Some v else None)"

interpretation config_ttl: ttl_cache config_cache_get config_cache_set config_cache_invalidate cc_ttl
  config_cache_view
  by unfold_locales
    (auto simp: config_cache_get_def config_cache_set_def config_cache_invalidate_def
      config_cache_view_def fun_eq_iff split: option.splits prod.splits)

interpretation secret_ttl: ttl_cache secret_cache_get secret_cache_set secret_cache_invalidate sc_ttl
  secret_cache_view
  by unfold_locales
    (auto simp: secret_cache_get_def secret_cache_set_def secret_cache_invalidate_def
      secret_cache_view_def fun_eq_iff split: option.splits prod.splits)

section \<open>Properties\<close>

text \<open>C20: in both caches a value that was stored is found until its time to live has passed and never
  afterwards, storing it changes what no other name finds, a lookup that drops a stale entry changes no
  later lookup, and an invalidated name is found no more.\<close>

theorem caches_are_fresh:
  assumes "0 < cc_ttl c" and "0 < sc_ttl d" and "now \<le> now'"
  shows "fst (config_cache_get now' k (config_cache_set now n v c)) =
      (if k = n then (if now' - now < cc_ttl c then Some v else None) else fst (config_cache_get now' k c)) \<and>
    fst (config_cache_get now' k (snd (config_cache_get now n c))) = fst (config_cache_get now' k c) \<and>
    fst (config_cache_get now' k (config_cache_invalidate k c)) = None \<and>
    fst (secret_cache_get now' k (secret_cache_set now n w d)) =
      (if k = n then (if now' - now < sc_ttl d then Some w else None) else fst (secret_cache_get now' k d)) \<and>
    fst (secret_cache_get now' k (snd (secret_cache_get now n d))) = fst (secret_cache_get now' k d) \<and>
    fst (secret_cache_get now' k (secret_cache_invalidate k d)) = None"
  using config_ttl.get_after_set [OF assms(1)] config_ttl.get_after_set_other [OF assms(1)]
    config_ttl.get_idempotent [OF assms(3)] config_ttl.get_after_invalidate
    secret_ttl.get_after_set [OF assms(2)] secret_ttl.get_after_set_other [OF assms(2)]
    secret_ttl.get_idempotent [OF assms(3)] secret_ttl.get_after_invalidate by simp

theorem caches_are_fresh_witness:
  "fst (config_cache_get 5 ''a'' (config_cache_set 0 ''a'' JNull (config_cache_new 1))) = Some JNull \<and>
   fst (secret_cache_get 1000000 ''a'' (secret_cache_set 0 ''a'' ''s'' (secret_cache_new 1))) = None"
  using caches_are_fresh [of "config_cache_new 1" "secret_cache_new 1" 0 5 "''a''" "''a''" JNull]
    caches_are_fresh [of "config_cache_new 1" "secret_cache_new 1" 0 1000000 "''a''" "''a''" _ "''s''"]
  by (simp add: config_cache_new_def secret_cache_new_def)

end
