(* ===== verification/Dispatch.thy ===== *)
theory Dispatch
  imports Integrity Template Backoff Cache Crypto
begin

text \<open>
  \<open>crates/worker/src/dispatcher/\<close> and \<open>crates/worker/src/reaper.rs\<close>. The worker's state extends the
  connection with the two caches and the outside world: the messages it sent so far and the
  functions that answer them (the HTTP server, the Kafka broker, the Redis server). Sending takes
  time like a statement does. \<open>wk_refused\<close> is the request builder of the HTTP library: a request with
  an invalid URL or header is refused with an error when it should be sent, and nothing is sent.
\<close>

section \<open>The worker's state\<close>

record http_request =
  req_method :: string
  req_url :: string
  req_headers :: "(string \<times> string) list"
  req_timeout_ms :: int
  req_body :: "json option"

datatype http_reply = Http_Response nat string | Http_Error bool bool string
  \<comment> \<open>status and body; or an error with \<open>is_timeout\<close>, \<open>is_connect\<close> and its text\<close>

record kafka_record =
  kafka_servers :: string
  kafka_acks :: string
  kafka_timeout_ms :: int
  kafka_topic :: string
  kafka_key :: "string option"
  kafka_value :: string
  kafka_headers :: "(string \<times> string) list option"

datatype kafka_reply = Kafka_No_Producer string | Kafka_Delivered int int | Kafka_Error string

record redis_xadd =
  redis_url :: string
  redis_stream :: string
  redis_trim :: "(bool \<times> int) option"
  redis_fields :: "(string \<times> string) list"

datatype redis_reply = Redis_Bad_Url string | Redis_No_Connection string | Redis_Added string | Redis_Error string

datatype outbound = Http http_request | Kafka kafka_record | Redis redis_xadd

record worker = pg +
  wk_configs :: config_cache
  wk_secrets :: secret_cache
  wk_sent :: "outbound list"
  wk_refused :: "http_request \<Rightarrow> string option"
  wk_http :: "nat \<Rightarrow> http_request \<Rightarrow> http_reply"
  wk_kafka :: "nat \<Rightarrow> kafka_record \<Rightarrow> kafka_reply"
  wk_redis :: "nat \<Rightarrow> redis_xadd \<Rightarrow> redis_reply"

text \<open>The worker's functions report no error to their caller: they return, or unwind.\<close>

type_synonym 'a worker_prog = "(worker, 'a, unit) prog"

definition send :: "(worker \<Rightarrow> 'r) \<Rightarrow> outbound \<Rightarrow> (worker, 'r) state" where
  "send reply m = State (\<lambda>s. (reply s, (pg_elapse s)\<lparr>wk_sent := wk_sent s @ [m]\<rparr>))"

section \<open>HTTP\<close>

datatype dispatch_result = Success json | Failure json

definition jindex :: "json \<Rightarrow> string \<Rightarrow> json" where
  "jindex v k = (case jget v k of None \<Rightarrow> JNull | Some j \<Rightarrow> j)"

definition or_else :: "'a \<Rightarrow> 'a option \<Rightarrow> 'a" where
  "or_else d v = (case v of None \<Rightarrow> d | Some a \<Rightarrow> a)"

definition http_expected :: "json \<Rightarrow> int list" where
  "http_expected spec =
     (case as_array (jindex spec ''expected_status_codes'') of
        Some arr \<Rightarrow> map (\<lambda>n. n mod 2 ^ 16) (List.map_filter as_u64 arr)
      | None \<Rightarrow> [200, 201, 202, 204])"

definition http_method :: "json \<Rightarrow> string" where
  "http_method spec =
     (let m = to_uppercase (or_else ''POST'' (as_str (jindex spec ''method''))) in
      if m \<in> {''GET'', ''POST'', ''PUT'', ''PATCH'', ''DELETE''} then m else ''POST'')"

definition string_headers :: "json_map \<Rightarrow> (string \<times> string) list" where
  "string_headers hs = List.map_filter (\<lambda>(k, v). map_option (\<lambda>s. (k, s)) (as_str v)) hs"

definition idempotency_header :: string where
  "idempotency_header = ''x-invokr-idempotency-key''"

definition user_headers :: "json \<Rightarrow> (string \<times> string) list" where
  "user_headers spec = (case as_object (jindex spec ''headers'') of None \<Rightarrow> [] | Some hs \<Rightarrow> string_headers hs)"

definition sets_idempotency_key :: "(string \<times> string) list \<Rightarrow> bool" where
  "sets_idempotency_key hs \<longleftrightarrow> (\<exists>h \<in> set hs. eq_ignore_ascii_case (fst h) idempotency_header)"

definition http_headers :: "json \<Rightarrow> string \<Rightarrow> (string \<times> string) list" where
  "http_headers spec key =
     (if sets_idempotency_key (user_headers spec) then user_headers spec
      else user_headers spec @ [(idempotency_header, key)])"

definition http_body :: "json \<Rightarrow> json option" where
  "http_body spec =
     (case (case jget spec ''body_template'' of Some b \<Rightarrow> Some b | None \<Rightarrow> jget spec ''body'') of
        Some b \<Rightarrow> if is_null b then None else Some b
      | None \<Rightarrow> None)"

definition http_request_of :: "json \<Rightarrow> string \<Rightarrow> http_request" where
  "http_request_of spec key =
     \<lparr>req_method = http_method spec, req_url = or_else [] (as_str (jindex spec ''url'')),
      req_headers = http_headers spec key,
      req_timeout_ms = or_else 5000 (as_u64 (jindex spec ''timeout_ms'')), req_body = http_body spec\<rparr>"

definition http_result :: "json \<Rightarrow> http_reply \<Rightarrow> dispatch_result" where
  "http_result spec r =
     (case r of
        Http_Response status body \<Rightarrow>
          if int status \<in> set (http_expected spec) then
            Success (jobj [(''status_code'', JInt (int status)), (''body'', JStr body)])
          else
            Failure (jobj [(''type'', JStr ''HTTP_ERROR''), (''status_code'', JInt (int status)),
                           (''message'', JStr (''Unexpected status code: '' @ show_nat status))])
      | Http_Error timeout connect msg \<Rightarrow>
          Failure (jobj [(''type'', JStr (if timeout then ''TIMEOUT''
                                         else if connect then ''CONNECTION_ERROR'' else ''HTTP_ERROR'')),
                         (''message'', JStr msg)]))"

definition http_send :: "http_request \<Rightarrow> (worker, http_reply) state" where
  "http_send req = State (\<lambda>s.
     case wk_refused s req of
       Some msg \<Rightarrow> (Http_Error False False msg, s)
     | None \<Rightarrow> run_state (send (\<lambda>s. wk_http s (length (wk_sent s)) req) (Http req)) s)"

definition http_dispatch :: "json \<Rightarrow> string \<Rightarrow> dispatch_result worker_prog" where
  "http_dispatch spec key =
     State_Monad.bind (http_send (http_request_of spec key)) (\<lambda>r. ok (http_result spec r))"

section \<open>Kafka and Redis streams\<close>

definition kafka_record_of :: "ext \<Rightarrow> json \<Rightarrow> kafka_record" where
  "kafka_record_of x spec =
     \<lparr>kafka_servers = or_else [] (as_str (jindex spec ''bootstrap_servers'')),
      kafka_acks = or_else ''all'' (as_str (jindex spec ''acks'')),
      kafka_timeout_ms = or_else 10000 (as_u64 (jindex spec ''timeout_ms'')),
      kafka_topic = or_else [] (as_str (jindex spec ''topic'')),
      kafka_key = Option.bind (jget spec ''key_template'') as_str,
      kafka_value = or_else ''{}'' (map_option (json_to_string x) (jget spec ''value_template'')),
      kafka_headers = map_option string_headers (Option.bind (jget spec ''headers'') as_object)\<rparr>"

definition kafka_result :: "kafka_reply \<Rightarrow> dispatch_result" where
  "kafka_result r =
     (case r of
        Kafka_No_Producer e \<Rightarrow>
          Failure (jobj [(''type'', JStr ''BROKER_ERROR''), (''message'', JStr (''Failed to create producer: '' @ e))])
      | Kafka_Delivered part offset \<Rightarrow>
          Success (jobj [(''partition'', JInt part), (''offset'', JInt offset)])
      | Kafka_Error e \<Rightarrow>
          Failure (jobj [(''type'', JStr (if str_contains ''timeout'' e then ''TIMEOUT'' else ''BROKER_ERROR'')),
                         (''message'', JStr e)]))"

definition kafka_dispatch :: "ext \<Rightarrow> json \<Rightarrow> dispatch_result worker_prog" where
  "kafka_dispatch x spec =
     (let rec = kafka_record_of x spec in
      State_Monad.bind (send (\<lambda>s. wk_kafka s (length (wk_sent s)) rec) (Kafka rec)) (\<lambda>r.
      ok (kafka_result r)))"

fun as_bool :: "json \<Rightarrow> bool option" where
  "as_bool (JBool b) = Some b"
| "as_bool _ = None"

definition redis_xadd_of :: "ext \<Rightarrow> json \<Rightarrow> json_map \<Rightarrow> redis_xadd" where
  "redis_xadd_of x spec fields_template =
     \<lparr>redis_url = or_else ''redis://127.0.0.1:6379'' (as_str (jindex spec ''redis_url'')),
      redis_stream = or_else [] (as_str (jindex spec ''stream'')),
      redis_trim = map_option (\<lambda>n. (or_else True (Option.bind (jget spec ''approximate_trimming'') as_bool), n))
        (Option.bind (jget spec ''max_len'') as_u64),
      redis_fields = map (\<lambda>(k, v). (k, render x v)) fields_template\<rparr>"

definition redis_result :: "string \<Rightarrow> redis_reply \<Rightarrow> dispatch_result" where
  "redis_result stream r =
     (case r of
        Redis_Bad_Url e \<Rightarrow>
          Failure (jobj [(''type'', JStr ''CONNECTION_ERROR''), (''message'', JStr (''Failed to connect to Redis: '' @ e))])
      | Redis_No_Connection e \<Rightarrow>
          Failure (jobj [(''type'', JStr ''CONNECTION_ERROR''), (''message'', JStr (''Redis connection failed: '' @ e))])
      | Redis_Added i \<Rightarrow> Success (jobj [(''message_id'', JStr i), (''stream'', JStr stream)])
      | Redis_Error e \<Rightarrow>
          Failure (jobj [(''type'', JStr (if str_contains ''timeout'' e then ''TIMEOUT'' else ''STREAM_ERROR'')),
                         (''message'', JStr e)]))"

definition redis_dispatch :: "ext \<Rightarrow> json \<Rightarrow> dispatch_result worker_prog" where
  "redis_dispatch x spec =
     (case Option.bind (jget spec ''fields_template'') as_object of
        None \<Rightarrow> ok (Failure (jobj
          [(''type'', JStr ''STREAM_ERROR''), (''message'', JStr ''Missing fields_template in spec'')]))
      | Some f \<Rightarrow>
          (let cmd = redis_xadd_of x spec f in
           State_Monad.bind (send (\<lambda>s. wk_redis s (length (wk_sent s)) cmd) (Redis cmd)) (\<lambda>r.
           ok (redis_result (redis_stream cmd) r))))"

section \<open>The reaper\<close>

fun unregister_all :: "string \<Rightarrow> string list \<Rightarrow> ('x, unit) db_prog" where
  "unregister_all schema [] = ok ()"
| "unregister_all schema (j # js) =
     tryS (unregister_pg_cron_conn schema j) (\<lambda>_. unregister_all schema js)"

definition reap_schema :: "string \<Rightarrow> string \<Rightarrow> ('x, string list) db_prog" where
  "reap_schema prefix schema =
     tryS (retire_expired_cron_jobs prefix) (\<lambda>retired.
     tryS (unregister_all schema retired) (\<lambda>_. ok retired))"

definition internal_dispatch :: "ext \<Rightarrow> string \<Rightarrow> string \<Rightarrow> json \<Rightarrow> dispatch_result worker_prog" where
  "internal_dispatch x prefix schema spec =
     (case Option.bind (jget spec ''task'') as_str of
        None \<Rightarrow> ok (Failure (jobj
          [(''type'', JStr ''INTERNAL_TASK_MISSING''),
           (''message'', JStr ''INTERNAL endpoint spec is missing required `task` field'')]))
      | Some task \<Rightarrow>
          if task = ''reaper'' then
            matchS (reap_schema prefix schema)
              (\<lambda>retired. ok (Success (jobj
                  [(''task'', JStr ''reaper''), (''schema'', JStr schema),
                   (''retired_count'', JInt (int (length retired))),
                   (''retired_job_ids'', JArr (map JStr retired))])))
              (\<lambda>e. ok (Failure (jobj
                  [(''type'', JStr ''REAPER_SWEEP_FAILED''), (''message'', JStr (sqlx_display x e))])))
          else ok (Failure (jobj
            [(''type'', JStr ''INTERNAL_TASK_UNKNOWN''),
             (''message'', JStr (''Unknown INTERNAL task: '' @ task))])))"

section \<open>Laws\<close>

lemma http_headers_keyed:
  "sets_idempotency_key (http_headers spec key)"
  "\<not> sets_idempotency_key (user_headers spec) \<Longrightarrow>
     filter (\<lambda>h. eq_ignore_ascii_case (fst h) idempotency_header) (http_headers spec key) =
       [(idempotency_header, key)]"
  "set (user_headers spec) \<subseteq> set (http_headers spec key)"
  by (auto simp: http_headers_def sets_idempotency_key_def eq_ignore_ascii_case_def filter_empty_conv)

lemma http_dispatch_run:
  "run_state (http_dispatch spec key) s =
     (let req = http_request_of spec key in
      case wk_refused s req of
        Some msg \<Rightarrow> (Ok (http_result spec (Http_Error False False msg)), s)
      | None \<Rightarrow> (Ok (http_result spec (wk_http s (length (wk_sent s)) req)),
          (pg_elapse s)\<lparr>wk_sent := wk_sent s @ [Http req]\<rparr>))"
  by (simp add: http_dispatch_def http_send_def send_def Let_def split: option.split)

lemma keeps_case_dispatch_result [keeps_intros]:
  "(\<And>v. keeps I (f v)) \<Longrightarrow> (\<And>v. keeps I (g v)) \<Longrightarrow> keeps I (case_dispatch_result f g r)"
  by (cases r) auto

lemma pg_elapse_simps [simp]:
  "pg_db (pg_elapse s) = pg_db s" "pg_tx (pg_elapse s) = pg_tx s" "pg_path (pg_elapse s) = pg_path s"
  "committed (pg_elapse s) = committed s"
  by (auto simp: pg_elapse_def committed_def split: list.splits option.splits)

lemma committed_worker [simp]:
  "committed (s\<lparr>wk_sent := m\<rparr>) = committed s" "committed (s\<lparr>wk_configs := c\<rparr>) = committed s"
  "committed (s\<lparr>wk_secrets := c'\<rparr>) = committed s"
  by (auto simp: committed_def split: option.splits)

lemma keeps_send [keeps_intros]: "keeps (db_inv D) (send reply m)"
  by (rule keepsI) (simp add: send_def db_inv_def)

lemma keeps_http_send: "keeps I (send (\<lambda>s. wk_http s (length (wk_sent s)) req) (Http req)) \<Longrightarrow> keeps I (http_send req)"
  by (auto simp: keeps_def http_send_def split: option.split)

lemma keeps_db_inv_http_send [keeps_intros]: "keeps (db_inv D) (http_send req)"
  by (intro keeps_http_send keeps_send)

lemma keeps_dispatchers [keeps_intros]:
  "keeps (db_inv D) (http_dispatch spec key)" "keeps (db_inv D) (kafka_dispatch x spec)"
  "keeps (db_inv D) (redis_dispatch x spec)"
  unfolding http_dispatch_def kafka_dispatch_def redis_dispatch_def Let_def
  by (intro keeps_intros)+

context worker_invariant
begin

lemma keeps_unregister_all [keeps_intros]: "keeps (db_inv D) (unregister_all schema js)"
  by (induction js) (simp_all, (intro keeps_intros | assumption)+)

lemma keeps_reap_schema [keeps_intros]: "keeps (db_inv D) (reap_schema prefix schema)"
  unfolding reap_schema_def by (intro keeps_intros)

lemma keeps_internal_dispatch [keeps_intros]:
  "keeps (db_inv D) (internal_dispatch x prefix schema spec)"
  unfolding internal_dispatch_def by (intro keeps_intros)

end

lemma keeps_in_tx_send: "keeps (in_tx d0) (send reply m)"
  by (rule keepsI) (simp add: send_def in_tx_def)

section \<open>Properties\<close>

text \<open>C15: an HTTP dispatch sends exactly one request, built from the spec, and its result is read off what
  the server answers to that request. The request goes to the URL of the spec, carries every header of the
  spec with a text value, and an idempotency header: the headers of that name in the spec, in any case of
  letters, or else the execution's key alone. The dispatch succeeds exactly when the server's status is one of
  the expected ones (compared as \<open>u16\<close>), and hands on the status and the body. A request the HTTP library
  refuses to build is not sent, and fails as \<open>HTTP_ERROR\<close>.\<close>

theorem http_dispatch_keyed:
  assumes "run_state (http_dispatch spec key) s = (r, s')" and "req = http_request_of spec key"
  shows "req_url req = (case jget spec ''url'' of Some (JStr u) \<Rightarrow> u | _ \<Rightarrow> []) \<and>
    (\<forall>hs h v. jget spec ''headers'' = Some (JObj hs) \<and> (h, JStr v) \<in> set hs \<longrightarrow> (h, v) \<in> set (req_headers req)) \<and>
    filter (\<lambda>h. eq_ignore_ascii_case (fst h) ''x-invokr-idempotency-key'') (req_headers req) =
      (if \<exists>h \<in> set (user_headers spec). eq_ignore_ascii_case (fst h) ''x-invokr-idempotency-key''
       then filter (\<lambda>h. eq_ignore_ascii_case (fst h) ''x-invokr-idempotency-key'') (user_headers spec)
       else [(''x-invokr-idempotency-key'', key)]) \<and>
    (case wk_refused s req of
       Some msg \<Rightarrow> s' = s \<and> r = Ok (Failure (jobj [(''type'', JStr ''HTTP_ERROR''), (''message'', JStr msg)]))
     | None \<Rightarrow> s' = (pg_elapse s)\<lparr>wk_sent := wk_sent s @ [Http req]\<rparr> \<and>
         (case wk_http s (length (wk_sent s)) req of
            Http_Response status body \<Rightarrow>
              if int status \<in> set (http_expected spec)
              then r = Ok (Success (jobj [(''status_code'', JInt (int status)), (''body'', JStr body)]))
              else (\<exists>e. r = Ok (Failure e))
          | Http_Error timeout connect msg \<Rightarrow> (\<exists>e. r = Ok (Failure e))))"
proof -
  have url: "req_url req = (case jget spec ''url'' of Some (JStr u) \<Rightarrow> u | _ \<Rightarrow> [])"
    unfolding assms(2) by (cases "jget spec ''url''"; (cases "the (jget spec ''url'')")?)
      (auto simp: http_request_of_def jindex_def or_else_def)
  have sent: "(h, v) \<in> set (req_headers req)"
    if "jget spec ''headers'' = Some (JObj hs) \<and> (h, JStr v) \<in> set hs" for hs h v
  proof -
    from that have "(h, v) \<in> set (user_headers spec)"
      by (force simp: user_headers_def jindex_def string_headers_def List.map_filter_def)
    then show ?thesis using http_headers_keyed(3) assms(2) by (auto simp: http_request_of_def)
  qed
  have keyed: "filter (\<lambda>h. eq_ignore_ascii_case (fst h) ''x-invokr-idempotency-key'') (req_headers req) =
      (if \<exists>h \<in> set (user_headers spec). eq_ignore_ascii_case (fst h) ''x-invokr-idempotency-key''
       then filter (\<lambda>h. eq_ignore_ascii_case (fst h) ''x-invokr-idempotency-key'') (user_headers spec)
       else [(''x-invokr-idempotency-key'', key)])"
    using http_headers_keyed(2) [of spec key] assms(2)
    by (simp add: http_request_of_def http_headers_def sets_idempotency_key_def idempotency_header_def)
  have run: "case wk_refused s req of
       Some msg \<Rightarrow> s' = s \<and> r = Ok (http_result spec (Http_Error False False msg))
     | None \<Rightarrow> s' = (pg_elapse s)\<lparr>wk_sent := wk_sent s @ [Http req]\<rparr> \<and>
         r = Ok (http_result spec (wk_http s (length (wk_sent s)) req))"
    using assms(1) by (auto simp: http_dispatch_run assms(2) Let_def split: option.splits)
  have answer: "case wk_refused s req of
       Some msg \<Rightarrow> s' = s \<and> r = Ok (Failure (jobj [(''type'', JStr ''HTTP_ERROR''), (''message'', JStr msg)]))
     | None \<Rightarrow> s' = (pg_elapse s)\<lparr>wk_sent := wk_sent s @ [Http req]\<rparr> \<and>
         (case wk_http s (length (wk_sent s)) req of
            Http_Response status body \<Rightarrow>
              if int status \<in> set (http_expected spec)
              then r = Ok (Success (jobj [(''status_code'', JInt (int status)), (''body'', JStr body)]))
              else (\<exists>e. r = Ok (Failure e))
          | Http_Error timeout connect msg \<Rightarrow> (\<exists>e. r = Ok (Failure e)))"
    using run by (auto simp: http_result_def split: option.splits http_reply.splits)
  show ?thesis using sent by (intro conjI url keyed answer) blast
qed

definition idle_worker :: worker where
  "idle_worker = \<lparr>pg_db = \<lparr>organizations = [], workspaces = [], tenants = (\<lambda>_. None), cron_job = (\<lambda>_. None)\<rparr>,
     pg_path = ''public'', pg_tx = None, pg_clock = 100, pg_delays = [], pg_faults = [],
     pg_uuid = (\<lambda>n. ''u'' @ show_nat n), pg_next = 0, pg_locked = [],
     wk_configs = \<lparr>cc_entries = (\<lambda>_. None), cc_ttl = 60\<rparr>, wk_secrets = \<lparr>sc_entries = (\<lambda>_. None), sc_ttl = 60\<rparr>, wk_sent = [],
     wk_refused = (\<lambda>req. if req_url req = [] then Some ''builder error'' else None),
     wk_http = (\<lambda>_ req. if req_url req = ''http://h/'' then Http_Response 202 ''queued'' else Http_Response 404 ''''),
     wk_kafka = (\<lambda>_ _. Kafka_Error ''''), wk_redis = (\<lambda>_ _. Redis_Error '''')\<rparr>"

theorem http_dispatch_keyed_witness:
  "\<exists>r s'. run_state (http_dispatch (jobj [(''url'', JStr ''http://h/''), (''headers'', jobj [(''a'', JStr ''b''), (''n'', JInt 1)])]) ''k'')
       idle_worker = (r, s') \<and>
     r = Ok (Success (jobj [(''status_code'', JInt 202), (''body'', JStr ''queued'')])) \<and>
     (\<exists>req. wk_sent s' = [Http req] \<and> (''a'', ''b'') \<in> set (req_headers req) \<and>
        filter (\<lambda>h. eq_ignore_ascii_case (fst h) ''x-invokr-idempotency-key'') (req_headers req) = [(''x-invokr-idempotency-key'', ''k'')])"
proof -
  let ?spec = "jobj [(''url'', JStr ''http://h/''), (''headers'', jobj [(''a'', JStr ''b''), (''n'', JInt 1)])]"
  let ?req = "http_request_of ?spec ''k''"
  obtain r s' where run: "run_state (http_dispatch ?spec ''k'') idle_worker = (r, s')" by fastforce
  have vals: "wk_refused idle_worker ?req = None" "wk_sent idle_worker = []"
    "wk_http idle_worker 0 ?req = Http_Response 202 ''queued''" "(202 :: int) \<in> set (http_expected ?spec)"
    "\<not> (\<exists>h \<in> set (user_headers ?spec). eq_ignore_ascii_case (fst h) ''x-invokr-idempotency-key'')"
    "jget ?spec ''headers'' = Some (JObj [(''a'', JStr ''b''), (''n'', JInt 1)])"
    by code_simp+
  note at = http_dispatch_keyed [OF run refl]
  have "s' = (pg_elapse idle_worker)\<lparr>wk_sent := [Http ?req]\<rparr>"
    and "r = Ok (Success (jobj [(''status_code'', JInt 202), (''body'', JStr ''queued'')]))"
    using at vals by (simp_all split: if_splits)
  moreover have "(''a'', ''b'') \<in> set (req_headers ?req)" using at vals(6) by auto
  moreover have "filter (\<lambda>h. eq_ignore_ascii_case (fst h) ''x-invokr-idempotency-key'') (req_headers ?req) =
      [(''x-invokr-idempotency-key'', ''k'')]"
    using at vals(5) by presburger
  ultimately show ?thesis using run by auto
qed

end
