(* ===== verification/Pipeline.thy ===== *)
theory Pipeline
  imports Dispatch
begin

text \<open>
  \<open>crates/worker/src/pipeline.rs\<close>: what the worker does with a claimed execution, inside the claim's
  transaction: load the endpoint, its config and the secrets its spec names, resolve the templates,
  dispatch, record the attempt and finish the execution. Database errors on the way out are logged
  and dropped, as \<open>let _ =\<close> and \<open>if let Err\<close> do in the source; metrics and tracing are left out.
\<close>

section \<open>Context\<close>

record pipeline_ctx =
  ctx_encryption_key :: string
  ctx_table_prefix :: string
  ctx_kafka :: bool
  ctx_redis_stream :: bool
  ctx_overflow_checks :: bool
    \<comment> \<open>the cargo features \<open>kafka\<close> and \<open>redis-stream\<close>, and the build profile\<close>

definition cached_config :: "string \<Rightarrow> (worker, json option) state" where
  "cached_config name = State (\<lambda>s.
     case config_cache_get (pg_clock s) name (wk_configs s) of (v, c) \<Rightarrow> (v, s\<lparr>wk_configs := c\<rparr>))"

definition store_config :: "string \<Rightarrow> json \<Rightarrow> (worker, unit) state" where
  "store_config name v = State (\<lambda>s.
     ((), s\<lparr>wk_configs := config_cache_set (pg_clock s) name v (wk_configs s)\<rparr>))"

definition cached_secret :: "string \<Rightarrow> (worker, string option) state" where
  "cached_secret name = State (\<lambda>s.
     case secret_cache_get (pg_clock s) name (wk_secrets s) of (v, c) \<Rightarrow> (v, s\<lparr>wk_secrets := c\<rparr>))"

definition store_secret :: "string \<Rightarrow> string \<Rightarrow> (worker, unit) state" where
  "store_secret name v = State (\<lambda>s.
     ((), s\<lparr>wk_secrets := secret_cache_set (pg_clock s) name v (wk_secrets s)\<rparr>))"

section \<open>Loading\<close>

definition lift_outcome :: "('a, 'e) outcome \<Rightarrow> ('s, 'a, 'e) prog" where
  "lift_outcome r = State_Monad.return r"

definition flatten_json_object :: "json \<Rightarrow> (string \<Rightarrow> json option, string) outcome" where
  "flatten_json_object v =
     bind_outcome (ok_or (as_object v) ''Config values must be a JSON object'') (\<lambda>obj. Ok (map_of obj))"

definition load_config ::
  "ext \<Rightarrow> string \<Rightarrow> string \<Rightarrow> (worker, string \<Rightarrow> json option, string) prog" where
  "load_config x prefix name = State_Monad.bind (cached_config name) (\<lambda>cached.
     case cached of
       Some v \<Rightarrow> lift_outcome (flatten_json_object v)
     | None \<Rightarrow>
         tryS (map_errS (\<lambda>e. ''Failed to load config '' @ quoted name @ '': '' @ sqlx_display x e)
           (db_configs_get prefix name)) (\<lambda>row.
         tryS (lift_outcome (ok_or row (''Config '' @ quoted name @ '' not found''))) (\<lambda>config.
         State_Monad.bind (store_config name (values_json config)) (\<lambda>_.
         lift_outcome (flatten_json_object (values_json config))))))"

definition load_single_secret ::
  "ext \<Rightarrow> pipeline_ctx \<Rightarrow> string \<Rightarrow> (worker, string, string) prog" where
  "load_single_secret x ctx name = State_Monad.bind (cached_secret name) (\<lambda>cached.
     case cached of
       Some v \<Rightarrow> ok v
     | None \<Rightarrow>
         tryS (map_errS (\<lambda>e. ''Failed to load secret '' @ quoted name @ '': '' @ sqlx_display x e)
           (db_secrets_get (ctx_table_prefix ctx) name)) (\<lambda>row.
         tryS (lift_outcome (ok_or row (''Secret '' @ quoted name @ '' not found''))) (\<lambda>secret.
         tryS (lift_outcome (map_err (\<lambda>e. ''Failed to decrypt secret '' @ quoted name @ '': '' @ e)
           (decrypt x (encrypted_value secret) (ctx_encryption_key ctx)))) (\<lambda>decrypted.
         State_Monad.bind (store_secret name decrypted) (\<lambda>_. ok decrypted)))))"

text \<open>The scan of the printed spec for \<open>{{secret.\<close> ... \<open>}}\<close>. Each slice panics where Rust's does.\<close>

definition with_slice ::
  "string \<Rightarrow> nat \<Rightarrow> nat \<Rightarrow> (string \<Rightarrow> (worker, 'a, string) prog) \<Rightarrow> (worker, 'a, string) prog" where
  "with_slice s a b f = tryS (lift_outcome (str_slice s a b)) f"

lemma with_slice_cong [fundef_cong]:
  assumes "s = s'" and "a = a'" and "b = b'" and "\<And>t. str_slice s' a' b' = (Ok t :: (string, string) outcome) \<Longrightarrow> f t = g t"
  shows "with_slice s a b f = with_slice s' a' b' g"
  unfolding with_slice_def assms(1-3) using assms(4)
  by (cases "str_slice s' a' b' :: (string, string) outcome") (simp_all add: tryS_def lift_outcome_def)

function load_secrets_from ::
  "ext \<Rightarrow> pipeline_ctx \<Rightarrow> string \<Rightarrow> nat \<Rightarrow> (string \<Rightarrow> string option) \<Rightarrow>
   (worker, string \<Rightarrow> string option, string) prog" where
  "load_secrets_from x ctx spec_str start secrets' =
     with_slice spec_str start (length spec_str) (\<lambda>rest.
     case str_find ''{{secret.'' rest of
        None \<Rightarrow> ok secrets'
      | Some pos \<Rightarrow>
          let abs_pos = start + pos + 9 in
          with_slice spec_str abs_pos (length spec_str) (\<lambda>tail.
          case str_find ''}}'' tail of
             None \<Rightarrow> ok secrets'
           | Some e \<Rightarrow>
               with_slice spec_str abs_pos (abs_pos + e) (\<lambda>name.
               if secrets' name \<noteq> None then
                 load_secrets_from x ctx spec_str (abs_pos + e + 2) secrets'
               else
                 tryS (load_single_secret x ctx name) (\<lambda>v.
                 load_secrets_from x ctx spec_str (abs_pos + e + 2) (secrets'(name \<mapsto> v))))))"
  by pat_completeness auto

termination
  by (relation "measure (\<lambda>(_, _, s, start, _). length s - start)")
    (auto simp: str_slice_def split: if_splits dest!: str_find_Some)

declare load_secrets_from.simps [simp del]

definition load_secrets ::
  "ext \<Rightarrow> pipeline_ctx \<Rightarrow> json \<Rightarrow> (worker, string \<Rightarrow> string option, string) prog" where
  "load_secrets x ctx spec = load_secrets_from x ctx (json_to_string x spec) 0 (\<lambda>_. None)"

section \<open>Recording\<close>

definition num_milliseconds :: "int \<Rightarrow> int" where
  "num_milliseconds us = rust_quot us 1000"

definition record_attempt ::
  "string \<Rightarrow> string \<Rightarrow> int \<Rightarrow> string \<Rightarrow> timestamp \<Rightarrow> json option \<Rightarrow> json option \<Rightarrow> unit worker_prog" where
  "record_attempt prefix eid n status started out er = State_Monad.bind utc_now (\<lambda>completed.
     ignoreS (attempts_insert prefix eid n status started completed
       (num_milliseconds (completed - started)) out er) (ok ()))"

definition log_execution :: "string \<Rightarrow> string \<Rightarrow> int \<Rightarrow> string \<Rightarrow> string \<Rightarrow> unit worker_prog" where
  "log_execution prefix eid n level msg = ignoreS (logs_insert prefix eid n level msg) (ok ())"

section \<open>Processing\<close>

text \<open>The three early exits of template resolution differ in the first words of their log line.\<close>

definition fail_resolution ::
  "string \<Rightarrow> string \<Rightarrow> int \<Rightarrow> timestamp \<Rightarrow> string \<Rightarrow> string \<Rightarrow> unit worker_prog" where
  "fail_resolution prefix eid n started what e =
     ignoreS (complete_failed prefix eid)
      (tryS (record_attempt prefix eid n ''FAILED'' started None
         (Some (jobj [(''type'', JStr ''TEMPLATE_RESOLUTION_FAILED''), (''message'', JStr e)]))) (\<lambda>_.
       log_execution prefix eid n ''ERROR'' (what @ e)))"

definition execution_map :: "string \<Rightarrow> int \<Rightarrow> string \<Rightarrow> string \<Rightarrow> string \<Rightarrow> json option" where
  "execution_map key n eid jid =
     [''idempotency_key'' \<mapsto> JStr key, ''attempt_count'' \<mapsto> JInt n, ''execution_id'' \<mapsto> JStr eid,
      ''job_id'' \<mapsto> JStr jid]"

text \<open>Step 3: the job input becomes the body of a spec that has none.\<close>

definition inject_body :: "json option \<Rightarrow> json \<Rightarrow> json" where
  "inject_body inp spec =
     (if jget spec ''body'' = None \<and> jget spec ''body_template'' = None then
        (case (inp, spec) of
           (Some v, JObj kvs) \<Rightarrow> JObj (map_insert ''body'' v kvs)
         | _ \<Rightarrow> spec)
      else spec)"

definition dispatch ::
  "ext \<Rightarrow> pipeline_ctx \<Rightarrow> string \<Rightarrow> string \<Rightarrow> json \<Rightarrow> string \<Rightarrow> dispatch_result worker_prog" where
  "dispatch x ctx schema etype spec key =
     (if etype = ''HTTP'' then http_dispatch spec key
      else if etype = ''INTERNAL'' then internal_dispatch x (ctx_table_prefix ctx) schema spec
      else if etype = ''KAFKA'' \<and> ctx_kafka ctx then kafka_dispatch x spec
      else if etype = ''REDIS_STREAM'' \<and> ctx_redis_stream ctx then redis_dispatch x spec
      else ok (Failure (jobj [(''type'', JStr ''UNSUPPORTED_TYPE''),
                              (''message'', JStr (''Unsupported: '' @ etype))])))"

text \<open>The random stream is read at the position of the uuid counter.\<close>

definition backoff_prog :: "ext \<Rightarrow> bool \<Rightarrow> retry_policy \<Rightarrow> int \<Rightarrow> int worker_prog" where
  "backoff_prog x checks policy attempt =
     State (\<lambda>s. (compute_backoff checks (gen_range x (pg_next s)) policy attempt, s))"

text \<open>Step 5: record the attempt and finish the execution.\<close>

definition finalize ::
  "ext \<Rightarrow> pipeline_ctx \<Rightarrow> string \<Rightarrow> timestamp \<Rightarrow> retry_policy \<Rightarrow> int \<Rightarrow> int \<Rightarrow> timestamp \<Rightarrow> dispatch_result \<Rightarrow> unit worker_prog" where
  "finalize x ctx eid started policy n limit completed result =
     (let prefix = ctx_table_prefix ctx; dur = num_milliseconds (completed - started) in
      case result of
        Success out \<Rightarrow>
          tryS (record_attempt prefix eid n ''SUCCESS'' started (Some out) None) (\<lambda>_.
          ignoreS (complete_success prefix eid out)
          (log_execution prefix eid n ''INFO'' (''Execution succeeded in '' @ show_int dur @ ''ms'')))
      | Failure er \<Rightarrow>
          tryS (record_attempt prefix eid n ''FAILED'' started None (Some er)) (\<lambda>_.
          if n < limit then
            tryS (backoff_prog x (ctx_overflow_checks ctx) policy n) (\<lambda>ms.
            ignoreS (complete_retry prefix eid ms)
            (log_execution prefix eid n ''WARN''
              (''Attempt '' @ show_int n @ '' failed, retrying in '' @ show_int ms @ ''ms: '' @ json_to_string x er)))
          else
            ignoreS (complete_failed prefix eid)
            (log_execution prefix eid n ''ERROR''
              (''Execution failed after '' @ show_int n @ '' attempts: '' @ json_to_string x er))))"

definition run_endpoint ::
  "ext \<Rightarrow> pipeline_ctx \<Rightarrow> string \<Rightarrow> string \<Rightarrow> string \<Rightarrow> string \<Rightarrow> string \<Rightarrow> string \<Rightarrow> json option \<Rightarrow> int \<Rightarrow> int \<Rightarrow>
   timestamp \<Rightarrow> retry_policy \<Rightarrow> json \<Rightarrow> unit worker_prog" where
  "run_endpoint x ctx schema eid key jid ep etype inp n limit started policy resolved =
     (let prefix = ctx_table_prefix ctx; spec = inject_body inp resolved in
      tryS (log_execution prefix eid n ''INFO'' (''Dispatching '' @ etype @ '' to '' @ ep)) (\<lambda>_.
      tryS (dispatch x ctx schema etype spec key) (\<lambda>result.
      State_Monad.bind utc_now (\<lambda>completed.
      finalize x ctx eid started policy n limit completed result))))"

definition process_execution ::
  "ext \<Rightarrow> pipeline_ctx \<Rightarrow> string \<Rightarrow> string \<Rightarrow> string \<Rightarrow> string \<Rightarrow> string \<Rightarrow> string \<Rightarrow> json option \<Rightarrow> int \<Rightarrow> int \<Rightarrow> unit worker_prog" where
  "process_execution x ctx schema eid key jid ep_name' etype inp n limit =
     (let prefix = ctx_table_prefix ctx in
      State_Monad.bind utc_now (\<lambda>started.
      matchS (db_endpoints_get prefix ep_name') (\<lambda>row. case row of
          None \<Rightarrow>
            ignoreS (complete_failed prefix eid)
            (log_execution prefix eid n ''ERROR'' (''Endpoint not found: '' @ ep_name'))
        | Some ep \<Rightarrow>
            let policy = get_retry_policy ep in
            matchS (case config_ref ep of None \<Rightarrow> ok (\<lambda>_. None) | Some c \<Rightarrow> load_config x prefix c) (\<lambda>config_values.
            matchS (load_secrets x ctx (ep_spec ep)) (\<lambda>secret_values.
              let env = \<lparr>t_input = (case Option.bind inp as_object of None \<Rightarrow> (\<lambda>_. None) | Some o' \<Rightarrow> map_of o'),
                         t_config = config_values, t_secrets = secret_values,
                         t_execution = execution_map key n eid jid\<rparr>
              in matchS (lift_outcome (resolve x env (ep_spec ep)))
                   (run_endpoint x ctx schema eid key jid ep_name' etype inp n limit started policy)
                   (fail_resolution prefix eid n started ''Template resolution failed: ''))
              (fail_resolution prefix eid n started ''Secret resolution failed: ''))
            (fail_resolution prefix eid n started ''Template resolution failed: ''))
        (\<lambda>e. ignoreS (complete_failed prefix eid) (ok ()))))"

section \<open>Invariants\<close>

lemma keeps_cache_ops [keeps_intros]:
  "keeps (db_inv D) (cached_config name)" "keeps (db_inv D) (store_config name v)"
  "keeps (db_inv D) (cached_secret name)" "keeps (db_inv D) (store_secret name w)"
  by (rule keepsI, auto simp: cached_config_def store_config_def cached_secret_def store_secret_def
      db_inv_def split: prod.splits)+

lemma keeps_lift_outcome [keeps_intros]: "keeps I (lift_outcome r)"
  unfolding lift_outcome_def by (rule keeps_return)

lemma keeps_with_slice:
  "(\<And>t. str_slice s a b = (Ok t :: (string, string) outcome) \<Longrightarrow> keeps I (f t)) \<Longrightarrow> keeps I (with_slice s a b f)"
  unfolding with_slice_def lift_outcome_def
  by (cases "str_slice s a b :: (string, string) outcome") (simp_all add: tryS_def keeps_return)

lemma keeps_load_secrets_from:
  assumes single: "\<And>name. keeps I (load_single_secret x ctx name)"
  shows "keeps I (load_secrets_from x ctx s start m)"
  using single
proof (induction x ctx s start m rule: load_secrets_from.induct)
  case (1 x ctx s start m)
  let ?again = "\<lambda>pos e name. if m name \<noteq> None then load_secrets_from x ctx s (start + pos + 9 + e + 2) m
    else tryS (load_single_secret x ctx name) (\<lambda>v. load_secrets_from x ctx s (start + pos + 9 + e + 2) (m(name \<mapsto> v)))"
  have again: "keeps I (?again pos e name)"
    if "str_slice s start (length s) = (Ok rest :: (string, string) outcome)" "str_find ''{{secret.'' rest = Some pos"
      "str_slice s (start + pos + 9) (length s) = (Ok tail :: (string, string) outcome)" "str_find ''}}'' tail = Some e"
      "str_slice s (start + pos + 9) (start + pos + 9 + e) = (Ok name :: (string, string) outcome)"
    for rest pos tail e name
    using "1.IH"(1) [OF that(1,2) refl that(3-5) _ "1.prems"] "1.IH"(2) [OF that(1,2) refl that(3-5) _ "1.prems"]
    by (cases "m name = None") (auto simp: fun_upd_def intro!: keeps_tryS "1.prems")
  show ?case
    by (subst load_secrets_from.simps)
      (auto simp: Let_def keeps_return simp del: not_None_eq not_Some_eq split: option.split
          intro!: keeps_with_slice again split del: if_split)
qed

lemma keeps_backoff_prog [keeps_intros]: "keeps I (backoff_prog x checks policy attempt)"
  by (rule keepsI) (simp add: backoff_prog_def)

context worker_invariant
begin

lemma keeps_load_config [keeps_intros]: "keeps (db_inv D) (load_config x prefix name)"
  unfolding load_config_def by (intro keeps_intros)

lemma keeps_load_single_secret [keeps_intros]: "keeps (db_inv D) (load_single_secret x ctx name)"
  unfolding load_single_secret_def by (intro keeps_intros)

lemma keeps_load_secrets [keeps_intros]: "keeps (db_inv D) (load_secrets x ctx spec)"
  unfolding load_secrets_def by (intro keeps_load_secrets_from keeps_intros)

lemma keeps_recording [keeps_intros]:
  "keeps (db_inv D) (record_attempt prefix eid n st started o1 o2)"
  "keeps (db_inv D) (log_execution prefix eid n level msg)"
  "keeps (db_inv D) (fail_resolution prefix eid n started what e)"
  unfolding record_attempt_def log_execution_def fail_resolution_def
  by (intro keeps_intros)+

lemma keeps_dispatch [keeps_intros]: "keeps (db_inv D) (dispatch x ctx schema etype spec key)"
  unfolding dispatch_def by (intro keeps_intros)

lemma keeps_finalize [keeps_intros]:
  "keeps (db_inv D) (finalize x ctx eid started policy n limit completed result)"
  unfolding finalize_def Let_def by (intro keeps_intros)

lemma keeps_run_endpoint [keeps_intros]:
  "keeps (db_inv D) (run_endpoint x ctx schema eid key jid ep etype inp n limit started policy resolved)"
  unfolding run_endpoint_def Let_def by (intro keeps_intros)

lemma keeps_process_execution [keeps_intros]:
  "keeps (db_inv D) (process_execution x ctx schema eid key jid ep etype inp n limit)"
  unfolding process_execution_def Let_def by (intro keeps_intros)

end

end
