(* ===== verification/Poller.thy ===== *)
theory Poller
  imports Pipeline
begin

text \<open>
  \<open>claim_and_process\<close> of \<open>crates/worker/src/poller.rs\<close>: one poll of a worker. Each schema gets its own
  transaction, which ends with the iteration: committed after an execution was processed, rolled
  back on every other way out.
\<close>

section \<open>The code\<close>

definition process_claimed ::
  "ext \<Rightarrow> pipeline_ctx \<Rightarrow> string \<Rightarrow> claimed_execution \<Rightarrow> bool worker_prog" where
  "process_claimed x ctx schema exec =
     (let prefix = ctx_table_prefix ctx in
      matchS (jobs_get prefix (cl_job_id exec)) (\<lambda>row. case row of
          None \<Rightarrow> ok False
        | Some job \<Rightarrow>
            let key = (case job_idempotency_key job of Some k \<Rightarrow> k | None \<Rightarrow> cl_execution_id exec) in
            tryS (process_execution x ctx schema (cl_execution_id exec) key (cl_job_id exec)
              (cl_endpoint exec) (cl_endpoint_type exec) (cl_input exec) (cl_attempt_count exec)
              (cl_max_attempts exec)) (\<lambda>_.
            ignoreS tx_commit (ok True)))
        (\<lambda>e. ignoreS (complete_failed prefix (cl_execution_id exec)) (ok False)))"

definition process_schema :: "ext \<Rightarrow> pipeline_ctx \<Rightarrow> string \<Rightarrow> string \<Rightarrow> bool worker_prog" where
  "process_schema x ctx wid schema =
     matchS (scoped_transaction schema) (\<lambda>_.
       with_drop (matchS (claim (ctx_table_prefix ctx) wid) (\<lambda>row. case row of
           None \<Rightarrow> ok False
         | Some exec \<Rightarrow> process_claimed x ctx schema exec)
         (\<lambda>e. ok False)))
       (\<lambda>e. ok False)"

fun claim_and_process :: "ext \<Rightarrow> pipeline_ctx \<Rightarrow> string \<Rightarrow> string list \<Rightarrow> bool worker_prog" where
  "claim_and_process x ctx wid [] = ok False"
| "claim_and_process x ctx wid (schema # schemas) =
     tryS (process_schema x ctx wid schema) (\<lambda>found.
     if found then ok True else claim_and_process x ctx wid schemas)"

section \<open>Integrity and history\<close>

context worker_invariant
begin

lemma keeps_process_claimed [keeps_intros]: "keeps (db_inv D) (process_claimed x ctx schema exec)"
  unfolding process_claimed_def Let_def by (intro keeps_intros)

lemma keeps_process_schema [keeps_intros]: "keeps (db_inv D) (process_schema x ctx wid schema)"
  unfolding process_schema_def by (intro keeps_intros)

lemma keeps_claim_and_process [keeps_intros]:
  "keeps (db_inv D) (claim_and_process x ctx wid schemas)"
  by (induction schemas) (simp_all, (intro keeps_intros | assumption)+)

end

end
