(* ===== verification/Worker_Safety.thy ===== *)
theory Worker_Safety
  imports Poller
begin

text \<open>
  One poll of a worker as one abstract step. \<open>exec_view\<close> is the executions of every tenant; the
  abstract step \<open>attempted\<close> gives one due, unlocked execution of one schema, the earliest of them, one of
  three verdicts. The lemmas follow the code's transaction
  with the assertion \<open>tx_inv\<close>: an open transaction that either is aborted, so that nothing of it
  survives, or whose executions satisfy the assertion given.
\<close>

section \<open>The abstract step\<close>

type_synonym exec_tables = "(string \<times> string) \<Rightarrow> execution_row list option"

definition exec_view :: "database \<Rightarrow> exec_tables" where
  "exec_view d k = map_option executions (tenants d k)"

definition due :: "sql_env \<Rightarrow> execution_row \<Rightarrow> bool" where
  "due env e \<longleftrightarrow> (exec_status e = ''PENDING'' \<or> exec_status e = ''QUEUED'' \<or> exec_status e = ''RETRYING'') \<and>
     exec_run_at e \<le> env_now env \<and> (env_path env, execution_id e) \<notin> set (env_locked env)"

definition due_first :: "sql_env \<Rightarrow> execution_row list \<Rightarrow> execution_row \<Rightarrow> bool" where
  "due_first env es e \<longleftrightarrow>
     e \<in> set es \<and> due env e \<and> (\<forall>e' \<in> set es. due env e' \<longrightarrow> exec_run_at e \<le> exec_run_at e')"

text \<open>What an attempt may make of an execution. All times are the start of the transaction, so the
  duration recorded is zero.\<close>

inductive verdict :: "timestamp \<Rightarrow> string \<Rightarrow> execution_row \<Rightarrow> execution_row \<Rightarrow> bool" for now wid e where
  succeeded: "verdict now wid e (e\<lparr>exec_status := ''SUCCESS'', exec_output := Some out,
     attempt_count := attempt_count e + 1, worker_id := Some wid, started_at := Some now,
     completed_at := Some now, duration_ms := Some 0\<rparr>)"
| retried: "attempt_count e + 1 < exec_max_attempts e \<Longrightarrow>
   verdict now wid e (e\<lparr>exec_status := ''RETRYING'', attempt_count := attempt_count e + 1, worker_id := None,
     exec_run_at := now + ms * 1000, started_at := Some now, completed_at := None, duration_ms := None\<rparr>)"
| failed: "verdict now wid e (e\<lparr>exec_status := ''FAILED'', attempt_count := attempt_count e + 1,
     worker_id := None, started_at := Some now, completed_at := Some now, duration_ms := Some 0\<rparr>)"

definition claimed_view ::
  "sql_env \<Rightarrow> string \<Rightarrow> exec_tables \<Rightarrow> string \<times> string \<Rightarrow> string \<Rightarrow> exec_tables \<Rightarrow> bool" where
  "claimed_view env wid v0 k eid v \<longleftrightarrow>
     (\<exists>es e. v0 k = Some es \<and> due_first env es e \<and> eid = execution_id e \<and>
        v = v0(k \<mapsto> update_rows (\<lambda>r. execution_id r = eid) (claim_row env wid) es))"

definition attempted ::
  "sql_env \<Rightarrow> string \<Rightarrow> exec_tables \<Rightarrow> string \<times> string \<Rightarrow> string \<Rightarrow> exec_tables \<Rightarrow> bool" where
  "attempted env wid v0 k eid v \<longleftrightarrow>
     (\<exists>es e f. v0 k = Some es \<and> due_first env es e \<and> eid = execution_id e \<and>
        (\<forall>r. verdict (env_now env) wid r (f r)) \<and> v = v0(k \<mapsto> update_rows (\<lambda>r. execution_id r = eid) f es))"

lemma due_claimable: "claimable env e \<longleftrightarrow> due env e"
  by (auto simp: claimable_def due_def)

lemma verdict_rows:
  "verdict (env_now env) wid r (success_row (env_now env) out (claim_row env wid r))"
  "verdict (env_now env) wid r (retry_row (env_now env) ms (claim_row env wid r))"
  "verdict (env_now env) wid r (failed_row (env_now env) (claim_row env wid r))"
  by (cases r, auto simp: success_row_def retry_row_def failed_row_def claim_row_def elapsed_ms_def epoch_ms_def
      Let_def verdict.simps)+

section \<open>Assertions on an open transaction\<close>

definition tx_inv ::
  "database \<Rightarrow> sql_env \<Rightarrow> (exec_tables \<Rightarrow> bool) \<Rightarrow> 'x pg_scheme \<Rightarrow> bool" where
  "tx_inv d0 env S s \<longleftrightarrow>
     (\<exists>t. pg_tx s = Some t \<and> tx_saved t = d0 \<and> tx_start t = env_now env \<and>
        (tx_aborted t \<or> S (exec_view (pg_db s)))) \<and>
     pg_path s = env_path env \<and> pg_locked s = env_locked env"

definition tx_post ::
  "database \<Rightarrow> sql_env \<Rightarrow> ('a \<Rightarrow> exec_tables \<Rightarrow> bool) \<Rightarrow> ('a, 'e) outcome \<Rightarrow> 'x pg_scheme \<Rightarrow> bool" where
  "tx_post d0 env S r s \<longleftrightarrow>
     (case r of
        Ok a \<Rightarrow> tx_inv d0 env (S a) s
      | Err e \<Rightarrow> tx_inv d0 env (\<lambda>_. False) s
      | Panic p \<Rightarrow> tx_inv d0 env (\<lambda>_. True) s)"

lemma tx_inv_mono: "tx_inv d0 env S s \<Longrightarrow> (\<And>v. S v \<Longrightarrow> S' v) \<Longrightarrow> tx_inv d0 env S' s"
  by (auto simp: tx_inv_def)

lemma tx_inv_in_tx: "tx_inv d0 env S s \<Longrightarrow> in_tx d0 s"
  by (auto simp: tx_inv_def in_tx_def committed_def)

text \<open>Two environments that agree on the clock, the path and the locks.\<close>

definition same_env :: "sql_env \<Rightarrow> sql_env \<Rightarrow> bool" where
  "same_env env env' \<longleftrightarrow>
     env_now env' = env_now env \<and> env_path env' = env_path env \<and> env_locked env' = env_locked env"

lemma tx_stmt:
  assumes "\<And>env' d a d'. same_env env env' \<Longrightarrow> S (exec_view d) \<Longrightarrow> f env' d = Ok (a, d') \<Longrightarrow> S' a (exec_view d')"
  shows "triple (tx_inv d0 env S) (stmt f) (tx_post d0 env S')"
proof (rule tripleI)
  fix s :: "'x pg_scheme" and r s'
  assume inv: "tx_inv d0 env S s" and run: "run_state (stmt f) s = (r, s')"
  then obtain t where t: "pg_tx s = Some t" "tx_saved t = d0" "tx_start t = env_now env"
    and path: "pg_path s = env_path env" and locked: "pg_locked s = env_locked env"
    and S: "tx_aborted t \<or> S (exec_view (pg_db s))" by (auto simp: tx_inv_def)
  have abort_same: "pg_locked (pg_abort u) = pg_locked u" for u :: "'x pg_scheme" by (simp add: pg_abort_def)
  have ab: "in_aborted_tx (pg_arrive s) \<longleftrightarrow> tx_aborted t" using t by (simp add: in_aborted_tx_def)
  have env: "same_env env (pg_env (pg_arrive s))"
    using t path locked by (simp add: same_env_def pg_env_def pg_now_def)
  show "tx_post d0 env S' r s'"
  proof (cases "pg_fault s = Lost_Before")
    case True
    with run have "r = Err Io" "s' = pg_abort (pg_arrive s)" by (auto simp: stmt_def Let_def)
    with t path locked abort_same show ?thesis by (simp add: tx_post_def tx_inv_def)
  next
    case nolost: False
    show ?thesis
    proof (cases "tx_aborted t")
      case True
      with run nolost ab have "r = Err (Database OtherKind None)" "s' = pg_arrive s"
        by (auto simp: stmt_def Let_def)
      with t True path locked show ?thesis by (simp add: tx_post_def tx_inv_def)
    next
      case False
      with S have S: "S (exec_view (pg_db s))" by simp
      show ?thesis
      proof (cases "f (pg_env (pg_arrive s)) (pg_db s)")
        case (Ok ad)
        obtain a d where ad: "ad = (a, d)" by fastforce
        with Ok S env have S': "S' a (exec_view d)" using assms by blast
        from run nolost False ab Ok ad t have "(r = Ok a \<and> s' = (pg_arrive s)\<lparr>pg_db := d\<rparr>) \<or>
            (r = Err Io \<and> s' = pg_abort (pg_arrive s))"
          by (auto simp: stmt_def Let_def split: if_splits)
        with t S' path locked abort_same show ?thesis by (auto simp: tx_post_def tx_inv_def)
      next
        case (Err e)
        with run nolost False ab obtain e' where "r = Err e'" "s' = pg_abort (pg_arrive s)"
          by (auto simp: stmt_def Let_def)
        with t path locked abort_same show ?thesis by (simp add: tx_post_def tx_inv_def)
      next
        case (Panic p)
        with run nolost False ab have "r = Panic p" "s' = pg_arrive s" by (auto simp: stmt_def Let_def)
        with t path locked show ?thesis by (simp add: tx_post_def tx_inv_def)
      qed
    qed
  qed
qed

text \<open>A statement that leaves the executions alone.\<close>

lemma tx_quiet_stmt:
  assumes "\<And>env' d a d'. f env' d = Ok (a, d') \<Longrightarrow> exec_view d' = exec_view d"
  shows "keeps (tx_inv d0 env S) (stmt f)"
proof (rule keepsI)
  fix s :: "'x pg_scheme"
  assume s: "tx_inv d0 env S s"
  obtain r s' where run: "run_state (stmt f) s = (r, s')" by fastforce
  have "triple (tx_inv d0 env S) (stmt f) (tx_post d0 env (\<lambda>_. S))"
    by (rule tx_stmt) (simp add: assms)
  from tripleD [OF this s run] have post: "tx_post d0 env (\<lambda>_. S) r s'" .
  show "tx_inv d0 env S (snd (run_state (stmt f) s))"
  proof (cases r)
    case (Panic p)
    with run have "s' = pg_arrive s"
      by (auto simp: stmt_def Let_def split: outcome.splits if_splits prod.splits)
    with s run show ?thesis by (simp add: tx_inv_def)
  qed (use post run in \<open>auto simp: tx_post_def elim: tx_inv_mono\<close>)
qed

definition quiet :: "'a tsql \<Rightarrow> bool" where
  "quiet g \<longleftrightarrow> (\<forall>env t a t'. g env t = Ok (a, t') \<longrightarrow> executions t' = executions t)"

lemma tx_quiet_tstmt: "quiet g \<Longrightarrow> keeps (tx_inv d0 env S) (tstmt prefix g)"
  unfolding tstmt_def
  by (rule tx_quiet_stmt) (auto simp: on_tenant_Ok exec_view_def quiet_def fun_eq_iff)

lemma quiet_statements:
  "quiet (sql_endpoints_get n)" "quiet (sql_configs_get n)" "quiet (sql_secrets_get n)" "quiet (sql_jobs_get n)"
  "quiet (sql_attempts_insert prefix eid m st t0 t1 dur o1 o2)" "quiet (sql_logs_insert prefix eid m level msg)"
  "quiet sql_retire_expired"
  by (auto simp: quiet_def sql_endpoints_get_def sql_configs_get_def sql_secrets_get_def sql_jobs_get_def
      sql_attempts_insert_def sql_logs_insert_def sql_retire_expired_def Let_def split: option.splits if_splits)

lemma tx_quiet_ops [keeps_intros]:
  "keeps (tx_inv d0 env S) (db_endpoints_get prefix n)" "keeps (tx_inv d0 env S) (db_configs_get prefix n)"
  "keeps (tx_inv d0 env S) (db_secrets_get prefix n)" "keeps (tx_inv d0 env S) (jobs_get prefix n)"
  "keeps (tx_inv d0 env S) (attempts_insert prefix eid m st t0 t1 dur o1 o2)"
  "keeps (tx_inv d0 env S) (logs_insert prefix eid m level msg)"
  "keeps (tx_inv d0 env S) (retire_expired_cron_jobs prefix)"
  unfolding db_endpoints_get_def db_configs_get_def db_secrets_get_def jobs_get_def attempts_insert_def
    logs_insert_def retire_expired_cron_jobs_def
  by (intro tx_quiet_tstmt quiet_statements)+

lemma tx_quiet_unregister [keeps_intros]: "keeps (tx_inv d0 env S) (unregister_pg_cron_conn schema jid)"
  unfolding unregister_pg_cron_conn_def
  by (rule tx_quiet_stmt) (auto simp: sql_cron_unschedule_existing_def exec_view_def fun_eq_iff)

section \<open>The parts of the pipeline that leave the executions alone\<close>

lemma tx_inv_simps [simp]:
  "tx_inv d0 env S (s\<lparr>wk_sent := m\<rparr>) = tx_inv d0 env S s"
  "tx_inv d0 env S (s\<lparr>wk_configs := c\<rparr>) = tx_inv d0 env S s"
  "tx_inv d0 env S (s\<lparr>wk_secrets := c'\<rparr>) = tx_inv d0 env S s"
  by (simp_all add: tx_inv_def)

lemma tx_inv_elapse [simp]: "tx_inv d0 env S (pg_elapse s) = tx_inv d0 env S s"
proof -
  have "pg_locked (pg_elapse s) = pg_locked s" by (simp add: pg_elapse_def split: list.splits)
  then show ?thesis by (simp add: tx_inv_def)
qed

lemma tx_quiet_worker [keeps_intros]:
  "keeps (tx_inv d0 env S) (send reply m)" "keeps (tx_inv d0 env S) (cached_config n)"
  "keeps (tx_inv d0 env S) (store_config n v)" "keeps (tx_inv d0 env S) (cached_secret n)"
  "keeps (tx_inv d0 env S) (store_secret n w)"
  by (rule keepsI, auto simp: send_def cached_config_def store_config_def cached_secret_def
      store_secret_def split: prod.splits)+

lemma tx_quiet_loading [keeps_intros]:
  "keeps (tx_inv d0 env S) (load_config x prefix n)" "keeps (tx_inv d0 env S) (load_single_secret x ctx n)"
  unfolding load_config_def load_single_secret_def by (intro keeps_intros)+

lemma tx_quiet_load_secrets [keeps_intros]: "keeps (tx_inv d0 env S) (load_secrets x ctx spec)"
  unfolding load_secrets_def by (intro keeps_load_secrets_from keeps_intros)

lemma tx_quiet_recording [keeps_intros]:
  "keeps (tx_inv d0 env S) (record_attempt prefix eid n st started o1 o2)"
  "keeps (tx_inv d0 env S) (log_execution prefix eid n level msg)"
  unfolding record_attempt_def log_execution_def by (intro keeps_intros)+

lemma tx_quiet_reaper [keeps_intros]:
  "keeps (tx_inv d0 env S) (unregister_all schema js)" "keeps (tx_inv d0 env S) (reap_schema prefix schema)"
proof -
  show all: "keeps (tx_inv d0 env S) (unregister_all schema js)" for js
    by (induction js) (simp_all, (intro keeps_intros | assumption)+)
  show "keeps (tx_inv d0 env S) (reap_schema prefix schema)"
    unfolding reap_schema_def by (intro keeps_intros all)
qed

lemma tx_quiet_http_send [keeps_intros]: "keeps (tx_inv d0 env S) (http_send req)"
  by (intro keeps_http_send keeps_intros)

lemma tx_quiet_dispatch [keeps_intros]: "keeps (tx_inv d0 env S) (dispatch x ctx schema etype spec key)"
  unfolding dispatch_def http_dispatch_def kafka_dispatch_def redis_dispatch_def internal_dispatch_def Let_def
  by (intro keeps_intros)

section \<open>The end of an attempt\<close>

definition tx_end ::
  "database \<Rightarrow> sql_env \<Rightarrow> (exec_tables \<Rightarrow> bool) \<Rightarrow> ('a, 'e) outcome \<Rightarrow> 'x pg_scheme \<Rightarrow> bool" where
  "tx_end d0 env S r s \<longleftrightarrow>
     (case r of Ok a \<Rightarrow> tx_inv d0 env S s | _ \<Rightarrow> tx_inv d0 env (\<lambda>_. True) s)"

lemma tx_inv_True: "tx_inv d0 env S s \<Longrightarrow> tx_inv d0 env (\<lambda>_. True) s"
  by (erule tx_inv_mono) simp

lemma tx_end_tryS:
  assumes "keeps (tx_inv d0 env S) m" and "\<And>x. triple (tx_inv d0 env S) (f x) (tx_end d0 env S')"
  shows "triple (tx_inv d0 env S) (tryS m f) (tx_end d0 env S')"
  by (rule triple_tryS [OF triple_keeps [OF assms(1)] assms(2)]) (auto simp: tx_end_def intro: tx_inv_True)

lemma tx_end_bind:
  assumes "keeps (tx_inv d0 env S) m" and "\<And>x. triple (tx_inv d0 env S) (f x) (tx_end d0 env S')"
  shows "triple (tx_inv d0 env S) (State_Monad.bind m f) (tx_end d0 env S')"
  by (rule triple_bind [OF triple_keeps [OF assms(1)] assms(2)])

lemma tx_end_matchS:
  assumes "keeps (tx_inv d0 env S) m" and "\<And>x. triple (tx_inv d0 env S) (f x) (tx_end d0 env S')"
    and "\<And>e. triple (tx_inv d0 env S) (g e) (tx_end d0 env S')"
  shows "triple (tx_inv d0 env S) (matchS m f g) (tx_end d0 env S')"
  by (rule triple_matchS [OF triple_keeps [OF assms(1)] assms(2,3)]) (auto simp: tx_end_def intro: tx_inv_True)

lemma tx_end_ignore:
  assumes m: "triple (tx_inv d0 env S) m (tx_post d0 env (\<lambda>_. S'))" and k: "keeps (tx_inv d0 env S') k"
  shows "triple (tx_inv d0 env S) (ignoreS m k) (tx_end d0 env S')"
proof -
  have k': "triple (tx_inv d0 env S') k (tx_end d0 env S')"
    by (rule triple_weaken [OF triple_keeps [OF k]]) (auto simp: tx_end_def intro: tx_inv_True split: outcome.splits)
  show ?thesis unfolding ignoreS_def
    by (rule triple_matchS [OF m])
      (auto simp: tx_post_def tx_end_def intro!: triple_weaken [OF k'] elim: tx_inv_mono)
qed

lemma running_claimed:
  "update_rows (running eid) f (update_rows (\<lambda>r. execution_id r = eid) (claim_row env wid) es) =
   update_rows (\<lambda>r. execution_id r = eid) (\<lambda>r. f (claim_row env wid r)) es"
  by (auto simp: update_rows_def running_def claim_row_def)

lemma tx_finish_stmt:
  assumes g: "\<And>env' t r. g env' t = Ok r \<Longrightarrow>
      r = ((), t\<lparr>executions := update_rows (running eid) (f (env_now env')) (executions t)\<rparr>)"
    and f: "\<And>r. verdict (env_now env) wid r (f (env_now env) (claim_row env wid r))"
  shows "triple (tx_inv d0 env (claimed_view env wid v0 (env_path env, prefix) eid)) (tstmt prefix g)
    (tx_post d0 env (\<lambda>_. attempted env wid v0 (env_path env, prefix) eid))"
  unfolding tstmt_def
proof (rule tx_stmt)
  fix env' d a d'
  assume same: "same_env env env'" and v: "claimed_view env wid v0 (env_path env, prefix) eid (exec_view d)"
    and run: "on_tenant prefix g env' d = Ok (a, d')"
  let ?k = "(env_path env, prefix)"
  from v obtain es e where es: "v0 ?k = Some es" "due_first env es e" "eid = execution_id e"
    and view: "exec_view d = v0(?k \<mapsto> update_rows (\<lambda>r. execution_id r = eid) (claim_row env wid) es)"
    by (auto simp: claimed_view_def)
  from run same obtain t t' where t: "tenants d ?k = Some t" and gt: "g env' t = Ok (a, t')"
    and d': "d' = d\<lparr>tenants := (tenants d)(?k \<mapsto> t')\<rparr>"
    by (auto simp: on_tenant_Ok same_env_def)
  from g [OF gt] same have t': "t' = t\<lparr>executions := update_rows (running eid) (f (env_now env)) (executions t)\<rparr>"
    by (simp add: same_env_def)
  have "executions t = update_rows (\<lambda>r. execution_id r = eid) (claim_row env wid) es"
    using view t by (metis exec_view_def fun_upd_same option.inject option.map(2))
  then have "exec_view d' = v0(?k \<mapsto> update_rows (\<lambda>r. execution_id r = eid) (\<lambda>r. f (env_now env) (claim_row env wid r)) es)"
    using view by (auto simp: d' t' exec_view_def fun_eq_iff running_claimed)
  with es f show "attempted env wid v0 ?k eid (exec_view d')" unfolding attempted_def
    by (intro exI [of _ es] exI [of _ e] exI [of _ "\<lambda>r. f (env_now env) (claim_row env wid r)"]) simp
qed

lemma tx_finish_ops:
  "triple (tx_inv d0 env (claimed_view env wid v0 (env_path env, prefix) eid)) (complete_success prefix eid out)
    (tx_post d0 env (\<lambda>_. attempted env wid v0 (env_path env, prefix) eid))"
  "triple (tx_inv d0 env (claimed_view env wid v0 (env_path env, prefix) eid)) (complete_retry prefix eid ms)
    (tx_post d0 env (\<lambda>_. attempted env wid v0 (env_path env, prefix) eid))"
  "triple (tx_inv d0 env (claimed_view env wid v0 (env_path env, prefix) eid)) (complete_failed prefix eid)
    (tx_post d0 env (\<lambda>_. attempted env wid v0 (env_path env, prefix) eid))"
  unfolding complete_success_def complete_retry_def complete_failed_def
  by (rule tx_finish_stmt [where f = "\<lambda>now. success_row now out"],
      simp_all add: sql_complete_success_def verdict_rows)
    (rule tx_finish_stmt [where f = "\<lambda>now. retry_row now ms"],
      simp_all add: sql_complete_retry_def verdict_rows split: if_splits,
     rule tx_finish_stmt [where f = failed_row], simp_all add: sql_complete_failed_def verdict_rows)

lemma tx_claim:
  "triple (tx_inv d0 env (\<lambda>v. v = v0)) (claim prefix wid)
    (tx_post d0 env (\<lambda>c v. case c of None \<Rightarrow> v = v0
       | Some c \<Rightarrow> claimed_view env wid v0 (env_path env, prefix) (cl_execution_id c) v))"
  unfolding claim_def tstmt_def
proof (rule tx_stmt)
  fix env' d a d'
  assume same: "same_env env env'" and v: "exec_view d = v0" and run: "on_tenant prefix (sql_claim wid) env' d = Ok (a, d')"
  let ?k = "(env_path env, prefix)"
  from run same obtain t t' where t: "tenants d ?k = Some t" and c: "sql_claim wid env' t = Ok (a, t')"
    and d': "d' = d\<lparr>tenants := (tenants d)(?k \<mapsto> t')\<rparr>"
    by (auto simp: on_tenant_Ok same_env_def)
  have cl: "claimable env' = claimable env" "claim_row env' wid = claim_row env wid"
    using same by (auto simp: same_env_def claimable_def claim_row_def fun_eq_iff)
  show "case a of None \<Rightarrow> exec_view d' = v0 | Some c \<Rightarrow> claimed_view env wid v0 ?k (cl_execution_id c) (exec_view d')"
  proof (cases "next_claim env' t")
    case None
    with c have "t' = t" "a = None" by (auto simp: sql_claim_def)
    moreover have "exec_view (d\<lparr>tenants := (tenants d)(?k \<mapsto> t)\<rparr>) = exec_view d"
      using t by (auto simp: exec_view_def fun_eq_iff)
    ultimately show ?thesis using v by (simp add: d')
  next
    case (Some e)
    note e = next_claim_Some [OF Some]
    from c Some have a: "a = Some (claimed_of (claim_row env wid e))"
      and t': "executions t' = update_rows (\<lambda>r. execution_id r = execution_id e) (claim_row env wid) (executions t)"
      by (auto simp: sql_claim_def cl split: if_splits)
    have "due_first env (executions t) e" using e by (simp add: due_first_def cl flip: due_claimable)
    moreover have "v0 ?k = Some (executions t)" using v t by (auto simp: exec_view_def)
    moreover have "exec_view d' = v0(?k \<mapsto> executions t')"
      using v by (auto simp: d' t' exec_view_def fun_eq_iff)
    moreover have "cl_execution_id (claimed_of (claim_row env wid e)) = execution_id e"
      by (simp add: claimed_of_def claim_row_def)
    ultimately show ?thesis using a t' by (auto simp: claimed_view_def)
  qed
qed

section \<open>The whole attempt\<close>

lemma triple_case_dispatch_result:
  "(\<And>v. triple P (f v) Q) \<Longrightarrow> (\<And>v. triple P (g v) Q) \<Longrightarrow> triple P (case_dispatch_result f g r) Q"
  by (cases r) auto

lemmas tx_end_rules = tx_end_tryS tx_end_bind tx_end_matchS tx_end_ignore tx_finish_ops
  triple_if triple_case_option triple_case_dispatch_result keeps_intros

lemma tx_fail_resolution:
  "triple (tx_inv d0 env (claimed_view env wid v0 (env_path env, prefix) eid))
    (fail_resolution prefix eid n started what e)
    (tx_end d0 env (attempted env wid v0 (env_path env, prefix) eid))"
  unfolding fail_resolution_def by (intro tx_end_rules)

lemma tx_finalize:
  "triple (tx_inv d0 env (claimed_view env wid v0 (env_path env, ctx_table_prefix ctx) eid))
    (finalize x ctx eid started policy n limit completed result)
    (tx_end d0 env (attempted env wid v0 (env_path env, ctx_table_prefix ctx) eid))"
  unfolding finalize_def Let_def by (intro tx_end_rules)

lemma tx_run_endpoint:
  "triple (tx_inv d0 env (claimed_view env wid v0 (env_path env, ctx_table_prefix ctx) eid))
    (run_endpoint x ctx schema eid key jid ep etype inp n limit started policy resolved)
    (tx_end d0 env (attempted env wid v0 (env_path env, ctx_table_prefix ctx) eid))"
  unfolding run_endpoint_def Let_def by (intro tx_end_rules tx_finalize)

lemma tx_process_execution:
  "triple (tx_inv d0 env (claimed_view env wid v0 (env_path env, ctx_table_prefix ctx) eid))
    (process_execution x ctx schema eid key jid ep etype inp n limit)
    (tx_end d0 env (attempted env wid v0 (env_path env, ctx_table_prefix ctx) eid))"
  unfolding process_execution_def Let_def
  by (intro tx_end_rules tx_run_endpoint tx_fail_resolution)

text \<open>What one transaction of the poller leaves behind: nothing, unless it reports an execution
  processed; then at most the abstract step.\<close>

definition polled ::
  "database \<Rightarrow> sql_env \<Rightarrow> string \<Rightarrow> string \<Rightarrow> (bool, unit) outcome \<Rightarrow> 'x pg_scheme \<Rightarrow> bool" where
  "polled d0 env wid prefix r s \<longleftrightarrow>
     pg_locked s = env_locked env \<and>
     (if r = Ok True then
        pg_tx s = None \<and>
        (pg_db s = d0 \<or> (\<exists>eid. attempted env wid (exec_view d0) (env_path env, prefix) eid (exec_view (pg_db s))))
      else in_tx d0 s)"

lemma tx_any_stmt: "keeps (tx_inv d0 env (\<lambda>_. True)) (stmt f)"
proof (rule keepsI)
  fix s :: "'x pg_scheme"
  assume s: "tx_inv d0 env (\<lambda>_. True) s"
  obtain r s' where run: "run_state (stmt f) s = (r, s')" by fastforce
  have "triple (tx_inv d0 env (\<lambda>_. True)) (stmt f) (tx_post d0 env (\<lambda>_ _. True))"
    by (rule tx_stmt) simp
  from tripleD [OF this s run] show "tx_inv d0 env (\<lambda>_. True) (snd (run_state (stmt f) s))"
    using run by (auto simp: tx_post_def elim: tx_inv_mono split: outcome.splits)
qed

lemma tx_inv_polled: "tx_inv d0 env S s \<Longrightarrow> r \<noteq> Ok True \<Longrightarrow> polled d0 env wid prefix r s"
  using tx_inv_in_tx [of d0 env S s] by (auto simp: polled_def tx_inv_def)

lemma pg_locked_simps [simp]:
  "pg_locked (pg_rollback s) = pg_locked s" "pg_locked (pg_abort s) = pg_locked s"
  by (simp_all add: pg_rollback_def pg_abort_def split: option.splits)

lemma tx_commit_polled:
  "triple (tx_inv d0 env (attempted env wid (exec_view d0) (env_path env, prefix) eid))
     (ignoreS tx_commit (ok True) :: bool worker_prog) (polled d0 env wid prefix)"
proof (rule tripleI)
  fix s :: worker and r :: "(bool, unit) outcome" and s'
  assume inv: "tx_inv d0 env (attempted env wid (exec_view d0) (env_path env, prefix) eid) s"
    and run: "run_state (ignoreS tx_commit (ok True)) s = (r, s')"
  have tx: "in_tx d0 s" using inv by (rule tx_inv_in_tx)
  obtain r1 where c: "run_state tx_commit s = (r1, s')" and r: "r = Ok True"
    using run by (auto simp: tx_commit_def Let_def split: prod.splits outcome.splits if_splits)
  note ends = tx_commit_cases [OF tx c]
  have "attempted env wid (exec_view d0) (env_path env, prefix) eid (exec_view (pg_db s))" if "\<not> in_aborted_tx s"
    using inv that by (auto simp: tx_inv_def in_aborted_tx_def)
  moreover have "pg_locked s' = env_locked env"
    using c inv by (auto simp: tx_commit_def Let_def tx_inv_def)
  ultimately show "polled d0 env wid prefix r s'" using ends r by (auto simp: polled_def)
qed

lemma tx_process_claimed:
  fixes ctx
  defines "prefix \<equiv> ctx_table_prefix ctx"
  shows "triple (tx_inv d0 env (claimed_view env wid (exec_view d0) (env_path env, prefix) (cl_execution_id exec)))
    (process_claimed x ctx schema exec) (polled d0 env wid prefix)"
proof -
  let ?S = "claimed_view env wid (exec_view d0) (env_path env, prefix) (cl_execution_id exec)"
  have keeps_polled: "triple (tx_inv d0 env ?S) m (polled d0 env wid prefix)"
    if "keeps (tx_inv d0 env (\<lambda>_. True)) m" "\<And>s. fst (run_state m s) \<noteq> Ok True" for m :: "bool worker_prog"
    by (rule tripleI) (metis that fst_conv keepsD tx_inv_polled tx_inv_True)
  have job: "triple (tx_inv d0 env ?S)
      (tryS (process_execution x ctx schema (cl_execution_id exec) key (cl_job_id exec) (cl_endpoint exec)
        (cl_endpoint_type exec) (cl_input exec) (cl_attempt_count exec) (cl_max_attempts exec)) (\<lambda>_.
      ignoreS tx_commit (ok True))) (polled d0 env wid prefix)" for key
    unfolding prefix_def by (rule triple_tryS [OF tx_process_execution])
      (auto simp: tx_end_def intro: triple_weaken [OF tx_commit_polled] tx_inv_polled)
  have err: "triple (tx_inv d0 env ?S) (ignoreS (complete_failed prefix (cl_execution_id exec)) (ok False) :: bool worker_prog)
      (polled d0 env wid prefix)"
    by (rule keeps_polled)
      (auto simp: complete_failed_def tstmt_def intro!: keeps_ignoreS tx_any_stmt keeps_return
        split: prod.splits outcome.splits)
  have no: "triple (tx_inv d0 env ?S) (ok False :: bool worker_prog) (polled d0 env wid prefix)"
    by (rule keeps_polled) (simp_all add: keeps_return)
  show ?thesis unfolding process_claimed_def Let_def prefix_def [symmetric]
    by (rule triple_matchS [OF triple_keeps [OF tx_quiet_ops(4)] triple_case_option [OF no job] err])
      (auto intro: tx_inv_polled)
qed

definition claim_env :: "timestamp \<Rightarrow> string \<Rightarrow> (string \<times> string) list \<Rightarrow> sql_env" where
  "claim_env now schema locked =
     \<lparr>env_now = now, env_path = schema, env_uuid = [], env_locked = locked\<rparr>"

definition one_attempt :: "(string \<times> string) list \<Rightarrow> string \<Rightarrow> string \<Rightarrow> string set \<Rightarrow> database \<Rightarrow> database \<Rightarrow> bool" where
  "one_attempt locked wid prefix schemas d d' \<longleftrightarrow>
     (\<exists>schema \<in> schemas. \<exists>now eid.
        attempted (claim_env now schema locked) wid (exec_view d) (schema, prefix) eid (exec_view d'))"

lemma scoped_transaction_locked:
  "run_state (scoped_transaction schema) s = (r, s') \<Longrightarrow> pg_locked s' = pg_locked s"
  by (auto simp: scoped_transaction_def rust_assert_def tx_begin_def set_search_path_def stmt_def Let_def
      split: if_splits outcome.splits prod.splits)

lemma scoped_transaction_tx_inv:
  assumes "run_state (scoped_transaction schema) s = (Ok u, s')"
  shows "\<exists>now. tx_inv (pg_db s) (claim_env now schema (pg_locked s)) (\<lambda>v. v = exec_view (pg_db s)) s'"
proof -
  note ok = scoped_transaction_Ok [OF assms]
  from ok(1) obtain t where t: "pg_tx s' = Some t" "tx_saved t = pg_db s" "\<not> tx_aborted t"
    by (auto simp: live_tx_def in_tx_def committed_def in_aborted_tx_def)
  with ok(2,3) scoped_transaction_locked [OF assms] show ?thesis
    by (intro exI [of _ "tx_start t"]) (simp add: tx_inv_def claim_env_def)
qed

lemma process_schema_step:
  assumes run: "run_state (process_schema x ctx wid schema) s = (r, s')" and none: "pg_tx s = None"
  shows "pg_tx s' = None" and "pg_locked s' = pg_locked s" and "r \<noteq> Ok True \<Longrightarrow> pg_db s' = pg_db s"
    and "pg_db s' = pg_db s \<or> one_attempt (pg_locked s) wid (ctx_table_prefix ctx) {schema} (pg_db s) (pg_db s')"
proof -
  obtain r1 s1 where b: "run_state (scoped_transaction schema) s = (r1, s1)" by fastforce
  let ?m = "matchS (claim (ctx_table_prefix ctx) wid) (\<lambda>row. case row of
           None \<Rightarrow> ok False
         | Some exec \<Rightarrow> process_claimed x ctx schema exec)
         (\<lambda>e. ok False) :: bool worker_prog"
  have goal: "pg_tx s' = None \<and> pg_locked s' = pg_locked s \<and> (r \<noteq> Ok True \<longrightarrow> pg_db s' = pg_db s) \<and>
    (pg_db s' = pg_db s \<or> one_attempt (pg_locked s) wid (ctx_table_prefix ctx) {schema} (pg_db s) (pg_db s'))"
  proof (cases "\<exists>u. r1 = Ok u")
    case False
    then have "pg_db s1 = pg_db s" "pg_tx s1 = None"
      using scoped_transaction_not_Ok [OF b _ none] by auto
    moreover have "s' = s1" using run b False by (cases r1) (auto simp: process_schema_def)
    ultimately show ?thesis using scoped_transaction_locked [OF b] by simp
  next
    case True
    then obtain u where r1: "r1 = Ok u" ..
    from scoped_transaction_tx_inv [OF b [unfolded r1]] obtain now
      where inv: "tx_inv (pg_db s) (claim_env now schema (pg_locked s)) (\<lambda>v. v = exec_view (pg_db s)) s1" ..
    let ?env = "claim_env now schema (pg_locked s)"
    obtain s2 where m: "run_state ?m s1 = (r, s2)" and s': "s' = pg_rollback s2"
      using run b r1 by (auto simp: process_schema_def split: prod.splits)
    have "triple (tx_inv (pg_db s) ?env (\<lambda>v. v = exec_view (pg_db s))) ?m
        (polled (pg_db s) ?env wid (ctx_table_prefix ctx))"
    proof (rule triple_matchS [OF tx_claim])
      fix c
      show "triple (tx_post (pg_db s) ?env (\<lambda>c v. case c of None \<Rightarrow> v = exec_view (pg_db s)
          | Some c \<Rightarrow> claimed_view ?env wid (exec_view (pg_db s)) (env_path ?env, ctx_table_prefix ctx)
              (cl_execution_id c) v) (Ok c))
        (case c of None \<Rightarrow> ok False | Some exec \<Rightarrow> process_claimed x ctx schema exec)
        (polled (pg_db s) ?env wid (ctx_table_prefix ctx))"
        by (cases c) (auto simp: tx_post_def intro!: triple_return triple_weaken [OF tx_process_claimed]
            intro: tx_inv_polled)
    qed (auto simp: tx_post_def intro!: triple_return intro: tx_inv_polled)
    from tripleD [OF this inv m] have p: "polled (pg_db s) ?env wid (ctx_table_prefix ctx) r s2" .
    then show ?thesis
      unfolding s' polled_def in_tx_def one_attempt_def
      by (auto simp: claim_env_def split: if_splits)
  qed
  then show "pg_tx s' = None" "pg_locked s' = pg_locked s" "r \<noteq> Ok True \<Longrightarrow> pg_db s' = pg_db s"
    "pg_db s' = pg_db s \<or> one_attempt (pg_locked s) wid (ctx_table_prefix ctx) {schema} (pg_db s) (pg_db s')"
    by blast+
qed

lemma claim_and_process_step:
  assumes "run_state (claim_and_process x ctx wid schemas) s = (r, s')" and "pg_tx s = None"
  shows "pg_tx s' = None \<and> (r \<noteq> Ok True \<longrightarrow> pg_db s' = pg_db s) \<and>
    (pg_db s' = pg_db s \<or> one_attempt (pg_locked s) wid (ctx_table_prefix ctx) (set schemas) (pg_db s) (pg_db s'))"
  using assms
proof (induction schemas arbitrary: s)
  case (Cons schema schemas)
  obtain r1 s1 where p: "run_state (process_schema x ctx wid schema) s = (r1, s1)" by fastforce
  note step = process_schema_step [OF p Cons.prems(2)]
  show ?case
  proof (cases "r1 = Ok False")
    case True
    with Cons.prems(1) p have rest: "run_state (claim_and_process x ctx wid schemas) s1 = (r, s')" by simp
    from True step(3) have "pg_db s1 = pg_db s" by simp
    with Cons.IH [OF rest step(1)] step(2) show ?thesis by (auto simp: one_attempt_def)
  next
    case False
    with Cons.prems(1) p have "s' = s1" "r = r1" by (cases r1; auto split: if_splits)+
    with step show ?thesis by (auto simp: one_attempt_def)
  qed
qed simp

end
