(* ===== verification/System.thy ===== *)
theory System
  imports Handlers_Jobs Handlers_Executions Extractors Library_Client Worker_Safety
begin

text \<open>
  The system at rest. \<open>serve\<close> is the route table of \<open>crates/api/src/router.rs\<close>; \<open>system_step\<close> lets any
  request, library call, poll of a worker or pg_cron tick run on a connection of its own, with any
  clock, delays, faults and locks, and moves from the database it found to the one it committed.
  \<open>resting\<close> is what holds of the executions between the steps.
\<close>

section \<open>Requests\<close>

record app_config =
  app_prefix :: string
  app_encryption_key :: string
  app_reaper_cron :: string
  app_overflow_checks :: bool

datatype request =
    Orgs_Create string string | Orgs_List | Orgs_Get string | Orgs_Update string "string option"
  | Workspaces_Create string string string | Workspaces_List string | Workspaces_Get string string
  | Payload_Specs_Create string string json | Payload_Specs_List string pagination_params
  | Payload_Specs_Get string string | Payload_Specs_Update string string json
  | Payload_Specs_Delete string string
  | Configs_Create string string json | Configs_List string pagination_params | Configs_Get string string
  | Configs_Update string string json | Configs_Delete string string
  | Secrets_Create "nat list" string string string | Secrets_List string pagination_params
  | Secrets_Get string string | Secrets_Update "nat list" string string string | Secrets_Delete string string
  | Endpoints_Create string create_endpoint | Endpoints_List string pagination_params
  | Endpoints_Get string string | Endpoints_Update string string update_endpoint
  | Endpoints_Delete string string
  | Jobs_Create string create_job | Jobs_List string pagination_params job_filters
  | Jobs_Get string string | Jobs_Update string string update_job | Jobs_Cancel string string
  | Jobs_Status string string | Jobs_Versions string string
  | Jobs_Executions string string pagination_params
  | Executions_Get string string | Executions_Cancel string string
  | Executions_Attempts string string | Executions_Logs string string

fun serve :: "ext \<Rightarrow> app_config \<Rightarrow> request \<Rightarrow> 'x handler" where
  "serve x c (Orgs_Create name slug) = handle_organizations_create x name slug"
| "serve x c Orgs_List = handle_organizations_list x"
| "serve x c (Orgs_Get oid) = handle_organizations_get x oid"
| "serve x c (Orgs_Update oid name) = handle_organizations_update x oid name"
| "serve x c (Workspaces_Create oid name slug) =
     handle_workspaces_create x (app_reaper_cron c) oid name slug"
| "serve x c (Workspaces_List oid) = handle_workspaces_list x oid"
| "serve x c (Workspaces_Get oid wid) = handle_workspaces_get x oid wid"
| "serve x c (Payload_Specs_Create s n v) = handle_payload_specs_create x (app_prefix c) s n v"
| "serve x c (Payload_Specs_List s p) = handle_payload_specs_list x (app_prefix c) s p"
| "serve x c (Payload_Specs_Get s n) = handle_payload_specs_get x (app_prefix c) s n"
| "serve x c (Payload_Specs_Update s n v) = handle_payload_specs_update x (app_prefix c) s n v"
| "serve x c (Payload_Specs_Delete s n) = handle_payload_specs_delete (app_prefix c) s n"
| "serve x c (Configs_Create s n v) = handle_configs_create x (app_prefix c) s n v"
| "serve x c (Configs_List s p) = handle_configs_list x (app_prefix c) s p"
| "serve x c (Configs_Get s n) = handle_configs_get x (app_prefix c) s n"
| "serve x c (Configs_Update s n v) = handle_configs_update x (app_prefix c) s n v"
| "serve x c (Configs_Delete s n) = handle_configs_delete (app_prefix c) s n"
| "serve x c (Secrets_Create nonce s n v) =
     handle_secrets_create x (app_encryption_key c) (app_prefix c) nonce s n v"
| "serve x c (Secrets_List s p) = handle_secrets_list x (app_prefix c) s p"
| "serve x c (Secrets_Get s n) = handle_secrets_get x (app_prefix c) s n"
| "serve x c (Secrets_Update nonce s n v) =
     handle_secrets_update x (app_encryption_key c) (app_prefix c) nonce s n v"
| "serve x c (Secrets_Delete s n) = handle_secrets_delete x (app_prefix c) s n"
| "serve x c (Endpoints_Create s b) = handle_endpoints_create x (app_prefix c) s b"
| "serve x c (Endpoints_List s p) = handle_endpoints_list x (app_prefix c) s p"
| "serve x c (Endpoints_Get s n) = handle_endpoints_get x (app_prefix c) s n"
| "serve x c (Endpoints_Update s n b) = handle_endpoints_update x (app_prefix c) s n b"
| "serve x c (Endpoints_Delete s n) = handle_endpoints_delete (app_prefix c) s n"
| "serve x c (Jobs_Create s b) = handle_jobs_create x (app_prefix c) s b"
| "serve x c (Jobs_List s p f) = handle_jobs_list x (app_prefix c) s p f"
| "serve x c (Jobs_Get s j) = handle_jobs_get x (app_prefix c) s j"
| "serve x c (Jobs_Update s j b) = handle_jobs_update x (app_overflow_checks c) (app_prefix c) s j b"
| "serve x c (Jobs_Cancel s j) = handle_jobs_cancel x (app_prefix c) s j"
| "serve x c (Jobs_Status s j) = handle_jobs_status x (app_prefix c) s j"
| "serve x c (Jobs_Versions s j) = handle_jobs_versions x (app_prefix c) s j"
| "serve x c (Jobs_Executions s j p) = handle_jobs_list_executions x (app_prefix c) s j p"
| "serve x c (Executions_Get s e) = handle_executions_get x (app_prefix c) s e"
| "serve x c (Executions_Cancel s e) = handle_executions_cancel (app_prefix c) s e"
| "serve x c (Executions_Attempts s e) = handle_list_attempts x (app_prefix c) s e"
| "serve x c (Executions_Logs s e) = handle_list_logs x (app_prefix c) s e"

datatype library_call =
    Lib_Create_Job string string json int job_trigger "string option"
  | Lib_Register_Endpoint string string string json "json option"
  | Lib_Delete_Endpoint string string
  | Lib_Upsert_Secret "nat list" string string string
  | Lib_Delete_Secret string string
  | Lib_Cancel_Job string string

fun library :: "ext \<Rightarrow> string \<Rightarrow> string \<Rightarrow> library_call \<Rightarrow> ('x, unit) client_prog" where
  "library x prefix key_hex (Lib_Create_Job s ep inp n trig key) =
     tryS (client_create_job prefix s ep inp n trig key) (\<lambda>_. ok ())"
| "library x prefix key_hex (Lib_Register_Endpoint s n et spec rp) =
     client_register_endpoint prefix s n et spec rp"
| "library x prefix key_hex (Lib_Delete_Endpoint s n) = client_delete_endpoint prefix s n"
| "library x prefix key_hex (Lib_Upsert_Secret nonce s n v) =
     client_upsert_secret x key_hex nonce prefix s n v"
| "library x prefix key_hex (Lib_Delete_Secret s n) = client_delete_secret prefix s n"
| "library x prefix key_hex (Lib_Cancel_Job s j) = client_cancel_job prefix s j"

context api_invariant
begin

lemma keeps_serve_other: "\<forall>s j b. req \<noteq> Jobs_Update s j b \<Longrightarrow> keeps (db_inv D) (serve x c req)"
  by (cases req) (simp_all, (intro keeps_intros)+)

lemma keeps_library [keeps_intros]: "keeps (db_inv D) (library x prefix key_hex call)"
  by (cases call) (simp_all, (intro keeps_intros)+)

end

context update_invariant
begin

lemma keeps_serve [keeps_intros]: "keeps (db_inv D) (serve x c req)"
proof (cases "\<exists>s j b. req = Jobs_Update s j b")
  case True
  then show ?thesis by (auto intro: keeps_handle_jobs_update)
qed (use keeps_serve_other in blast)

end

section \<open>Executions at rest\<close>

definition exec_rest :: "execution_row \<Rightarrow> bool" where
  "exec_rest e \<longleftrightarrow>
     exec_status e \<noteq> ''RUNNING'' \<and> 0 \<le> attempt_count e \<and> attempt_count e \<le> max 1 (exec_max_attempts e) \<and>
     (exec_status e \<in> {''PENDING'', ''QUEUED''} \<longrightarrow> attempt_count e = 0) \<and>
     (exec_status e = ''RETRYING'' \<longrightarrow> attempt_count e < exec_max_attempts e)"

definition resting_tenant :: "tenant \<Rightarrow> bool" where
  "resting_tenant t \<longleftrightarrow> (\<forall>e \<in> set (executions t). exec_rest e)"

definition resting :: "database \<Rightarrow> bool" where
  "resting d = all_tenants resting_tenant d"

lemma exec_rest_new: "st \<in> {''QUEUED'', ''PENDING''} \<Longrightarrow> exec_rest (new_execution env jid ep etype key st run_at inp n)"
  by (auto simp: exec_rest_def new_execution_def)

lemma exec_rest_cancel: "exec_rest e \<Longrightarrow> exec_rest (cancel_row now e)"
  by (simp add: exec_rest_def cancel_row_def)

lemma resting_step: "tenant_step t t' \<Longrightarrow> resting_tenant t \<Longrightarrow> resting_tenant t'"
proof (induction rule: tenant_step.induct)
  case (execution_insert st prefix env jid ep etype key run_at inp n t r t')
  then show ?case
    using exec_rest_new by (auto simp: insert_execution_def resting_tenant_def split: option.splits)
next
  case (execution_cancel eid env t r t')
  then show ?case
    by (auto simp: sql_executions_cancel_def Let_def resting_tenant_def set_update_rows exec_rest_cancel)
next
  case (executions_cancel jid env t m t')
  then show ?case
    by (auto simp: sql_cancel_pending_def Let_def resting_tenant_def set_update_rows exec_rest_cancel)
qed (auto simp: resting_tenant_def sql_payload_specs_create_def sql_payload_specs_update_def
    sql_payload_specs_delete_def sql_configs_create_def sql_configs_update_def sql_configs_delete_def
    sql_secrets_create_def sql_secrets_update_def sql_secrets_delete_def insert_endpoint_def
    sql_endpoints_update_def sql_endpoints_delete_def insert_job_def sql_jobs_cancel_def
    sql_retire_def sql_retire_expired_def Let_def split: if_splits option.splits)

interpretation resting_inv: update_invariant resting
proof
  fix d d'
  assume "db_step d d'" and "resting d"
  then show "resting d'"
  proof (induction rule: db_step.induct)
    case (in_tenant d k t t')
    then have "resting_tenant t" unfolding resting_def all_tenants_def by blast
    with in_tenant resting_step have "resting_tenant t'" by blast
    with in_tenant show ?case by (auto simp: resting_def all_tenants_def)
  qed (auto simp: resting_def all_tenants_def resting_tenant_def empty_tenant_def)
next
  fix d k t t' prefix j r
  assume "tenants d k = Some t" and "insert_job prefix j t = Ok (r, t')" and "resting d"
  then show "resting (with_tenant k t' d)"
    by (auto simp: insert_job_def resting_def all_tenants_def resting_tenant_def split: option.splits)
qed

text \<open>A verdict takes an execution from rest to rest.\<close>

lemma exec_rest_attempt:
  assumes "exec_rest e" and "due env e" and "verdict now wid e e'"
  shows "exec_rest e'"
  using assms(3,1,2) by (cases rule: verdict.cases) (auto simp: exec_rest_def due_def)

lemma resting_attempt:
  assumes "one_attempt locked wid prefix schemas d d'" and "resting d" and "all_tenants tenant_wf d"
  shows "resting d'"
  unfolding resting_def all_tenants_def
proof (intro allI impI)
  fix k' t'
  assume t': "tenants d' k' = Some t'"
  from assms(1) obtain schema now eid es e f where
    es: "exec_view d (schema, prefix) = Some es" and due: "due_first (claim_env now schema locked) es e"
    and eid: "eid = execution_id e" and f: "\<And>r. verdict (env_now (claim_env now schema locked)) wid r (f r)"
    and v: "exec_view d' = (exec_view d)((schema, prefix) \<mapsto> update_rows (\<lambda>r. execution_id r = eid) f es)"
    unfolding one_attempt_def attempted_def by blast
  from es obtain t where t: "tenants d (schema, prefix) = Some t" "es = executions t"
    by (auto simp: exec_view_def)
  have rest: "\<And>k u r. tenants d k = Some u \<Longrightarrow> r \<in> set (executions u) \<Longrightarrow> exec_rest r"
    using assms(2) unfolding resting_def all_tenants_def resting_tenant_def by blast
  have dist: "distinct (map execution_id (executions t))"
    using assms(3) t unfolding all_tenants_def tenant_wf_def executions_wf_def by blast
  show "resting_tenant t'"
  proof (cases "k' = (schema, prefix)")
    case False
    with fun_cong [OF v, of k'] t' have "exec_view d k' = Some (executions t')" by (simp add: exec_view_def)
    then obtain u where "tenants d k' = Some u" "executions u = executions t'" by (auto simp: exec_view_def)
    with rest [of k' u] show ?thesis by (simp add: resting_tenant_def)
  next
    case True
    with fun_cong [OF v, of k'] t' have exs: "executions t' = update_rows (\<lambda>r. execution_id r = eid) f es"
      by (simp add: exec_view_def)
    have "exec_rest (f r)" if "r \<in> set es" "execution_id r = eid" for r
    proof -
      have "r = e" using dist that eid due t(2)
        by (auto simp: due_first_def distinct_map inj_on_def)
      then show ?thesis using due f rest [OF t(1)] t(2) by (auto simp: due_first_def intro: exec_rest_attempt [OF _ _ f])
    qed
    then show ?thesis using rest [OF t(1)] t(2) by (auto simp: resting_tenant_def exs set_update_rows)
  qed
qed

section \<open>The system\<close>

inductive system_step :: "ext \<Rightarrow> database \<Rightarrow> database \<Rightarrow> bool" for x where
  request: "pg_tx s = None \<Longrightarrow> run_state (serve x c req) (s :: pg) = (r, s') \<Longrightarrow>
    system_step x (pg_db s) (committed s')"
| library_call: "pg_tx s = None \<Longrightarrow> run_state (library x prefix key_hex call) (s :: pg) = (u, s') \<Longrightarrow>
    system_step x (pg_db s) (committed s')"
| poll: "pg_tx w = None \<Longrightarrow> run_state (claim_and_process x ctx wid schemas) w = (b, w') \<Longrightarrow>
    system_step x (pg_db w) (committed w')"
| cron_tick: "pg_tx s = None \<Longrightarrow> run_state (run_cron_command x cmd) (s :: pg) = (v, s') \<Longrightarrow>
    system_step x (pg_db s) (committed s')"

definition empty_database :: database where
  "empty_database = \<lparr>organizations = [], workspaces = [], tenants = (\<lambda>_. None), cron_job = (\<lambda>_. None)\<rparr>"

abbreviation system_reach :: "ext \<Rightarrow> database \<Rightarrow> bool" where
  "system_reach x d \<equiv> (system_step x)\<^sup>*\<^sup>* empty_database d"

lemma keeps_committed:
  assumes "keeps (db_inv D) m" and "pg_tx s = None" and "run_state m s = (r, s')" and "D (pg_db s)"
  shows "D (committed s')"
proof -
  have "db_inv D s" using assms(2,4) by (simp add: db_inv_def)
  with assms(1,3) have "db_inv D s'" by (blast intro: keepsD)
  then show ?thesis by (simp add: db_inv_def)
qed

lemma system_step_good: "system_step x d d' \<Longrightarrow> good d0 d \<Longrightarrow> good d0 d'"
proof (induction rule: system_step.induct)
  case (request s c req r s')
  then show ?case by (intro keeps_committed [where D = "good d0" and m = "serve x c req"]) (intro keeps_intros)
next
  case (library_call s prefix key_hex call u s')
  then show ?case
    by (intro keeps_committed [where D = "good d0" and m = "library x prefix key_hex call"]) (intro keeps_intros)
next
  case (poll w ctx wid schemas b w')
  then show ?case
    by (intro keeps_committed [where D = "good d0" and m = "claim_and_process x ctx wid schemas"]) (intro keeps_intros)
next
  case (cron_tick s cmd v s')
  then show ?case
    by (intro keeps_committed [where D = "good d0" and m = "run_cron_command x cmd"]) (intro keeps_intros)
qed

lemma system_step_resting:
  "system_step x d d' \<Longrightarrow> resting d \<Longrightarrow> all_tenants tenant_wf d \<Longrightarrow> resting d'"
proof (induction rule: system_step.induct)
  case (request s c req r s')
  then show ?case by (intro keeps_committed [where D = resting and m = "serve x c req"]) (intro keeps_intros)
next
  case (library_call s prefix key_hex call u s')
  then show ?case
    by (intro keeps_committed [where D = resting and m = "library x prefix key_hex call"]) (intro keeps_intros)
next
  case (poll w ctx wid schemas b w')
  from claim_and_process_step [OF poll(2,1)] poll show ?case using resting_attempt by auto
next
  case (cron_tick s cmd v s')
  then show ?case
    by (intro keeps_committed [where D = resting and m = "run_cron_command x cmd"]) (intro keeps_intros)
qed

lemma system_steps:
  assumes "(system_step x)\<^sup>*\<^sup>* d d'" and "all_tenants tenant_wf d" and "resting d"
  shows "good d d' \<and> resting d'"
  using assms(1)
proof (induction rule: rtranclp_induct)
  case base
  then show ?case using assms by (simp add: good_def db_le_refl)
next
  case (step a b)
  then show ?case using system_step_good system_step_resting by (auto simp: good_def)
qed

lemma empty_database_ok: "all_tenants tenant_wf empty_database" "resting empty_database"
  by (simp_all add: all_tenants_def resting_def empty_database_def)

end
