(* ===== verification/Http_Client.thy ===== *)
theory Http_Client
  imports Library_Client Handlers_Executions
begin

text \<open>
  \<open>InvokrHttpClient\<close> of \<open>crates/worker/src/client.rs\<close>: the client of service mode, with the operations of the
  library client over the HTTP API. Sending a request is an argument, a program on the state of whatever
  answers it; so are the reading of JSON texts and of times, and the text of a status code. An
  \<open>anyhow::Error\<close> is its message.
\<close>

section \<open>Requests\<close>

record http_call =
  call_method :: string
  call_url :: string
  call_headers :: "(string \<times> string) list"
  call_body :: "json option"

record 's net =
  net_send :: "http_call \<Rightarrow> ('s, nat \<times> string, string) prog"
    \<comment> \<open>\<open>RequestBuilder::send\<close> and the text of the body\<close>
  net_status :: "nat \<Rightarrow> string"
    \<comment> \<open>\<open>Display\<close> of \<open>StatusCode\<close>\<close>
  net_json :: "string \<Rightarrow> (json, string) outcome"
    \<comment> \<open>\<open>Response::json\<close>\<close>
  net_datetime :: "string \<Rightarrow> timestamp option"
    \<comment> \<open>\<open>Deserialize\<close> of \<open>DateTime<Utc>\<close>\<close>
  net_mismatch :: "json \<Rightarrow> string"
    \<comment> \<open>the error of \<open>serde_json::from_value\<close> on a value that is no execution\<close>

record http_client =
  hc_base_url :: string
  hc_api_key :: string
  hc_org_id :: string

definition hc_url :: "http_client \<Rightarrow> string \<Rightarrow> string" where
  "hc_url c path = trim_end_matches (CHR ''/'') (hc_base_url c) @ ''/v1'' @ path"

definition authed :: "http_client \<Rightarrow> http_call \<Rightarrow> http_call" where
  "authed c q = q\<lparr>call_headers := call_headers q @ [(''Authorization'', ''Bearer '' @ hc_api_key c)]\<rparr>"

definition with_workspace :: "http_client \<Rightarrow> string \<Rightarrow> http_call \<Rightarrow> http_call" where
  "with_workspace c ws q = q\<lparr>call_headers := call_headers q @ [(''x-org-id'', hc_org_id c), (''x-workspace-id'', ws)]\<rparr>"

definition plain_call :: "http_client \<Rightarrow> string \<Rightarrow> string \<Rightarrow> json option \<Rightarrow> http_call" where
  "plain_call c meth path body =
     \<lparr>call_method = meth, call_url = hc_url c path, call_headers = [], call_body = body\<rparr>"

definition ws_call :: "http_client \<Rightarrow> string \<Rightarrow> string \<Rightarrow> string \<Rightarrow> json option \<Rightarrow> http_call" where
  "ws_call c ws meth path body = authed c (with_workspace c ws (plain_call c meth path body))"

definition is_success :: "nat \<Rightarrow> bool" where
  "is_success st \<longleftrightarrow> 200 \<le> st \<and> st < 300"

definition bail :: "'s net \<Rightarrow> string \<Rightarrow> nat \<times> string \<Rightarrow> string" where
  "bail net ctx resp = ctx @ '' HTTP '' @ net_status net (fst resp) @ '': '' @ snd resp"

definition http_check :: "'s net \<Rightarrow> nat \<times> string \<Rightarrow> string \<Rightarrow> ('s, nat \<times> string, string) prog" where
  "http_check net resp ctx = (if is_success (fst resp) then ok resp else err (bail net ctx resp))"

section \<open>Operations\<close>

definition http_upsert_secret :: "'s net \<Rightarrow> http_client \<Rightarrow> string \<Rightarrow> string \<Rightarrow> string \<Rightarrow> ('s, unit, string) prog" where
  "http_upsert_secret net c ws name plaintext =
     tryS (net_send net (ws_call c ws ''POST'' ''/secrets''
             (Some (jobj [(''name'', JStr name), (''value'', JStr plaintext)])))) (\<lambda>resp.
     if is_success (fst resp) then ok ()
     else if fst resp \<noteq> 409 then err (bail net ''upsert_secret create'' resp)
     else
       tryS (net_send net (ws_call c ws ''PUT'' (''/secrets/'' @ name)
               (Some (jobj [(''value'', JStr plaintext)])))) (\<lambda>resp.
       tryS (http_check net resp ''upsert_secret update'') (\<lambda>_. ok ())))"

definition http_delete_secret :: "'s net \<Rightarrow> http_client \<Rightarrow> string \<Rightarrow> string \<Rightarrow> ('s, unit, string) prog" where
  "http_delete_secret net c ws name =
     tryS (net_send net (ws_call c ws ''DELETE'' (''/secrets/'' @ name) None)) (\<lambda>resp.
     tryS (http_check net resp ''delete_secret'') (\<lambda>_. ok ()))"

definition http_register_endpoint ::
  "'s net \<Rightarrow> http_client \<Rightarrow> string \<Rightarrow> string \<Rightarrow> string \<Rightarrow> json \<Rightarrow> json option \<Rightarrow> ('s, unit, string) prog" where
  "http_register_endpoint net c ws name etype spec rp =
     tryS (net_send net (ws_call c ws ''PUT'' (''/endpoints/'' @ name)
             (Some (jobj [(''spec'', spec), (''retry_policy'', jval_opt rp)])))) (\<lambda>resp.
     if is_success (fst resp) then ok ()
     else if fst resp \<noteq> 404 then err (bail net ''register_endpoint update'' resp)
     else
       tryS (net_send net (ws_call c ws ''POST'' ''/endpoints''
               (Some (jobj [(''name'', JStr name), (''type'', JStr etype), (''spec'', spec),
                  (''retry_policy'', jval_opt rp)])))) (\<lambda>resp.
       tryS (http_check net resp ''register_endpoint create'') (\<lambda>_. ok ())))"

definition http_delete_endpoint :: "'s net \<Rightarrow> http_client \<Rightarrow> string \<Rightarrow> string \<Rightarrow> ('s, unit, string) prog" where
  "http_delete_endpoint net c ws name =
     tryS (net_send net (ws_call c ws ''DELETE'' (''/endpoints/'' @ name) None)) (\<lambda>resp.
     tryS (http_check net resp ''delete_endpoint'') (\<lambda>_. ok ()))"

fun trigger_fields :: "ext \<Rightarrow> job_trigger \<Rightarrow> string \<times> (string \<times> json) list" where
  "trigger_fields x Immediate = (''IMMEDIATE'', [])"
| "trigger_fields x (Delayed run_at) = (''DELAYED'', [(''run_at'', jts x run_at)])"
| "trigger_fields x (Cron expr tz starts ends first_run) =
     (''CRON'', [(''cron'', JStr expr), (''timezone'', JStr tz), (''starts_at'', jts_opt x starts),
        (''ends_at'', jts_opt x ends)])"

fun is_cron :: "job_trigger \<Rightarrow> bool" where
  "is_cron (Cron _ _ _ _ _) = True"
| "is_cron _ = False"

definition job_body :: "ext \<Rightarrow> string \<Rightarrow> json \<Rightarrow> int \<Rightarrow> job_trigger \<Rightarrow> string option \<Rightarrow> json" where
  "job_body x ep inp n trigger key =
     jobj ([(''endpoint'', JStr ep), (''input'', inp), (''trigger'', JStr (fst (trigger_fields x trigger)))] @
       (if n > 0 then [(''max_attempts'', JInt n)] else []) @
       (case key of Some k \<Rightarrow> [(''idempotency_key'', JStr k)] | None \<Rightarrow> []) @
       snd (trigger_fields x trigger))"

definition jpath :: "json \<Rightarrow> string list \<Rightarrow> json option" where
  "jpath j ks = foldl (\<lambda>v k. Option.bind v (\<lambda>u. jget u k)) (Some j) ks"

definition http_create_job ::
  "ext \<Rightarrow> 's net \<Rightarrow> http_client \<Rightarrow> string \<Rightarrow> string \<Rightarrow> json \<Rightarrow> int \<Rightarrow> job_trigger \<Rightarrow> string option \<Rightarrow>
   ('s, string, string) prog" where
  "http_create_job x net c ws ep inp n trigger key =
     tryS (net_send net (ws_call c ws ''POST'' ''/jobs'' (Some (job_body x ep inp n trigger key)))) (\<lambda>resp.
     tryS (http_check net resp ''create_job'') (\<lambda>resp.
     tryS (State_Monad.return (net_json net (snd resp))) (\<lambda>j.
     if is_cron trigger then
       State_Monad.return (ok_or (Option.bind (jpath j [''data'', ''job_id'']) as_str)
         (''create_job: response missing '' @ quoted ''data.job_id''))
     else
       State_Monad.return (ok_or (Option.bind (jpath j [''data'', ''execution'', ''execution_id'']) as_str)
         (''create_job: response missing '' @ quoted ''data.execution.execution_id'')))))"

definition http_provision_workspace :: "'s net \<Rightarrow> http_client \<Rightarrow> string \<Rightarrow> ('s, unit, string) prog" where
  "http_provision_workspace net c ws =
     tryS (net_send net (authed c (plain_call c ''POST'' (''/orgs/'' @ hc_org_id c @ ''/workspaces'')
             (Some (jobj [(''name'', JStr ws), (''slug'', JStr ws)]))))) (\<lambda>resp.
     if is_success (fst resp) \<or> fst resp = 409 then ok ()
     else err (bail net ''provision_workspace'' resp))"

definition http_cancel_job :: "'s net \<Rightarrow> http_client \<Rightarrow> string \<Rightarrow> string \<Rightarrow> ('s, unit, string) prog" where
  "http_cancel_job net c ws jid =
     tryS (net_send net (ws_call c ws ''POST'' (''/jobs/'' @ jid @ ''/cancel'') None)) (\<lambda>resp.
     tryS (http_check net resp ''cancel_job'') (\<lambda>_. ok ()))"

text \<open>\<open>Deserialize\<close> of \<open>Execution\<close>: a missing or null \<open>Option\<close> field is \<open>None\<close>, any other missing field is an error.\<close>

definition de_opt :: "(json \<Rightarrow> 'a option) \<Rightarrow> json option \<Rightarrow> 'a option option" where
  "de_opt f v = (case v of None \<Rightarrow> Some None | Some JNull \<Rightarrow> Some None | Some j \<Rightarrow> map_option Some (f j))"

definition execution_from_value :: "(string \<Rightarrow> timestamp option) \<Rightarrow> json \<Rightarrow> execution_row option" where
  "execution_from_value dt j =
     (let time = (\<lambda>v. Option.bind (as_str v) dt) in
      Option.bind (Option.bind (jget j ''execution_id'') as_str) (\<lambda>eid.
      Option.bind (Option.bind (jget j ''job_id'') as_str) (\<lambda>jid.
      Option.bind (Option.bind (jget j ''endpoint'') as_str) (\<lambda>ep.
      Option.bind (Option.bind (jget j ''endpoint_type'') as_str) (\<lambda>etype.
      Option.bind (de_opt as_str (jget j ''idempotency_key'')) (\<lambda>key.
      Option.bind (Option.bind (jget j ''status'') as_str) (\<lambda>st.
      Option.bind (de_opt Some (jget j ''input'')) (\<lambda>inp.
      Option.bind (de_opt Some (jget j ''output'')) (\<lambda>out.
      Option.bind (Option.bind (jget j ''attempt_count'') as_i64) (\<lambda>n.
      Option.bind (Option.bind (jget j ''max_attempts'') as_i64) (\<lambda>m.
      Option.bind (de_opt as_str (jget j ''worker_id'')) (\<lambda>wid.
      Option.bind (Option.bind (jget j ''run_at'') time) (\<lambda>run.
      Option.bind (de_opt time (jget j ''started_at'')) (\<lambda>started.
      Option.bind (de_opt time (jget j ''completed_at'')) (\<lambda>completed.
      Option.bind (de_opt as_i64 (jget j ''duration_ms'')) (\<lambda>dur.
      Option.bind (Option.bind (jget j ''created_at'') time) (\<lambda>created.
      Some \<lparr>execution_id = eid, exec_job_id = jid, exec_endpoint = ep, exec_endpoint_type = etype,
        exec_idempotency_key = key, exec_status = st, exec_input = inp, exec_output = out, attempt_count = n,
        exec_max_attempts = m, worker_id = wid, exec_run_at = run, started_at = started,
        completed_at = completed, duration_ms = dur, exec_created_at = created\<rparr>)))))))))))))))))"

definition http_get_execution ::
  "'s net \<Rightarrow> http_client \<Rightarrow> string \<Rightarrow> string \<Rightarrow> ('s, execution_row option, string) prog" where
  "http_get_execution net c ws eid =
     tryS (net_send net (ws_call c ws ''GET'' (''/executions/'' @ eid) None)) (\<lambda>resp.
     if fst resp = 404 then ok None
     else
       tryS (http_check net resp ''get_execution'') (\<lambda>resp.
       tryS (State_Monad.return (net_json net (snd resp))) (\<lambda>j.
       let data = (case jget j ''data'' of Some v \<Rightarrow> v | None \<Rightarrow> JNull) in
       (case execution_from_value (net_datetime net) data of
          Some e \<Rightarrow> ok (Some e)
        | None \<Rightarrow> err (net_mismatch net data)))))"

section \<open>Against the API\<close>

text \<open>What a client receives of a handler's outcome.\<close>

definition http_answer :: "ext \<Rightarrow> (http_response, app_error) outcome \<Rightarrow> (nat \<times> string, string) outcome" where
  "http_answer x r =
     (let send = (\<lambda>resp. Ok (resp_status resp, case resp_body resp of Some j \<Rightarrow> json_to_string x j | None \<Rightarrow> [])) in
      case r of
        Ok resp \<Rightarrow> send resp
      | Err e \<Rightarrow> send (error_response e)
      | Panic p \<Rightarrow> Err p)"

definition service :: "ext \<Rightarrow> 'x handler \<Rightarrow> ('x pg_scheme, nat \<times> string, string) prog" where
  "service x h = State_Monad.bind h (\<lambda>r. State_Monad.return (http_answer x r))"

text \<open>An execution as the API can show it: numbers of 64 bits, no explicit null.\<close>

definition shown :: "execution_row \<Rightarrow> bool" where
  "shown e \<longleftrightarrow> in_i64 (attempt_count e) \<and> in_i64 (exec_max_attempts e) \<and>
     (\<forall>n. duration_ms e = Some n \<longrightarrow> in_i64 n) \<and> exec_input e \<noteq> Some JNull \<and> exec_output e \<noteq> Some JNull"

lemma de_opt_None [simp]: "de_opt f None = Some None"
  by (simp add: de_opt_def)

lemma de_opt_values:
  "de_opt as_str (Some (jstr_opt s)) = Some s"
  "v \<noteq> Some JNull \<Longrightarrow> de_opt Some (Some (jval_opt v)) = Some v"
  "(\<And>i. n = Some i \<Longrightarrow> in_i64 i) \<Longrightarrow> de_opt as_i64 (Some (jint_opt n)) = Some n"
  "(\<And>t. dt (ts_rfc3339 x t) = Some t) \<Longrightarrow>
     de_opt (\<lambda>v. Option.bind (as_str v) dt) (Some (jts_opt x o')) = Some o'"
  by (cases s; cases v; cases n; cases o';
      auto simp: de_opt_def jstr_opt_def jval_opt_def jint_opt_def jts_opt_def jts_def jopt_def split: json.splits)+

lemma execution_read_back:
  assumes "\<And>t. dt (ts_rfc3339 x t) = Some t" and "shown e"
  shows "execution_from_value dt (execution_json x e) = Some (e\<lparr>exec_idempotency_key := None\<rparr>)"
  using assms de_opt_values(4) [OF assms(1)]
  by (simp add: execution_from_value_def execution_json_def jget_jobj shown_def de_opt_values jts_def)

lemma handle_executions_get_like_client:
  assumes "run_state (client_get_execution prefix sch eid) s = (Ok found, s')"
  shows "run_state (handle_executions_get x prefix sch eid) s =
    (case found of Some e \<Rightarrow> Ok (json_response 200 (jdata (execution_json x e))) | None \<Rightarrow> Err (ExecutionNotFound eid), s')"
  using assms
  by (auto simp: client_get_execution_def handle_executions_get_def sqlS_def ok_orS_def run_tryS run_map_errS
      split: prod.splits outcome.splits option.splits)

end
