(* ===== verification/Config.thy ===== *)
theory Config
  imports Tenant
begin

text \<open>
  \<open>crates/common/src/env.rs\<close>, \<open>config.rs\<close>, \<open>secrets.rs\<close> and \<open>secrets/no_encryption.rs\<close>: what a process reads
  from its environment at start-up. \<open>var\<close> is \<open>std::env::var\<close>, its error the text of \<open>VarError\<close>. The three
  key-management providers call services outside the repository: \<open>kms\<close> builds them, and is absent in a
  build without the \<open>kms\<close> feature. An \<open>anyhow::Error\<close> is its text.
\<close>

section \<open>Environment variables\<close>

type_synonym environment = "string \<Rightarrow> (string, string) outcome"

text \<open>\<open>FromStr\<close> of the unsigned integers: an optional plus sign, digits, in range.\<close>

definition digits_value :: "string \<Rightarrow> nat" where
  "digits_value = foldl (\<lambda>n c. 10 * n + ((of_char c :: nat) - 48)) 0"

definition parse_uint :: "nat \<Rightarrow> string \<Rightarrow> nat option" where
  "parse_uint bits s =
     (let ds = (case s of c # cs \<Rightarrow> if c = CHR ''+'' then cs else s | [] \<Rightarrow> []) in
      if ds = [] \<or> \<not> list_all is_ascii_digit ds \<or> 2 ^ bits \<le> digits_value ds then None
      else Some (digits_value ds))"

definition parse_bool :: "string \<Rightarrow> bool option" where
  "parse_bool s = (if s = ''true'' then Some True else if s = ''false'' then Some False else None)"

text \<open>\<open>{:?}\<close> of an ASCII text.\<close>

fun debug_chars :: "string \<Rightarrow> string" where
  "debug_chars [] = []"
| "debug_chars (c # cs) =
     (if c = CHR 0x22 \<or> c = CHR 0x5C then [CHR 0x5C, c]
      else if c = CHR 0x09 then [CHR 0x5C, CHR ''t'']
      else if c = CHR 0x0A then [CHR 0x5C, CHR ''n'']
      else if c = CHR 0x0D then [CHR 0x5C, CHR ''r'']
      else if c = CHR 0x00 then [CHR 0x5C, CHR ''0'']
      else [c]) @ debug_chars cs"

definition debug_str :: "string \<Rightarrow> string" where
  "debug_str s = CHR 0x22 # debug_chars s @ [CHR 0x22]"

definition get_from_env_unsafe :: "environment \<Rightarrow> string \<Rightarrow> (string, string) outcome" where
  "get_from_env_unsafe var name = map_err (\<lambda>e. name @ '' env not found: '' @ e) (var name)"

definition get_from_env_or_default :: "environment \<Rightarrow> (string \<Rightarrow> 'a option) \<Rightarrow> string \<Rightarrow> 'a \<Rightarrow> 'a" where
  "get_from_env_or_default var parse name dflt =
     (case var name of
        Ok v \<Rightarrow> (case parse v of Some a \<Rightarrow> a | None \<Rightarrow> dflt)
      | _ \<Rightarrow> dflt)"

definition non_empty :: "string option \<Rightarrow> string option" where
  "non_empty v = (case v of Some s \<Rightarrow> if trim s = [] then None else Some s | None \<Rightarrow> None)"

definition env_ok :: "(string, string) outcome \<Rightarrow> string option" where
  "env_ok r = (case r of Ok v \<Rightarrow> Some v | _ \<Rightarrow> None)"

section \<open>Providers of secrets\<close>

datatype provider_kind = NoEncryption | AwsKms | GcpKms | OciKms

datatype secrets_error =
    NotBase64 string
  | DecryptFailed string string
  | NotUtf8 string
  | InvalidConfig string
  | UnknownProvider string
  | KmsNotCompiled string

fun secrets_error_display :: "secrets_error \<Rightarrow> string" where
  "secrets_error_display (NotBase64 name) = name @ '' is not valid base64''"
| "secrets_error_display (DecryptFailed name msg) = name @ '' could not be decrypted: '' @ msg"
| "secrets_error_display (NotUtf8 name) = name @ '' decrypted to invalid UTF-8''"
| "secrets_error_display (InvalidConfig msg) = ''secrets provider configuration is unusable: '' @ msg"
| "secrets_error_display (UnknownProvider k) = ''INVOKR_SECRETS_MANAGER '' @ quoted k @
     '' is not recognised; expected one of: no_encryption, aws_kms, gcp_kms, oci_kms''"
| "secrets_error_display (KmsNotCompiled k) = ''INVOKR_SECRETS_MANAGER '' @ quoted k @
     '' is recognised, but this build was compiled without the `kms` cargo feature''"

record secret_provider =
  sp_decrypt :: "string \<Rightarrow> string \<Rightarrow> (string, secrets_error) outcome"
  sp_validate :: "(unit, secrets_error) outcome"

definition no_encryption :: secret_provider where
  "no_encryption = \<lparr>sp_decrypt = (\<lambda>_ ciphertext. Ok ciphertext), sp_validate = Ok ()\<rparr>"

definition parse_provider_kind :: "string \<Rightarrow> (provider_kind, secrets_error) outcome" where
  "parse_provider_kind raw =
     (let k = map to_ascii_lower (trim raw) in
      if k = [] \<or> k = ''no_encryption'' then Ok NoEncryption
      else if k = ''aws_kms'' then Ok AwsKms
      else if k = ''gcp_kms'' then Ok GcpKms
      else if k = ''oci_kms'' then Ok OciKms
      else Err (UnknownProvider k))"

type_synonym kms_builder = "(provider_kind \<Rightarrow> (secret_provider, secrets_error) outcome) option"

definition provider_from_env :: "kms_builder \<Rightarrow> environment \<Rightarrow> (secret_provider, secrets_error) outcome" where
  "provider_from_env kms var =
     (let raw = get_from_env_or_default var Some ''INVOKR_SECRETS_MANAGER'' [] in
      bind_outcome (parse_provider_kind raw) (\<lambda>kind.
      bind_outcome
        (if kind = NoEncryption then Ok no_encryption
         else (case kms of
             Some build \<Rightarrow> build kind
           | None \<Rightarrow> Err (KmsNotCompiled (map to_ascii_lower (trim raw))))) (\<lambda>provider.
      bind_outcome (sp_validate provider) (\<lambda>_. Ok provider))))"

definition sensitive_reader :: "kms_builder \<Rightarrow> environment \<Rightarrow> (secret_provider, string) outcome" where
  "sensitive_reader kms var = map_err secrets_error_display (provider_from_env kms var)"

definition reader_read :: "secret_provider \<Rightarrow> environment \<Rightarrow> string \<Rightarrow> (string, string) outcome" where
  "reader_read provider var name =
     bind_outcome (get_from_env_unsafe var name) (\<lambda>raw.
     map_err secrets_error_display (sp_decrypt provider name raw))"

definition reader_read_opt :: "secret_provider \<Rightarrow> environment \<Rightarrow> string \<Rightarrow> (string option, string) outcome" where
  "reader_read_opt provider var name =
     (case non_empty (env_ok (var name)) of
        None \<Rightarrow> Ok None
      | Some raw \<Rightarrow>
          bind_outcome (map_err secrets_error_display (sp_decrypt provider name raw)) (\<lambda>plain.
          Ok (non_empty (Some plain))))"

definition reader_read_or_default ::
  "secret_provider \<Rightarrow> environment \<Rightarrow> string \<Rightarrow> string \<Rightarrow> (string, string) outcome" where
  "reader_read_or_default provider var name dflt =
     bind_outcome (reader_read_opt provider var name) (\<lambda>v.
     case v of Some s \<Rightarrow> Ok s | None \<Rightarrow> Ok dflt)"

section \<open>The parts of the configuration\<close>

record db_env =
  de_url :: string
  de_pool_size :: nat
  de_table_prefix :: string

definition db_env_new :: "secret_provider \<Rightarrow> environment \<Rightarrow> (db_env, string) outcome" where
  "db_env_new provider var =
     bind_outcome (reader_read provider var ''INVOKR_DATABASE_URL'') (\<lambda>url.
     let pool_size = get_from_env_or_default var (parse_uint 32) ''INVOKR_DB_POOL_SIZE'' 50;
         table_prefix = get_from_env_or_default var Some ''INVOKR_TABLE_PREFIX'' [] in
     if \<not> validate_table_prefix table_prefix then
       Err (''INVOKR_TABLE_PREFIX '' @ quoted table_prefix @
            '' is invalid: only alphanumeric and underscore allowed'')
     else Ok \<lparr>de_url = url, de_pool_size = pool_size, de_table_prefix = table_prefix\<rparr>)"

datatype server_mode = Api | Dashboard | Both

definition server_mode_from_env :: "environment \<Rightarrow> server_mode" where
  "server_mode_from_env var =
     (let m = to_lowercase (get_from_env_or_default var Some ''INVOKR_MODE'' ''api'') in
      if m = ''dashboard'' then Dashboard else if m = ''both'' then Both else Api)"

definition normalize_prefix :: "string \<Rightarrow> string" where
  "normalize_prefix raw =
     (let p = trim_matches (CHR ''/'') raw in if p = [] then [] else CHR ''/'' # p)"

record server_env =
  se_listen_addr :: string
  se_path_prefix :: string
  se_mode :: server_mode
  se_dashboard_prefix :: string
  se_dashboard_dist_dir :: string

definition server_env_new :: "environment \<Rightarrow> (server_env, string) outcome" where
  "server_env_new var = Ok
     \<lparr>se_listen_addr = get_from_env_or_default var Some ''INVOKR_LISTEN_ADDR'' ''0.0.0.0:8080'',
      se_path_prefix = normalize_prefix (get_from_env_or_default var Some ''INVOKR_PATH_PREFIX'' []),
      se_mode = server_mode_from_env var,
      se_dashboard_prefix =
        normalize_prefix (get_from_env_or_default var Some ''INVOKR_DASHBOARD_PATH_PREFIX'' []),
      se_dashboard_dist_dir =
        get_from_env_or_default var Some ''INVOKR_DASHBOARD_DIST_DIR'' ''./dashboard-dist''\<rparr>"

record worker_env =
  we_max_concurrent :: nat
  we_poll_interval_ms :: nat
  we_config_cache_ttl_sec :: nat
  we_secret_cache_ttl_sec :: nat
  we_shutdown_timeout_sec :: nat

definition worker_env_new :: "environment \<Rightarrow> worker_env" where
  "worker_env_new var =
     \<lparr>we_max_concurrent = get_from_env_or_default var (parse_uint 64) ''INVOKR_WORKER_MAX_CONCURRENT'' 50,
      we_poll_interval_ms = get_from_env_or_default var (parse_uint 64) ''INVOKR_WORKER_POLL_INTERVAL_MS'' 200,
      we_config_cache_ttl_sec = get_from_env_or_default var (parse_uint 64) ''INVOKR_CONFIG_CACHE_TTL_SEC'' 60,
      we_secret_cache_ttl_sec = get_from_env_or_default var (parse_uint 64) ''INVOKR_SECRET_CACHE_TTL_SEC'' 300,
      we_shutdown_timeout_sec =
        get_from_env_or_default var (parse_uint 64) ''INVOKR_WORKER_SHUTDOWN_TIMEOUT_SEC'' 30\<rparr>"

definition crypto_env_new :: "secret_provider \<Rightarrow> environment \<Rightarrow> (string, string) outcome" where
  "crypto_env_new provider var =
     reader_read_or_default provider var ''INVOKR_ENCRYPTION_KEY'' (replicate 64 (CHR ''0''))"

definition metrics_env_new :: "environment \<Rightarrow> nat" where
  "metrics_env_new var = get_from_env_or_default var (parse_uint 16) ''INVOKR_METRICS_PORT'' 9090"

record worker_health_env =
  he_db_probe_timeout_ms :: nat
  he_stale_after_floor_ms :: nat
  he_server_workers :: nat

definition worker_health_env_new :: "environment \<Rightarrow> worker_health_env" where
  "worker_health_env_new var =
     \<lparr>he_db_probe_timeout_ms =
        get_from_env_or_default var (parse_uint 64) ''INVOKR_HEALTH_DB_PROBE_TIMEOUT_MS'' 2000,
      he_stale_after_floor_ms =
        get_from_env_or_default var (parse_uint 64) ''INVOKR_HEALTH_STALE_AFTER_FLOOR_MS'' 5000,
      he_server_workers = get_from_env_or_default var (parse_uint 64) ''INVOKR_HEALTH_SERVER_WORKERS'' 1\<rparr>"

definition reaper_env_new :: "ext \<Rightarrow> environment \<Rightarrow> (string, string) outcome" where
  "reaper_env_new x var =
     (let expr = get_from_env_or_default var Some ''INVOKR_REAPER_CRON_EXPRESSION'' ''*/15 * * * *'' in
      bind_outcome (map_err (\<lambda>e. ''Invalid INVOKR_REAPER_CRON_EXPRESSION '' @ quoted expr @ '': '' @
                        app_error_display e) (pg_cron_try_from x expr)) (\<lambda>_.
      Ok expr))"

record invokr_config =
  ic_db :: db_env
  ic_server :: server_env
  ic_worker :: worker_env
  ic_encryption_key :: string
  ic_metrics_port :: nat
  ic_health :: worker_health_env
  ic_reaper_cron :: string

definition config_from_env :: "ext \<Rightarrow> kms_builder \<Rightarrow> environment \<Rightarrow> (invokr_config, string) outcome" where
  "config_from_env x kms var =
     bind_outcome (sensitive_reader kms var) (\<lambda>reader.
     bind_outcome (db_env_new reader var) (\<lambda>db.
     bind_outcome (server_env_new var) (\<lambda>server.
     bind_outcome (crypto_env_new reader var) (\<lambda>key.
     bind_outcome (reaper_env_new x var) (\<lambda>reaper.
     Ok \<lparr>ic_db = db, ic_server = server, ic_worker = worker_env_new var, ic_encryption_key = key,
         ic_metrics_port = metrics_env_new var, ic_health = worker_health_env_new var,
         ic_reaper_cron = reaper\<rparr>)))))"

section \<open>Authentication\<close>

datatype auth_mode = Disabled | Oidc

definition auth_mode_parse :: "string \<Rightarrow> (auth_mode, string) outcome" where
  "auth_mode_parse raw =
     (let m = to_lowercase (trim raw) in
      if m = ''disabled'' then Ok Disabled
      else if m = ''oidc'' then Ok Oidc
      else Err (''unknown INVOKR_AUTH_MODE '' @ debug_str m @ ''; expected `disabled` or `oidc`''))"

record oidc_env =
  oe_issuer_url :: string
  oe_client_id :: string
  oe_client_secret :: "string option"
  oe_redirect_host :: string

record auth_env =
  ae_mode :: auth_mode
  ae_oidc :: "oidc_env option"
  ae_api_token_prefix :: "string option"
  ae_static_tokens :: "string option"
  ae_legacy_api_key :: "string option"
  ae_secure_cookies :: bool

definition required :: "environment \<Rightarrow> string \<Rightarrow> (string, string) outcome" where
  "required var name = ok_or (non_empty (env_ok (var name))) (name @ '' is required when INVOKR_AUTH_MODE=oidc'')"

definition oidc_env_read :: "secret_provider \<Rightarrow> environment \<Rightarrow> (oidc_env, string) outcome" where
  "oidc_env_read reader var =
     bind_outcome (required var ''INVOKR_OIDC_ISSUER_URL'') (\<lambda>issuer.
     bind_outcome (required var ''INVOKR_OIDC_CLIENT_ID'') (\<lambda>client.
     bind_outcome (reader_read_opt reader var ''INVOKR_OIDC_CLIENT_SECRET'') (\<lambda>secret.
     bind_outcome (required var ''INVOKR_OIDC_REDIRECT_HOST'') (\<lambda>host.
     Ok \<lparr>oe_issuer_url = issuer, oe_client_id = client, oe_client_secret = secret, oe_redirect_host = host\<rparr>))))"

definition auth_from_env :: "kms_builder \<Rightarrow> environment \<Rightarrow> (auth_env, string) outcome" where
  "auth_from_env kms var =
     bind_outcome (sensitive_reader kms var) (\<lambda>reader.
     bind_outcome (map_err (\<lambda>_. ''INVOKR_AUTH_MODE is not set; expected `disabled` or `oidc`. ''
         @ ''It has no default because an unset auth mode would otherwise decide itself.'')
       (get_from_env_unsafe var ''INVOKR_AUTH_MODE'')) (\<lambda>raw.
     bind_outcome (auth_mode_parse raw) (\<lambda>mode.
     bind_outcome (case mode of
         Disabled \<Rightarrow> Ok None
       | Oidc \<Rightarrow> bind_outcome (oidc_env_read reader var) (\<lambda>oe. Ok (Some oe))) (\<lambda>oidc.
     let prefix = non_empty (env_ok (var ''INVOKR_API_TOKEN_PREFIX'')) in
     bind_outcome (reader_read_opt reader var ''INVOKR_API_STATIC_TOKENS'') (\<lambda>tokens.
     if (prefix \<noteq> None) \<noteq> (tokens \<noteq> None) then
       Err (''INVOKR_API_TOKEN_PREFIX and INVOKR_API_STATIC_TOKENS must be set ''
            @ ''together: a prefix with no tokens authenticates nothing, and ''
            @ ''tokens with no prefix can never be presented'')
     else
       bind_outcome (reader_read_opt reader var ''INVOKR_API_KEY'') (\<lambda>legacy.
       Ok \<lparr>ae_mode = mode, ae_oidc = oidc, ae_api_token_prefix = prefix, ae_static_tokens = tokens,
           ae_legacy_api_key = legacy,
           ae_secure_cookies = get_from_env_or_default var parse_bool ''INVOKR_AUTH_SECURE_COOKIES'' True\<rparr>))))))"

section \<open>Laws\<close>

text \<open>A prefix that \<open>normalize_prefix\<close> made: empty, or a path with one leading and no trailing slash.\<close>

definition path_prefix_ok :: "string \<Rightarrow> bool" where
  "path_prefix_ok p \<longleftrightarrow> p = [] \<or>
     (\<exists>q. p = CHR ''/'' # q \<and> q \<noteq> [] \<and> hd q \<noteq> CHR ''/'' \<and> last q \<noteq> CHR ''/'')"

lemma trim_matches_ends:
  assumes "trim_matches c s \<noteq> []"
  shows "hd (trim_matches c s) \<noteq> c" "last (trim_matches c s) \<noteq> c"
proof -
  define r where "r = dropWhile (\<lambda>d. d = c) s"
  define q where "q = dropWhile (\<lambda>d. d = c) (rev r)"
  have t: "trim_matches c s = rev q" by (simp add: trim_matches_def trim_end_matches_def r_def q_def)
  with assms have q: "q \<noteq> []" by simp
  then show "last (trim_matches c s) \<noteq> c" using hd_dropWhile [of "\<lambda>d. d = c" "rev r"]
    by (simp add: t q_def last_rev)
  obtain us where "rev r = us @ q" unfolding q_def by (metis takeWhile_dropWhile_id)
  then have r: "r = rev q @ rev us" by (metis rev_append rev_rev_ident)
  with q have "hd (rev q) = hd r" by simp
  moreover from q r have "r \<noteq> []" by simp
  then have "hd r \<noteq> c" using hd_dropWhile [of "\<lambda>d. d = c" s] by (simp add: r_def)
  ultimately show "hd (trim_matches c s) \<noteq> c" by (simp add: t)
qed

lemma normalize_prefix_ok: "path_prefix_ok (normalize_prefix raw)"
  using trim_matches_ends [of "CHR ''/''" raw] by (auto simp: normalize_prefix_def path_prefix_ok_def Let_def)

lemma normalize_prefix_idem:
  assumes "path_prefix_ok p"
  shows "normalize_prefix p = p"
proof (cases "p = []")
  case False
  with assms obtain q where q: "p = CHR ''/'' # q" "q \<noteq> []" "hd q \<noteq> CHR ''/''" "last q \<noteq> CHR ''/''"
    by (auto simp: path_prefix_ok_def)
  from q(2,3) have "dropWhile (\<lambda>d. d = CHR ''/'') q = q" by (cases q) auto
  moreover from q(2,4) have "dropWhile (\<lambda>d. d = CHR ''/'') (rev q) = rev q"
    by (cases q rule: rev_cases) auto
  ultimately show ?thesis
    using q by (simp add: normalize_prefix_def trim_matches_def trim_end_matches_def Let_def)
qed (simp add: normalize_prefix_def trim_matches_def trim_end_matches_def)

lemma non_empty_Some: "non_empty v = Some s \<longleftrightarrow> v = Some s \<and> trim s \<noteq> []"
  by (auto simp: non_empty_def split: option.splits)

lemma reader_read_opt_Some: "reader_read_opt r var name = Ok (Some s) \<Longrightarrow> trim s \<noteq> []"
  by (auto simp: reader_read_opt_def bind_outcome_Ok non_empty_Some split: option.splits)

lemma required_Ok: "required var name = Ok s \<Longrightarrow> trim s \<noteq> []"
  by (auto simp: required_def non_empty_Some)

lemma oidc_env_read_Ok:
  "oidc_env_read r var = Ok oe \<Longrightarrow>
     trim (oe_issuer_url oe) \<noteq> [] \<and> trim (oe_client_id oe) \<noteq> [] \<and> trim (oe_redirect_host oe) \<noteq> [] \<and>
     (\<forall>s. oe_client_secret oe = Some s \<longrightarrow> trim s \<noteq> [])"
  by (auto simp: oidc_env_read_def bind_outcome_Ok dest: required_Ok reader_read_opt_Some)

lemma reader_read_opt_unset: "var name = Err e \<Longrightarrow> reader_read_opt r var name = Ok None"
  by (simp add: reader_read_opt_def env_ok_def non_empty_def)

lemma env_uint_bound: "n < 2 ^ bits \<Longrightarrow> get_from_env_or_default var (parse_uint bits) name n < 2 ^ bits"
  by (auto simp: get_from_env_or_default_def parse_uint_def Let_def split: outcome.splits if_splits)

lemma db_env_new_Ok:
  "db_env_new r var = Ok d \<Longrightarrow> validate_table_prefix (de_table_prefix d) \<and> de_pool_size d < 2 ^ 32"
  using env_uint_bound [of 50 32 var "''INVOKR_DB_POOL_SIZE''"]
  by (auto simp: db_env_new_def Let_def bind_outcome_Ok split: if_splits)

lemma server_env_new_Ok:
  "server_env_new var = Ok s \<Longrightarrow> path_prefix_ok (se_path_prefix s) \<and> path_prefix_ok (se_dashboard_prefix s)"
  by (auto simp: server_env_new_def normalize_prefix_ok)

lemma reaper_env_new_Ok: "reaper_env_new x var = Ok e \<Longrightarrow> pg_cron_try_from x e = Ok e"
  by (auto simp: reaper_env_new_def Let_def bind_outcome_Ok pg_cron_try_from_def split: if_splits option.splits)

definition sample_environment :: environment where
  "sample_environment name =
     (if name = ''INVOKR_DATABASE_URL'' then Ok ''postgresql://db/invokr''
      else if name = ''INVOKR_PATH_PREFIX'' then Ok ''invokr/''
      else if name = ''INVOKR_AUTH_MODE'' then Ok '' OIDC ''
      else if name = ''INVOKR_OIDC_ISSUER_URL'' then Ok ''https://id/''
      else if name = ''INVOKR_OIDC_CLIENT_ID'' then Ok ''invokr''
      else if name = ''INVOKR_OIDC_REDIRECT_HOST'' then Ok ''https://host/''
      else Err ''environment variable not found'')"

text \<open>C30: a configuration that is accepted is usable: its table prefix is one the queries may splice into
  SQL, the reaper's cron expression has a schedule (so provisioning a workspace cannot fail on it), both
  URL prefixes are empty or a path with one leading and no trailing slash, and every number fits its
  machine type (\<open>u16\<close>, \<open>u32\<close> or the 64 bits of \<open>u64\<close> and \<open>usize\<close>).\<close>

theorem accepted_config_is_usable:
  assumes "config_from_env x kms var = Ok c"
  shows "validate_table_prefix (de_table_prefix (ic_db c)) \<and>
    to_schedule x (ic_reaper_cron c) = Ok (to_seven_field (ic_reaper_cron c)) \<and>
    path_prefix_ok (se_path_prefix (ic_server c)) \<and> path_prefix_ok (se_dashboard_prefix (ic_server c)) \<and>
    de_pool_size (ic_db c) < 2 ^ 32 \<and> ic_metrics_port c < 2 ^ 16 \<and>
    we_max_concurrent (ic_worker c) < 2 ^ 64 \<and> we_poll_interval_ms (ic_worker c) < 2 ^ 64 \<and>
    we_config_cache_ttl_sec (ic_worker c) < 2 ^ 64 \<and> we_secret_cache_ttl_sec (ic_worker c) < 2 ^ 64 \<and>
    we_shutdown_timeout_sec (ic_worker c) < 2 ^ 64 \<and> he_db_probe_timeout_ms (ic_health c) < 2 ^ 64 \<and>
    he_stale_after_floor_ms (ic_health c) < 2 ^ 64 \<and> he_server_workers (ic_health c) < 2 ^ 64"
proof -
  from assms obtain r where r: "db_env_new r var = Ok (ic_db c)" "server_env_new var = Ok (ic_server c)"
    "reaper_env_new x var = Ok (ic_reaper_cron c)" "ic_worker c = worker_env_new var"
    "ic_metrics_port c = metrics_env_new var" "ic_health c = worker_health_env_new var"
    by (auto simp: config_from_env_def bind_outcome_Ok)
  from db_env_new_Ok [OF r(1)] server_env_new_Ok [OF r(2)] to_schedule_total [OF reaper_env_new_Ok [OF r(3)]]
  show ?thesis
    unfolding r(4-6) worker_env_new_def metrics_env_new_def worker_health_env_new_def worker_env.simps worker_health_env.simps
    by (intro conjI env_uint_bound; simp)
qed

theorem accepted_config_is_usable_witness:
  "\<exists>c. config_from_env sample_ext None sample_environment = Ok c \<and> se_path_prefix (ic_server c) = ''/invokr'' \<and>
     to_schedule sample_ext (ic_reaper_cron c) = Ok (to_seven_field (ic_reaper_cron c))"
proof -
  have "(case config_from_env sample_ext None sample_environment of
      Ok c \<Rightarrow> se_path_prefix (ic_server c) = ''/invokr'' | _ \<Rightarrow> False)"
    by code_simp
  then obtain c where "config_from_env sample_ext None sample_environment = Ok c"
    "se_path_prefix (ic_server c) = ''/invokr''"
    by (auto split: outcome.splits)
  with accepted_config_is_usable [OF this(1)] show ?thesis by blast
qed

text \<open>C29: the API never decides about authentication by itself. When its settings are accepted, the mode
  is the one the environment names, there is a login provider exactly in the OIDC mode and its address,
  client and callback host are not blank, a prefix for API tokens is set exactly when tokens are, and none of
  its credentials (the client secret, the token prefix, the tokens, the shared key) is blank. There is no
  default key, and cookies are secure unless the environment says otherwise.\<close>

theorem auth_mode_is_explicit:
  assumes "auth_from_env kms var = Ok a"
  shows "(\<exists>raw. var ''INVOKR_AUTH_MODE'' = Ok raw \<and> to_lowercase (trim raw) =
      (case ae_mode a of Disabled \<Rightarrow> ''disabled'' | Oidc \<Rightarrow> ''oidc'')) \<and>
    (ae_oidc a = None \<longleftrightarrow> ae_mode a = Disabled) \<and>
    (\<forall>oe. ae_oidc a = Some oe \<longrightarrow>
       trim (oe_issuer_url oe) \<noteq> [] \<and> trim (oe_client_id oe) \<noteq> [] \<and> trim (oe_redirect_host oe) \<noteq> [] \<and>
       (\<forall>k. oe_client_secret oe = Some k \<longrightarrow> trim k \<noteq> [])) \<and>
    (ae_api_token_prefix a = None \<longleftrightarrow> ae_static_tokens a = None) \<and>
    (\<forall>k. ae_legacy_api_key a = Some k \<or> ae_static_tokens a = Some k \<or> ae_api_token_prefix a = Some k \<longrightarrow>
       trim k \<noteq> []) \<and>
    (\<forall>e. var ''INVOKR_API_KEY'' = Err e \<longrightarrow> ae_legacy_api_key a = None) \<and>
    (\<forall>e. var ''INVOKR_AUTH_SECURE_COOKIES'' = Err e \<longrightarrow> ae_secure_cookies a)"
proof -
  from assms obtain r raw where mode: "var ''INVOKR_AUTH_MODE'' = Ok raw" "auth_mode_parse raw = Ok (ae_mode a)"
    and oidc: "(case ae_mode a of Disabled \<Rightarrow> Ok None
       | Oidc \<Rightarrow> bind_outcome (oidc_env_read r var) (\<lambda>oe. Ok (Some oe))) = Ok (ae_oidc a)"
    and tok: "reader_read_opt r var ''INVOKR_API_STATIC_TOKENS'' = Ok (ae_static_tokens a)"
      "(ae_api_token_prefix a = None) = (ae_static_tokens a = None)"
    and key: "reader_read_opt r var ''INVOKR_API_KEY'' = Ok (ae_legacy_api_key a)"
    and prefix: "ae_api_token_prefix a = non_empty (env_ok (var ''INVOKR_API_TOKEN_PREFIX''))"
    and cookies: "ae_secure_cookies a = get_from_env_or_default var parse_bool ''INVOKR_AUTH_SECURE_COOKIES'' True"
    by (auto simp: auth_from_env_def get_from_env_unsafe_def bind_outcome_Ok Let_def split: if_splits)
  have "to_lowercase (trim raw) = (case ae_mode a of Disabled \<Rightarrow> ''disabled'' | Oidc \<Rightarrow> ''oidc'')"
    using mode(2) by (auto simp: auth_mode_parse_def Let_def split: if_splits)
  moreover have "ae_oidc a = None \<longleftrightarrow> ae_mode a = Disabled"
    using oidc by (cases "ae_oidc a") (auto simp: bind_outcome_Ok split: auth_mode.splits)
  moreover have "oidc_env_read r var = Ok oe" if "ae_oidc a = Some oe" for oe
    using oidc that by (auto simp: bind_outcome_Ok split: auth_mode.splits)
  moreover have "trim k \<noteq> []" if "ae_api_token_prefix a = Some k" for k
    using non_empty_Some [of "env_ok (var ''INVOKR_API_TOKEN_PREFIX'')" k] prefix that by simp
  moreover have "ae_legacy_api_key a = None" if "var ''INVOKR_API_KEY'' = Err e" for e
    using key reader_read_opt_unset [of var "''INVOKR_API_KEY''" e r] that by simp
  moreover have "ae_secure_cookies a" if "var ''INVOKR_AUTH_SECURE_COOKIES'' = Err e" for e
    using cookies that by (simp add: get_from_env_or_default_def)
  ultimately show ?thesis
    using mode(1) tok key by (auto dest: reader_read_opt_Some oidc_env_read_Ok)
qed

theorem auth_mode_is_explicit_witness:
  "\<exists>a. auth_from_env None sample_environment = Ok a \<and> ae_mode a = Oidc \<and> ae_oidc a \<noteq> None \<and> ae_legacy_api_key a = None"
proof -
  have "(case auth_from_env None sample_environment of Ok a \<Rightarrow> ae_mode a = Oidc | _ \<Rightarrow> False)" by code_simp
  then obtain a where "auth_from_env None sample_environment = Ok a" "ae_mode a = Oidc"
    by (auto split: outcome.splits)
  moreover have "sample_environment ''INVOKR_API_KEY'' = Err ''environment variable not found''"
    by (simp add: sample_environment_def)
  ultimately show ?thesis using auth_mode_is_explicit [of None sample_environment a] by auto
qed

end
