(* ===== verification/Auth.thy ===== *)
theory Auth
  imports Config Handlers_Catalog
begin

text \<open>
  \<open>crates/api/src/auth/\<close>: which routes need a credential (\<open>scope.rs\<close>), who a caller is (\<open>principal.rs\<close>), the
  shared key (\<open>legacy.rs\<close>), the browser session (\<open>session.rs\<close>), the chain of mechanisms (\<open>setup.rs\<close>) and
  the login routes (\<open>routes.rs\<close>). The mechanisms themselves, the order in which the gateway asks them and
  the login flow belong to the crate \<open>authn_kit\<close>: what the code needs of them are arguments.
\<close>

section \<open>Scopes\<close>

definition session_cookie :: string where "session_cookie = ''invokr_session''"

datatype invokr_scope = Public | Protected

fun scope_display :: "invokr_scope \<Rightarrow> string" where
  "scope_display Public = ''public''"
| "scope_display Protected = ''protected''"

definition session_cookie_name :: "invokr_scope \<Rightarrow> string" where
  "session_cookie_name sc = session_cookie"

definition callback_path :: "string \<Rightarrow> string" where
  "callback_path path_prefix = path_prefix @ ''/oidc/login''"

definition scope_resolve :: "string \<Rightarrow> string \<Rightarrow> string \<Rightarrow> invokr_scope" where
  "scope_resolve api dashboard_prefix path =
     (if path = api @ ''/health'' \<or> path = api @ ''/metrics'' \<or> path = callback_path api \<or>
         starts_with (dashboard_prefix @ ''/pkg/'') path
      then Public else Protected)"

section \<open>Callers\<close>

datatype claim_source = IdToken | StaticToken | ClientCredentials | OtherSource string

record identity_claims =
  claim_src :: claim_source
  claim_subject :: "string option"
  claim_preferred_username :: "string option"
  claim_email :: "string option"
  claim_client_id :: "string option"

record caller =
  principal :: string
  caller_source :: claim_source
  legacy :: bool

definition legacy_api_key_caller :: caller where
  "legacy_api_key_caller = \<lparr>principal = ''legacy-api-key'', caller_source = StaticToken, legacy = True\<rparr>"

text \<open>\<open>best_effort_username\<close> is a method of the claims.\<close>

definition caller_try_from ::
  "(identity_claims \<Rightarrow> string option) \<Rightarrow> identity_claims \<Rightarrow> (caller, string) outcome" where
  "caller_try_from best_effort_username claims =
     (if claim_src claims = ClientCredentials then
        bind_outcome (ok_or (claim_client_id claims) ''client_credentials grant carried no client_id'') (\<lambda>client_id.
        Ok \<lparr>principal = ''service-account-'' @ client_id, caller_source = claim_src claims, legacy = False\<rparr>)
      else
        bind_outcome (ok_or (best_effort_username claims)
          ''no usable identity claim (looked for preferred_username, email, sub, client_id)'') (\<lambda>name.
        Ok \<lparr>principal = name, caller_source = claim_src claims, legacy = False\<rparr>))"

definition development_identity :: identity_claims where
  "development_identity =
     \<lparr>claim_src = StaticToken, claim_subject = Some ''invokr-auth-disabled'',
      claim_preferred_username = Some ''invokr-auth-disabled'',
      claim_email = Some ''invokr-auth-disabled@invalid'', claim_client_id = None\<rparr>"

section \<open>Mechanisms\<close>

datatype credential = Bearer string | OtherCredential

datatype 'u auth_verdict = NotApplicable | Authenticated 'u

datatype auth_error = Redirect string | Unauthenticated string | OtherAuthError string

definition legacy_authenticate :: "string \<Rightarrow> credential \<Rightarrow> (caller auth_verdict, auth_error) outcome" where
  "legacy_authenticate key c = (case c of
       Bearer token \<Rightarrow>
         if token \<noteq> key then Ok NotApplicable else Ok (Authenticated legacy_api_key_caller)
     | OtherCredential \<Rightarrow> Ok NotApplicable)"

definition is_api_call :: "string \<Rightarrow> string \<Rightarrow> bool" where
  "is_api_call api_prefix path \<longleftrightarrow> starts_with (api_prefix @ ''/v1/'') path"

text \<open>\<open>inner\<close> is what the wrapped session authenticator answers.\<close>

definition session_authenticate ::
  "string \<Rightarrow> string \<Rightarrow> ('u auth_verdict, auth_error) outcome \<Rightarrow> ('u auth_verdict, auth_error) outcome" where
  "session_authenticate api_prefix path inner =
     (case inner of
        Err (Redirect _) \<Rightarrow>
          if is_api_call api_prefix path then
            Err (Unauthenticated ''no credential presented; send an API token or a session cookie'')
          else inner
      | _ \<Rightarrow> inner)"

datatype mechanism =
    DisabledMechanism identity_claims
  | LegacyKey string
  | ApiTokens string string
  | BearerToken
  | BrowserSession string

definition redirect_url :: "oidc_env \<Rightarrow> string \<Rightarrow> string" where
  "redirect_url oe path_prefix = trim_end_matches (CHR ''/'') (oe_redirect_host oe) @ path_prefix @ ''/oidc/login''"

text \<open>What \<open>build\<close> takes from the crate: making and discovering the provider, reading the static tokens, and
  assembling the gateway. Each may refuse.\<close>

record authn_kit =
  oidc_config_new :: "string \<Rightarrow> string \<Rightarrow> string \<Rightarrow> (unit, string) outcome"
  oidc_discover :: "oidc_env \<Rightarrow> string \<Rightarrow> (unit, string) outcome"
  api_tokens_from_json :: "string \<Rightarrow> string \<Rightarrow> (unit, string) outcome"
  gateway_build :: "mechanism list \<Rightarrow> (unit, string) outcome"

text \<open>The second component is \<open>AuthRoutesState::login\<close>: present or not.\<close>

definition auth_build :: "authn_kit \<Rightarrow> auth_env \<Rightarrow> string \<Rightarrow> (mechanism list \<times> bool, string) outcome" where
  "auth_build kit auth path_prefix =
     (case ae_mode auth of
        Disabled \<Rightarrow>
          let ms = [DisabledMechanism development_identity] in
          bind_outcome (gateway_build kit ms) (\<lambda>_. Ok (ms, False))
      | Oidc \<Rightarrow>
          bind_outcome (ok_or (ae_oidc auth) ''INVOKR_AUTH_MODE=oidc but no OIDC configuration was read'') (\<lambda>oe.
          let url = redirect_url oe path_prefix in
          bind_outcome (oidc_config_new kit (oe_issuer_url oe) (oe_client_id oe) url) (\<lambda>_.
          bind_outcome (map_err (\<lambda>e. ''OIDC discovery against '' @ oe_issuer_url oe @ '' failed: '' @ e)
            (oidc_discover kit oe url)) (\<lambda>_.
          let legacy = (case ae_legacy_api_key auth of Some key \<Rightarrow> [LegacyKey key] | None \<Rightarrow> []) in
          bind_outcome
            (case (ae_api_token_prefix auth, ae_static_tokens auth) of
               (Some prefix, Some toks) \<Rightarrow>
                 bind_outcome (map_err (\<lambda>e. ''INVOKR_API_STATIC_TOKENS is invalid: '' @ e)
                     (api_tokens_from_json kit prefix toks))
                   (\<lambda>_. Ok [ApiTokens prefix toks])
             | _ \<Rightarrow> Ok []) (\<lambda>api_tokens.
          let ms = legacy @ api_tokens @ [BearerToken, BrowserSession path_prefix] in
          bind_outcome (gateway_build kit ms) (\<lambda>_. Ok (ms, True)))))))"

section \<open>Login routes\<close>

record cookie =
  cookie_name :: string
  cookie_value :: string
  cookie_path :: "string option"
  cookie_removal :: bool

record route_response =
  route_status :: nat
  route_location :: "string option"
  route_cookies :: "cookie list"
  route_body :: "json option"

text \<open>\<open>LoginFlow\<close>, with \<open>CallbackParams::from_query\<close> and the rendering of its errors.\<close>

record 'p login_flow =
  from_query :: "string \<Rightarrow> ('p, auth_error) outcome"
  protection_cookie :: string
  complete :: "'p \<Rightarrow> string option \<Rightarrow> (string \<times> cookie list, auth_error) outcome"
  cleared_session :: cookie
  render_error :: "auth_error \<Rightarrow> route_response"

definition callback ::
  "'p login_flow option \<Rightarrow> (string \<Rightarrow> string option) \<Rightarrow> string \<Rightarrow> (route_response, route_response) outcome" where
  "callback login cookies query = (case login of
       None \<Rightarrow> Ok \<lparr>route_status = 404, route_location = None, route_cookies = [],
         route_body = Some (jobj [(''error'', jobj [(''code'', JStr ''AUTH_DISABLED''),
           (''message'', JStr ''Authentication is disabled; there is no login flow'')])])\<rparr>
     | Some flow \<Rightarrow>
         bind_outcome (map_err (render_error flow) (from_query flow query)) (\<lambda>params.
         bind_outcome (map_err (render_error flow) (complete flow params (cookies (protection_cookie flow)))) (\<lambda>fin.
         Ok \<lparr>route_status = 302, route_location = Some (fst fin), route_cookies = snd fin, route_body = None\<rparr>)))"

definition logout :: "'p login_flow option \<Rightarrow> string \<Rightarrow> route_response" where
  "logout login path_prefix =
     \<lparr>route_status = 302, route_location = Some (path_prefix @ ''/''),
      route_cookies = (case login of
          Some flow \<Rightarrow> [cleared_session flow]
        | None \<Rightarrow> [\<lparr>cookie_name = session_cookie, cookie_value = [], cookie_path = Some ''/'', cookie_removal = True\<rparr>]),
      route_body = None\<rparr>"

text \<open>The paths of \<open>callback\<close> and \<open>logout\<close>.\<close>

definition auth_routes :: "string \<Rightarrow> string \<times> string" where
  "auth_routes path_prefix = (path_prefix @ ''/oidc/login'', path_prefix @ ''/logout'')"

section \<open>Laws\<close>

lemma starts_with_both: "starts_with p s \<Longrightarrow> starts_with q s \<Longrightarrow> starts_with p q \<or> starts_with q p"
  unfolding starts_with_def by (metis linear min.absorb1 min.absorb2 take_take)

lemma api_path_protected:
  assumes "is_api_call api path" and "\<not> starts_with (dash @ ''/pkg/'') (api @ ''/v1/'')"
    and "\<not> starts_with (api @ ''/v1/'') (dash @ ''/pkg/'')"
  shows "scope_resolve api dash path = Protected"
proof -
  from assms(1) obtain r where r: "path = api @ ''/v1/'' @ r"
    unfolding is_api_call_def starts_with_iff by auto
  have "\<not> starts_with (dash @ ''/pkg/'') path"
    using starts_with_both assms unfolding is_api_call_def by blast
  with r show ?thesis by (simp add: scope_resolve_def callback_path_def)
qed

lemma auth_build_Oidc:
  assumes "auth_build kit a api = Ok (ms, login)" and "ae_mode a = Oidc"
  shows "\<exists>ls ts. ms = ls @ ts @ [BearerToken, BrowserSession api] \<and> login \<and>
    ls = (case ae_legacy_api_key a of Some key \<Rightarrow> [LegacyKey key] | None \<Rightarrow> []) \<and>
    (\<forall>t \<in> set ts. \<exists>p toks. t = ApiTokens p toks) \<and>
    (\<exists>oe. ae_oidc a = Some oe \<and> oidc_discover kit oe (redirect_url oe api) = Ok ())"
  using assms by (auto simp: auth_build_def bind_outcome_Ok Let_def split: option.splits)

definition sample_kit :: authn_kit where
  "sample_kit = \<lparr>oidc_config_new = (\<lambda>_ _ _. Ok ()), oidc_discover = (\<lambda>_ _. Ok ()),
     api_tokens_from_json = (\<lambda>_ _. Ok ()), gateway_build = (\<lambda>_. Ok ())\<rparr>"

text \<open>C27: with OIDC a call to \<open>/v1/\<close> cannot pass without a credential. Its route is protected, provided that the
  API's paths and the dashboard's assets do not overlap; no mechanism of the chain accepts everybody, and
  the shared key is accepted exactly while it is configured; a missing credential, which the session mechanism
  of the crate answers with a redirect into the login, is refused as unauthenticated, and every other answer of
  that mechanism is kept; and the callback registered with the provider is the one public login route,
  so completing a login needs none.\<close>

theorem api_calls_are_guarded:
  assumes "auth_build kit a api = Ok (ms, login)" and "ae_mode a = Oidc" and "is_api_call api path"
    and "\<not> starts_with (dash @ ''/pkg/'') (api @ ''/v1/'')" and "\<not> starts_with (api @ ''/v1/'') (dash @ ''/pkg/'')"
  shows "scope_resolve api dash path = Protected \<and> (\<forall>c. DisabledMechanism c \<notin> set ms) \<and>
    (\<forall>key. LegacyKey key \<in> set ms \<longleftrightarrow> ae_legacy_api_key a = Some key) \<and>
    (\<forall>url. session_authenticate api path (Err (Redirect url)) =
       (Err (Unauthenticated ''no credential presented; send an API token or a session cookie'')
         :: (caller auth_verdict, auth_error) outcome)) \<and>
    (\<forall>inner :: (caller auth_verdict, auth_error) outcome.
       (\<exists>url. inner = Err (Redirect url)) \<or> session_authenticate api path inner = inner) \<and>
    (\<exists>oe. ae_oidc a = Some oe \<and>
       redirect_url oe api = trim_end_matches (CHR ''/'') (oe_redirect_host oe) @ callback_path api) \<and>
    fst (auth_routes api) = callback_path api \<and> scope_resolve api dash (callback_path api) = Public"
proof -
  from auth_build_Oidc [OF assms(1,2)] obtain ls ts oe where ms: "ms = ls @ ts @ [BearerToken, BrowserSession api]"
    and ls: "ls = (case ae_legacy_api_key a of Some key \<Rightarrow> [LegacyKey key] | None \<Rightarrow> [])"
    and ts: "\<forall>t \<in> set ts. \<exists>p toks. t = ApiTokens p toks" and oe: "ae_oidc a = Some oe" by blast
  have "DisabledMechanism c \<notin> set ms" "LegacyKey key \<in> set ms \<longleftrightarrow> ae_legacy_api_key a = Some key" for c key
    using ts by (auto simp: ms ls split: option.splits)
  moreover have "session_authenticate api path (Err (Redirect url)) =
      (Err (Unauthenticated ''no credential presented; send an API token or a session cookie'')
        :: (caller auth_verdict, auth_error) outcome)" for url
    using assms(3) by (simp add: session_authenticate_def)
  moreover have "(\<exists>url. inner = Err (Redirect url)) \<or> session_authenticate api path inner = inner"
    for inner :: "(caller auth_verdict, auth_error) outcome"
    by (auto simp: session_authenticate_def split: outcome.splits auth_error.splits)
  ultimately show ?thesis
    using api_path_protected [OF assms(3-5)] oe
    by (auto simp: redirect_url_def callback_path_def auth_routes_def scope_resolve_def)
qed

theorem api_calls_are_guarded_witness:
  "\<exists>a ms. auth_from_env None sample_environment = Ok a \<and>
     auth_build sample_kit a ''/invokr'' = Ok (ms, True) \<and>
     scope_resolve ''/invokr'' ''/dashboard'' ''/invokr/v1/jobs'' = Protected \<and> LegacyKey ''k'' \<notin> set ms \<and>
     session_authenticate ''/invokr'' ''/invokr/v1/jobs'' (Err (Redirect ''https://id/login'')) =
       (Err (Unauthenticated ''no credential presented; send an API token or a session cookie'')
         :: (caller auth_verdict, auth_error) outcome)"
proof -
  have "(case auth_from_env None sample_environment of
      Ok a \<Rightarrow> ae_mode a = Oidc \<and> ae_legacy_api_key a = None \<and>
        (case auth_build sample_kit a ''/invokr'' of Ok (ms, l) \<Rightarrow> l | _ \<Rightarrow> False) | _ \<Rightarrow> False)"
    by code_simp
  then obtain a ms where a: "auth_from_env None sample_environment = Ok a" "ae_mode a = Oidc" "ae_legacy_api_key a = None"
    and ms: "auth_build sample_kit a ''/invokr'' = Ok (ms, True)"
    by (auto split: outcome.splits)
  have "is_api_call ''/invokr'' ''/invokr/v1/jobs''" "\<not> starts_with (''/dashboard'' @ ''/pkg/'') (''/invokr'' @ ''/v1/'')"
    "\<not> starts_with (''/invokr'' @ ''/v1/'') (''/dashboard'' @ ''/pkg/'')"
    by (simp_all add: is_api_call_def starts_with_def)
  from api_calls_are_guarded [OF ms a(2) this] a ms show ?thesis by auto
qed

end
