(* ===== verification/Routing.thy ===== *)
theory Routing
  imports System Http_Client Auth
begin

text \<open>
  The way of a request from the wire to its handler: \<open>crates/api/src/router.rs\<close> (the table of routes),
  \<open>middleware.rs\<close>, the JSON error handler of \<open>main.rs\<close>, and the deserialisation of the request types of
  \<open>crates/common/src/models/\<close>. \<open>app\<close> composes them with the extractors and \<open>serve\<close>. What belongs to actix and
  serde, the decoding of path and query and the texts of their errors, is the record \<open>actix\<close>. The
  extractors of a handler are taken in the order of its arguments; when two of them fail, actix may
  answer with the error of either.
\<close>

section \<open>Requests on the wire\<close>

record incoming =
  in_method :: string
  in_path :: string
  in_query :: string
  in_headers :: "(string \<times> string) list"
  in_body :: "(json, string) outcome"
    \<comment> \<open>the value of a JSON body, or the text of the \<open>JsonPayloadError\<close>\<close>

record actix =
  ax_decode :: "string \<Rightarrow> string"
    \<comment> \<open>percent-decoding of a captured segment\<close>
  ax_query :: "string \<Rightarrow> ((string \<times> string) list, string) outcome"
    \<comment> \<open>\<open>web::Query::<Vec<(String, String)>>::from_query\<close>\<close>
  ax_query_error :: "string \<Rightarrow> nat \<times> string"
    \<comment> \<open>the answer to a query \<open>web::Query\<close> cannot read\<close>
  ax_payload_error :: "json \<Rightarrow> string"
    \<comment> \<open>the \<open>JsonPayloadError\<close> for a value that is not of the expected type\<close>
  ax_no_body :: string
    \<comment> \<open>the \<open>JsonPayloadError\<close> for a request without a body\<close>
  ax_not_found :: "nat \<times> string"
  ax_metrics :: string

text \<open>\<open>HeaderMap::get\<close> with \<open>HeaderValue::to_str\<close>: the first value, if it is visible ASCII.\<close>

definition visible :: "char \<Rightarrow> bool" where
  "visible c \<longleftrightarrow> c = CHR 0x09 \<or> (32 \<le> (of_char c :: nat) \<and> (of_char c :: nat) < 127)"

definition header :: "incoming \<Rightarrow> string \<Rightarrow> string option" where
  "header q name =
     (case List.find (\<lambda>(k, _). map to_ascii_lower k = name) (in_headers q) of
        Some (_, v) \<Rightarrow> if list_all visible v then Some v else None
      | None \<Rightarrow> None)"

text \<open>\<open>RequestIdMiddleware::call\<close>, on the way in.\<close>

definition with_request_id :: "string \<Rightarrow> incoming \<Rightarrow> incoming" where
  "with_request_id rid q = q\<lparr>in_headers :=
     (''x-request-id'', rid) # filter (\<lambda>(k, _). map to_ascii_lower k \<noteq> ''x-request-id'') (in_headers q)\<rparr>"

definition json_error_handler :: "string \<Rightarrow> incoming \<Rightarrow> http_response" where
  "json_error_handler e q =
     json_response 400 (jobj [(''error'', jobj [(''code'', JStr ''INVALID_REQUEST''),
       (''message'', JStr (''Malformed JSON request body: '' @ e)),
       (''request_id'', jstr_opt (header q ''x-request-id''))])])"

section \<open>Deserialisation\<close>

text \<open>The fields of a struct as a derived \<open>Deserialize\<close> reads them: by name from an object, by position from
  an array, where only the last \<open>d\<close> fields, those with a default, may be missing.\<close>

definition struct_fields :: "nat \<Rightarrow> string list \<Rightarrow> json \<Rightarrow> json option list option" where
  "struct_fields d names j =
     (case j of
        JObj _ \<Rightarrow> Some (map (jget j) names)
      | JArr xs \<Rightarrow>
          if length names - d \<le> length xs \<and> length xs \<le> length names
          then Some (map Some xs @ replicate (length names - length xs) None) else None
      | _ \<Rightarrow> None)"

definition de_str :: "json option \<Rightarrow> string option" where
  "de_str v = Option.bind v as_str"

definition de_policy :: "json option \<Rightarrow> retry_policy option option" where
  "de_policy v = de_opt retry_policy_from_value v"

definition de_cron :: "ext \<Rightarrow> json option \<Rightarrow> string option option" where
  "de_cron x = de_opt (\<lambda>j. Option.bind (as_str j) (\<lambda>s. case pg_cron_try_from x s of Ok e \<Rightarrow> Some e | _ \<Rightarrow> None))"

definition de_time :: "ext \<Rightarrow> json option \<Rightarrow> timestamp option option" where
  "de_time x v = Option.bind (de_opt as_str v) (\<lambda>s.
     case deserialize_opt x s of Ok t \<Rightarrow> Some t | _ \<Rightarrow> None)"

definition two_strings :: "string list \<Rightarrow> json \<Rightarrow> (string \<times> string) option" where
  "two_strings names j = (case struct_fields 0 names j of
       Some [a, b] \<Rightarrow> (case (de_str a, de_str b) of (Some s, Some t) \<Rightarrow> Some (s, t) | _ \<Rightarrow> None)
     | _ \<Rightarrow> None)"

definition string_and_value :: "string list \<Rightarrow> json \<Rightarrow> (string \<times> json) option" where
  "string_and_value names j = (case struct_fields 0 names j of
       Some [a, Some v] \<Rightarrow> map_option (\<lambda>s. (s, v)) (de_str a)
     | _ \<Rightarrow> None)"

definition one_value :: "string \<Rightarrow> json \<Rightarrow> json option" where
  "one_value name j = (case struct_fields 0 [name] j of Some [Some v] \<Rightarrow> Some v | _ \<Rightarrow> None)"

definition read_create_organization :: "json \<Rightarrow> (string \<times> string) option" where
  "read_create_organization = two_strings [''name'', ''slug'']"

definition read_update_organization :: "json \<Rightarrow> string option option" where
  "read_update_organization j = (case struct_fields 0 [''name''] j of Some [a] \<Rightarrow> de_opt as_str a | _ \<Rightarrow> None)"

definition read_create_workspace :: "json \<Rightarrow> (string \<times> string) option" where
  "read_create_workspace = two_strings [''name'', ''slug'']"

definition read_create_payload_spec :: "json \<Rightarrow> (string \<times> json) option" where
  "read_create_payload_spec = string_and_value [''name'', ''schema'']"

definition read_update_payload_spec :: "json \<Rightarrow> json option" where
  "read_update_payload_spec = one_value ''schema''"

definition read_create_config :: "json \<Rightarrow> (string \<times> json) option" where
  "read_create_config = string_and_value [''name'', ''values'']"

definition read_update_config :: "json \<Rightarrow> json option" where
  "read_update_config = one_value ''values''"

definition read_create_secret :: "json \<Rightarrow> (string \<times> string) option" where
  "read_create_secret = two_strings [''name'', ''value'']"

definition read_update_secret :: "json \<Rightarrow> string option" where
  "read_update_secret j = Option.bind (one_value ''value'' j) as_str"

definition read_create_endpoint :: "json \<Rightarrow> create_endpoint option" where
  "read_create_endpoint j =
     (case struct_fields 0 [''name'', ''type'', ''payload_spec'', ''config'', ''spec'', ''retry_policy''] j of
        Some [name, etype, ps, cfg, Some spec, rp] \<Rightarrow>
          Option.bind (de_str name) (\<lambda>name.
          Option.bind (de_str etype) (\<lambda>etype.
          Option.bind (de_opt as_str ps) (\<lambda>ps.
          Option.bind (de_opt as_str cfg) (\<lambda>cfg.
          Option.bind (de_policy rp) (\<lambda>rp.
          Some \<lparr>ce_name = name, ce_type = etype, ce_payload_spec = ps, ce_config = cfg, ce_spec = spec,
                ce_retry_policy = rp\<rparr>)))))
      | _ \<Rightarrow> None)"

definition read_update_endpoint :: "json \<Rightarrow> update_endpoint option" where
  "read_update_endpoint j =
     (case struct_fields 0 [''spec'', ''config'', ''payload_spec'', ''retry_policy''] j of
        Some [spec, cfg, ps, rp] \<Rightarrow>
          Option.bind (de_opt Some spec) (\<lambda>spec.
          Option.bind (de_opt as_str cfg) (\<lambda>cfg.
          Option.bind (de_opt as_str ps) (\<lambda>ps.
          Option.bind (de_policy rp) (\<lambda>rp.
          Some \<lparr>ue_spec = spec, ue_config = cfg, ue_payload_spec = ps, ue_retry_policy = rp\<rparr>))))
      | _ \<Rightarrow> None)"

definition read_create_job :: "ext \<Rightarrow> json \<Rightarrow> create_job option" where
  "read_create_job x j =
     (case struct_fields 2 [''endpoint'', ''trigger'', ''idempotency_key'', ''input'', ''max_attempts'', ''run_at'',
             ''cron'', ''timezone'', ''starts_at'', ''ends_at''] j of
        Some [ep, trig, key, inp, n, run_at, cron, tz, starts, ends] \<Rightarrow>
          Option.bind (de_str ep) (\<lambda>ep.
          Option.bind (de_str trig) (\<lambda>trig.
          Option.bind (de_opt as_str key) (\<lambda>key.
          Option.bind (de_opt Some inp) (\<lambda>inp.
          Option.bind (de_opt as_i64 n) (\<lambda>n.
          Option.bind (de_time x run_at) (\<lambda>run_at.
          Option.bind (de_cron x cron) (\<lambda>cron.
          Option.bind (de_opt as_str tz) (\<lambda>tz.
          Option.bind (de_time x starts) (\<lambda>starts.
          Option.bind (de_time x ends) (\<lambda>ends.
          Some \<lparr>cj_endpoint = ep, cj_trigger = trig, cj_idempotency_key = key, cj_input = inp,
            cj_max_attempts = n, cj_run_at = run_at, cj_cron = cron, cj_timezone = tz, cj_starts_at = starts,
            cj_ends_at = ends\<rparr>))))))))))
      | _ \<Rightarrow> None)"

definition read_update_job :: "ext \<Rightarrow> json \<Rightarrow> update_job option" where
  "read_update_job x j =
     (case struct_fields 2 [''cron'', ''timezone'', ''input'', ''starts_at'', ''ends_at''] j of
        Some [cron, tz, inp, starts, ends] \<Rightarrow>
          Option.bind (de_cron x cron) (\<lambda>cron.
          Option.bind (de_opt as_str tz) (\<lambda>tz.
          Option.bind (de_opt Some inp) (\<lambda>inp.
          Option.bind (de_time x starts) (\<lambda>starts.
          Option.bind (de_time x ends) (\<lambda>ends.
          Some \<lparr>uj_cron = cron, uj_timezone = tz, uj_input = inp, uj_starts_at = starts, uj_ends_at = ends\<rparr>)))))
      | _ \<Rightarrow> None)"

text \<open>\<open>str::parse::<i64>\<close>.\<close>

definition parse_i64 :: "string \<Rightarrow> int option" where
  "parse_i64 s =
     (let neg = (case s of c # _ \<Rightarrow> c = CHR ''-'' | [] \<Rightarrow> False);
          ds = (case s of c # cs \<Rightarrow> if c = CHR ''+'' \<or> c = CHR ''-'' then cs else s | [] \<Rightarrow> []);
          n = (if neg then - int (digits_value ds) else int (digits_value ds)) in
      if ds \<noteq> [] \<and> list_all is_ascii_digit ds \<and> in_i64 n then Some n else None)"

text \<open>\<open>web::Query<PaginationParams>\<close>: a repeated field is an error.\<close>

definition read_pagination :: "(string \<times> string) list \<Rightarrow> pagination_params option" where
  "read_pagination pairs =
     (case (values_for pairs ''cursor'', values_for pairs ''limit'') of
        ([], []) \<Rightarrow> Some \<lparr>pp_cursor = None, pp_limit = default_limit\<rparr>
      | ([c], []) \<Rightarrow> Some \<lparr>pp_cursor = Some c, pp_limit = default_limit\<rparr>
      | ([], [l]) \<Rightarrow> map_option (\<lambda>n. \<lparr>pp_cursor = None, pp_limit = n\<rparr>) (parse_i64 l)
      | ([c], [l]) \<Rightarrow> map_option (\<lambda>n. \<lparr>pp_cursor = Some c, pp_limit = n\<rparr>) (parse_i64 l)
      | _ \<Rightarrow> None)"

section \<open>Routes\<close>

text \<open>A route answers at once, or makes a request of the captured segments and the message, for a
  workspace's schema or without one.\<close>

datatype route =
    Health
  | Metrics
  | Management "string list \<Rightarrow> incoming \<Rightarrow> (request, nat \<times> string) outcome"
  | Workspaced "string \<Rightarrow> string list \<Rightarrow> incoming \<Rightarrow> (request, nat \<times> string) outcome"

definition sent :: "ext \<Rightarrow> http_response \<Rightarrow> nat \<times> string" where
  "sent x resp = (resp_status resp, case resp_body resp of Some j \<Rightarrow> json_to_string x j | None \<Rightarrow> [])"

text \<open>\<open>web::Json<T>\<close>, and \<open>web::Query<PaginationParams>\<close>.\<close>

definition body_of :: "actix \<Rightarrow> ext \<Rightarrow> (json \<Rightarrow> 'a option) \<Rightarrow> incoming \<Rightarrow> ('a, nat \<times> string) outcome" where
  "body_of ax x read q =
     map_err (\<lambda>e. sent x (json_error_handler e q))
       (bind_outcome (in_body q) (\<lambda>j. ok_or (read j) (ax_payload_error ax j)))"

definition page_of :: "actix \<Rightarrow> incoming \<Rightarrow> (pagination_params, nat \<times> string) outcome" where
  "page_of ax q =
     map_err (\<lambda>_. ax_query_error ax (in_query q))
       (bind_outcome (ax_query ax (in_query q)) (\<lambda>pairs. ok_or (read_pagination pairs) []))"

definition filters_of :: "actix \<Rightarrow> ext \<Rightarrow> incoming \<Rightarrow> (job_filters, nat \<times> string) outcome" where
  "filters_of ax x q =
     map_err (\<lambda>e. sent x (error_response e)) (job_filters_from_request x (ax_query ax (in_query q)))"

text \<open>The table, in the order of the source. \<open>nonce\<close> is what the encryption of a secret draws.\<close>

definition with_body :: "actix \<Rightarrow> ext \<Rightarrow> (json \<Rightarrow> 'a option) \<Rightarrow> incoming \<Rightarrow> ('a \<Rightarrow> request) \<Rightarrow> (request, nat \<times> string) outcome" where
  "with_body ax x read q mk = bind_outcome (body_of ax x read q) (\<lambda>b. Ok (mk b))"

definition with_page :: "actix \<Rightarrow> incoming \<Rightarrow> (pagination_params \<Rightarrow> request) \<Rightarrow> (request, nat \<times> string) outcome" where
  "with_page ax q mk = bind_outcome (page_of ax q) (\<lambda>p. Ok (mk p))"

definition api_routes :: "actix \<Rightarrow> ext \<Rightarrow> nat list \<Rightarrow> (string \<times> string \<times> route) list" where
  "api_routes ax x nonce =
     [(''GET'', ''/health'', Health),
      (''GET'', ''/metrics'', Metrics),
      (''POST'', ''/v1/orgs'', Management (\<lambda>cs q. with_body ax x read_create_organization q (\<lambda>(name, slug). Orgs_Create name slug))),
      (''GET'', ''/v1/orgs'', Management (\<lambda>cs q. Ok Orgs_List)),
      (''GET'', ''/v1/orgs/{org_id}'', Management (\<lambda>cs q. Ok (Orgs_Get (cs ! 0)))),
      (''PUT'', ''/v1/orgs/{org_id}'', Management (\<lambda>cs q. with_body ax x read_update_organization q (Orgs_Update (cs ! 0)))),
      (''POST'', ''/v1/orgs/{org_id}/workspaces'', Management (\<lambda>cs q. with_body ax x read_create_workspace q (\<lambda>(name, slug). Workspaces_Create (cs ! 0) name slug))),
      (''GET'', ''/v1/orgs/{org_id}/workspaces'', Management (\<lambda>cs q. Ok (Workspaces_List (cs ! 0)))),
      (''GET'', ''/v1/orgs/{org_id}/workspaces/{workspace_id}'', Management (\<lambda>cs q. Ok (Workspaces_Get (cs ! 0) (cs ! 1)))),
      (''POST'', ''/v1/payload-specs'', Workspaced (\<lambda>sch cs q. with_body ax x read_create_payload_spec q (\<lambda>(name, v). Payload_Specs_Create sch name v))),
      (''GET'', ''/v1/payload-specs'', Workspaced (\<lambda>sch cs q. with_page ax q (Payload_Specs_List sch))),
      (''GET'', ''/v1/payload-specs/{name}'', Workspaced (\<lambda>sch cs q. Ok (Payload_Specs_Get sch (cs ! 0)))),
      (''PUT'', ''/v1/payload-specs/{name}'', Workspaced (\<lambda>sch cs q. with_body ax x read_update_payload_spec q (Payload_Specs_Update sch (cs ! 0)))),
      (''DELETE'', ''/v1/payload-specs/{name}'', Workspaced (\<lambda>sch cs q. Ok (Payload_Specs_Delete sch (cs ! 0)))),
      (''POST'', ''/v1/configs'', Workspaced (\<lambda>sch cs q. with_body ax x read_create_config q (\<lambda>(name, v). Configs_Create sch name v))),
      (''GET'', ''/v1/configs'', Workspaced (\<lambda>sch cs q. with_page ax q (Configs_List sch))),
      (''GET'', ''/v1/configs/{name}'', Workspaced (\<lambda>sch cs q. Ok (Configs_Get sch (cs ! 0)))),
      (''PUT'', ''/v1/configs/{name}'', Workspaced (\<lambda>sch cs q. with_body ax x read_update_config q (Configs_Update sch (cs ! 0)))),
      (''DELETE'', ''/v1/configs/{name}'', Workspaced (\<lambda>sch cs q. Ok (Configs_Delete sch (cs ! 0)))),
      (''POST'', ''/v1/secrets'', Workspaced (\<lambda>sch cs q. with_body ax x read_create_secret q (\<lambda>(name, v). Secrets_Create nonce sch name v))),
      (''GET'', ''/v1/secrets'', Workspaced (\<lambda>sch cs q. with_page ax q (Secrets_List sch))),
      (''GET'', ''/v1/secrets/{name}'', Workspaced (\<lambda>sch cs q. Ok (Secrets_Get sch (cs ! 0)))),
      (''PUT'', ''/v1/secrets/{name}'', Workspaced (\<lambda>sch cs q. with_body ax x read_update_secret q (Secrets_Update nonce sch (cs ! 0)))),
      (''DELETE'', ''/v1/secrets/{name}'', Workspaced (\<lambda>sch cs q. Ok (Secrets_Delete sch (cs ! 0)))),
      (''POST'', ''/v1/endpoints'', Workspaced (\<lambda>sch cs q. with_body ax x read_create_endpoint q (Endpoints_Create sch))),
      (''GET'', ''/v1/endpoints'', Workspaced (\<lambda>sch cs q. with_page ax q (Endpoints_List sch))),
      (''GET'', ''/v1/endpoints/{name}'', Workspaced (\<lambda>sch cs q. Ok (Endpoints_Get sch (cs ! 0)))),
      (''PUT'', ''/v1/endpoints/{name}'', Workspaced (\<lambda>sch cs q. with_body ax x read_update_endpoint q (Endpoints_Update sch (cs ! 0)))),
      (''DELETE'', ''/v1/endpoints/{name}'', Workspaced (\<lambda>sch cs q. Ok (Endpoints_Delete sch (cs ! 0)))),
      (''POST'', ''/v1/jobs'', Workspaced (\<lambda>sch cs q. with_body ax x (read_create_job x) q (Jobs_Create sch))),
      (''GET'', ''/v1/jobs'', Workspaced (\<lambda>sch cs q. bind_outcome (page_of ax q) (\<lambda>p. bind_outcome (filters_of ax x q) (\<lambda>f. Ok (Jobs_List sch p f))))),
      (''GET'', ''/v1/jobs/{job_id}'', Workspaced (\<lambda>sch cs q. Ok (Jobs_Get sch (cs ! 0)))),
      (''PUT'', ''/v1/jobs/{job_id}'', Workspaced (\<lambda>sch cs q. with_body ax x (read_update_job x) q (Jobs_Update sch (cs ! 0)))),
      (''POST'', ''/v1/jobs/{job_id}/cancel'', Workspaced (\<lambda>sch cs q. Ok (Jobs_Cancel sch (cs ! 0)))),
      (''GET'', ''/v1/jobs/{job_id}/status'', Workspaced (\<lambda>sch cs q. Ok (Jobs_Status sch (cs ! 0)))),
      (''GET'', ''/v1/jobs/{job_id}/versions'', Workspaced (\<lambda>sch cs q. Ok (Jobs_Versions sch (cs ! 0)))),
      (''GET'', ''/v1/jobs/{job_id}/executions'', Workspaced (\<lambda>sch cs q. with_page ax q (Jobs_Executions sch (cs ! 0)))),
      (''GET'', ''/v1/executions/{execution_id}'', Workspaced (\<lambda>sch cs q. Ok (Executions_Get sch (cs ! 0)))),
      (''POST'', ''/v1/executions/{execution_id}/cancel'', Workspaced (\<lambda>sch cs q. Ok (Executions_Cancel sch (cs ! 0)))),
      (''GET'', ''/v1/executions/{execution_id}/attempts'', Workspaced (\<lambda>sch cs q. Ok (Executions_Attempts sch (cs ! 0)))),
      (''GET'', ''/v1/executions/{execution_id}/logs'', Workspaced (\<lambda>sch cs q. Ok (Executions_Logs sch (cs ! 0))))]"

text \<open>A pattern matches segment by segment; a segment in braces captures a non-empty one.\<close>

fun match_segments :: "string list \<Rightarrow> string list \<Rightarrow> string list option" where
  "match_segments [] [] = Some []"
| "match_segments (p # ps) (w # ws) =
     (if starts_with ''{'' p then (if w = [] then None else map_option ((#) w) (match_segments ps ws))
      else if p = w then match_segments ps ws
      else None)"
| "match_segments _ _ = None"

definition segments :: "string \<Rightarrow> string list" where
  "segments s = split_char (CHR ''/'') s"

fun find_route :: "(string \<times> string \<times> route) list \<Rightarrow> string \<Rightarrow> string list \<Rightarrow> (route \<times> string list) option" where
  "find_route [] meth ws = None"
| "find_route ((m, pat, r) # rs) meth ws =
     (case (if m = meth then match_segments (segments pat) ws else None) of
        Some cs \<Rightarrow> Some (r, cs)
      | None \<Rightarrow> find_route rs meth ws)"

definition route_of ::
  "actix \<Rightarrow> ext \<Rightarrow> nat list \<Rightarrow> string \<Rightarrow> incoming \<Rightarrow> (route \<times> string list) option" where
  "route_of ax x nonce api q =
     Option.bind (strip_prefix api (in_path q)) (\<lambda>rest.
     map_option (\<lambda>(r, cs). (r, map (ax_decode ax) cs)) (find_route (api_routes ax x nonce) (in_method q) (segments rest)))"

section \<open>The application\<close>

text \<open>An extractor's error is the answer.\<close>

definition answerS :: "('s, nat \<times> string, nat \<times> string) prog \<Rightarrow> ('s, nat \<times> string, string) prog" where
  "answerS m = matchS m ok ok"

text \<open>\<open>caller\<close> is whom the authentication middleware has found, \<open>rid\<close> the identifier it gives the request.\<close>

definition app ::
  "actix \<Rightarrow> ext \<Rightarrow> app_config \<Rightarrow> string \<Rightarrow> 'c option \<Rightarrow> nat list \<Rightarrow> string \<Rightarrow> incoming \<Rightarrow>
   ('x pg_scheme, nat \<times> string, string) prog" where
  "app ax x c api caller nonce rid q0 =
     (let q = with_request_id rid q0 in
      case route_of ax x nonce api q of
        None \<Rightarrow> ok (ax_not_found ax)
      | Some (Health, _) \<Rightarrow> ok (200, ''OK'')
      | Some (Metrics, _) \<Rightarrow> ok (200, ax_metrics ax)
      | Some (Management f, cs) \<Rightarrow>
          answerS (
            tryS (State_Monad.return (map_err (sent x) (authenticated_request caller))) (\<lambda>_.
            tryS (State_Monad.return (f cs q)) (\<lambda>req.
            map_errS (sent x \<circ> error_response)
              (tryS (serve x c req) (\<lambda>resp. ok (sent x resp))))))
      | Some (Workspaced f, cs) \<Rightarrow>
          answerS (
            tryS (State_Monad.return (map_err (sent x) (authenticated_request caller))) (\<lambda>_.
            tryS (map_errS (sent x) (workspace_from_request None (header q ''x-org-id'') (header q ''x-workspace-id''))) (\<lambda>ws.
            tryS (State_Monad.return (f (wc_schema_name ws) cs q)) (\<lambda>req.
            map_errS (sent x \<circ> error_response)
              (tryS (serve x c req) (\<lambda>resp. ok (sent x resp))))))))"

text \<open>What the router adds when the API is mounted under a prefix: where \<open>GET /\<close> redirects to.\<close>

definition root_redirect :: "string \<Rightarrow> server_mode \<Rightarrow> string \<Rightarrow> string option" where
  "root_redirect prefix mode dashboard_prefix =
     (if prefix = [] then None
      else if mode = Both \<and> dashboard_prefix \<noteq> [] then Some (dashboard_prefix @ ''/'')
      else Some (prefix @ ''/health''))"

section \<open>Matching\<close>

lemma split_char_Cons:
  "split_char d s = u # v # vs \<Longrightarrow> \<exists>t. s = u @ d # t \<and> split_char d t = v # vs"
proof (induction s arbitrary: u)
  case (Cons c cs)
  show ?case
  proof (cases "c = d")
    case False
    obtain w ws where w: "split_char d cs = w # ws" by (cases "split_char d cs") auto
    with Cons.prems False have "u = c # w" "ws = v # vs" by auto
    with Cons.IH [of w] w show ?thesis by auto
  qed (use Cons.prems in auto)
qed simp

lemma split_char_none [simp]: "d \<notin> set a \<Longrightarrow> split_char d a = [a]"
  by (induction a) auto

lemma split_char_append: "split_char d (a @ d # b) = split_char d a @ split_char d b"
  by (induction a) (auto split: list.splits)

lemma match_segments_Lit:
  "match_segments (p # ps) ws = Some cs \<Longrightarrow> \<not> starts_with ''{'' p \<Longrightarrow> \<exists>ws'. ws = p # ws' \<and> match_segments ps ws' = Some cs"
  by (cases ws) (auto split: if_splits)

lemma match_segments_nonempty: "match_segments (p # ps) ws = Some cs \<Longrightarrow> ws \<noteq> []"
  by (cases ws) auto

lemma find_route_Some:
  "find_route rs meth ws = Some (r, cs) \<Longrightarrow> \<exists>pat. (meth, pat, r) \<in> set rs \<and> match_segments (segments pat) ws = Some cs"
  by (induction rs meth ws rule: find_route.induct) (auto split: option.splits if_splits)

text \<open>Everything but health and metrics is under \<open>/v1/\<close>.\<close>

definition under_v1 :: "string \<Rightarrow> bool" where
  "under_v1 pat \<longleftrightarrow> (case segments pat of a # b # _ # _ \<Rightarrow> a = [] \<and> b = ''v1'' | _ \<Rightarrow> False)"

lemma under_v1_match:
  assumes "under_v1 pat" and "match_segments (segments pat) (segments rest) = Some cs"
  shows "starts_with ''/v1/'' rest"
proof -
  from assms(1) obtain p ps where pat: "segments pat = [] # ''v1'' # p # ps"
    by (auto simp: under_v1_def split: list.splits)
  with assms(2) have "match_segments ([] # ''v1'' # p # ps) (segments rest) = Some cs" by simp
  from match_segments_Lit [OF this] obtain vs
    where vs: "segments rest = [] # vs" "match_segments (''v1'' # p # ps) vs = Some cs"
    by (auto simp: starts_with_def)
  from match_segments_Lit [OF vs(2)] obtain ws where "vs = ''v1'' # ws" "match_segments (p # ps) ws = Some cs"
    by (auto simp: starts_with_def)
  with vs(1) have ws: "segments rest = [] # ''v1'' # ws" "match_segments (p # ps) ws = Some cs" by simp_all
  from match_segments_nonempty [OF ws(2)] obtain w ws' where "ws = w # ws'" by (cases ws) auto
  with ws(1) have "segments rest = [] # ''v1'' # w # ws'" by simp
  then obtain t where "rest = CHR ''/'' # t" "split_char (CHR ''/'') t = ''v1'' # w # ws'"
    unfolding segments_def using split_char_Cons by fastforce
  with split_char_Cons [OF this(2)] show ?thesis by (auto simp: starts_with_def)
qed

lemma api_routes_under_v1:
  "list_all (\<lambda>(m, pat, r). r = Health \<or> r = Metrics \<or> under_v1 pat) (api_routes ax x nonce)"
  by (simp add: api_routes_def under_v1_def segments_def)

lemma route_of_api_call:
  assumes "route_of ax x nonce api q = Some (r, cs)" and "r \<noteq> Health" and "r \<noteq> Metrics"
  shows "is_api_call api (in_path q)"
proof -
  from assms(1) obtain rest cs' where rest: "in_path q = api @ rest"
    and "find_route (api_routes ax x nonce) (in_method q) (segments rest) = Some (r, cs')"
    by (auto simp: route_of_def bind_eq_Some_conv)
  from find_route_Some [OF this(2)] obtain pat where pat: "(in_method q, pat, r) \<in> set (api_routes ax x nonce)"
    "match_segments (segments pat) (segments rest) = Some cs'" by blast
  with api_routes_under_v1 [of ax x nonce] assms(2,3) have "under_v1 pat" by (auto simp: list_all_iff)
  from under_v1_match [OF this pat(2)] show ?thesis
    by (auto simp: rest is_api_call_def starts_with_iff)
qed

lemma route_of_request_id: "in_path (with_request_id rid q) = in_path q" "in_method (with_request_id rid q) = in_method q"
  "in_query (with_request_id rid q) = in_query q" "in_body (with_request_id rid q) = in_body q"
  by (simp_all add: with_request_id_def)

lemma route_of_with_request_id [simp]: "route_of ax x nonce api (with_request_id rid q) = route_of ax x nonce api q"
  by (simp add: route_of_def route_of_request_id)

section \<open>Properties\<close>

text \<open>C28: a request without a caller does nothing. Whatever it asks for, it is answered without a single
  statement to the database: with 401 on every route of the API but the health and metrics pages, and
  with the error for an unknown route otherwise. And each of the guarded routes is one whose path the
  scopes protect as an API call, so the middleware has looked for its caller.\<close>

theorem anonymous_requests_stop:
  "run_state (app ax x c api (None :: caller option) nonce rid q) s =
     (Ok (case route_of ax x nonce api q of
            None \<Rightarrow> ax_not_found ax
          | Some (Health, _) \<Rightarrow> (200, ''OK'')
          | Some (Metrics, _) \<Rightarrow> (200, ax_metrics ax)
          | Some _ \<Rightarrow> (401, json_to_string x (jobj [(''error'', jobj
              [(''code'', JStr ''UNAUTHORIZED''), (''message'', JStr ''Authentication required'')])]))), s) \<and>
   (case route_of ax x nonce api q of
      None \<Rightarrow> True
    | Some (r, _) \<Rightarrow> r = Health \<or> r = Metrics \<or> is_api_call api (in_path q))"
proof
  show "case route_of ax x nonce api q of None \<Rightarrow> True | Some (r, _) \<Rightarrow> r = Health \<or> r = Metrics \<or> is_api_call api (in_path q)"
    using route_of_api_call by (fastforce split: option.splits)
qed (auto simp: app_def Let_def answerS_def matchS_def authenticated_request_def json_response_def sent_def
    split: option.splits route.splits)

end
