(* ===== verification/Api_Calculus.thy ===== *)
theory Api_Calculus
  imports Handlers_Jobs Control
begin

text \<open>
  Reasoning about handlers. \<open>idle d s\<close> is a connection outside any transaction at the database \<open>d\<close>;
  \<open>on d schema s\<close> is one bound to a schema as well. \<open>live\<close> is an open transaction in which no statement
  has failed, \<open>ran\<close> what is known after a statement of it, and \<open>ended\<close> the two ends of a handler's
  transaction: nothing of it survives, or all of it does.
\<close>

section \<open>Connections\<close>

definition idle :: "database \<Rightarrow> 'x pg_scheme \<Rightarrow> bool" where
  "idle d s \<longleftrightarrow> pg_tx s = None \<and> pg_db s = d"

definition on :: "database \<Rightarrow> string \<Rightarrow> 'x pg_scheme \<Rightarrow> bool" where
  "on d schema s \<longleftrightarrow> idle d s \<and> pg_path s = schema"

definition bound :: "database \<Rightarrow> string \<Rightarrow> ('a, 'e) outcome \<Rightarrow> 'x pg_scheme \<Rightarrow> bool" where
  "bound d schema r s \<longleftrightarrow> idle d s \<and> (\<forall>u. r = Ok u \<longrightarrow> pg_path s = schema \<and> validate_schema_name schema)"

lemma on_idle: "on d schema s \<Longrightarrow> idle d s"
  by (simp add: on_def)

lemma stmt_idle_path:
  "run_state (stmt f) s = (r, s') \<Longrightarrow> pg_path s' = pg_path s \<and> (pg_tx s = None \<longrightarrow> pg_tx s' = None)"
  by (auto simp: stmt_def Let_def split: outcome.splits if_splits prod.splits)

lemma triple_scoped_connection: "triple (idle d) (sqlS (scoped_connection schema)) (bound d schema)"
proof (rule tripleI)
  fix s :: "'x pg_scheme" and r s'
  assume s: "idle d s" and "run_state (sqlS (scoped_connection schema)) s = (r, s')"
  then show "bound d schema r s'"
    by (auto simp: bound_def idle_def sqlS_def scoped_connection_def rust_assert_def set_search_path_def
        stmt_def Let_def split: if_splits outcome.splits prod.splits)
qed

definition reads :: "'a tsql \<Rightarrow> (tenant \<Rightarrow> 'a) \<Rightarrow> bool" where
  "reads g f \<longleftrightarrow> (\<forall>env t. g env t = Ok (f t, t))"

text \<open>What is known of the result of a program that leaves the database alone.\<close>

definition knows :: "database \<Rightarrow> string \<Rightarrow> ('a \<Rightarrow> bool) \<Rightarrow> ('a, 'e) outcome \<Rightarrow> 'x pg_scheme \<Rightarrow> bool" where
  "knows d schema \<Phi> r s \<longleftrightarrow> on d schema s \<and> (\<forall>a. r = Ok a \<longrightarrow> \<Phi> a)"

definition seen :: "database \<Rightarrow> string \<Rightarrow> string \<Rightarrow> (tenant \<Rightarrow> 'a) \<Rightarrow> 'a \<Rightarrow> bool" where
  "seen d schema prefix f a \<longleftrightarrow> (\<exists>t. tenants d (schema, prefix) = Some t \<and> f t = a)"

lemma with_tenant_same: "tenants d k = Some t \<Longrightarrow> with_tenant k t d = d"
  by (simp add: with_tenant_def fun_upd_idem)

lemma reads_on_tenant:
  assumes "reads g f" and "on_tenant prefix g env d = Ok (a, d')"
  shows "d' = d" and "\<exists>t. tenants d (env_path env, prefix) = Some t \<and> f t = a"
  using assms by (auto simp: reads_def on_tenant_Ok' with_tenant_same)

lemma triple_read:
  assumes "reads g f"
  shows "triple (on d schema) (tstmt prefix g) (knows d schema (seen d schema prefix f))"
proof (rule tripleI)
  fix s :: "'x pg_scheme" and r s'
  assume s: "on d schema s" and run: "run_state (tstmt prefix g) s = (r, s')"
  note p = stmt_idle_path [OF run [unfolded tstmt_def]]
  have env: "env_path (pg_env (pg_arrive s)) = schema" using s by (simp add: pg_env_def on_def)
  have "pg_db s' = d \<and> (\<forall>a. r = Ok a \<longrightarrow> (\<exists>t. tenants d (schema, prefix) = Some t \<and> f t = a))"
  proof (cases "on_tenant prefix g (pg_env (pg_arrive s)) (pg_db s)")
    case (Ok ad)
    obtain a d' where ad: "ad = (a, d')" by fastforce
    with reads_on_tenant [OF assms Ok [unfolded ad]] run Ok s env show ?thesis
      by (auto simp: tstmt_def stmt_def Let_def on_def idle_def split: if_splits)
  qed (use run s in \<open>auto simp: tstmt_def stmt_def Let_def on_def idle_def split: if_splits\<close>)
  with s p show "knows d schema (seen d schema prefix f) r s'" by (auto simp: knows_def seen_def on_def idle_def)
qed

lemma triple_read_sqlS:
  fixes m :: "('x, 'a) db_prog"
  assumes "reads g f" and "m = tstmt prefix g"
  shows "triple (on d schema) (sqlS m) (knows d schema (seen d schema prefix f))"
proof (rule tripleI)
  fix s :: "'x pg_scheme" and r s'
  assume s: "on d schema s" and "run_state (sqlS m) s = (r, s')"
  then obtain r0 where run: "run_state (tstmt prefix g) s = (r0, s')" and r: "r = map_err from_sqlx r0"
    by (auto simp: sqlS_def assms(2) split: prod.splits)
  from tripleD [OF triple_read [OF assms(1)] s run] r show "knows d schema (seen d schema prefix f) r s'"
    by (auto simp: knows_def seen_def)
qed

lemma reads_all:
  "reads (sql_endpoints_get n) (\<lambda>t. List.find (\<lambda>r. ep_name r = n) (endpoints t))"
  "reads (sql_payload_specs_get n) (\<lambda>t. List.find (\<lambda>r. ps_name r = n) (payload_specs t))"
  "reads (sql_jobs_get jid) (\<lambda>t. List.find (\<lambda>j. job_id j = jid) (jobs t))"
  "reads (sql_get_by_idempotency ep key)
     (\<lambda>t. List.find (\<lambda>j. job_endpoint j = ep \<and> job_idempotency_key j = Some key) (jobs t))"
  "reads (sql_get_for_job jid)
     (\<lambda>t. first_row (newest_first (filter (\<lambda>e. exec_job_id e = jid) (executions t))))"
  "reads (sql_executions_get eid) (\<lambda>t. List.find (\<lambda>e. execution_id e = eid) (executions t))"
  by (simp_all add: reads_def sql_endpoints_get_def sql_payload_specs_get_def sql_jobs_get_def
      sql_get_by_idempotency_def sql_get_for_job_def sql_executions_get_def)

lemmas triple_gets =
  triple_read_sqlS [OF reads_all(1) db_endpoints_get_def]
  triple_read_sqlS [OF reads_all(2) db_payload_specs_get_def]
  triple_read_sqlS [OF reads_all(3) jobs_get_def]
  triple_read_sqlS [OF reads_all(4) get_by_idempotency_def]
  triple_read_sqlS [OF reads_all(5) get_for_job_def]
  triple_read_sqlS [OF reads_all(6) executions_get_def]

lemma knows_tryS:
  assumes "triple (on d schema) m (knows d schema \<Phi>)"
    and "\<And>a. \<Phi> a \<Longrightarrow> triple (on d schema) (f a) (knows d schema \<Psi>)"
  shows "triple (on d schema) (tryS m f) (knows d schema \<Psi>)"
proof (rule triple_tryS [OF assms(1)])
  show "triple (knows d schema \<Phi> (Ok a)) (f a) (knows d schema \<Psi>)" for a
    using assms(2) [of a] by (auto simp: triple_def knows_def)
qed (auto simp: knows_def)

lemma knows_ok: "\<Phi> a \<Longrightarrow> triple (on d schema) (ok a) (knows d schema \<Phi>)"
  by (rule triple_return) (simp add: knows_def)

lemma knows_return: "(\<And>a. r = Ok a \<Longrightarrow> \<Phi> a) \<Longrightarrow> triple (on d schema) (State_Monad.return r) (knows d schema \<Phi>)"
  by (rule triple_return) (simp add: knows_def)

lemma knows_ok_orS:
  "(\<And>a. v = Some a \<Longrightarrow> \<Phi> a) \<Longrightarrow> triple (on d schema) (ok_orS v e) (knows d schema \<Phi>)"
  unfolding ok_orS_def by (rule knows_return) simp

section \<open>Transactions\<close>

definition live :: "database \<Rightarrow> string \<Rightarrow> (database \<Rightarrow> bool) \<Rightarrow> 'x pg_scheme \<Rightarrow> bool" where
  "live d0 schema P s \<longleftrightarrow> live_tx d0 s \<and> pg_path s = schema \<and> P (pg_db s)"

definition ran ::
  "database \<Rightarrow> string \<Rightarrow> ('a \<Rightarrow> database \<Rightarrow> bool) \<Rightarrow> ('a, 'e) outcome \<Rightarrow> 'x pg_scheme \<Rightarrow> bool" where
  "ran d0 schema Q r s \<longleftrightarrow> (case r of Ok a \<Rightarrow> live d0 schema (Q a) s | _ \<Rightarrow> in_tx d0 s)"

text \<open>The end of a transaction: committed with \<open>Q\<close>, or given up with an error; in between, still
  open after an error, which the drop rolls back.\<close>

definition ended ::
  "database \<Rightarrow> ('a \<Rightarrow> database \<Rightarrow> bool) \<Rightarrow> ('a, 'e) outcome \<Rightarrow> 'x pg_scheme \<Rightarrow> bool" where
  "ended d0 Q r s \<longleftrightarrow>
     pg_tx s = None \<and>
     ((\<forall>v. r \<noteq> Ok v) \<and> pg_db s = d0 \<or> (\<exists>v. Q v (pg_db s) \<and> (r = Ok v \<or> (\<exists>e. r = Err e))))"

definition ending ::
  "database \<Rightarrow> ('a \<Rightarrow> database \<Rightarrow> bool) \<Rightarrow> ('a, 'e) outcome \<Rightarrow> 'x pg_scheme \<Rightarrow> bool" where
  "ending d0 Q r s \<longleftrightarrow> ended d0 Q r s \<or> in_tx d0 s \<and> (\<forall>v. r \<noteq> Ok v)"

lemma ran_simps [simp]:
  "ran d0 schema Q (Ok a) = live d0 schema (Q a)"
  "ran d0 schema Q (Err e) = in_tx d0" "ran d0 schema Q (Panic p) = in_tx d0"
  by (simp_all add: ran_def fun_eq_iff)

lemma ran_stmt:
  assumes "\<And>env d a d'. env_path env = schema \<Longrightarrow> P d \<Longrightarrow> f env d = Ok (a, d') \<Longrightarrow> Q a d'"
  shows "triple (live d0 schema P) (stmt f) (ran d0 schema Q)"
proof (rule tripleI)
  fix s :: "'x pg_scheme" and r s'
  assume s: "live d0 schema P s" and run: "run_state (stmt f) s = (r, s')"
  have in_tx: "in_tx d0 s'" using keeps_in_tx_stmt [of d0 f] s run
    by (auto simp: live_def live_tx_def dest: keepsD)
  show "ran d0 schema Q r s'"
  proof (cases r)
    case (Ok a)
    note ok = stmt_Ok [OF run [unfolded Ok]]
    have "Q a (pg_db s')"
      by (rule assms [OF _ _ ok(1)]) (use s in \<open>simp_all add: live_def pg_env_def\<close>)
    with Ok ok in_tx s show ?thesis by (simp add: live_def live_tx_def)
  qed (use in_tx in simp_all)
qed

lemma ran_read:
  assumes "reads g f"
  shows "triple (live d0 schema P) (tstmt prefix g) (ran d0 schema (\<lambda>a d. P d \<and> seen d schema prefix f a))"
  unfolding tstmt_def
  by (rule ran_stmt) (auto simp: seen_def dest: reads_on_tenant [OF assms])

lemma ran_map_errS: "triple P m (ran d0 schema Q) \<Longrightarrow> triple P (map_errS f m) (ran d0 schema Q)"
  unfolding triple_def
  by (auto simp: ran_def split: outcome.splits prod.splits)
     (metis fst_conv map_err.simps outcome.distinct outcome.exhaust snd_conv)+

lemma ran_sqlS: "triple P m (ran d0 schema Q) \<Longrightarrow> triple P (sqlS m) (ran d0 schema Q)"
  unfolding sqlS_def by (rule ran_map_errS)

lemma ending_tryS:
  assumes "triple P m (ran d0 schema R)" and "\<And>a. triple (live d0 schema (R a)) (f a) (ending d0 Q)"
  shows "triple P (tryS m f) (ending d0 Q)"
  by (rule triple_tryS [OF assms(1)]) (simp_all add: assms(2) ending_def)

lemma ran_tryS:
  assumes "triple P m (ran d0 schema R)" and "\<And>a. triple (live d0 schema (R a)) (f a) (ran d0 schema Q)"
  shows "triple P (tryS m f) (ran d0 schema Q)"
  by (rule triple_tryS [OF assms(1)]) (simp_all add: assms(2))

lemma ending_error:
  "triple (live d0 schema P) (err e) (ending d0 Q)"
  by (rule triple_return) (simp add: ending_def live_def live_tx_def)

lemma ran_ok: "(\<And>d. P d \<Longrightarrow> Q v d) \<Longrightarrow> triple (live d0 schema P) (ok v) (ran d0 schema Q)"
  by (rule triple_return) (simp add: live_def)

lemma ending_ok_orS:
  assumes "\<And>a. v = Some a \<Longrightarrow> triple (live d0 schema P) (f a) (ending d0 Q)"
  shows "triple (live d0 schema P) (tryS (ok_orS v e) f) (ending d0 Q)"
proof (cases v)
  case None
  then show ?thesis
    by (auto simp: triple_def ok_orS_def ending_def live_def live_tx_def)
next
  case (Some a)
  with assms [OF Some] show ?thesis by (auto simp: triple_def ok_orS_def)
qed

lemma ending_commit:
  assumes "\<And>d. P d \<Longrightarrow> Q v d"
  shows "triple (live d0 schema P) (tryS (sqlS tx_commit) (\<lambda>_. ok v)) (ending d0 Q)"
proof (rule tripleI)
  fix s :: "'x pg_scheme" and r s'
  assume s: "live d0 schema P s" and run: "run_state (tryS (sqlS tx_commit) (\<lambda>_. ok v)) s = (r, s')"
  obtain c s1 where c0: "run_state tx_commit s = (c, s1)" by fastforce
  with run have c: "run_state tx_commit s = (c, s')"
    and r: "r = bind_outcome (map_err from_sqlx c) (\<lambda>_. Ok v)"
    by (cases c; simp add: sqlS_def)+
  have no_panic: "c \<noteq> Panic p" for p using c by (auto simp: tx_commit_def Let_def split: if_splits)
  from s have tx: "in_tx d0 s" and na: "\<not> in_aborted_tx s" by (auto simp: live_def live_tx_def)
  note e = tx_commit_cases [OF tx c]
  have q: "Q v (pg_db s)" using s by (auto simp: live_def intro: assms)
  have "ended d0 Q r s'"
  proof (cases c)
    case (Ok u)
    with e(1) e(3) [of u] na q r show ?thesis by (simp add: ended_def)
  next
    case (Err e')
    then show ?thesis using e(1,2) q r by (auto simp: ended_def)
  qed (simp add: no_panic)
  then show "ending d0 Q r s'" by (simp add: ending_def)
qed

lemma ended_with_drop:
  fixes m :: "('x pg_scheme, 'a, 'e) prog"
  assumes "triple P m (ending d0 Q)"
  shows "triple P (with_drop m) (ended d0 Q)"
proof (rule tripleI)
  fix s :: "'x pg_scheme" and r s'
  assume s: "P s" and run: "run_state (with_drop m) s = (r, s')"
  then obtain s1 where m: "run_state m s = (r, s1)" and s': "s' = pg_rollback s1"
    by (auto split: prod.splits)
  from tripleD [OF assms s m] show "ended d0 Q r s'"
    unfolding ending_def
  proof
    assume e: "ended d0 Q r s1"
    then have "s' = s1" using s' by (simp add: ended_def pg_rollback_def)
    with e show ?thesis by simp
  next
    assume "in_tx d0 s1 \<and> (\<forall>v. r \<noteq> Ok v)"
    then show ?thesis by (simp add: s' ended_def in_tx_def)
  qed
qed

lemma ending_tx_commit:
  assumes "\<And>d. P d \<Longrightarrow> Q () d"
  shows "triple (live d0 schema P) tx_commit (ending d0 Q)"
proof (rule tripleI)
  fix s :: "'x pg_scheme" and r s'
  assume s: "live d0 schema P s" and run: "run_state tx_commit s = (r, s')"
  from s have tx: "in_tx d0 s" and na: "\<not> in_aborted_tx s" by (auto simp: live_def live_tx_def)
  note e = tx_commit_cases [OF tx run]
  have "Q () (pg_db s)" using s by (auto simp: live_def intro: assms)
  with e na show "ending d0 Q r s'"
    by (cases r) (auto simp: ending_def ended_def, use run in \<open>auto simp: tx_commit_def Let_def split: if_splits\<close>)
qed

text \<open>A transaction from \<open>scoped_transaction\<close> to its end.\<close>

definition begun :: "database \<Rightarrow> string \<Rightarrow> (unit, 'e) outcome \<Rightarrow> 'x pg_scheme \<Rightarrow> bool" where
  "begun d schema r s \<longleftrightarrow> (case r of Ok u \<Rightarrow> live d schema (\<lambda>d'. d' = d) s | _ \<Rightarrow> idle d s)"

lemma begun_scoped: "triple (idle d) (scoped_transaction schema) (begun d schema)"
proof (rule tripleI)
  fix s :: "'x pg_scheme" and b s'
  assume s: "idle d s" and b: "run_state (scoped_transaction schema) s = (b, s')"
  show "begun d schema b s'"
  proof (cases "\<exists>u. b = Ok u")
    case True
    then obtain u where u: "b = Ok u" by blast
    note ok = scoped_transaction_Ok [OF b [unfolded u]]
    show ?thesis using ok(1-3) s by (simp add: u begun_def live_def idle_def)
  next
    case False
    have "pg_db s' = pg_db s" "pg_tx s' = None"
      by (rule scoped_transaction_not_Ok [OF b]; use False s in \<open>auto simp: idle_def\<close>)+
    with False s show ?thesis by (cases b) (auto simp: begun_def idle_def)
  qed
qed

lemma begun_sqlS: "triple (idle d) (sqlS (scoped_transaction schema)) (begun d schema)"
proof (rule tripleI)
  fix s :: "'x pg_scheme" and r s'
  assume s: "idle d s" and "run_state (sqlS (scoped_transaction schema)) s = (r, s')"
  then obtain b where b: "run_state (scoped_transaction schema) s = (b, s')" and r: "r = map_err from_sqlx b"
    by (auto simp: sqlS_def split: prod.splits)
  from tripleD [OF begun_scoped s b] r show "begun d schema r s'" by (cases b) (simp_all add: begun_def)
qed

lemma ended_begun:
  assumes "triple (idle d) b (begun d schema)" and "triple (live d schema (\<lambda>d'. d' = d)) m (ending d Q)"
  shows "triple (idle d) (tryS b (\<lambda>_. with_drop m)) (ended d Q)"
proof (rule triple_tryS [OF assms(1)])
  show "triple (begun d schema (Ok u)) (with_drop m) (ended d Q)" for u
    by (rule triple_weaken [OF ended_with_drop [OF assms(2)]]) (simp_all add: begun_def)
qed (simp_all add: begun_def ended_def idle_def)

lemmas ended_transaction = ended_begun [OF begun_sqlS]

lemmas ended_db_transaction = ended_begun [OF begun_scoped]

section \<open>Handlers outside a transaction\<close>

lemma ended_idle: "idle d s \<Longrightarrow> (\<And>v. r \<noteq> Ok v) \<Longrightarrow> ended d Q r s"
  by (simp add: ended_def idle_def)

lemma ended_err: "(\<And>s. P s \<Longrightarrow> idle d s) \<Longrightarrow> triple P (err e) (ended d Q)"
  by (rule triple_return) (simp add: ended_idle)

lemma ended_ok: "(\<And>s. P s \<Longrightarrow> idle d s) \<Longrightarrow> Q v d \<Longrightarrow> triple P (ok v) (ended d Q)"
  by (rule triple_return) (auto simp: ended_def idle_def)

lemma ended_pure:
  assumes "\<And>s. P s \<Longrightarrow> idle d s" and "\<And>a. r = Ok a \<Longrightarrow> triple P (f a) (ended d Q)"
  shows "triple P (tryS (State_Monad.return r) f) (ended d Q)"
proof (cases r)
  case (Ok a)
  with assms(2) show ?thesis by (auto simp: triple_def)
qed (auto simp: triple_def assms(1) ended_idle)

lemma ended_ok_orS:
  assumes "\<And>s. P s \<Longrightarrow> idle d s" and "\<And>a. v = Some a \<Longrightarrow> triple P (f a) (ended d Q)"
  shows "triple P (tryS (ok_orS v e) f) (ended d Q)"
  unfolding ok_orS_def by (rule ended_pure [OF assms(1)]) (simp_all add: assms(2))

lemma ended_connection:
  assumes "validate_schema_name schema \<Longrightarrow> triple (on d schema) m (ended d Q)"
  shows "triple (idle d) (tryS (sqlS (scoped_connection schema)) (\<lambda>_. m)) (ended d Q)"
proof (rule triple_tryS [OF triple_scoped_connection])
  show "triple (bound d schema (Ok u)) m (ended d Q)" for u
  proof (cases "validate_schema_name schema")
    case True
    from assms [OF this] show ?thesis by (auto simp: triple_def bound_def on_def)
  qed (simp add: triple_def bound_def)
qed (auto simp: bound_def ended_idle)

lemma ended_knows:
  assumes "triple (on d schema) m (knows d schema \<Phi>)"
    and "\<And>a. \<Phi> a \<Longrightarrow> triple (on d schema) (f a) (ended d Q)"
  shows "triple (on d schema) (tryS m f) (ended d Q)"
proof (rule triple_tryS [OF assms(1)])
  show "triple (knows d schema \<Phi> (Ok a)) (f a) (ended d Q)" for a
    using assms(2) [of a] by (auto simp: triple_def knows_def)
qed (auto simp: knows_def ended_idle on_idle)

lemma ended_mono: "triple P m (ended d Q) \<Longrightarrow> (\<And>v d'. Q v d' \<Longrightarrow> Q' v d') \<Longrightarrow> triple P m (ended d Q')"
  by (erule triple_weaken) (auto simp: ended_def)

lemma ended_on: "triple (idle d) m Q \<Longrightarrow> triple (on d schema) m Q"
  by (erule triple_weaken) (simp_all add: on_def)

text \<open>The two ends of a transaction, read off a run.\<close>

definition all_or_nothing ::
  "(http_response, app_error) outcome \<Rightarrow> (http_response \<Rightarrow> database \<Rightarrow> bool) \<Rightarrow> database \<Rightarrow> database \<Rightarrow> bool" where
  "all_or_nothing r Q d d' \<longleftrightarrow>
     (\<forall>v. r \<noteq> Ok v) \<and> d' = d \<or> (\<exists>v. (r = Ok v \<or> (\<exists>e. r = Err e)) \<and> Q v d')"

lemma all_or_nothing_Ok: "all_or_nothing (Ok v) Q d d' \<longleftrightarrow> Q v d'"
  by (auto simp: all_or_nothing_def)

lemma ended_run:
  assumes "\<And>d. triple (idle d) m (ended d (Q d))" and "pg_tx s = None" and "run_state m s = (r, s')"
  shows "pg_tx s' = None \<and> all_or_nothing r (Q (pg_db s)) (pg_db s) (pg_db s')"
  using tripleD [OF assms(1) _ assms(3), of "pg_db s"] assms(2)
  by (auto simp: idle_def ended_def all_or_nothing_def)

end
