(* ===== verification/Job_Api.thy ===== *)
theory Job_Api
  imports Api_Calculus
begin

text \<open>
  What the job handlers do to the database: creating a job is all or nothing and idempotent, a
  cancelled job is retired together with its pending executions or its pg_cron entry, an updated
  CRON job is replaced by its next version together with its pg_cron entry.
\<close>

section \<open>Creating\<close>

definition job_made ::
  "database \<Rightarrow> string \<times> string \<Rightarrow> job_row \<Rightarrow> execution_row list \<Rightarrow> database \<Rightarrow> bool" where
  "job_made d k j es d' \<longleftrightarrow>
     (\<exists>t. tenants d k = Some t \<and> job_id j \<notin> job_id ` set (jobs t) \<and>
        d' = with_tenant k (t\<lparr>jobs := jobs t @ [j], executions := executions t @ es\<rparr>) d)"

text \<open>The job and the execution a request asks for.\<close>

definition job_as ::
  "string \<Rightarrow> string \<Rightarrow> string \<Rightarrow> string option \<Rightarrow> json option \<Rightarrow> job_row \<Rightarrow> bool" where
  "job_as ep etype trig key inp j \<longleftrightarrow>
     job_endpoint j = ep \<and> job_endpoint_type j = etype \<and> trigger_type j = trig \<and>
     job_idempotency_key j = key \<and> job_input j = inp \<and> job_status j = ''ACTIVE'' \<and> version j = 1 \<and>
     previous_version_id j = None"

definition exec_as :: "job_row \<Rightarrow> string \<Rightarrow> int \<Rightarrow> execution_row \<Rightarrow> bool" where
  "exec_as j st n e \<longleftrightarrow>
     exec_job_id e = job_id j \<and> exec_endpoint e = job_endpoint j \<and>
     exec_endpoint_type e = job_endpoint_type j \<and> exec_idempotency_key e = job_idempotency_key j \<and>
     exec_input e = job_input j \<and> exec_status e = st \<and> exec_max_attempts e = n \<and> attempt_count e = 0"

definition made_immediate ::
  "string \<times> string \<Rightarrow> create_job \<Rightarrow> endpoint_row \<Rightarrow> database \<Rightarrow> database \<Rightarrow> bool" where
  "made_immediate k body ep d d' \<longleftrightarrow>
     (\<exists>j e key. job_made d k j [e] d' \<and>
        job_as (cj_endpoint body) (ep_type ep) ''IMMEDIATE'' (Some key) (cj_input body) j \<and>
        (\<forall>key'. cj_idempotency_key body = Some key' \<longrightarrow> key = key') \<and>
        exec_as j ''QUEUED'' (job_max_attempts body ep) e \<and> exec_run_at e = exec_created_at e)"

definition made_delayed ::
  "string \<times> string \<Rightarrow> create_job \<Rightarrow> endpoint_row \<Rightarrow> database \<Rightarrow> database \<Rightarrow> bool" where
  "made_delayed k body ep d d' \<longleftrightarrow>
     (\<exists>j e key run_at. cj_idempotency_key body = Some key \<and> cj_run_at body = Some run_at \<and>
        job_made d k j [e] d' \<and>
        job_as (cj_endpoint body) (ep_type ep) ''DELAYED'' (Some key) (cj_input body) j \<and>
        job_run_at j = Some run_at \<and>
        exec_as j ''PENDING'' (job_max_attempts body ep) e \<and> exec_run_at e = run_at)"

definition made_cron ::
  "string \<times> string \<Rightarrow> create_job \<Rightarrow> endpoint_row \<Rightarrow> database \<Rightarrow> database \<Rightarrow> bool" where
  "made_cron k body ep d d' \<longleftrightarrow>
     (\<exists>j expr d1. cj_cron body = Some expr \<and> job_made d k j [] d1 \<and>
        job_as (cj_endpoint body) (ep_type ep) ''CRON'' (cj_idempotency_key body) (cj_input body) j \<and>
        cron_expression j = Some expr \<and> cron_timezone j = cj_timezone body \<and>
        cron_ends_at j = cj_ends_at body \<and>
        d' = d1\<lparr>cron_job := (cron_job d)(cron_job_name (fst k) (job_id j) \<mapsto>
               (expr, Cron_Command (snd k) (fst k) (job_id j)))\<rparr>)"

lemma insert_job_Ok:
  "insert_job prefix j t = Ok (a, t') \<longleftrightarrow>
     job_violation prefix t j = None \<and> a = j \<and> t' = t\<lparr>jobs := jobs t @ [j]\<rparr>"
  by (auto simp: insert_job_def split: option.splits)

lemma insert_execution_Ok:
  "insert_execution prefix e t = Ok (a, t') \<longleftrightarrow>
     execution_violation prefix t e = None \<and> a = e \<and> t' = t\<lparr>executions := executions t @ [e]\<rparr>"
  by (auto simp: insert_execution_def split: option.splits)

lemma job_violation_new: "job_violation prefix t j = None \<Longrightarrow> job_id j \<notin> job_id ` set (jobs t)"
  by (auto simp: job_violation_def split: if_splits)

text \<open>Inserting a job, then an execution, into the tenant \<open>k\<close> of \<open>d\<close>.\<close>

definition job_inserted :: "database \<Rightarrow> string \<times> string \<Rightarrow> (job_row \<Rightarrow> bool) \<Rightarrow> job_row \<Rightarrow> database \<Rightarrow> bool" where
  "job_inserted d k \<Phi> j d' \<longleftrightarrow>
     (\<exists>t. tenants d k = Some t \<and> job_id j \<notin> job_id ` set (jobs t) \<and> \<Phi> j \<and>
        d' = with_tenant k (t\<lparr>jobs := jobs t @ [j]\<rparr>) d)"

lemma ran_insert_job:
  assumes "\<And>env t a t'. g env t = Ok (a, t') \<Longrightarrow> insert_job prefix (f env) t = Ok (a, t') \<and> \<Phi> (f env)"
  shows "triple (live d schema (\<lambda>d'. d' = d)) (tstmt prefix g)
    (ran d schema (job_inserted d (schema, prefix) \<Phi>))"
  unfolding tstmt_def
  by (rule ran_stmt)
    (auto simp: on_tenant_Ok' job_inserted_def insert_job_Ok dest!: assms job_violation_new)

lemma ran_job_with_execution:
  assumes job: "\<And>env t a t'. gj env t = Ok (a, t') \<Longrightarrow> insert_job prefix (mkj env) t = Ok (a, t') \<and> \<Phi> (mkj env)"
    and exec: "\<And>j env t a t'. \<Phi> j \<Longrightarrow> ge j env t = Ok (a, t') \<Longrightarrow>
      insert_execution prefix (mke j env) t = Ok (a, t') \<and> \<Psi> j (mke j env)"
  shows "triple (live d schema (\<lambda>d'. d' = d))
    (tryS (tstmt prefix gj) (\<lambda>j. tryS (tstmt prefix (ge j)) (\<lambda>e. ok (res j e))))
    (ran d schema (\<lambda>r d'. \<exists>j e. job_made d (schema, prefix) j [e] d' \<and> \<Phi> j \<and> \<Psi> j e))"
proof (rule ran_tryS [OF ran_insert_job [where f = mkj and \<Phi> = \<Phi>]])
  show "insert_job prefix (mkj env) t = Ok (a, t') \<and> \<Phi> (mkj env)" if "gj env t = Ok (a, t')" for env t a t'
    using that by (rule job)
next
  fix j
  have "triple (live d schema (job_inserted d (schema, prefix) \<Phi> j)) (tstmt prefix (ge j))
    (ran d schema (\<lambda>e d'. job_made d (schema, prefix) j [e] d' \<and> \<Phi> j \<and> \<Psi> j e))"
    unfolding tstmt_def
    by (rule ran_stmt, clarsimp simp: on_tenant_Ok' job_inserted_def job_made_def, frule (1) exec)
      (auto simp: insert_execution_Ok)
  then show "triple (live d schema (job_inserted d (schema, prefix) \<Phi> j))
      (tryS (tstmt prefix (ge j)) (\<lambda>e. ok (res j e)))
      (ran d schema (\<lambda>r d'. \<exists>j e. job_made d (schema, prefix) j [e] d' \<and> \<Phi> j \<and> \<Psi> j e))"
    by (rule ran_tryS) (blast intro: ran_ok)
qed

lemma create_immediate_ran:
  "triple (live d schema (\<lambda>d'. d' = d)) (create_immediate prefix ep etype key inp n)
    (ran d schema (\<lambda>r d'. \<exists>j e. job_made d (schema, prefix) j [e] d' \<and>
       job_as ep etype ''IMMEDIATE'' (Some key) inp j \<and> (exec_as j ''QUEUED'' n e \<and>
       exec_run_at e = exec_created_at e)))"
  unfolding create_immediate_def
  by (rule ran_job_with_execution [where
        mkj = "\<lambda>env. (job_defaults env ep etype ''IMMEDIATE'')\<lparr>job_idempotency_key := Some key, job_input := inp\<rparr>" and
        mke = "\<lambda>j env. new_execution env (job_id j) ep etype (Some key) ''QUEUED'' (env_now env) inp n"])
    (simp_all add: sql_insert_immediate_job_def sql_insert_execution_def job_defaults_def new_execution_def
      job_as_def exec_as_def)

lemma create_delayed_ran:
  "triple (live d schema (\<lambda>d'. d' = d)) (create_delayed prefix ep etype key inp run_at n)
    (ran d schema (\<lambda>r d'. \<exists>j e. job_made d (schema, prefix) j [e] d' \<and>
       (job_as ep etype ''DELAYED'' (Some key) inp j \<and> job_run_at j = Some run_at) \<and>
       (exec_as j ''PENDING'' n e \<and> exec_run_at e = run_at)))"
  unfolding create_delayed_def
  by (rule ran_job_with_execution [where
        mkj = "\<lambda>env. (job_defaults env ep etype ''DELAYED'')
          \<lparr>job_idempotency_key := Some key, job_input := inp, job_run_at := Some run_at\<rparr>" and
        mke = "\<lambda>j env. new_execution env (job_id j) ep etype (Some key) ''PENDING'' run_at inp n"])
    (simp_all add: sql_insert_delayed_job_def sql_insert_execution_def job_defaults_def new_execution_def
      job_as_def exec_as_def)

lemma create_immediate_job_ended:
  "triple (idle d) (create_immediate_job x prefix schema body ep)
    (ended d (\<lambda>resp d'. resp_status resp = 201 \<and> made_immediate (schema, prefix) body ep d d'))"
  unfolding create_immediate_job_def
proof (rule triple_bind [where R = "\<lambda>key s. idle d s \<and> (\<forall>key'. cj_idempotency_key body = Some key' \<longrightarrow> key = key')"])
  show "triple (idle d) (case cj_idempotency_key body of Some k \<Rightarrow> State_Monad.return k | None \<Rightarrow> new_v4)
      (\<lambda>key s. idle d s \<and> (\<forall>key'. cj_idempotency_key body = Some key' \<longrightarrow> key = key'))"
    by (auto simp: triple_def idle_def split: option.split)
qed (rule triple_assume, rule ended_transaction, rule ending_tryS [OF ran_map_errS [OF create_immediate_ran]],
    rule ending_commit, auto simp: made_immediate_def json_response_def)

lemma create_delayed_job_ended:
  "triple (idle d) (create_delayed_job x prefix schema body ep)
    (ended d (\<lambda>resp d'. resp_status resp = 201 \<and> made_delayed (schema, prefix) body ep d d'))"
  unfolding create_delayed_job_def
  by (rule ended_ok_orS, assumption, rule ended_ok_orS, assumption,
      rule ended_transaction, rule ending_tryS [OF ran_sqlS [OF create_delayed_ran]], rule ending_commit)
    (auto simp: made_delayed_def json_response_def)

lemma create_cron_ran:
  "triple (live d schema (\<lambda>d'. d' = d))
    (create_cron prefix ep etype key inp expr tz starts ends next_run)
    (ran d schema (job_inserted d (schema, prefix) (\<lambda>j. job_as ep etype ''CRON'' key inp j \<and>
       cron_expression j = Some expr \<and> cron_timezone j = Some tz \<and> cron_ends_at j = ends)))"
  unfolding create_cron_def
  by (rule ran_insert_job [where f = "\<lambda>env. (job_defaults env ep etype ''CRON'')
       \<lparr>job_idempotency_key := key, job_input := inp, cron_expression := Some expr,
        cron_timezone := Some tz, cron_starts_at := starts, cron_ends_at := ends,
        cron_next_run_at := Some next_run\<rparr>"])
    (simp add: sql_create_cron_def job_defaults_def job_as_def)

lemma register_ran:
  "triple (live d schema P) (register_pg_cron_conn prefix schema' jid expr)
    (ran d schema (\<lambda>_ d'. \<exists>d1. P d1 \<and> d' = d1\<lparr>cron_job := (cron_job d1)(cron_job_name schema' jid \<mapsto>
       (expr, Cron_Command prefix schema' jid))\<rparr>))"
  unfolding register_pg_cron_conn_def build_cron_command_def
  by (rule ran_stmt) (auto simp: sql_cron_schedule_def)

lemma unregister_ran:
  "triple (live d schema P) (unregister_pg_cron_conn schema' jid)
    (ran d schema (\<lambda>_ d'. \<exists>d1. P d1 \<and> d' = d1\<lparr>cron_job := (cron_job d1)(cron_job_name schema' jid := None)\<rparr>))"
  unfolding unregister_pg_cron_conn_def
  by (rule ran_stmt) (auto simp: sql_cron_unschedule_existing_def)

lemma create_cron_job_ended:
  "triple (idle d) (create_cron_job x prefix schema body ep)
    (ended d (\<lambda>resp d'. resp_status resp = 201 \<and> made_cron (schema, prefix) body ep d d'))"
  unfolding create_cron_job_def
proof (rule ended_ok_orS, assumption, rule ended_ok_orS, assumption, rule ended_pure, assumption,
    rule triple_if, rule ended_err, assumption, rule triple_bind [where R = "\<lambda>_. idle d"])
  show "triple (idle d) (case cj_starts_at body of Some t \<Rightarrow> State_Monad.return t | None \<Rightarrow> utc_now) (\<lambda>_. idle d)"
    by (auto simp: triple_def split: option.split)
qed (rule ended_ok_orS, assumption, rule ended_transaction,
    rule ending_tryS [OF ran_map_errS [OF create_cron_ran]], rule ending_tryS [OF ran_sqlS [OF register_ran]],
    rule ending_commit, auto simp: made_cron_def job_inserted_def job_made_def json_response_def)

definition job_with_key :: "string \<Rightarrow> string \<Rightarrow> tenant \<Rightarrow> job_row option" where
  "job_with_key ep key t = List.find (\<lambda>j. job_endpoint j = ep \<and> job_idempotency_key j = Some key) (jobs t)"

lemma existing_job_knows:
  "triple (on d schema) (existing_job prefix body)
    (knows d schema (\<lambda>found. case cj_idempotency_key body of
         None \<Rightarrow> found = None
       | Some key \<Rightarrow> seen d schema prefix (job_with_key (cj_endpoint body) key) (map_option fst found)))"
proof (cases "cj_idempotency_key body")
  case None
  then show ?thesis by (auto simp: existing_job_def intro!: knows_ok)
next
  case (Some key)
  show ?thesis unfolding existing_job_def Some option.case
    by (rule knows_tryS [OF triple_gets(4)])
      (auto simp: seen_def job_with_key_def intro!: knows_ok knows_tryS [OF triple_gets(5)] split: option.split)
qed

lemma check_job_input_knows: "triple (on d schema) (check_job_input x prefix ep inp) (knows d schema (\<lambda>_. True))"
  unfolding check_job_input_def
  by (auto intro!: knows_ok knows_return knows_tryS [OF triple_gets(2)] knows_tryS [OF knows_ok_orS]
      split: option.split)

text \<open>A request either changes nothing, or makes exactly the job it asks for on an endpoint that is
  not internal; a request that names an existing job gets that job and makes none.\<close>

definition job_replayed ::
  "ext \<Rightarrow> string \<times> string \<Rightarrow> create_job \<Rightarrow> database \<Rightarrow> http_response \<Rightarrow> database \<Rightarrow> bool" where
  "job_replayed x k body d resp d' \<longleftrightarrow> d' = d \<and>
     (\<exists>t j key exec. tenants d k = Some t \<and> cj_idempotency_key body = Some key \<and>
        job_with_key (cj_endpoint body) key t = Some j \<and>
        resp = json_response 200 (jdata (job_response x j exec)))"

definition job_created ::
  "string \<times> string \<Rightarrow> create_job \<Rightarrow> database \<Rightarrow> http_response \<Rightarrow> database \<Rightarrow> bool" where
  "job_created k body d resp d' \<longleftrightarrow> resp_status resp = 201 \<and>
     (\<exists>t ep. tenants d k = Some t \<and> List.find (\<lambda>r. ep_name r = cj_endpoint body) (endpoints t) = Some ep \<and>
        ep_type ep \<noteq> ''INTERNAL'' \<and>
        (\<forall>key. cj_idempotency_key body = Some key \<longrightarrow> job_with_key (cj_endpoint body) key t = None) \<and>
        (case trigger_type_from_str (cj_trigger body) of
           Some IMMEDIATE \<Rightarrow> made_immediate k body ep d d'
         | Some DELAYED \<Rightarrow> made_delayed k body ep d d'
         | Some CRON \<Rightarrow> made_cron k body ep d d'
         | None \<Rightarrow> False))"

lemma handle_jobs_create_ended:
  "triple (idle d) (handle_jobs_create x prefix schema body)
    (ended d (\<lambda>resp d'. job_replayed x (schema, prefix) body d resp d' \<or>
       job_created (schema, prefix) body d resp d'))"
  unfolding handle_jobs_create_def
proof (rule ended_ok_orS, assumption, rule ended_connection, rule ended_knows [OF triple_gets(1)],
    rule ended_ok_orS, erule on_idle, rule triple_ite, rule ended_err, erule on_idle,
    rule ended_knows [OF check_job_input_knows], rule ended_knows [OF existing_job_knows])
  fix trigger row ep u and found :: "(job_row \<times> execution_row option) option"
  assume trig: "trigger_type_from_str (cj_trigger body) = Some trigger"
    and row: "seen d schema prefix (\<lambda>t. List.find (\<lambda>r. ep_name r = cj_endpoint body) (endpoints t)) row" "row = Some ep"
    and user: "endpoint_type_from_str (ep_type ep) \<noteq> Some INTERNAL"
    and found: "case cj_idempotency_key body of None \<Rightarrow> found = None
      | Some key \<Rightarrow> seen d schema prefix (job_with_key (cj_endpoint body) key) (map_option fst found)"
  have not_internal: "ep_type ep \<noteq> ''INTERNAL''" using user by (auto simp: endpoint_type_from_str_def)
  let ?Q = "\<lambda>resp d'. job_replayed x (schema, prefix) body d resp d' \<or> job_created (schema, prefix) body d resp d'"
  show "triple (on d schema) (case found of
       Some (job, exec) \<Rightarrow> ok (json_response 200 (jdata (job_response x job exec)))
     | None \<Rightarrow> (case trigger of
         IMMEDIATE \<Rightarrow> create_immediate_job x prefix schema body ep
       | DELAYED \<Rightarrow> create_delayed_job x prefix schema body ep
       | CRON \<Rightarrow> create_cron_job x prefix schema body ep)) (ended d ?Q)"
  proof (cases found)
    case (Some je)
    obtain j e where je: "je = (j, e)" by fastforce
    with Some found have "job_replayed x (schema, prefix) body d (json_response 200 (jdata (job_response x j e))) d"
      by (auto simp: job_replayed_def seen_def split: option.splits)
    with Some je show ?thesis by (auto intro!: ended_ok simp: on_idle)
  next
    case None
    have new: "\<forall>t key. tenants d (schema, prefix) = Some t \<longrightarrow> cj_idempotency_key body = Some key \<longrightarrow>
        job_with_key (cj_endpoint body) key t = None"
      using found None by (auto simp: seen_def split: option.splits)
    with row not_internal trig None show ?thesis
      by (cases trigger)
        (auto simp: seen_def job_created_def intro!: ended_on ended_mono [OF create_immediate_job_ended]
          ended_mono [OF create_delayed_job_ended] ended_mono [OF create_cron_job_ended])
  qed
qed

section \<open>Cancelling\<close>

definition retire_row :: "timestamp \<Rightarrow> job_row \<Rightarrow> job_row" where
  "retire_row now j = j\<lparr>job_status := ''RETIRED'', retired_at := Some now\<rparr>"

definition active_job :: "string \<Rightarrow> job_row \<Rightarrow> bool" where
  "active_job jid j \<longleftrightarrow> job_id j = jid \<and> job_status j = ''ACTIVE''"

definition pending_of :: "string \<Rightarrow> execution_row \<Rightarrow> bool" where
  "pending_of jid e \<longleftrightarrow> exec_job_id e = jid \<and> exec_status e \<in> {''PENDING'', ''QUEUED''}"

definition cancel_tenant :: "string \<Rightarrow> bool \<Rightarrow> timestamp \<Rightarrow> timestamp \<Rightarrow> tenant \<Rightarrow> tenant" where
  "cancel_tenant jid cron now now' t =
     t\<lparr>executions := (if cron then executions t
                      else update_rows (pending_of jid) (cancel_row now') (executions t)),
       jobs := update_rows (active_job jid) (retire_row now) (jobs t)\<rparr>"

definition job_cancelled :: "string \<times> string \<Rightarrow> string \<Rightarrow> database \<Rightarrow> database \<Rightarrow> bool" where
  "job_cancelled k jid d d' \<longleftrightarrow>
     (\<exists>t j now now'. tenants d k = Some t \<and> List.find (\<lambda>j. job_id j = jid) (jobs t) = Some j \<and>
        job_status j \<noteq> ''RETIRED'' \<and> job_endpoint_type j \<noteq> ''INTERNAL'' \<and>
        (\<exists>j' \<in> set (jobs t). active_job jid j') \<and>
        d' = (with_tenant k (cancel_tenant jid (trigger_type j = ''CRON'') now now' t) d)
               \<lparr>cron_job := (if trigger_type j = ''CRON'' then (cron_job d)(cron_job_name (fst k) jid := None)
                              else cron_job d)\<rparr>)"

lemma sql_cancel_pending_Ok:
  "sql_cancel_pending jid env t = Ok (n, t') \<Longrightarrow>
     t' = t\<lparr>executions := update_rows (pending_of jid) (cancel_row (env_now env)) (executions t)\<rparr>"
  by (simp add: sql_cancel_pending_def Let_def pending_of_def [abs_def])

lemma find_not_None: "List.find P xs \<noteq> None \<longleftrightarrow> (\<exists>x \<in> set xs. P x)"
  by (metis find_None_iff)

lemma sql_jobs_cancel_Ok:
  assumes "sql_jobs_cancel jid env t = Ok (row, t')"
  shows "t' = t\<lparr>jobs := update_rows (active_job jid) (retire_row (env_now env)) (jobs t)\<rparr>"
    and "row \<noteq> None \<longleftrightarrow> (\<exists>j \<in> set (jobs t). active_job jid j)"
proof -
  from assms have row: "row = map_option (retire_row (env_now env)) (List.find (active_job jid) (jobs t))"
    and t': "t' = t\<lparr>jobs := update_rows (active_job jid) (retire_row (env_now env)) (jobs t)\<rparr>"
    by (auto simp: sql_jobs_cancel_def Let_def active_job_def [abs_def] retire_row_def [abs_def] first_returning)
  show "t' = t\<lparr>jobs := update_rows (active_job jid) (retire_row (env_now env)) (jobs t)\<rparr>" by (rule t')
  show "row \<noteq> None \<longleftrightarrow> (\<exists>j \<in> set (jobs t). active_job jid j)"
    unfolding row by (simp add: find_not_None del: not_None_eq)
qed

lemma handle_jobs_cancel_ended:
  "triple (idle d) (handle_jobs_cancel x prefix schema jid)
    (ended d (\<lambda>resp d'. resp_status resp = 200 \<and> job_cancelled (schema, prefix) jid d d'))"
  unfolding handle_jobs_cancel_def
proof (rule ended_transaction, rule ending_tryS [OF ran_sqlS], unfold jobs_get_def, rule ran_read [OF reads_all(3)],
    rule ending_ok_orS, rule triple_ite, rule ending_error, rule triple_ite, rule ending_error)
  fix found and job :: job_row
  let ?k = "(schema, prefix)"
  let ?cron = "trigger_type job = ''CRON''"
  let ?P = "\<lambda>d'. d' = d \<and> seen d' schema prefix (\<lambda>t. List.find (\<lambda>j. job_id j = jid) (jobs t)) found"
  assume found: "found = Some job" and act: "job_status job \<noteq> ''RETIRED''"
    and user: "endpoint_type_from_str (job_endpoint_type job) \<noteq> Some INTERNAL"
  then have int: "job_endpoint_type job \<noteq> ''INTERNAL''" by (auto simp: endpoint_type_from_str_def)
  define R where "R u d' \<longleftrightarrow> (\<exists>t now'. tenants d ?k = Some t \<and> List.find (\<lambda>j. job_id j = jid) (jobs t) = Some job \<and>
      d' = with_tenant ?k (t\<lparr>executions := (if ?cron then executions t
            else update_rows (pending_of jid) (cancel_row now') (executions t))\<rparr>) d)" for u :: unit and d'
  define R' where "R' (row :: job_row option) d' \<longleftrightarrow> (\<exists>t now now'. tenants d ?k = Some t \<and>
      List.find (\<lambda>j. job_id j = jid) (jobs t) = Some job \<and>
      (row \<noteq> None \<longrightarrow> (\<exists>j' \<in> set (jobs t). active_job jid j')) \<and>
      d' = with_tenant ?k (cancel_tenant jid ?cron now now' t) d)" for row d'
  have pend: "triple (live d schema ?P) (cancel_pending_for_job prefix jid) (ran d schema (\<lambda>_ d'. \<not> ?cron \<longrightarrow> R () d'))"
    unfolding cancel_pending_for_job_def tstmt_def
    by (rule ran_stmt) (auto simp: on_tenant_Ok' R_def seen_def found dest!: sql_cancel_pending_Ok)
  have first: "triple (live d schema ?P)
      (if trigger_type job \<noteq> ''CRON'' then tryS (sqlS (cancel_pending_for_job prefix jid)) (\<lambda>_. ok ()) else ok ())
      (ran d schema R)"
  proof (rule triple_ite)
    assume "trigger_type job \<noteq> ''CRON''"
    then show "triple (live d schema ?P) (tryS (sqlS (cancel_pending_for_job prefix jid)) (\<lambda>_. ok ())) (ran d schema R)"
      by (intro ran_tryS [OF ran_sqlS [OF pend]] ran_ok) simp
  qed (rule ran_ok, auto simp: R_def seen_def found with_tenant_same)
  have second: "triple (live d schema (R u)) (jobs_cancel prefix jid) (ran d schema R')" for u
    unfolding jobs_cancel_def tstmt_def
  proof (rule ran_stmt)
    fix env d1 row d'
    assume "R u d1" and env: "env_path env = schema" and run: "on_tenant prefix (sql_jobs_cancel jid) env d1 = Ok (row, d')"
    then obtain t now' t' where t: "tenants d ?k = Some t" "List.find (\<lambda>j. job_id j = jid) (jobs t) = Some job"
      and c: "sql_jobs_cancel jid env (t\<lparr>executions := (if ?cron then executions t
            else update_rows (pending_of jid) (cancel_row now') (executions t))\<rparr>) = Ok (row, t')"
      and d': "d' = with_tenant ?k t' d" by (auto simp: on_tenant_Ok' R_def)
    from t d' sql_jobs_cancel_Ok [OF c] show "R' row d'"
      unfolding R'_def
      by (intro exI [of _ t] exI [of _ "env_now env"] exI [of _ now']) (auto simp: cancel_tenant_def)
  qed
  show "triple (live d schema ?P)
     (tryS (if trigger_type job \<noteq> ''CRON'' then tryS (sqlS (cancel_pending_for_job prefix jid)) (\<lambda>_. ok ()) else ok ()) (\<lambda>_.
      tryS (sqlS (jobs_cancel prefix jid)) (\<lambda>done'.
      tryS (ok_orS done' (Conflict ''Job could not be cancelled'')) (\<lambda>cancelled.
      tryS (if trigger_type job = ''CRON'' then sqlS (unregister_pg_cron_conn schema jid) else ok ()) (\<lambda>_.
      tryS (sqlS tx_commit) (\<lambda>_.
      ok (json_response 200 (jdata (job_summary x cancelled)))))))))
     (ending d (\<lambda>resp d'. resp_status resp = 200 \<and> job_cancelled ?k jid d d'))"
  proof (rule ending_tryS [OF first], rule ending_tryS [OF ran_sqlS [OF second]], rule ending_ok_orS)
    fix row and j' :: job_row
    assume row: "row = Some j'"
    have fin: "R' row d1 \<Longrightarrow> job_cancelled ?k jid d
        (d1\<lparr>cron_job := (if ?cron then (cron_job d1)(cron_job_name schema jid := None) else cron_job d1)\<rparr>)" for d1
      unfolding job_cancelled_def R'_def using row int act
      by (elim exE, rule_tac x = t in exI, rule_tac x = job in exI) auto
    show "triple (live d schema (R' row))
      (tryS (if trigger_type job = ''CRON'' then sqlS (unregister_pg_cron_conn schema jid) else ok ()) (\<lambda>_.
       tryS (sqlS tx_commit) (\<lambda>_. ok (json_response 200 (jdata (job_summary x j'))))))
      (ending d (\<lambda>resp d'. resp_status resp = 200 \<and> job_cancelled ?k jid d d'))"
    proof (cases ?cron)
      case True
      then show ?thesis
        by (simp, intro ending_tryS [OF ran_sqlS [OF unregister_ran]] ending_commit)
          (use fin in \<open>auto simp: json_response_def\<close>)
    next
      case False
      then show ?thesis
        by (simp, intro ending_tryS [OF ran_ok [where Q = "\<lambda>_. R' row"]] ending_commit)
          (use fin in \<open>auto simp: json_response_def\<close>)
    qed
  qed
qed

section \<open>Replacing a version\<close>

text \<open>The new version: the fields of the old one, overridden by the request. It starts without the
  idempotency key of the version it replaces.\<close>

definition version_of :: "ext \<Rightarrow> bool \<Rightarrow> update_job \<Rightarrow> job_row \<Rightarrow> string \<Rightarrow> job_row \<Rightarrow> bool" where
  "version_of x checks body old expr j \<longleftrightarrow>
     update_cron_expr x body old = Ok expr \<and> arith_i64 checks (version old + 1) = (Ok (version j) :: (int, app_error) outcome) \<and>
     job_endpoint j = job_endpoint old \<and> job_endpoint_type j = job_endpoint_type old \<and>
     trigger_type j = ''CRON'' \<and> job_status j = ''ACTIVE'' \<and> job_idempotency_key j = None \<and>
     job_input j = (case uj_input body of Some i \<Rightarrow> Some i | None \<Rightarrow> job_input old) \<and>
     cron_expression j = Some expr \<and> cron_timezone j = Some (update_timezone body old) \<and>
     cron_starts_at j = (case uj_starts_at body of Some t \<Rightarrow> Some t | None \<Rightarrow> cron_starts_at old) \<and>
     cron_ends_at j = (case uj_ends_at body of Some t \<Rightarrow> Some t | None \<Rightarrow> cron_ends_at old) \<and>
     previous_version_id j = Some (job_id old)"

definition replaced_row :: "timestamp \<Rightarrow> string \<Rightarrow> job_row \<Rightarrow> job_row" where
  "replaced_row now new_id j =
     j\<lparr>job_status := ''RETIRED'', retired_at := Some now, replaced_by_id := Some new_id\<rparr>"

definition job_updated ::
  "ext \<Rightarrow> bool \<Rightarrow> string \<times> string \<Rightarrow> string \<Rightarrow> update_job \<Rightarrow> database \<Rightarrow> database \<Rightarrow> bool" where
  "job_updated x checks k jid body d d' \<longleftrightarrow>
     (\<exists>t old j expr now. tenants d k = Some t \<and> List.find (\<lambda>j. job_id j = jid) (jobs t) = Some old \<and>
        trigger_type old = ''CRON'' \<and> job_status old = ''ACTIVE'' \<and> job_endpoint_type old \<noteq> ''INTERNAL'' \<and>
        job_id j \<notin> job_id ` set (jobs t) \<and> version_of x checks body old expr j \<and>
        d' = (with_tenant k (t\<lparr>jobs := update_rows (active_job jid) (replaced_row now jid) (jobs t) @ [j]\<rparr>) d)
               \<lparr>cron_job := (cron_job d)(cron_job_name (fst k) jid := None,
                  cron_job_name (fst k) (job_id j) \<mapsto> (expr, Cron_Command (snd k) (fst k) (job_id j)))\<rparr>)"

lemma job_id_replaced_row [simp]: "job_id (replaced_row now i j) = job_id j"
  by (simp add: replaced_row_def)

lemma job_id_update_rows: "(\<And>j. job_id (f j) = job_id j) \<Longrightarrow> job_id ` set (update_rows p f js) = job_id ` set js"
  by (metis list.set_map update_rows_keys)

definition job_swapped ::
  "string \<times> string \<Rightarrow> string \<Rightarrow> (job_row \<Rightarrow> bool) \<Rightarrow> database \<Rightarrow> job_row \<Rightarrow> database \<Rightarrow> bool" where
  "job_swapped k jid \<Phi> d j d' \<longleftrightarrow>
     (\<exists>t now. tenants d k = Some t \<and> job_id j \<notin> job_id ` set (jobs t) \<and> \<Phi> j \<and>
        d' = with_tenant k (t\<lparr>jobs := update_rows (active_job jid) (replaced_row now jid) (jobs t) @ [j]\<rparr>) d)"

lemma job_swapped_cron: "job_swapped k jid \<Phi> d j d1 \<Longrightarrow> cron_job d1 = cron_job d"
  by (auto simp: job_swapped_def)

lemma retire_and_replace_ran:
  assumes "\<And>env. \<Phi> ((job_defaults env (job_endpoint new_job) (job_endpoint_type new_job) ''CRON'')
       \<lparr>job_input := job_input new_job, cron_expression := cron_expression new_job,
        cron_timezone := cron_timezone new_job, cron_starts_at := cron_starts_at new_job,
        cron_ends_at := cron_ends_at new_job, cron_next_run_at := cron_next_run_at new_job,
        version := version new_job, previous_version_id := Some jid\<rparr>)"
    and "job_id new_job = jid"
  shows "triple (live d schema (\<lambda>d'. d' = d)) (retire_and_replace prefix jid new_job)
    (ran d schema (job_swapped (schema, prefix) jid \<Phi> d))"
  unfolding retire_and_replace_def
proof (rule ran_tryS)
  let ?R = "\<lambda>u d'. \<exists>t now. tenants d (schema, prefix) = Some t \<and>
      d' = with_tenant (schema, prefix) (t\<lparr>jobs := update_rows (active_job jid) (replaced_row now jid) (jobs t)\<rparr>) d"
  show "triple (live d schema (\<lambda>d'. d' = d)) (tstmt prefix (sql_retire jid (job_id new_job))) (ran d schema ?R)"
    unfolding tstmt_def
    by (rule ran_stmt)
      (auto simp: on_tenant_Ok' sql_retire_def active_job_def [abs_def] replaced_row_def [abs_def] assms(2))
  show "triple (live d schema (?R u)) (tstmt prefix (sql_insert_version prefix jid new_job))
      (ran d schema (job_swapped (schema, prefix) jid \<Phi> d))" for u
    unfolding tstmt_def
    by (rule ran_stmt)
      (auto simp: on_tenant_Ok' sql_insert_version_def insert_job_Ok job_swapped_def assms(1)
        job_id_update_rows dest!: job_violation_new, (rule exI, rule refl)+)
qed

lemma replace_job_ended:
  assumes ran: "triple (live d schema (\<lambda>d'. d' = d)) (retire_and_replace prefix jid new_job :: ('x, job_row) db_prog)
    (ran d schema (job_swapped (schema, prefix) jid \<Phi> d))"
  shows "triple (idle d) (replace_job x prefix schema jid new_job expr :: 'x handler)
    (ended d (\<lambda>resp d'. resp_status resp = 200 \<and> (\<exists>j d1. job_swapped (schema, prefix) jid \<Phi> d j d1 \<and>
       d' = d1\<lparr>cron_job := (cron_job d)(cron_job_name schema jid := None,
                  cron_job_name schema (job_id j) \<mapsto> (expr, Cron_Command prefix schema (job_id j)))\<rparr>)))"
  unfolding replace_job_def
  by (rule ended_transaction, rule ending_tryS [OF ran_sqlS [OF ran]],
      rule ending_tryS [OF ran_sqlS [OF unregister_ran]], rule ending_tryS [OF ran_sqlS [OF register_ran]],
      rule ending_commit, clarsimp simp: json_response_def, frule job_swapped_cron, intro exI conjI, assumption) simp

lemma handle_jobs_update_ended:
  "triple (idle d) (handle_jobs_update x checks prefix schema jid body)
    (ended d (\<lambda>resp d'. resp_status resp = 200 \<and> job_updated x checks (schema, prefix) jid body d d'))"
  unfolding handle_jobs_update_def Let_def
proof (rule ended_connection, rule ended_knows [OF triple_gets(3)], rule ended_ok_orS, erule on_idle,
    rule triple_ite, rule ended_err, erule on_idle, rule triple_ite, rule ended_err, erule on_idle,
    rule triple_ite, rule ended_err, erule on_idle, rule ended_pure, erule on_idle, rule ended_pure, erule on_idle,
    rule triple_ite, rule ended_err, erule on_idle, rule triple_bind [where R = "\<lambda>_. on d schema"])
  show "triple (on d schema) utc_now (\<lambda>_. on d schema)" by (auto simp: triple_def)
  fix found old expr sch
  assume old: "seen d schema prefix (\<lambda>t. List.find (\<lambda>j. job_id j = jid) (jobs t)) found" "found = Some old"
    and cron: "\<not> trigger_type old \<noteq> ''CRON''" "\<not> job_status old \<noteq> ''ACTIVE''"
    and user: "endpoint_type_from_str (job_endpoint_type old) \<noteq> Some INTERNAL"
    and expr: "update_cron_expr x body old = Ok expr"
  fix now
  show "triple (on d schema)
      (tryS (ok_orS (compute_next_cron x sch (update_timezone body old) now) (InvalidCron ''No upcoming run'')) (\<lambda>next_run.
       tryS (State_Monad.return (arith_i64 checks (version old + 1))) (\<lambda>v.
       replace_job x prefix schema jid (new_version body old expr (update_timezone body old) next_run v) expr)))
      (ended d (\<lambda>resp d'. resp_status resp = 200 \<and> job_updated x checks (schema, prefix) jid body d d'))"
  proof (rule ended_ok_orS, erule on_idle, rule ended_pure, erule on_idle)
    fix next_run v
    assume v: "arith_i64 checks (version old + 1) = Ok v"
    from old have id: "job_id old = jid" by (auto simp: seen_def find_Some_iff)
    let ?new = "new_version body old expr (update_timezone body old) next_run v"
    have ran: "triple (live d schema (\<lambda>d'. d' = d)) (retire_and_replace prefix jid ?new)
        (ran d schema (job_swapped (schema, prefix) jid (version_of x checks body old expr) d))"
      by (rule retire_and_replace_ran)
        (use expr v id in \<open>auto simp: version_of_def new_version_def job_defaults_def arith_i64_def
          split: if_splits option.split\<close>)
    have "job_endpoint_type old \<noteq> ''INTERNAL''" using user by (auto simp: endpoint_type_from_str_def)
    with old cron have fin: "job_swapped (schema, prefix) jid (version_of x checks body old expr) d j d1 \<Longrightarrow>
        job_updated x checks (schema, prefix) jid body d (d1\<lparr>cron_job := (cron_job d)(cron_job_name schema jid := None,
          cron_job_name schema (job_id j) \<mapsto> (expr, Cron_Command prefix schema (job_id j)))\<rparr>)" for j d1
      unfolding job_updated_def job_swapped_def seen_def
      by (elim exE conjE, rule_tac x = t in exI, rule_tac x = old in exI, rule_tac x = j in exI, rule_tac x = expr in exI,
          rule_tac x = now in exI) auto
    show "triple (on d schema) (replace_job x prefix schema jid ?new expr)
        (ended d (\<lambda>resp d'. resp_status resp = 200 \<and> job_updated x checks (schema, prefix) jid body d d'))"
      by (intro ended_on ended_mono [OF replace_job_ended [OF ran]]) (auto intro: fin)
  qed
qed

end
