(* ===== verification/Service.thy ===== *)
theory Service
  imports Routing Job_Api
begin

text \<open>
  Service mode end to end: the HTTP client of \<open>crates/worker/src/client.rs\<close> against the application of
  \<open>Routing\<close>. \<open>deliver\<close> is the way of a call to the server, without losses; the lemmas show that every call
  of the client is routed to the handler it means, with the body it means.
\<close>

section \<open>The wire\<close>

text \<open>A URL is cut at its question mark. A panic of the server closes the connection.\<close>

definition incoming_of :: "actix \<Rightarrow> string \<Rightarrow> http_call \<Rightarrow> incoming option" where
  "incoming_of ax origin call =
     map_option (\<lambda>target.
       \<lparr>in_method = call_method call, in_path = takeWhile (\<lambda>c. c \<noteq> CHR ''?'') target,
        in_query = drop 1 (dropWhile (\<lambda>c. c \<noteq> CHR ''?'') target), in_headers = call_headers call,
        in_body = (case call_body call of Some j \<Rightarrow> Ok j | None \<Rightarrow> Err (ax_no_body ax))\<rparr>)
       (strip_prefix origin (call_url call))"

definition hang_up :: "('s, 'a, string) prog \<Rightarrow> ('s, 'a, string) prog" where
  "hang_up m = State_Monad.bind m (\<lambda>r. State_Monad.return (case r of Panic p \<Rightarrow> Err p | r \<Rightarrow> r))"

definition deliver ::
  "actix \<Rightarrow> ext \<Rightarrow> app_config \<Rightarrow> string \<Rightarrow> string \<Rightarrow> 'c option \<Rightarrow> nat list \<Rightarrow> string \<Rightarrow> http_call \<Rightarrow>
   ('x pg_scheme, nat \<times> string, string) prog" where
  "deliver ax x cfg origin api who nonce rid call =
     (case incoming_of ax origin call of
        None \<Rightarrow> err ''connection refused''
      | Some q \<Rightarrow> hang_up (app ax x cfg api who nonce rid q))"

text \<open>Names that stand for themselves in a URL.\<close>

definition plain :: "string \<Rightarrow> bool" where
  "plain s \<longleftrightarrow> s \<noteq> [] \<and> list_all (\<lambda>c. is_ascii_alphanumeric c \<or> c = CHR ''-'' \<or> c = CHR ''_'') s"

definition served_at :: "http_client \<Rightarrow> string \<Rightarrow> string \<Rightarrow> string \<Rightarrow> bool" where
  "served_at c ws origin api \<longleftrightarrow>
     trim_end_matches (CHR ''/'') (hc_base_url c) = origin @ api \<and> CHR ''?'' \<notin> set api \<and>
     list_all visible (hc_org_id c) \<and> list_all visible ws"

section \<open>Requests arrive as they are meant\<close>

lemma plain_chars: "plain s \<Longrightarrow> CHR ''/'' \<notin> set s \<and> CHR ''?'' \<notin> set s \<and> s \<noteq> []"
  by (auto simp: plain_def list_all_iff is_ascii_alphanumeric_def is_ascii_lowercase_def
      is_ascii_uppercase_def is_ascii_digit_def)

lemma lower_names:
  "map to_ascii_lower ''x-request-id'' = ''x-request-id''" "map to_ascii_lower ''x-org-id'' = ''x-org-id''"
  "map to_ascii_lower ''x-workspace-id'' = ''x-workspace-id''" "map to_ascii_lower ''Authorization'' = ''authorization''"
  by code_simp+

definition received ::
  "actix \<Rightarrow> (string \<times> string) list \<Rightarrow> string \<Rightarrow> string \<Rightarrow> string \<Rightarrow> string \<Rightarrow> json option \<Rightarrow> string \<Rightarrow> incoming" where
  "received ax hs api meth path query body rid =
     \<lparr>in_method = meth, in_path = api @ ''/v1'' @ path, in_query = query, in_headers = (''x-request-id'', rid) # hs,
      in_body = (case body of Some j \<Rightarrow> Ok j | None \<Rightarrow> Err (ax_no_body ax))\<rparr>"

lemma call_received:
  assumes "call_url call = origin @ api @ ''/v1'' @ path @ qs" and "CHR ''?'' \<notin> set api" and "CHR ''?'' \<notin> set path"
    and "qs = [] \<or> hd qs = CHR ''?''"
    and "\<forall>(k, _) \<in> set (call_headers call). map to_ascii_lower k \<noteq> ''x-request-id''"
  shows "map_option (with_request_id rid) (incoming_of ax origin call) =
    Some (received ax (call_headers call) api (call_method call) path (drop 1 qs) (call_body call) rid)"
proof -
  let ?p = "api @ ''/v1'' @ path"
  have p: "\<forall>ch \<in> set ?p. ch \<noteq> CHR ''?''" using assms(2,3) by auto
  have "takeWhile (\<lambda>ch. ch \<noteq> CHR ''?'') (?p @ qs) = ?p" "dropWhile (\<lambda>ch. ch \<noteq> CHR ''?'') (?p @ qs) = qs"
    using p assms(4) by (cases qs; simp only: takeWhile_append2 dropWhile_append2; simp)+
  moreover have "strip_prefix origin (call_url call) = Some (?p @ qs)" by (simp add: assms(1))
  ultimately have "incoming_of ax origin call = Some
      \<lparr>in_method = call_method call, in_path = ?p, in_query = drop 1 qs, in_headers = call_headers call,
       in_body = (case call_body call of Some j \<Rightarrow> Ok j | None \<Rightarrow> Err (ax_no_body ax))\<rparr>"
    unfolding incoming_of_def by (simp only: option.map)
  moreover have "filter (\<lambda>(k, _). map to_ascii_lower k \<noteq> ''x-request-id'') (call_headers call) = call_headers call"
    using assms(5) by (auto intro: filter_True)
  ultimately show ?thesis by (simp add: with_request_id_def received_def)
qed

text \<open>A call to a route of a workspace is answered by its handler, once the workspace is found.\<close>

lemma deliver_workspaced:
  assumes "incoming_of ax origin call = Some q0" and "with_request_id rid q0 = q"
    and "header q ''x-org-id'' = Some org" and "header q ''x-workspace-id'' = Some ws"
    and "route_of ax x nonce api q = Some (Workspaced f, cs)"
    and "run_state (resolve_schema org ws) s = (found, s0)"
  shows "run_state (deliver ax x cfg origin api (Some who) nonce rid call) s =
    (case found of
       Ok (Some sch) \<Rightarrow> (case f sch cs q of
           Ok req \<Rightarrow> run_state (service x (serve x cfg req)) s0
         | Err e \<Rightarrow> (Ok e, s0)
         | Panic p \<Rightarrow> (Err p, s0))
     | Ok None \<Rightarrow> (Ok (sent x (extractor_error 404 ''WORKSPACE_NOT_FOUND'' (''Workspace '' @ ws @ '' not found in org '' @ org))), s0)
     | Err e \<Rightarrow> (Ok (sent x (extractor_error 500 ''INTERNAL_ERROR'' ''Failed to resolve workspace'')), s0)
     | Panic p \<Rightarrow> (Err p, s0))"
  using assms
  by (auto simp: deliver_def app_def hang_up_def answerS_def workspace_from_request_def authenticated_request_def
      ok_orS_def service_def http_answer_def sent_def split: prod.splits outcome.splits option.splits)

lemma deliver_management:
  assumes "incoming_of ax origin call = Some q0" and "with_request_id rid q0 = q"
    and "route_of ax x nonce api q = Some (Management f, cs)" and "f cs q = Ok req"
  shows "run_state (deliver ax x cfg origin api (Some who) nonce rid call) s = run_state (service x (serve x cfg req)) s"
  using assms
  by (auto simp: deliver_def app_def hang_up_def answerS_def authenticated_request_def service_def http_answer_def sent_def
      split: prod.splits outcome.splits)

section \<open>The calls of the client\<close>

abbreviation arrived ::
  "actix \<Rightarrow> http_client \<Rightarrow> string \<Rightarrow> string \<Rightarrow> string \<Rightarrow> string \<Rightarrow> json option \<Rightarrow> string \<Rightarrow> incoming" where
  "arrived ax c ws api meth path body rid \<equiv> received ax
     [(''x-org-id'', hc_org_id c), (''x-workspace-id'', ws), (''Authorization'', ''Bearer '' @ hc_api_key c)]
     api meth path [] body rid"

lemma ws_call_arrives:
  assumes "served_at c ws origin api" and "CHR ''?'' \<notin> set path"
  shows "map_option (with_request_id rid) (incoming_of ax origin (ws_call c ws meth path body)) =
    Some (arrived ax c ws api meth path body rid)"
proof -
  let ?call = "ws_call c ws meth path body"
  have call: "call_method ?call = meth" "call_body ?call = body" "call_headers ?call =
      [(''x-org-id'', hc_org_id c), (''x-workspace-id'', ws), (''Authorization'', ''Bearer '' @ hc_api_key c)]"
    by (simp_all add: ws_call_def authed_def with_workspace_def plain_call_def)
  have "call_url ?call = origin @ api @ ''/v1'' @ path @ []"
    using assms(1) by (simp add: ws_call_def authed_def with_workspace_def plain_call_def hc_url_def served_at_def)
  from call_received [OF this _ assms(2), of rid ax] assms(1) show ?thesis
    by (simp add: call served_at_def lower_names del: list.map)
qed

lemma arrived_headers:
  assumes "served_at c ws origin api"
  shows "header (arrived ax c ws api meth path body rid) ''x-org-id'' = Some (hc_org_id c)"
    and "header (arrived ax c ws api meth path body rid) ''x-workspace-id'' = Some ws"
  using assms by (simp_all add: header_def received_def served_at_def lower_names del: list.map)

lemma deliver_served:
  assumes "served_at c ws origin api" and "CHR ''?'' \<notin> set path"
    and "route_of ax x nonce api (arrived ax c ws api meth path body rid) = Some (Workspaced f, cs)"
    and "run_state (resolve_schema (hc_org_id c) ws) s = (Ok (Some sch), s0)"
    and "f sch cs (arrived ax c ws api meth path body rid) = Ok req"
  shows "run_state (deliver ax x cfg origin api (Some who) nonce rid (ws_call c ws meth path body)) s =
    run_state (service x (serve x cfg req)) s0"
proof -
  from ws_call_arrives [OF assms(1,2), of rid ax meth body] obtain q where
    q: "incoming_of ax origin (ws_call c ws meth path body) = Some q"
      "with_request_id rid q = arrived ax c ws api meth path body rid" by auto
  from deliver_workspaced [OF q arrived_headers [OF assms(1)] assms(3,4), of cfg who] assms(5) show ?thesis by simp
qed

lemma deliver_cases:
  assumes "served_at c ws origin api" and "CHR ''?'' \<notin> set path"
    and "route_of ax x nonce api (arrived ax c ws api meth path body rid) = Some (Workspaced f, cs)"
    and "run_state (resolve_schema (hc_org_id c) ws) s = (found, s0)"
    and "run_state (deliver ax x cfg origin api (Some who) nonce rid (ws_call c ws meth path body)) s = (ans, s')"
    and "\<And>sch e. f sch cs (arrived ax c ws api meth path body rid) = Err e \<Longrightarrow> \<not> is_success (fst e)"
  shows "s' = s0 \<and> (\<forall>a. ans = Ok a \<longrightarrow> \<not> is_success (fst a)) \<or>
    (\<exists>sch req. found = Ok (Some sch) \<and> f sch cs (arrived ax c ws api meth path body rid) = Ok req \<and>
       run_state (service x (serve x cfg req)) s0 = (ans, s'))"
proof -
  from ws_call_arrives [OF assms(1,2), of rid ax meth body] obtain q where
    q: "incoming_of ax origin (ws_call c ws meth path body) = Some q"
      "with_request_id rid q = arrived ax c ws api meth path body rid" by auto
  from deliver_workspaced [OF q arrived_headers [OF assms(1)] assms(3,4), of cfg who] assms(5,6) show ?thesis
    by (auto simp: sent_def extractor_error_def json_response_def is_success_def split: outcome.splits option.splits)
qed

section \<open>The routes of the client\<close>

lemma segments_v1:
  "CHR ''/'' \<notin> set a \<Longrightarrow> segments (''/v1/'' @ a) = [[], ''v1'', a]"
  "CHR ''/'' \<notin> set a \<Longrightarrow> CHR ''/'' \<notin> set b \<Longrightarrow> segments (''/v1/'' @ a @ CHR ''/'' # b) = [[], ''v1'', a, b]"
  "CHR ''/'' \<notin> set a \<Longrightarrow> CHR ''/'' \<notin> set b \<Longrightarrow> CHR ''/'' \<notin> set e \<Longrightarrow>
     segments (''/v1/'' @ a @ CHR ''/'' # b @ CHR ''/'' # e) = [[], ''v1'', a, b, e]"
  by (simp_all add: segments_def split_char_append)

lemma route_of_received:
  "route_of ax x nonce api (received ax hs api meth path query body rid) =
     map_option (\<lambda>(r, cs). (r, map (ax_decode ax) cs)) (find_route (api_routes ax x nonce) meth (segments (''/v1'' @ path)))"
  by (simp add: route_of_def received_def strip_prefix_def starts_with_iff)

lemma route_executions_get:
  assumes "plain eid" and "ax_decode ax eid = eid"
  shows "\<exists>f. route_of ax x nonce api (arrived ax c ws api ''GET'' (''/executions/'' @ eid) body rid) = Some (Workspaced f, [eid]) \<and>
    (\<forall>sch q. f sch [eid] q = Ok (Executions_Get sch eid))"
  using segments_v1(2) [of "''executions''" eid] plain_chars [OF assms(1)] assms(2)
  by (simp add: route_of_received api_routes_def segments_def starts_with_def)

lemma route_jobs_create:
  "\<exists>f. route_of ax x nonce api (arrived ax c ws api ''POST'' ''/jobs'' body rid) = Some (Workspaced f, []) \<and>
    (\<forall>sch q. f sch [] q = with_body ax x (read_create_job x) q (Jobs_Create sch))"
  by (simp add: route_of_received api_routes_def segments_def starts_with_def)

section \<open>The body of a job\<close>

text \<open>The request the arguments of \<open>create_job\<close> mean.\<close>

fun asked_job :: "string \<Rightarrow> json \<Rightarrow> int \<Rightarrow> job_trigger \<Rightarrow> string option \<Rightarrow> create_job" where
  "asked_job ep inp n trigger key =
     (let base = \<lparr>cj_endpoint = ep, cj_trigger = ''IMMEDIATE'', cj_idempotency_key = key,
        cj_input = (if inp = JNull then None else Some inp), cj_max_attempts = (if n > 0 then Some n else None),
        cj_run_at = None, cj_cron = None, cj_timezone = None, cj_starts_at = None, cj_ends_at = None\<rparr> in
      case trigger of
        Immediate \<Rightarrow> base
      | Delayed t \<Rightarrow> base\<lparr>cj_trigger := ''DELAYED'', cj_run_at := Some t\<rparr>
      | Cron expr tz starts ends _ \<Rightarrow> base\<lparr>cj_trigger := ''CRON'', cj_cron := Some expr, cj_timezone := Some tz,
          cj_starts_at := starts, cj_ends_at := ends\<rparr>)"

lemma de_str_JStr [simp]: "de_str (Some (JStr s)) = Some s"
  by (simp add: de_str_def)

lemma de_time_jts:
  assumes "\<And>t. deserialize_opt x (Some (ts_rfc3339 x t)) = Ok (Some t)"
  shows "de_time x (Some (jts x t)) = Some (Some t)" and "de_time x (Some (jts_opt x o')) = Some o'"
    and "de_time x None = Some None"
  by (auto simp: de_time_def de_opt_def jts_def jts_opt_def jopt_def assms deserialize_opt_def [of x None] split: option.split)

lemma de_opt_JStr [simp]: "de_opt as_str (Some (JStr s)) = Some (Some s)"
  by (simp add: de_opt_def)

lemma de_opt_Some_value: "de_opt Some (Some v) = Some (if v = JNull then None else Some v)"
  by (cases v) (simp_all add: de_opt_def)

lemma struct_fields_jobj: "struct_fields d names (jobj kvs) = Some (map (map_of (rev kvs)) names)"
proof -
  have "jget (jobj kvs) = map_of (rev kvs)" by (rule ext) (rule jget_jobj)
  then show ?thesis by (simp add: struct_fields_def jobj_def)
qed

lemma de_cron_JStr: "de_cron x (Some (JStr s)) = Some v \<Longrightarrow> v = Some s"
  by (auto simp: de_cron_def de_opt_def pg_cron_try_from_def Let_def split: if_splits option.splits)

lemma de_cron_None: "de_cron x None = Some None"
  by (simp add: de_cron_def)

lemma job_body_read:
  assumes "\<And>t. deserialize_opt x (Some (ts_rfc3339 x t)) = Ok (Some t)" and "in_i64 n"
    and "read_create_job x (job_body x ep inp n trigger key) = Some b"
  shows "b = asked_job ep inp n trigger key"
proof -
  have n: "de_opt as_i64 (Some (JInt n)) = Some (Some n)" using assms(2) by (simp add: de_opt_def)
  note read = read_create_job_def job_body_def struct_fields_jobj bind_eq_Some_conv de_opt_Some_value
  show ?thesis
  proof (cases trigger)
    case Immediate
    then show ?thesis using assms(3) n de_time_jts(3) [OF assms(1)]
      by (cases key; cases "n > 0") (auto simp: read de_cron_None Let_def)
  next
    case (Delayed t)
    then show ?thesis using assms(3) n de_time_jts(3) [OF assms(1)] de_time_jts(1) [OF assms(1), of t]
      by (cases key; cases "n > 0") (auto simp: read de_cron_None Let_def)
  next
    case (Cron expr tz starts ends fr)
    then show ?thesis
      using assms(3) n de_time_jts(3) [OF assms(1)] de_time_jts(2) [OF assms(1), of starts] de_time_jts(2) [OF assms(1), of ends]
      by (cases key; cases "n > 0") (auto simp: read Let_def dest!: de_cron_JStr)
  qed
qed

section \<open>Whole calls\<close>

lemma resolve_schema_reads:
  assumes "run_state (resolve_schema org ws) s = (found, s0)" and "pg_tx s = None"
  shows "pg_db s0 = pg_db s" and "pg_tx s0 = None"
  using assms by (auto simp: resolve_schema_def stmt_def Let_def split: outcome.splits if_splits prod.splits)

lemma with_body_received:
  "with_body ax x read (received ax hs api meth path query (Some j) rid) mk =
     (case read j of
        Some b \<Rightarrow> Ok (mk b)
      | None \<Rightarrow> Err (sent x (json_error_handler (ax_payload_error ax j) (received ax hs api meth path query (Some j) rid))))"
  by (simp add: with_body_def body_of_def received_def split: option.split)

lemma service_run:
  assumes "run_state (service x h) s0 = (ans, s')"
  shows "\<exists>r. run_state h s0 = (r, s') \<and> ans = http_answer x r"
  using assms by (auto simp: service_def split: prod.splits)

lemma http_answer_error: "http_answer x (Err e) = Ok a \<Longrightarrow> \<not> is_success (fst a)"
  by (cases e) (auto simp: http_answer_def error_response_def is_success_def)

lemma deliver_job:
  assumes "served_at c ws origin api" and "pg_tx s = None"
    and "run_state (deliver ax x cfg origin api (Some who) nonce rid (ws_call c ws ''POST'' ''/jobs'' (Some j))) s = (ans, s')"
  shows "pg_db s' = pg_db s \<and> pg_tx s' = None \<and> (\<forall>a. ans = Ok a \<longrightarrow> \<not> is_success (fst a)) \<or>
    (\<exists>sch s0 b r. run_state (resolve_schema (hc_org_id c) ws) s = (Ok (Some sch), s0) \<and> read_create_job x j = Some b \<and>
       run_state (handle_jobs_create x (app_prefix cfg) sch b) s0 = (r, s') \<and> ans = http_answer x r)"
proof -
  obtain found s0 where res: "run_state (resolve_schema (hc_org_id c) ws) s = (found, s0)" by fastforce
  from route_jobs_create obtain f where
    f: "route_of ax x nonce api (arrived ax c ws api ''POST'' ''/jobs'' (Some j) rid) = Some (Workspaced f, [])"
      "\<And>sch q. f sch [] q = with_body ax x (read_create_job x) q (Jobs_Create sch)" by metis
  have "s' = s0 \<and> (\<forall>a. ans = Ok a \<longrightarrow> \<not> is_success (fst a)) \<or>
    (\<exists>sch req. found = Ok (Some sch) \<and> f sch [] (arrived ax c ws api ''POST'' ''/jobs'' (Some j) rid) = Ok req \<and>
       run_state (service x (serve x cfg req)) s0 = (ans, s'))"
    by (rule deliver_cases [OF assms(1) _ f(1) res assms(3)])
      (auto simp: f(2) with_body_received sent_def json_error_handler_def json_response_def is_success_def split: option.splits)
  then show ?thesis
  proof
    assume "\<exists>sch req. found = Ok (Some sch) \<and> f sch [] (arrived ax c ws api ''POST'' ''/jobs'' (Some j) rid) = Ok req \<and>
       run_state (service x (serve x cfg req)) s0 = (ans, s')"
    then obtain sch b where "found = Ok (Some sch)" "read_create_job x j = Some b"
      "run_state (service x (handle_jobs_create x (app_prefix cfg) sch b)) s0 = (ans, s')"
      by (auto simp: f(2) with_body_received split: option.splits)
    with service_run [OF this(3)] res show ?thesis by blast
  qed (use resolve_schema_reads [OF res assms(2)] in auto)
qed

lemma http_create_job_run:
  assumes "run_state (http_create_job x net c ws ep inp n trigger key) s = (r, s')"
  shows "\<exists>ans. run_state (net_send net (ws_call c ws ''POST'' ''/jobs'' (Some (job_body x ep inp n trigger key)))) s = (ans, s') \<and>
    (\<forall>v. r = Ok v \<longrightarrow> (\<exists>a. ans = Ok a \<and> is_success (fst a)))"
  using assms by (auto simp: http_create_job_def http_check_def split: prod.splits outcome.splits if_splits)

end
