(* ===== verification/Samples.thy ===== *)
theory Samples
  imports Service "HOL-Library.Countable"
begin

text \<open>
  Concrete inputs: a tenant with an HTTP endpoint and a
  waiting execution, a database with that tenant, connections to it, and a service with a client.
\<close>

definition sample_job :: job_row where
  "sample_job =
     \<lparr>job_id = ''j1'', job_endpoint = ''hook'', job_endpoint_type = ''HTTP'', trigger_type = ''IMMEDIATE'',
      job_status = ''ACTIVE'', version = 1, previous_version_id = None, replaced_by_id = None,
      job_idempotency_key = Some ''k1'', job_input = None, job_run_at = None, cron_expression = None,
      cron_timezone = None, cron_starts_at = None, cron_ends_at = None, cron_next_run_at = None,
      cron_last_tick_at = None, job_created_at = 10, retired_at = None\<rparr>"

definition sample_cron_job :: job_row where
  "sample_cron_job = sample_job\<lparr>job_id := ''c1'', trigger_type := ''CRON'', job_idempotency_key := None,
     cron_expression := Some ''* * * * *'', cron_timezone := Some ''UTC''\<rparr>"

definition sample_execution :: execution_row where
  "sample_execution =
     \<lparr>execution_id = ''e1'', exec_job_id = ''j1'', exec_endpoint = ''hook'', exec_endpoint_type = ''HTTP'',
      exec_idempotency_key = Some ''k1'', exec_status = ''QUEUED'', exec_input = None, exec_output = None,
      attempt_count = 0, exec_max_attempts = 3, worker_id = None, exec_run_at = 10, started_at = None,
      completed_at = None, duration_ms = None, exec_created_at = 10\<rparr>"

definition sample_tenant :: tenant where
  "sample_tenant = empty_tenant\<lparr>endpoints := [sample_endpoint ''hook''], jobs := [sample_job, sample_cron_job],
     executions := [sample_execution]\<rparr>"

definition sample_org :: org_row where
  "sample_org = \<lparr>org_id = ''o1'', org_name = ''Acme'', org_slug = ''acme'', org_status = ''ACTIVE'',
     org_created_at = 0, org_updated_at = 0\<rparr>"

definition sample_db :: database where
  "sample_db = \<lparr>organizations = [sample_org], workspaces = [],
     tenants = (\<lambda>k. if k = (''acme'', '''') then Some sample_tenant else None), cron_job = (\<lambda>_. None)\<rparr>"

definition sample_pg :: pg where
  "sample_pg = \<lparr>pg_db = sample_db, pg_path = ''public'', pg_tx = None, pg_clock = 100, pg_delays = [],
     pg_faults = [], pg_uuid = (\<lambda>n. ''u'' @ show_nat n), pg_next = 0, pg_locked = []\<rparr>"

definition sample_worker :: worker where
  "sample_worker = \<lparr>pg_db = sample_db, pg_path = ''public'', pg_tx = None, pg_clock = 100, pg_delays = [],
     pg_faults = [], pg_uuid = (\<lambda>n. ''u'' @ show_nat n), pg_next = 0, pg_locked = [],
     wk_configs = \<lparr>cc_entries = (\<lambda>_. None), cc_ttl = 60\<rparr>, wk_secrets = \<lparr>sc_entries = (\<lambda>_. None), sc_ttl = 60\<rparr>, wk_sent = [],
     wk_refused = (\<lambda>_. None), wk_http = (\<lambda>_ _. Http_Response 200 ''done''), wk_kafka = (\<lambda>_ _. Kafka_Error ''''),
     wk_redis = (\<lambda>_ _. Redis_Error '''')\<rparr>"

definition sample_ctx :: pipeline_ctx where
  "sample_ctx = \<lparr>ctx_encryption_key = ''00'', ctx_table_prefix = '''', ctx_kafka = False,
     ctx_redis_stream = False, ctx_overflow_checks = True\<rparr>"

section \<open>A short history\<close>

definition sample_app :: app_config where
  "sample_app = \<lparr>app_prefix = [], app_encryption_key = ''00'', app_reaper_cron = ''* * * * *'',
     app_overflow_checks = True\<rparr>"

text \<open>One request, with ids of its own.\<close>

definition sample_request :: "string \<Rightarrow> request \<Rightarrow> database \<Rightarrow> database" where
  "sample_request tag req d =
     committed (snd (run_state (serve sample_ext sample_app req)
       (sample_pg\<lparr>pg_db := d, pg_uuid := (\<lambda>n. tag @ show_nat n)\<rparr>)))"

definition sample_poll :: "string \<Rightarrow> database \<Rightarrow> database" where
  "sample_poll schema d =
     committed (snd (run_state (claim_and_process sample_ext sample_ctx ''w1'' [schema]) (sample_worker\<lparr>pg_db := d\<rparr>)))"

definition sample_new_endpoint :: create_endpoint where
  "sample_new_endpoint = \<lparr>ce_name = ''hook'', ce_type = ''HTTP'', ce_payload_spec = None, ce_config = None,
     ce_spec = jobj [(''url'', JStr ''http://h/'')], ce_retry_policy = None\<rparr>"

definition sample_new_job :: create_job where
  "sample_new_job = \<lparr>cj_endpoint = ''hook'', cj_trigger = ''IMMEDIATE'', cj_idempotency_key = Some ''k9'',
     cj_input = None, cj_max_attempts = None, cj_run_at = None, cj_cron = None, cj_timezone = None,
     cj_starts_at = None, cj_ends_at = None\<rparr>"

definition sample_update :: update_job where
  "sample_update = \<lparr>uj_cron = Some ''*/5 * * * *'', uj_timezone = None, uj_input = None, uj_starts_at = None,
     uj_ends_at = None\<rparr>"

text \<open>An organization, a workspace, an endpoint and a job are created; a worker then runs the job.\<close>

definition sample_schema :: string where "sample_schema = ''a1_prod''"

definition sample_created :: database where
  "sample_created =
     sample_request ''d'' (Jobs_Create sample_schema sample_new_job)
       (sample_request ''c'' (Endpoints_Create sample_schema sample_new_endpoint)
         (sample_request ''b'' (Workspaces_Create ''acme'' ''Production'' ''prod'')
           (sample_request ''a'' (Orgs_Create ''Acme'' ''acme'') empty_database)))"

definition sample_processed :: database where
  "sample_processed = sample_poll sample_schema sample_created"

lemma system_step_sample_request: "system_step sample_ext d (sample_request tag req d)"
proof -
  let ?s = "sample_pg\<lparr>pg_db := d, pg_uuid := (\<lambda>n. tag @ show_nat n)\<rparr>"
  obtain r s' where run: "run_state (serve sample_ext sample_app req) ?s = (r, s')" by fastforce
  have "pg_tx ?s = None" by (simp add: sample_pg_def)
  from system_step.request [OF this run] show ?thesis unfolding sample_request_def run by simp
qed

lemma system_step_sample_poll: "system_step sample_ext d (sample_poll schema d)"
proof -
  let ?w = "sample_worker\<lparr>pg_db := d\<rparr>"
  obtain r w' where run: "run_state (claim_and_process sample_ext sample_ctx ''w1'' [schema]) ?w = (r, w')" by fastforce
  have "pg_tx ?w = None" by (simp add: sample_worker_def)
  from system_step.poll [OF this run] show ?thesis unfolding sample_poll_def run by simp
qed

lemma sample_created_reached: "system_reach sample_ext sample_created"
  unfolding sample_created_def
  by (rule rtranclp.rtrancl_into_rtrancl, rule rtranclp.rtrancl_into_rtrancl, rule rtranclp.rtrancl_into_rtrancl,
      rule rtranclp.rtrancl_into_rtrancl, rule rtranclp.rtrancl_refl, (rule system_step_sample_request)+)

lemma sample_processed_reached: "system_reach sample_ext sample_processed"
  unfolding sample_processed_def
  by (rule rtranclp.rtrancl_into_rtrancl, rule sample_created_reached, rule system_step_sample_poll)

lemma sample_created_rows:
  "map_option (map exec_status \<circ> executions) (tenants sample_created (sample_schema, [])) = Some [''QUEUED'']"
  by code_simp

lemma sample_processed_rows:
  "map_option (map (\<lambda>e. (exec_status e, attempt_count e)) \<circ> executions)
     (tenants sample_processed (sample_schema, [])) = Some [(''SUCCESS'', 1)]"
  by code_simp

section \<open>A service and its client\<close>

instance json :: countable
  by countable_datatype

definition sample_codec :: ext where
  "sample_codec = sample_ext\<lparr>json_to_string := (\<lambda>j. replicate (to_nat j) (CHR ''x'')),
     ts_rfc3339 := (\<lambda>t. replicate (Suc (to_nat t)) (CHR ''x'')),
     parse_rfc3339 := (\<lambda>s. Some (from_nat (length s - 1)))\<rparr>"

definition sample_actix :: actix where
  "sample_actix = \<lparr>ax_decode = (\<lambda>s. s), ax_query = (\<lambda>_. Ok []), ax_query_error = (\<lambda>_. (400, [])),
     ax_payload_error = (\<lambda>_. ''mismatch''), ax_no_body = ''no body'', ax_not_found = (404, []), ax_metrics = []\<rparr>"

definition sample_net :: "pg net" where
  "sample_net = \<lparr>net_send = deliver sample_actix sample_codec sample_app ''http://invokr'' [] (Some ()) [] ''r1'',
     net_status = show_nat, net_json = (\<lambda>s. Ok (from_nat (length s))),
     net_datetime = (\<lambda>s. Some (from_nat (length s - 1))), net_mismatch = (\<lambda>_. [])\<rparr>"

definition sample_client :: http_client where
  "sample_client = \<lparr>hc_base_url = ''http://invokr/'', hc_api_key = ''k'', hc_org_id = ''acme''\<rparr>"

text \<open>A connection to the database after the short history, in which the workspace is found.\<close>

definition sample_site :: pg where
  "sample_site = sample_pg\<lparr>pg_db := sample_created\<rparr>"

lemma sample_net_laws:
  "net_json sample_net (json_to_string sample_codec j) = Ok j"
  "net_datetime sample_net (ts_rfc3339 sample_codec t) = Some t"
  by (simp_all add: sample_net_def sample_codec_def)

lemma trim_replicate_x: "trim (replicate (Suc n) (CHR ''x'')) = replicate (Suc n) (CHR ''x'')"
  by (rule trim_id) (simp_all add: ascii_visible_def hd_replicate last_replicate del: replicate_Suc)

lemma sample_codec_times: "deserialize_opt sample_codec (Some (ts_rfc3339 sample_codec t)) = Ok (Some t)"
  using trim_replicate_x [of "to_nat t"] by (simp add: deserialize_opt_def sample_codec_def flexible_parse_def)

lemma sample_client_served: "served_at sample_client ''prod'' ''http://invokr'' []"
  by code_simp

lemma sample_site_resolves:
  "fst (run_state (resolve_schema ''acme'' ''prod'') sample_site) = Ok (Some sample_schema)"
  by code_simp

lemma sample_site_execution:
  "map_option (\<lambda>e. (attempt_count e, exec_max_attempts e, duration_ms e, exec_input e, exec_output e))
     (case run_state (client_get_execution [] sample_schema ''d7'')
        (snd (run_state (resolve_schema ''acme'' ''prod'') sample_site)) of (Ok found, _) \<Rightarrow> found | _ \<Rightarrow> None) =
   Some (0, 1, None, None, None)"
  by code_simp

end
