(* ===== verification/Isolation.thy ===== *)
theory Isolation
  imports Job_Api System
begin

text \<open>
  Tenants do not touch each other. \<open>apart k d0 d\<close> says that the databases agree on every tenant but
  \<open>k\<close>; \<open>within\<close> is a connection bound to the schema of \<open>k\<close> that has kept to it. A statement on a
  prefixed table moves only the tenant of the search path and the prefix, so a handler that binds
  its connection first stays within its tenant.
\<close>

definition apart :: "string \<times> string \<Rightarrow> database \<Rightarrow> database \<Rightarrow> bool" where
  "apart k d0 d \<longleftrightarrow> (\<forall>k'. k' \<noteq> k \<longrightarrow> tenants d k' = tenants d0 k')"

definition within :: "database \<Rightarrow> string \<Rightarrow> string \<Rightarrow> 'x pg_scheme \<Rightarrow> bool" where
  "within d0 schema prefix s \<longleftrightarrow> db_inv (apart (schema, prefix) d0) s \<and> pg_path s = schema"

lemma apart_refl [simp]: "apart k d d"
  by (simp add: apart_def)

section \<open>Statements\<close>

lemma keeps_within_stmt:
  assumes "\<And>env d a d'. env_path env = schema \<Longrightarrow> apart (schema, prefix) d0 d \<Longrightarrow> f env d = Ok (a, d') \<Longrightarrow>
    apart (schema, prefix) d0 d'"
  shows "keeps (within d0 schema prefix) (stmt f)"
proof (rule keepsI)
  fix s :: "'x pg_scheme"
  assume s: "within d0 schema prefix s"
  obtain r s' where run: "run_state (stmt f) s = (r, s')" by fastforce
  have env: "env_path (pg_env (pg_arrive s)) = schema" using s by (simp add: within_def pg_env_def)
  have "db_inv (apart (schema, prefix) d0) s'"
    using run s assms [OF env] unfolding within_def db_inv_def
    by (auto simp: stmt_def Let_def committed_def pg_abort_def split: if_splits outcome.splits prod.splits option.splits)
  moreover have "pg_path s' = schema" using stmt_idle_path [OF run] s by (simp add: within_def)
  ultimately show "within d0 schema prefix (snd (run_state (stmt f) s))" by (simp add: run within_def)
qed

lemma keeps_within_tstmt [keeps_intros]: "keeps (within d0 schema prefix) (tstmt prefix g)"
  unfolding tstmt_def by (rule keeps_within_stmt) (auto simp: on_tenant_Ok' apart_def)

lemma keeps_within_catalog [keeps_intros]:
  "keeps (within d0 schema prefix) (db_payload_specs_create prefix name v)"
  "keeps (within d0 schema prefix) (db_payload_specs_get prefix name)"
  "keeps (within d0 schema prefix) (db_payload_specs_list prefix cursor limit)"
  "keeps (within d0 schema prefix) (db_payload_specs_update prefix name v)"
  "keeps (within d0 schema prefix) (db_payload_specs_delete prefix name)"
  "keeps (within d0 schema prefix) (db_payload_specs_has_dependent_endpoints prefix name)"
  "keeps (within d0 schema prefix) (db_configs_create prefix name v)"
  "keeps (within d0 schema prefix) (db_configs_get prefix name)"
  "keeps (within d0 schema prefix) (db_configs_list prefix cursor limit)"
  "keeps (within d0 schema prefix) (db_configs_update prefix name v)"
  "keeps (within d0 schema prefix) (db_configs_delete prefix name)"
  "keeps (within d0 schema prefix) (db_configs_has_dependent_endpoints prefix name)"
  "keeps (within d0 schema prefix) (db_secrets_create prefix name w)"
  "keeps (within d0 schema prefix) (db_secrets_get prefix name)"
  "keeps (within d0 schema prefix) (db_secrets_list prefix cursor limit)"
  "keeps (within d0 schema prefix) (db_secrets_update prefix name w)"
  "keeps (within d0 schema prefix) (db_secrets_delete prefix name)"
  "keeps (within d0 schema prefix) (db_secrets_has_dependent_endpoints x prefix name)"
  "keeps (within d0 schema prefix) (db_endpoints_create prefix name etype ps cfg v rp)"
  "keeps (within d0 schema prefix) (db_endpoints_get prefix name)"
  "keeps (within d0 schema prefix) (db_endpoints_list prefix cursor limit)"
  "keeps (within d0 schema prefix) (db_endpoints_update prefix name ov cfg ps rp)"
  "keeps (within d0 schema prefix) (db_endpoints_delete prefix name)"
  "keeps (within d0 schema prefix) (db_endpoints_has_active_jobs prefix name)"
  unfolding db_payload_specs_create_def db_payload_specs_get_def db_payload_specs_list_def
    db_payload_specs_update_def db_payload_specs_delete_def db_payload_specs_has_dependent_endpoints_def
    db_configs_create_def db_configs_get_def db_configs_list_def db_configs_update_def db_configs_delete_def
    db_configs_has_dependent_endpoints_def db_secrets_create_def db_secrets_get_def db_secrets_list_def
    db_secrets_update_def db_secrets_delete_def db_secrets_has_dependent_endpoints_def
    db_endpoints_create_def db_endpoints_get_def db_endpoints_list_def db_endpoints_update_def
    db_endpoints_delete_def db_endpoints_has_active_jobs_def
  by (intro keeps_intros)+

lemma keeps_within_rows [keeps_intros]:
  "keeps (within d0 schema prefix) (jobs_get prefix jid)"
  "keeps (within d0 schema prefix) (jobs_list prefix cursor limit fs)"
  "keeps (within d0 schema prefix) (get_versions prefix jid)"
  "keeps (within d0 schema prefix) (executions_get prefix eid)"
  "keeps (within d0 schema prefix) (get_for_job prefix jid)"
  "keeps (within d0 schema prefix) (list_for_job prefix jid cursor limit)"
  "keeps (within d0 schema prefix) (executions_cancel prefix eid)"
  "keeps (within d0 schema prefix) (attempts_list_for_execution prefix eid)"
  "keeps (within d0 schema prefix) (logs_list_for_execution prefix eid)"
  unfolding jobs_get_def jobs_list_def get_versions_def executions_get_def get_for_job_def list_for_job_def
    executions_cancel_def attempts_list_for_execution_def logs_list_for_execution_def
  by (intro keeps_intros)+

lemma keeps_within_checks [keeps_intros]:
  "keeps (within d0 schema prefix) (check_payload_spec_ref prefix ps)"
  "keeps (within d0 schema prefix) (check_config_ref prefix cfg)"
  unfolding check_payload_spec_ref_def check_config_ref_def by (intro keeps_intros)+

section \<open>Handlers\<close>

definition confined :: "string \<Rightarrow> string \<Rightarrow> 'x handler \<Rightarrow> bool" where
  "confined schema prefix m \<longleftrightarrow>
     (\<forall>s r s'. pg_tx s = None \<longrightarrow> run_state m s = (r, s') \<longrightarrow> apart (schema, prefix) (pg_db s) (committed s'))"

lemma confined_connection:
  fixes m :: "'x handler"
  assumes "\<And>d0. keeps (within d0 schema prefix) m"
  shows "confined schema prefix (tryS (sqlS (scoped_connection schema)) (\<lambda>_. m))"
  unfolding confined_def
proof (intro allI impI)
  fix s :: "'x pg_scheme" and r s'
  assume none: "pg_tx s = None" and run: "run_state (tryS (sqlS (scoped_connection schema)) (\<lambda>_. m)) s = (r, s')"
  have "triple (idle (pg_db s)) (tryS (sqlS (scoped_connection schema)) (\<lambda>_. m))
      (\<lambda>r s'. db_inv (apart (schema, prefix) (pg_db s)) s')"
  proof (rule triple_tryS [OF triple_scoped_connection])
    show "triple (bound (pg_db s) schema (Ok u)) m (\<lambda>r s'. db_inv (apart (schema, prefix) (pg_db s)) s')" for u
    proof (rule tripleI)
      fix t :: "'x pg_scheme" and a t'
      assume b: "bound (pg_db s) schema (Ok u) t" and t': "run_state m t = (a, t')"
      then have "within (pg_db s) schema prefix t"
        by (auto simp: bound_def idle_def within_def db_inv_def committed_def)
      from keepsD [OF assms this t'] show "db_inv (apart (schema, prefix) (pg_db s)) t'" by (simp add: within_def)
    qed
  qed (auto simp: bound_def idle_def db_inv_def committed_def)
  from tripleD [OF this _ run] none show "apart (schema, prefix) (pg_db s) (committed s')"
    by (simp add: idle_def db_inv_def)
qed

lemma confined_err: "confined schema prefix (err e)"
  by (simp add: confined_def committed_def)

lemma confined_if: "confined schema prefix m \<Longrightarrow> confined schema prefix n \<Longrightarrow> confined schema prefix (if b then m else n)"
  by simp

lemma confined_return:
  assumes "\<And>a. confined schema prefix (f a)"
  shows "confined schema prefix (tryS (State_Monad.return v) f)"
  using assms by (cases v) (auto simp: confined_def committed_def)

lemma confined_encrypt:
  "(\<And>a. confined schema prefix (f a)) \<Longrightarrow> confined schema prefix (tryS (encrypt_secret x nonce v key_hex) f)"
  unfolding encrypt_secret_def by (rule confined_return)

lemma confined_ended:
  fixes m :: "'x handler"
  assumes "\<And>d. triple (idle d) m (ended d (Q d))" and "\<And>d v d'. Q d v d' \<Longrightarrow> apart (schema, prefix) d d'"
  shows "confined schema prefix m"
  unfolding confined_def
proof (intro allI impI)
  fix s :: "'x pg_scheme" and r s'
  assume "pg_tx s = None" and "run_state m s = (r, s')"
  with tripleD [OF assms(1), of "pg_db s" s r s'] have "ended (pg_db s) (Q (pg_db s)) r s'" by (simp add: idle_def)
  then show "apart (schema, prefix) (pg_db s) (committed s')"
    by (auto simp: ended_def committed_def intro: assms(2))
qed

lemmas confined_intros = confined_if confined_err confined_encrypt confined_connection keeps_intros

lemma confined_catalog:
  "confined schema prefix (handle_payload_specs_create x prefix schema name v)"
  "confined schema prefix (handle_payload_specs_list x prefix schema params)"
  "confined schema prefix (handle_payload_specs_get x prefix schema name)"
  "confined schema prefix (handle_payload_specs_update x prefix schema name v)"
  "confined schema prefix (handle_payload_specs_delete prefix schema name)"
  "confined schema prefix (handle_configs_create x prefix schema name v)"
  "confined schema prefix (handle_configs_list x prefix schema params)"
  "confined schema prefix (handle_configs_get x prefix schema name)"
  "confined schema prefix (handle_configs_update x prefix schema name v)"
  "confined schema prefix (handle_configs_delete prefix schema name)"
  "confined schema prefix (handle_secrets_create x key_hex prefix nonce schema name w)"
  "confined schema prefix (handle_secrets_list x prefix schema params)"
  "confined schema prefix (handle_secrets_get x prefix schema name)"
  "confined schema prefix (handle_secrets_update x key_hex prefix nonce schema name w)"
  "confined schema prefix (handle_secrets_delete x prefix schema name)"
  "confined schema prefix (handle_endpoints_create x prefix schema ce)"
  "confined schema prefix (handle_endpoints_list x prefix schema params)"
  "confined schema prefix (handle_endpoints_get x prefix schema name)"
  "confined schema prefix (handle_endpoints_update x prefix schema name ue)"
  "confined schema prefix (handle_endpoints_delete prefix schema name)"
  unfolding handle_payload_specs_create_def handle_payload_specs_list_def handle_payload_specs_get_def
    handle_payload_specs_update_def handle_payload_specs_delete_def handle_configs_create_def
    handle_configs_list_def handle_configs_get_def handle_configs_update_def handle_configs_delete_def
    handle_secrets_create_def handle_secrets_list_def handle_secrets_get_def handle_secrets_update_def
    handle_secrets_delete_def handle_endpoints_create_def handle_endpoints_list_def
    handle_endpoints_get_def handle_endpoints_update_def handle_endpoints_delete_def Let_def
  by (intro confined_intros)+

lemma confined_reads:
  "confined schema prefix (handle_jobs_list x prefix schema params fs)"
  "confined schema prefix (handle_jobs_get x prefix schema jid)"
  "confined schema prefix (handle_jobs_status x prefix schema jid)"
  "confined schema prefix (handle_jobs_versions x prefix schema jid)"
  "confined schema prefix (handle_jobs_list_executions x prefix schema jid params)"
  "confined schema prefix (handle_executions_get x prefix schema eid)"
  "confined schema prefix (handle_executions_cancel prefix schema eid)"
  "confined schema prefix (handle_list_attempts x prefix schema eid)"
  "confined schema prefix (handle_list_logs x prefix schema eid)"
  unfolding handle_jobs_list_def handle_jobs_get_def handle_jobs_status_def handle_jobs_versions_def
    handle_jobs_list_executions_def handle_executions_get_def handle_executions_cancel_def
    handle_list_attempts_def handle_list_logs_def Let_def
  by (intro confined_intros)+

lemma apart_made:
  "job_made d k j es d' \<Longrightarrow> apart k d d'"
  "apart k d (d'\<lparr>cron_job := c\<rparr>) \<longleftrightarrow> apart k d d'"
  "apart k d (with_tenant k t d)"
  by (auto simp: job_made_def apart_def)

lemma apart_created: "job_created k body d resp d' \<Longrightarrow> apart k d d'"
  unfolding job_created_def
  by (elim conjE exE, cases "trigger_type_from_str (cj_trigger body)"; simp; rename_tac trig; case_tac trig)
    (auto simp: made_immediate_def made_delayed_def made_cron_def apart_made)

lemma confined_jobs:
  "confined schema prefix (handle_jobs_create x prefix schema body)"
  "confined schema prefix (handle_jobs_cancel x prefix schema jid)"
  "confined schema prefix (handle_jobs_update x checks prefix schema jid upd)"
proof -
  show "confined schema prefix (handle_jobs_create x prefix schema body)"
    by (rule confined_ended [OF handle_jobs_create_ended]) (auto simp: job_replayed_def dest: apart_created)
  show "confined schema prefix (handle_jobs_cancel x prefix schema jid)"
    by (rule confined_ended [OF handle_jobs_cancel_ended]) (auto simp: job_cancelled_def apart_made)
  show "confined schema prefix (handle_jobs_update x checks prefix schema jid upd)"
    by (rule confined_ended [OF handle_jobs_update_ended]) (auto simp: job_updated_def apart_made)
qed

text \<open>The schema a request names, where it names one.\<close>

fun request_schema :: "request \<Rightarrow> string option" where
  "request_schema (Payload_Specs_Create s _ _) = Some s"
| "request_schema (Payload_Specs_List s _) = Some s"
| "request_schema (Payload_Specs_Get s _) = Some s"
| "request_schema (Payload_Specs_Update s _ _) = Some s"
| "request_schema (Payload_Specs_Delete s _) = Some s"
| "request_schema (Configs_Create s _ _) = Some s"
| "request_schema (Configs_List s _) = Some s"
| "request_schema (Configs_Get s _) = Some s"
| "request_schema (Configs_Update s _ _) = Some s"
| "request_schema (Configs_Delete s _) = Some s"
| "request_schema (Secrets_Create _ s _ _) = Some s"
| "request_schema (Secrets_List s _) = Some s"
| "request_schema (Secrets_Get s _) = Some s"
| "request_schema (Secrets_Update _ s _ _) = Some s"
| "request_schema (Secrets_Delete s _) = Some s"
| "request_schema (Endpoints_Create s _) = Some s"
| "request_schema (Endpoints_List s _) = Some s"
| "request_schema (Endpoints_Get s _) = Some s"
| "request_schema (Endpoints_Update s _ _) = Some s"
| "request_schema (Endpoints_Delete s _) = Some s"
| "request_schema (Jobs_Create s _) = Some s"
| "request_schema (Jobs_List s _ _) = Some s"
| "request_schema (Jobs_Get s _) = Some s"
| "request_schema (Jobs_Update s _ _) = Some s"
| "request_schema (Jobs_Cancel s _) = Some s"
| "request_schema (Jobs_Status s _) = Some s"
| "request_schema (Jobs_Versions s _) = Some s"
| "request_schema (Jobs_Executions s _ _) = Some s"
| "request_schema (Executions_Get s _) = Some s"
| "request_schema (Executions_Cancel s _) = Some s"
| "request_schema (Executions_Attempts s _) = Some s"
| "request_schema (Executions_Logs s _) = Some s"
| "request_schema _ = None"

lemma serve_confined: "request_schema req = Some schema \<Longrightarrow> confined schema (app_prefix c) (serve x c req)"
  by (cases req) (simp_all add: confined_catalog confined_reads confined_jobs)

end
