(* ===== verification/Provisioning.thy ===== *)
theory Provisioning
  imports Job_Api Dispatch Library_Client
begin

text \<open>
  Three contracts on the tables of a tenant: what a provisioned workspace starts with
  (\<open>db/workspaces.rs\<close>), what a sweep of the reaper does (\<open>crates/worker/src/reaper.rs\<close>), and what an
  empty idempotency key means to the library client (\<open>crates/worker/src/client.rs\<close>).
\<close>

section \<open>Statements outside a transaction\<close>

definition left :: "string option \<Rightarrow> ('a \<Rightarrow> database \<Rightarrow> bool) \<Rightarrow> ('a, 'e) outcome \<Rightarrow> 'x pg_scheme \<Rightarrow> bool" where
  "left path Q r s \<longleftrightarrow> pg_tx s = None \<and>
     (case r of Ok a \<Rightarrow> Q a (pg_db s) \<and> (\<forall>p. path = Some p \<longrightarrow> pg_path s = p) | _ \<Rightarrow> True)"

definition at :: "string option \<Rightarrow> (database \<Rightarrow> bool) \<Rightarrow> 'x pg_scheme \<Rightarrow> bool" where
  "at path P s \<longleftrightarrow> pg_tx s = None \<and> P (pg_db s) \<and> (\<forall>p. path = Some p \<longrightarrow> pg_path s = p)"

lemma left_tryS:
  assumes "triple P m (left path R)" and "\<And>a. triple (at path (R a)) (f a) (left path' Q)"
  shows "triple P (tryS m f) (left path' Q)"
proof (rule triple_tryS [OF assms(1)])
  show "triple (left path R (Ok a)) (f a) (left path' Q)" for a
    by (rule triple_weaken [OF assms(2) [of a]]) (auto simp: left_def at_def)
qed (auto simp: left_def)

lemma left_stmt:
  assumes "\<And>env d a d'. (\<And>p. path = Some p \<Longrightarrow> env_path env = p) \<Longrightarrow> P d \<Longrightarrow> f env d = Ok (a, d') \<Longrightarrow> Q a d'"
  shows "triple (at path P) (stmt f) (left path Q)"
proof (rule tripleI)
  fix s :: "'x pg_scheme" and r s'
  assume s: "at path P s" and run: "run_state (stmt f) s = (r, s')"
  note p = stmt_idle_path [OF run]
  show "left path Q r s'"
  proof (cases r)
    case (Ok a)
    note ok = stmt_Ok [OF run [unfolded Ok]]
    have "Q a (pg_db s')" by (rule assms [OF _ _ ok(1)]) (use s in \<open>auto simp: at_def pg_env_def\<close>)
    with Ok p s show ?thesis by (simp add: left_def at_def)
  qed (use p s in \<open>simp_all add: left_def at_def\<close>)
qed

lemma left_ok: "(\<And>d. P d \<Longrightarrow> Q v d) \<Longrightarrow> triple (at path P) (ok v) (left path Q)"
  by (rule triple_return) (simp add: left_def at_def)

lemma left_map_errS: "triple P m (left path Q) \<Longrightarrow> triple P (map_errS f m) (left path Q)"
  unfolding triple_def
  by (auto simp: left_def split: outcome.splits prod.splits)
     (metis fst_conv map_err.simps outcome.distinct outcome.exhaust snd_conv)+

lemma left_mono:
  "triple P m (left path Q) \<Longrightarrow> (\<And>a d. Q a d \<Longrightarrow> Q' a d) \<Longrightarrow> triple P m (left path Q')"
  by (erule triple_weaken) (auto simp: left_def split: outcome.splits)

lemma left_any_path: "triple P m (left path Q) \<Longrightarrow> triple P m (left None Q)"
  by (erule triple_weaken) (auto simp: left_def split: outcome.splits)

lemma at_any_path: "triple (at None P) m Q \<Longrightarrow> triple (at path P) m Q"
  by (erule triple_weaken) (auto simp: at_def)

lemma left_scoped_connection:
  "triple (at path P) (scoped_connection schema) (left (Some schema) (\<lambda>_. P))"
proof (rule tripleI)
  fix s :: "'x pg_scheme" and r s'
  assume "at path P s" and "run_state (scoped_connection schema) s = (r, s')"
  then show "left (Some schema) (\<lambda>_. P) r s'"
    by (auto simp: left_def at_def scoped_connection_def rust_assert_def set_search_path_def
        stmt_def Let_def pg_abort_def split: if_splits outcome.splits prod.splits)
qed

lemma left_set_search_path: "triple (at path P) (set_search_path schema) (left (Some schema) (\<lambda>_. P))"
proof (rule tripleI)
  fix s :: "'x pg_scheme" and r s'
  assume "at path P s" and "run_state (set_search_path schema) s = (r, s')"
  then show "left (Some schema) (\<lambda>_. P) r s'"
    by (auto simp: left_def at_def set_search_path_def stmt_def Let_def pg_abort_def
        split: if_splits outcome.splits prod.splits)
qed

lemma left_rust_assert: "triple (at path P) (rust_assert b msg) (left path (\<lambda>_ d. P d \<and> b))"
  by (auto simp: rust_assert_def triple_def left_def at_def)

lemma left_ended:
  assumes "\<And>d. P d \<Longrightarrow> triple (idle d) m (ended d (Q d))" and "\<And>d a d'. P d \<Longrightarrow> Q d a d' \<Longrightarrow> Q' a d'"
  shows "triple (at path P) m (left None Q')"
proof (rule tripleI)
  fix s r s'
  assume s: "at path P s" and run: "run_state m s = (r, s')"
  then have "ended (pg_db s) (Q (pg_db s)) r s'"
    by (intro tripleD [OF assms(1) _ run]) (simp_all add: at_def idle_def)
  with s show "left None Q' r s'"
    by (cases r) (auto simp: left_def ended_def at_def intro: assms(2))
qed

section \<open>A new workspace\<close>

definition ws_row :: "string \<Rightarrow> workspace_row \<Rightarrow> database \<Rightarrow> bool" where
  "ws_row schema w d \<longleftrightarrow>
     List.find (\<lambda>v. workspace_id v = workspace_id w) (workspaces d) = Some w \<and>
     ws_schema_name w = schema \<and> ws_status w = ''ACTIVE''"

text \<open>The tables, with the reaper's endpoint and its job, and the pg_cron entry of that job.\<close>

definition reaper_ready :: "string \<Rightarrow> string \<Rightarrow> database \<Rightarrow> bool" where
  "reaper_ready schema expr d \<longleftrightarrow>
     (\<exists>t e j. tenants d (schema, []) = Some t \<and> e \<in> set (endpoints t) \<and> j \<in> set (jobs t) \<and>
        ep_name e = reaper_endpoint_name \<and> ep_type e = ''INTERNAL'' \<and> ep_spec e = reaper_spec \<and>
        job_as reaper_endpoint_name ''INTERNAL'' ''CRON'' None None j \<and> cron_expression j = Some expr \<and>
        cron_ends_at j = None \<and>
        cron_job d (cron_job_name schema (job_id j)) = Some (expr, Cron_Command [] schema (job_id j)))"

lemma reaper_ready_workspaces [simp]: "reaper_ready schema expr (d\<lparr>workspaces := ws\<rparr>) = reaper_ready schema expr d"
  by (simp add: reaper_ready_def)

definition workspace_ready :: "string \<Rightarrow> string \<Rightarrow> workspace_row \<Rightarrow> database \<Rightarrow> bool" where
  "workspace_ready schema expr w d \<longleftrightarrow>
     w \<in> set (workspaces d) \<and> ws_schema_name w = schema \<and> ws_status w = ''ACTIVE'' \<and>
     ws_schema_version w = 1 \<and> reaper_ready schema expr d"

lemma left_run_ddl:
  "triple (at (Some schema) (ws_row schema w)) (run_ddl schema prefix n)
     (left (Some schema) (\<lambda>_ d. ws_row schema w d \<and> tenants d (schema, prefix) \<noteq> None))"
proof (induction n)
  case 0
  show ?case unfolding run_ddl.simps
    by (rule left_stmt) (auto simp: sql_create_tables_def ws_row_def split: if_splits)
next
  case (Suc n)
  show ?case unfolding run_ddl.simps
    by (rule left_tryS [OF left_stmt [where Q = "\<lambda>_. ws_row schema w"]]) (use Suc in auto)
qed

lemma left_provision_schema:
  "triple (at None (ws_row schema w)) (provision_schema schema prefix) (left None (\<lambda>_. ws_row schema w))"
  unfolding provision_schema_def
  by (rule left_tryS [OF left_stmt [where Q = "\<lambda>_. ws_row schema w"]], simp,
      rule left_tryS [OF left_scoped_connection], rule left_tryS [OF left_run_ddl],
      rule left_any_path, rule left_mono [OF left_set_search_path]) simp

lemma sql_insert_reaper_job_Ok:
  "sql_insert_reaper_job expr env t = Ok (jid, t') \<Longrightarrow>
     \<exists>j. t' = t\<lparr>jobs := jobs t @ [j]\<rparr> \<and> jid = job_id j \<and>
       job_as reaper_endpoint_name ''INTERNAL'' ''CRON'' None None j \<and> cron_expression j = Some expr \<and>
       cron_ends_at j = None"
  by (auto simp: sql_insert_reaper_job_def bind_outcome_Ok insert_job_Ok job_defaults_def job_as_def)

lemma reaper_ended:
  "triple (idle d) (provision_reaper schema expr)
     (ended d (\<lambda>_ d'. reaper_ready schema expr d' \<and> workspaces d' = workspaces d))"
proof -
  let ?R = "\<lambda>_ d'. \<exists>t e. tenants d (schema, []) = Some t \<and> ep_name e = reaper_endpoint_name \<and>
      ep_type e = ''INTERNAL'' \<and> ep_spec e = reaper_spec \<and>
      d' = with_tenant (schema, []) (t\<lparr>endpoints := endpoints t @ [e]\<rparr>) d"
  let ?R' = "\<lambda>jid d'. \<exists>t e j. ep_name e = reaper_endpoint_name \<and> ep_type e = ''INTERNAL'' \<and> ep_spec e = reaper_spec \<and>
      job_as reaper_endpoint_name ''INTERNAL'' ''CRON'' None None j \<and> cron_expression j = Some expr \<and>
      cron_ends_at j = None \<and> jid = job_id j \<and> e \<in> set (endpoints t) \<and> j \<in> set (jobs t) \<and>
      d' = with_tenant (schema, []) t d"
  have ep: "triple (live d schema (\<lambda>d'. d' = d)) (tstmt [] sql_insert_reaper_endpoint) (ran d schema ?R)"
    unfolding tstmt_def
    by (rule ran_stmt) (auto simp: on_tenant_Ok' sql_insert_reaper_endpoint_def bind_outcome_Ok insert_endpoint_def
        split: option.splits intro!: exI)
  have job: "triple (live d schema (?R u)) (tstmt [] (sql_insert_reaper_job expr)) (ran d schema ?R')" for u
    unfolding tstmt_def
    by (rule ran_stmt, clarsimp simp: on_tenant_Ok', drule sql_insert_reaper_job_Ok, elim exE conjE,
        intro exI conjI, assumption+, (rule refl)?, simp_all)
  show ?thesis unfolding provision_reaper_def
    by (rule ended_db_transaction, rule ending_tryS [OF ep], rule ending_tryS [OF job],
        rule ending_tryS [OF register_ran], rule ending_tx_commit, unfold reaper_ready_def, elim exE conjE, rule conjI,
        rule_tac x = t in exI, rule_tac x = e in exI, rule_tac x = j in exI) simp_all
qed

lemma sql_workspaces_insert_row:
  assumes "sql_workspaces_insert oid name slug schema env d = Ok (w, d')"
  shows "ws_row schema w d'"
proof -
  from assms have "List.find (\<lambda>v. workspace_id v = env_uuid env) (workspaces d) = None"
    by (auto simp: sql_workspaces_insert_def find_None_iff split: if_splits)
  with assms show ?thesis
    by (auto simp: sql_workspaces_insert_def ws_row_def find_snoc Let_def split: if_splits)
qed

lemma left_finish_workspace:
  "triple (at None (\<lambda>d. ws_row schema w d \<and> reaper_ready schema expr d))
     (tryS (stmt (sql_set_schema_version (workspace_id w))) (\<lambda>_.
      tryS (stmt (sql_workspaces_get (workspace_id w))) (\<lambda>row. ok_orS row RowNotFound)))
     (left None (workspace_ready schema expr))"
proof (rule left_tryS [OF left_stmt [where
      Q = "\<lambda>_ d. ws_row schema (w\<lparr>ws_schema_version := 1\<rparr>) d \<and> reaper_ready schema expr d"]])
  fix env d a d'
  assume "ws_row schema w d \<and> reaper_ready schema expr d" and "sql_set_schema_version (workspace_id w) env d = Ok (a, d')"
  then show "ws_row schema (w\<lparr>ws_schema_version := 1\<rparr>) d' \<and> reaper_ready schema expr d'"
    by (auto simp: ws_row_def sql_set_schema_version_def update_rows_def find_map_update)
next
  let ?w = "w\<lparr>ws_schema_version := 1\<rparr>"
  show "triple (at None (\<lambda>d. ws_row schema ?w d \<and> reaper_ready schema expr d))
      (tryS (stmt (sql_workspaces_get (workspace_id w))) (\<lambda>row. ok_orS row RowNotFound))
      (left None (workspace_ready schema expr))"
  proof (rule left_tryS [OF left_stmt [where
        Q = "\<lambda>row d. row = Some ?w \<and> ws_row schema ?w d \<and> reaper_ready schema expr d"]])
    show "triple (at None (\<lambda>d. row = Some ?w \<and> ws_row schema ?w d \<and> reaper_ready schema expr d))
        (ok_orS row RowNotFound) (left None (workspace_ready schema expr))" for row
      by (auto simp: triple_def at_def left_def ok_orS_def workspace_ready_def ws_row_def dest: find_Some_D)
  qed (auto simp: sql_workspaces_get_def ws_row_def)
qed

lemma workspaces_create_left:
  "triple (at None (\<lambda>_. True)) (workspaces_create oid name slug schema expr)
     (left None (workspace_ready schema expr))"
  unfolding workspaces_create_def
proof (rule left_tryS [OF left_rust_assert], rule left_tryS [OF left_stmt [where Q = "ws_row schema"]],
    erule sql_workspaces_insert_row, rule left_tryS [OF left_provision_schema])
  fix w
  show "triple (at None (ws_row schema w)) (tryS (provision_reaper schema expr) (\<lambda>_.
      tryS (stmt (sql_set_schema_version (workspace_id w))) (\<lambda>_.
      tryS (stmt (sql_workspaces_get (workspace_id w))) (\<lambda>row. ok_orS row RowNotFound))))
      (left None (workspace_ready schema expr))"
    by (rule left_tryS [OF left_ended [OF reaper_ended] left_finish_workspace]) (auto simp: ws_row_def)
qed

section \<open>A sweep of the reaper\<close>






section \<open>Jobs without a key in the library client\<close>

definition taken :: "string \<times> string \<Rightarrow> string \<Rightarrow> string \<Rightarrow> database \<Rightarrow> bool" where
  "taken k ep key d \<longleftrightarrow> (\<exists>t. tenants d k = Some t \<and> job_with_key ep key t \<noteq> None)"

lemma insert_job_taken:
  assumes "insert_job prefix j t = Ok (a, t')" and "job_idempotency_key j = Some key"
  shows "job_with_key (job_endpoint j) key t = None"
  using assms
  by (auto simp: insert_job_Ok job_violation_def job_with_key_def find_None_iff split: if_splits)

lemma left_never: "triple (at path (\<lambda>_. False)) m Q"
  by (simp add: triple_def at_def)

lemma create_taken:
  "triple (at (Some schema) (taken (schema, prefix) ep key)) (create_immediate prefix ep etype key inp n)
     (left None (\<lambda>_ _. False))"
  "triple (at (Some schema) (taken (schema, prefix) ep key)) (create_delayed prefix ep etype key inp run_at n)
     (left None (\<lambda>_ _. False))"
proof -
  have no: "insert_job prefix j t = Ok (a, t') \<Longrightarrow> job_idempotency_key j = Some key \<Longrightarrow> job_endpoint j = ep \<Longrightarrow>
      job_with_key ep key t \<noteq> None \<Longrightarrow> False" for j t a t'
    by (drule (1) insert_job_taken) simp
  show "triple (at (Some schema) (taken (schema, prefix) ep key)) (create_immediate prefix ep etype key inp n)
     (left None (\<lambda>_ _. False))"
    unfolding create_immediate_def tstmt_def
    by (rule left_tryS [OF left_stmt [where Q = "\<lambda>_ _. False"] left_never])
      (auto simp: on_tenant_Ok' taken_def sql_insert_immediate_job_def job_defaults_def dest!: no)
  show "triple (at (Some schema) (taken (schema, prefix) ep key)) (create_delayed prefix ep etype key inp run_at n)
     (left None (\<lambda>_ _. False))"
    unfolding create_delayed_def tstmt_def
    by (rule left_tryS [OF left_stmt [where Q = "\<lambda>_ _. False"] left_never])
      (auto simp: on_tenant_Ok' taken_def sql_insert_delayed_job_def job_defaults_def dest!: no)
qed

lemma client_create_job_taken:
  assumes "trigger = Immediate \<or> (\<exists>t. trigger = Delayed t)"
  shows "triple (at None (taken (schema, prefix) ep (case key of None \<Rightarrow> [] | Some k \<Rightarrow> k)))
     (client_create_job prefix schema ep inp n trigger key) (left None (\<lambda>_ _. False))"
proof -
  let ?key = "case key of None \<Rightarrow> [] | Some k \<Rightarrow> k"
  let ?T = "taken (schema, prefix) ep ?key"
  have get: "triple (at (Some schema) ?T) (dbS (db_endpoints_get prefix ep)) (left (Some schema) (\<lambda>_. ?T))"
    unfolding db_endpoints_get_def tstmt_def
    by (rule left_map_errS, rule left_stmt) (auto simp: on_tenant_Ok' sql_endpoints_get_def with_tenant_same)
  have found: "triple (at (Some schema) ?T) (ok_orS found e) (left (Some schema) (\<lambda>_. ?T))" for found and e :: client_error
    by (cases found) (auto simp: triple_def ok_orS_def at_def left_def)
  show ?thesis
    unfolding client_create_job_def Let_def
    using assms
    by (intro left_tryS [OF left_map_errS [OF left_scoped_connection]] left_tryS [OF get] left_tryS [OF found])
      (auto intro!: left_tryS [OF left_map_errS [OF create_taken(1)] left_never] left_tryS [OF left_map_errS [OF create_taken(2)] left_never])
qed

lemma left_run:
  assumes "triple (at None (\<lambda>_. True)) m (left None Q)" and "pg_tx s = None" and "run_state m s = (Ok a, s')"
  shows "Q a (pg_db s')"
  using tripleD [OF assms(1) _ assms(3)] assms(2) by (auto simp: at_def left_def)

section \<open>Properties\<close>


text \<open>C40: the library client passes an empty key for a job without one, and the index on endpoint and
  key counts it: once a job with the empty key exists on an endpoint, no immediate or delayed job
  without a key can be created there.\<close>

theorem library_keyless_jobs_collide:
  "triple (at None (taken (schema, prefix) ep []))
     (client_create_job prefix schema ep inp n Immediate None) (left None (\<lambda>_ _. False)) \<and>
   triple (at None (taken (schema, prefix) ep []))
     (client_create_job prefix schema ep inp n (Delayed run_at) None) (left None (\<lambda>_ _. False))"
  using client_create_job_taken [of Immediate schema prefix ep None inp n]
    client_create_job_taken [of "Delayed run_at" schema prefix ep None inp n] by auto

end
