(* ===== verification/Retry.thy ===== *)
theory Retry
  imports Worker_Safety
begin

text \<open>
  The decision at the end of an attempt (\<open>finalize\<close>, step 5 of \<open>process_execution\<close> in
  \<open>crates/worker/src/pipeline.rs\<close>): which of the three final updates is applied to the execution, and
  with which delay. The transaction may be aborted by a failed statement, in which case nothing of it
  survives; otherwise the running row of the execution moves as \<open>decided\<close> says and no other row does.
\<close>

inductive decided ::
  "ext \<Rightarrow> bool \<Rightarrow> retry_policy \<Rightarrow> int \<Rightarrow> int \<Rightarrow> timestamp \<Rightarrow> dispatch_result \<Rightarrow> (execution_row \<Rightarrow> execution_row) \<Rightarrow> bool"
  for x checks policy n limit now where
  succeeded: "decided x checks policy n limit now (Success out) (success_row now out)"
| retried: "n < limit \<Longrightarrow> compute_backoff checks (gen_range x k) policy n = Ok ms \<Longrightarrow>
    decided x checks policy n limit now (Failure er) (retry_row now ms)"
| failed: "limit \<le> n \<Longrightarrow> decided x checks policy n limit now (Failure er) (failed_row now)"

definition moved_by ::
  "((execution_row \<Rightarrow> execution_row) \<Rightarrow> bool) \<Rightarrow> exec_tables \<Rightarrow> string \<times> string \<Rightarrow> string \<Rightarrow> exec_tables \<Rightarrow> bool" where
  "moved_by F v0 k eid v \<longleftrightarrow>
     (\<exists>es f. F f \<and> v0 k = Some es \<and> v = v0(k \<mapsto> update_rows (running eid) f es))"

lemma tx_move_stmt:
  assumes g: "\<And>env' t r. g env' t = Ok r \<Longrightarrow>
      r = ((), t\<lparr>executions := update_rows (running eid) (f (env_now env')) (executions t)\<rparr>)"
    and f: "F (f (env_now env))"
  shows "triple (tx_inv d0 env (\<lambda>v. v = v0)) (tstmt prefix g)
    (tx_post d0 env (\<lambda>_. moved_by F v0 (env_path env, prefix) eid))"
  unfolding tstmt_def
proof (rule tx_stmt)
  fix env' d a d'
  assume same: "same_env env env'" and v: "exec_view d = v0" and run: "on_tenant prefix g env' d = Ok (a, d')"
  let ?k = "(env_path env, prefix)"
  from run same obtain t t' where t: "tenants d ?k = Some t" and gt: "g env' t = Ok (a, t')"
    and d': "d' = d\<lparr>tenants := (tenants d)(?k \<mapsto> t')\<rparr>"
    by (auto simp: on_tenant_Ok same_env_def)
  from g [OF gt] same have t': "t' = t\<lparr>executions := update_rows (running eid) (f (env_now env)) (executions t)\<rparr>"
    by (simp add: same_env_def)
  have "v0 ?k = Some (executions t)" using v t by (auto simp: exec_view_def)
  moreover have "exec_view d' = v0(?k \<mapsto> update_rows (running eid) (f (env_now env)) (executions t))"
    using v by (auto simp: d' t' exec_view_def fun_eq_iff)
  ultimately show "moved_by F v0 ?k eid (exec_view d')" using f unfolding moved_by_def by blast
qed

lemma tx_backoff:
  "triple (tx_inv d0 env S) (backoff_prog x checks policy n)
    (\<lambda>r s. tx_inv d0 env S s \<and> (\<forall>ms. r = Ok ms \<longrightarrow> (\<exists>k. compute_backoff checks (gen_range x k) policy n = Ok ms)))"
  by (auto simp: triple_def backoff_prog_def)

lemma finalize_decides:
  fixes x ctx eid
  defines "prefix \<equiv> ctx_table_prefix ctx" and "checks \<equiv> ctx_overflow_checks ctx"
  shows "triple (tx_inv d0 env (\<lambda>v. v = v0))
    (finalize x ctx eid started policy n limit completed result)
    (tx_end d0 env (moved_by (decided x checks policy n limit (env_now env) result) v0 (env_path env, prefix) eid))"
proof (cases result)
  case (Success out)
  have "triple (tx_inv d0 env (\<lambda>v. v = v0)) (complete_success prefix eid out)
      (tx_post d0 env (\<lambda>_. moved_by (decided x checks policy n limit (env_now env) result) v0 (env_path env, prefix) eid))"
    unfolding complete_success_def Success
    by (rule tx_move_stmt [where f = "\<lambda>now. success_row now out"]) (simp_all add: sql_complete_success_def decided.succeeded)
  then show ?thesis unfolding finalize_def Let_def Success prefix_def [symmetric] dispatch_result.case
    by (intro tx_end_tryS tx_end_ignore keeps_intros)
next
  case (Failure er)
  let ?Q = "moved_by (decided x checks policy n limit (env_now env) result) v0 (env_path env, prefix) eid"
  have retry: "triple (tx_inv d0 env (\<lambda>v. v = v0)) (complete_retry prefix eid ms) (tx_post d0 env (\<lambda>_. ?Q))"
    if "n < limit" "\<exists>k. compute_backoff checks (gen_range x k) policy n = Ok ms" for ms
    unfolding complete_retry_def Failure using that
    by (intro tx_move_stmt [where f = "\<lambda>now. retry_row now ms"])
      (auto simp: sql_complete_retry_def split: if_splits intro: decided.retried)
  have fail: "triple (tx_inv d0 env (\<lambda>v. v = v0)) (complete_failed prefix eid) (tx_post d0 env (\<lambda>_. ?Q))"
    if "\<not> n < limit"
    unfolding complete_failed_def Failure using that
    by (intro tx_move_stmt [where f = failed_row]) (simp_all add: sql_complete_failed_def decided.failed)
  have again: "triple (tx_inv d0 env (\<lambda>v. v = v0))
      (tryS (backoff_prog x checks policy n) (\<lambda>ms. ignoreS (complete_retry prefix eid ms) (log_execution prefix eid n lvl (msg ms))))
      (tx_end d0 env ?Q)" if "n < limit" for lvl msg
  proof (rule triple_tryS [OF tx_backoff])
    fix ms
    have "triple (\<lambda>s. tx_inv d0 env (\<lambda>v. v = v0) s \<and> (\<exists>k. compute_backoff checks (gen_range x k) policy n = Ok ms))
        (ignoreS (complete_retry prefix eid ms) (log_execution prefix eid n lvl (msg ms))) (tx_end d0 env ?Q)"
      by (rule triple_assume, intro tx_end_ignore retry that keeps_intros) simp_all
    then show "triple (\<lambda>s. tx_inv d0 env (\<lambda>v. v = v0) s \<and>
          (\<forall>ms'. Ok ms = Ok ms' \<longrightarrow> (\<exists>k. compute_backoff checks (gen_range x k) policy n = Ok ms')))
        (ignoreS (complete_retry prefix eid ms) (log_execution prefix eid n lvl (msg ms))) (tx_end d0 env ?Q)"
      by simp
  qed (auto simp: tx_end_def intro: tx_inv_True)
  show ?thesis
  proof (cases "n < limit")
    case True
    then show ?thesis unfolding finalize_def Let_def Failure prefix_def [symmetric] checks_def [symmetric] dispatch_result.case
      using again [OF True, unfolded Failure]
      by (simp only: if_True, intro tx_end_tryS [OF tx_quiet_recording(1)])
  next
    case False
    then show ?thesis unfolding finalize_def Let_def Failure prefix_def [symmetric] dispatch_result.case
      using fail [unfolded Failure]
      by (simp only: if_False, intro tx_end_tryS [OF tx_quiet_recording(1)] tx_end_ignore keeps_intros) simp
  qed
qed

section \<open>How the decision returns\<close>

text \<open>A program that always returns \<open>Ok ()\<close>.\<close>

definition returns :: "unit worker_prog \<Rightarrow> bool" where
  "returns m \<longleftrightarrow> (\<forall>s. fst (run_state m s) = Ok ())"

definition panic_free :: "'a tsql \<Rightarrow> bool" where
  "panic_free g \<longleftrightarrow> (\<forall>env t p. g env t \<noteq> Panic p)"

lemma tstmt_no_panic:
  assumes "panic_free g"
  shows "run_state (tstmt prefix g) s \<noteq> (Panic p, s')"
proof
  assume run: "run_state (tstmt prefix g) s = (Panic p, s')"
  have "\<exists>env d. on_tenant prefix g env d = Panic p"
    using run unfolding tstmt_def
    by (auto simp: stmt_def Let_def split: outcome.splits if_splits prod.splits)
  then obtain env d where "on_tenant prefix g env d = Panic p" by blast
  then obtain t where "g env t = Panic p" by (auto simp: on_tenant_def split: option.splits outcome.splits)
  with assms show False by (simp add: panic_free_def)
qed

lemma returns_ignoreS:
  assumes g: "panic_free g" and k: "returns k"
  shows "returns (ignoreS (tstmt prefix g) k)"
  unfolding returns_def
proof
  fix s :: worker
  obtain r s1 where run: "run_state (tstmt prefix g) s = (r, s1)" by fastforce
  have "fst (run_state k s1) = Ok ()" using k by (simp add: returns_def)
  moreover have "\<forall>p. r \<noteq> Panic p" using tstmt_no_panic [OF g] run by blast
  ultimately show "fst (run_state (ignoreS (tstmt prefix g) k) s) = Ok ()"
    using run by (cases r) (simp_all add: ignoreS_def)
qed

lemma panic_free_statements:
  "panic_free (sql_attempts_insert prefix eid m st t0 t1 dur o1 o2)" "panic_free (sql_logs_insert prefix eid m level msg)"
  "panic_free (sql_complete_success eid out)" "panic_free (sql_complete_retry eid ms)" "panic_free (sql_complete_failed eid)"
  by (simp_all add: panic_free_def sql_attempts_insert_def sql_logs_insert_def sql_complete_success_def
      sql_complete_retry_def sql_complete_failed_def Let_def split: option.split)

lemma returns_ok: "returns (ok ())"
  by (simp add: returns_def)

lemma returns_recording:
  "returns (log_execution prefix eid n level msg)" "returns (record_attempt prefix eid n st started o1 o2)"
proof -
  show "returns (log_execution prefix eid n level msg)"
    unfolding log_execution_def logs_insert_def by (intro returns_ignoreS panic_free_statements returns_ok)
  have "returns (ignoreS (attempts_insert prefix eid n st started c (num_milliseconds (c - started)) o1 o2) (ok ()))" for c
    unfolding attempts_insert_def by (intro returns_ignoreS panic_free_statements returns_ok)
  then show "returns (record_attempt prefix eid n st started o1 o2)"
    unfolding record_attempt_def returns_def by (simp split: prod.split)
qed

lemma returns_run: "returns m \<Longrightarrow> run_state m s = (r, s') \<Longrightarrow> r = Ok ()"
  unfolding returns_def by (drule spec [of _ s]) simp

lemma returns_tryS:
  assumes "returns m"
  shows "run_state (tryS m f) s = run_state (f ()) (snd (run_state m s))"
proof (cases "run_state m s")
  case (Pair r s1)
  with returns_run [OF assms Pair] show ?thesis by simp
qed

lemma returns_complete:
  "returns (ignoreS (complete_success prefix eid out) (log_execution prefix eid n level msg))"
  "returns (ignoreS (complete_retry prefix eid ms) (log_execution prefix eid n level msg))"
  "returns (ignoreS (complete_failed prefix eid) (log_execution prefix eid n level msg))"
  unfolding complete_success_def complete_retry_def complete_failed_def
  by (intro returns_ignoreS panic_free_statements returns_recording)+

lemma bind_no_error:
  "(\<And>e. m \<noteq> Err e) \<Longrightarrow> (\<And>a e. f a \<noteq> Err e) \<Longrightarrow> bind_outcome m f \<noteq> Err e"
  by (simp add: bind_outcome_Err)

lemma arith_no_error: "arith_i64 checks v \<noteq> Err e" "clamp_i64 v lo hi \<noteq> Err u" "Ok v \<noteq> Err e"
  by (simp_all add: arith_i64_def clamp_i64_def)

lemma compute_backoff_no_error: "compute_backoff checks rng policy n \<noteq> Err e"
proof -
  have "base_delay checks policy n \<noteq> Err e" for e
    unfolding base_delay_def pow2_i64_def
    by (cases "backoff policy = ''fixed''"; cases "backoff policy = ''linear''"; simp only: if_True if_False simp_thms)
      (intro bind_no_error arith_no_error)+
  then show ?thesis
    unfolding compute_backoff_def Let_def by (intro bind_no_error arith_no_error)
qed

text \<open>The decision returns, unless the computation of the delay panics.\<close>

lemma finalize_returns:
  assumes "run_state (finalize x ctx eid started policy n limit completed result) s = (r, s')"
  shows "r = Ok () \<or> (\<exists>p er k. r = Panic p \<and> result = Failure er \<and> n < limit \<and>
    compute_backoff (ctx_overflow_checks ctx) (gen_range x k) policy n = Panic p)"
proof (cases result)
  case (Success out)
  note run = assms [unfolded finalize_def Let_def Success dispatch_result.case returns_tryS [OF returns_recording(2)]]
  from returns_run [OF returns_complete(1) run] show ?thesis by simp
next
  case (Failure er)
  note run = assms [unfolded finalize_def Let_def Failure dispatch_result.case returns_tryS [OF returns_recording(2)]]
  show ?thesis
  proof (cases "n < limit")
    case False
    from returns_run [OF returns_complete(3)] run False show ?thesis by (simp only: if_False) blast
  next
    case True
    obtain s1 where s1: "snd (run_state (record_attempt (ctx_table_prefix ctx) eid n ''FAILED'' started None (Some er)) s) = s1"
      by blast
    note run = run [unfolded s1, simplified True if_True]
    show ?thesis
    proof (cases "compute_backoff (ctx_overflow_checks ctx) (gen_range x (pg_next s1)) policy n")
      case (Ok ms)
      with returns_run [OF returns_complete(2)] run show ?thesis
        by (simp only: run_tryS backoff_prog_def state.sel prod.case outcome.case) blast
    next
      case (Panic p)
      with run True Failure show ?thesis
        by (auto simp only: run_tryS backoff_prog_def state.sel prod.case outcome.case prod.inject)
    next
      case (Err e)
      then show ?thesis by (simp add: compute_backoff_no_error)
    qed
  qed
qed

section \<open>A run that nothing disturbs\<close>

text \<open>In a live transaction without lost statements, a statement the tables admit is executed.\<close>

definition calm :: "tx_state \<Rightarrow> string \<Rightarrow> (nat \<Rightarrow> string) \<Rightarrow> worker \<Rightarrow> bool" where
  "calm t p u s \<longleftrightarrow>
     pg_tx s = Some t \<and> \<not> tx_aborted t \<and> set (pg_faults s) \<subseteq> {Fine} \<and> pg_path s = p \<and> pg_uuid s = u"

lemma calm_tstmt:
  assumes calm: "calm t p u s" and T: "tenants (pg_db s) (p, prefix) = Some T"
    and g: "\<And>env. env_now env = tx_start t \<Longrightarrow> env_uuid env \<in> range u \<Longrightarrow> \<exists>a T'. g env T = Ok (a, T') \<and> P T'"
  shows "\<exists>a s' T'. run_state (tstmt prefix g) s = (Ok a, s') \<and> calm t p u s' \<and>
    tenants (pg_db s') (p, prefix) = Some T' \<and> P T'"
proof -
  let ?env = "pg_env (pg_arrive s)"
  have env: "env_now ?env = tx_start t" "env_uuid ?env \<in> range u" "env_path ?env = p"
    using calm by (simp_all add: calm_def pg_env_def pg_now_def)
  from g [OF env(1,2)] obtain a T' where g': "g ?env T = Ok (a, T')" "P T'" by blast
  have fine: "pg_fault s = Fine" using calm by (auto simp: calm_def pg_fault_def split: list.splits)
  have faults: "set (pg_faults (pg_arrive s)) \<subseteq> {Fine}"
    using calm by (cases "pg_faults s") (auto simp: calm_def pg_arrive_def)
  let ?s' = "(pg_arrive s)\<lparr>pg_db := (pg_db s)\<lparr>tenants := (tenants (pg_db s))((p, prefix) \<mapsto> T')\<rparr>\<rparr>"
  have "run_state (tstmt prefix g) s = (Ok a, ?s')"
    using calm T g' env fine by (simp add: tstmt_def stmt_def on_tenant_def Let_def in_aborted_tx_def calm_def)
  moreover have "calm t p u ?s'" using calm faults by (simp add: calm_def)
  ultimately show ?thesis using g'(2) by auto
qed

text \<open>The attempt is new and the ids are fresh.\<close>

definition unrecorded :: "string \<Rightarrow> int \<Rightarrow> (nat \<Rightarrow> string) \<Rightarrow> tenant \<Rightarrow> bool" where
  "unrecorded eid n u T \<longleftrightarrow>
     (\<forall>a \<in> set (attempts T). attempt_id a \<notin> range u \<and> \<not> (att_execution_id a = eid \<and> attempt_number a = n)) \<and>
     (\<forall>l \<in> set (execution_logs T). log_id l \<notin> range u)"

lemma calm_record:
  assumes "calm t p u s" and "tenants (pg_db s) (p, prefix) = Some T" and "unrecorded eid n u T"
    and "\<exists>e \<in> set (executions T). execution_id e = eid" and "st = ''SUCCESS'' \<or> st = ''FAILED''"
  shows "\<exists>s' T'. run_state (record_attempt prefix eid n st started o1 o2) s = (Ok (), s') \<and> calm t p u s' \<and>
    tenants (pg_db s') (p, prefix) = Some T' \<and> executions T' = executions T \<and> execution_logs T' = execution_logs T"
proof -
  let ?g = "sql_attempts_insert prefix eid n st started (pg_clock s) (num_milliseconds (pg_clock s - started)) o1 o2"
  have "\<exists>a T'. ?g env T = Ok (a, T') \<and> executions T' = executions T \<and> execution_logs T' = execution_logs T"
    if "env_uuid env \<in> range u" for env
    using assms(3-5) that by (auto simp: sql_attempts_insert_def attempt_violation_def unrecorded_def Let_def)
  from calm_tstmt [OF assms(1,2), of ?g "\<lambda>T'. executions T' = executions T \<and> execution_logs T' = execution_logs T"] this
  show ?thesis by (auto simp: record_attempt_def attempts_insert_def ignoreS_def)
qed

lemma calm_log:
  assumes "calm t p u s" and "tenants (pg_db s) (p, prefix) = Some T" and "\<forall>l \<in> set (execution_logs T). log_id l \<notin> range u"
    and "\<exists>e \<in> set (executions T). execution_id e = eid" and "level \<in> {''INFO'', ''WARN'', ''ERROR''}"
  shows "\<exists>s'. run_state (log_execution prefix eid n level msg) s = (Ok (), s') \<and> calm t p u s'"
proof -
  have "\<exists>a T'. sql_logs_insert prefix eid n level msg env T = Ok (a, T')" if "env_uuid env \<in> range u" for env
    using assms(3-5) that by (auto simp: sql_logs_insert_def)
  from calm_tstmt [OF assms(1,2), of "sql_logs_insert prefix eid n level msg" "\<lambda>_. True"] this
  show ?thesis by (auto simp: log_execution_def logs_insert_def ignoreS_def)
qed

lemma execution_ids_kept: "(\<And>e. execution_id (f e) = execution_id e) \<Longrightarrow>
  (\<exists>e \<in> set (update_rows q f es). execution_id e = eid) = (\<exists>e \<in> set es. execution_id e = eid)"
  by (auto simp: update_rows_def)

lemma calm_complete:
  assumes calm: "calm t p u s" and T: "tenants (pg_db s) (p, prefix) = Some T"
    and fresh: "\<forall>l \<in> set (execution_logs T). log_id l \<notin> range u" and e: "\<exists>e \<in> set (executions T). execution_id e = eid"
    and level: "level \<in> {''INFO'', ''WARN'', ''ERROR''}"
    and g: "\<And>env. env_now env = tx_start t \<Longrightarrow>
      \<exists>f. g env T = Ok ((), T\<lparr>executions := update_rows (running eid) f (executions T)\<rparr>) \<and> (\<forall>e. execution_id (f e) = execution_id e)"
  shows "\<exists>s'. run_state (ignoreS (tstmt prefix g) (log_execution prefix eid n level msg)) s = (Ok (), s') \<and> calm t p u s'"
proof -
  let ?P = "\<lambda>T'. execution_logs T' = execution_logs T \<and> (\<exists>e \<in> set (executions T'). execution_id e = eid)"
  have "\<exists>a T'. g env T = Ok (a, T') \<and> ?P T'" if "env_now env = tx_start t" for env
  proof -
    from g [OF that] obtain f where f: "g env T = Ok ((), T\<lparr>executions := update_rows (running eid) f (executions T)\<rparr>)"
      "\<forall>e. execution_id (f e) = execution_id e" by blast
    then show ?thesis using e execution_ids_kept [of f "running eid" "executions T" eid] by simp
  qed
  with calm_tstmt [OF calm T, of g ?P] obtain a s1 T1 where s1: "run_state (tstmt prefix g) s = (Ok a, s1)" "calm t p u s1"
    "tenants (pg_db s1) (p, prefix) = Some T1" "?P T1" by blast
  from calm_log [OF s1(2,3)] s1(4) fresh level show ?thesis by (simp add: ignoreS_def s1(1))
qed

lemma row_ids [simp]:
  "execution_id (success_row now out e) = execution_id e" "execution_id (retry_row now ms e) = execution_id e"
  "execution_id (failed_row now e) = execution_id e"
  by (simp_all add: success_row_def retry_row_def failed_row_def Let_def)

lemma calm_finalize:
  assumes calm: "calm t p u s" and T: "tenants (pg_db s) (p, ctx_table_prefix ctx) = Some T" and new: "unrecorded eid n u T"
    and e: "\<exists>e \<in> set (executions T). execution_id e = eid"
    and delay: "\<And>er k. result = Failure er \<Longrightarrow> n < limit \<Longrightarrow>
      \<exists>ms. compute_backoff (ctx_overflow_checks ctx) (gen_range x k) policy n = Ok ms \<and> tx_start t + ms * 1000 \<le> max_timestamp"
  shows "\<exists>s'. run_state (finalize x ctx eid started policy n limit completed result) s = (Ok (), s') \<and> calm t p u s'"
proof -
  note recd = calm_record [OF calm T new e]
  have fin: "\<exists>s'. run_state (ignoreS (tstmt (ctx_table_prefix ctx) g) (log_execution (ctx_table_prefix ctx) eid n level msg)) s1 =
      (Ok (), s') \<and> calm t p u s'"
    if "calm t p u s1" "tenants (pg_db s1) (p, ctx_table_prefix ctx) = Some T1" "executions T1 = executions T"
      "execution_logs T1 = execution_logs T" "level \<in> {''INFO'', ''WARN'', ''ERROR''}"
      "\<And>env. env_now env = tx_start t \<Longrightarrow>
        \<exists>f. g env T1 = Ok ((), T1\<lparr>executions := update_rows (running eid) f (executions T1)\<rparr>) \<and> (\<forall>e. execution_id (f e) = execution_id e)"
    for s1 T1 g level msg
    using that new e by (intro calm_complete [OF that(1,2)]) (simp_all add: unrecorded_def)
  show ?thesis
  proof (cases result)
    case (Success out)
    obtain s1 T1 where s1: "run_state (record_attempt (ctx_table_prefix ctx) eid n ''SUCCESS'' started (Some out) None) s = (Ok (), s1)"
      "calm t p u s1" "tenants (pg_db s1) (p, ctx_table_prefix ctx) = Some T1" "executions T1 = executions T"
      "execution_logs T1 = execution_logs T" using recd [of "''SUCCESS''"] by blast
    have "\<exists>f. sql_complete_success eid out env T1 = Ok ((), T1\<lparr>executions := update_rows (running eid) f (executions T1)\<rparr>) \<and>
        (\<forall>e. execution_id (f e) = execution_id e)" for env
      by (intro exI [of _ "success_row (env_now env) out"]) (simp add: sql_complete_success_def)
    with fin [OF s1(2-5)] show ?thesis by (simp add: finalize_def Let_def Success s1(1) complete_success_def)
  next
    case (Failure er)
    obtain s1 T1 where s1: "run_state (record_attempt (ctx_table_prefix ctx) eid n ''FAILED'' started None (Some er)) s = (Ok (), s1)"
      "calm t p u s1" "tenants (pg_db s1) (p, ctx_table_prefix ctx) = Some T1" "executions T1 = executions T"
      "execution_logs T1 = execution_logs T" using recd [of "''FAILED''"] by blast
    show ?thesis
    proof (cases "n < limit")
      case True
      from delay [OF Failure True, of "pg_next s1"] obtain ms
        where ms: "compute_backoff (ctx_overflow_checks ctx) (gen_range x (pg_next s1)) policy n = Ok ms"
          "tx_start t + ms * 1000 \<le> max_timestamp" by blast
      have "\<exists>f. sql_complete_retry eid ms env T1 = Ok ((), T1\<lparr>executions := update_rows (running eid) f (executions T1)\<rparr>) \<and>
          (\<forall>e. execution_id (f e) = execution_id e)" if "env_now env = tx_start t" for env
        using that ms(2) by (intro exI [of _ "retry_row (env_now env) ms"]) (simp add: sql_complete_retry_def)
      with fin [OF s1(2-5)] True ms(1) show ?thesis
        by (simp add: finalize_def Let_def Failure s1(1) complete_retry_def backoff_prog_def)
    next
      case False
      have "\<exists>f. sql_complete_failed eid env T1 = Ok ((), T1\<lparr>executions := update_rows (running eid) f (executions T1)\<rparr>) \<and>
          (\<forall>e. execution_id (f e) = execution_id e)" for env
        by (intro exI [of _ "failed_row (env_now env)"]) (simp add: sql_complete_failed_def)
      with fin [OF s1(2-5)] False show ?thesis
        by (simp add: finalize_def Let_def Failure s1(1) complete_failed_def)
    qed
  qed
qed

section \<open>Properties\<close>

lemma moved_rows:
  assumes "moved_by F (exec_view d) k eid (exec_view d')" and "tenants d k = Some T"
    and "\<forall>e \<in> set (executions T). execution_id e = eid \<longrightarrow> exec_status e = ''RUNNING''"
  shows "\<exists>f. F f \<and> (\<forall>k'. map_option executions (tenants d' k') =
    (if k' = k then Some (map (\<lambda>e. if execution_id e = eid then f e else e) (executions T))
     else map_option executions (tenants d k')))"
proof -
  from assms(1) obtain f es where f: "F f" "exec_view d k = Some es"
    "exec_view d' = (exec_view d)(k \<mapsto> update_rows (running eid) f es)" by (auto simp: moved_by_def)
  with assms(2) have es: "es = executions T" by (simp add: exec_view_def)
  have "update_rows (running eid) f es = map (\<lambda>e. if execution_id e = eid then f e else e) (executions T)"
    using assms(3) by (auto simp: es update_rows_def running_def)
  with f(3) have "map_option executions (tenants d' k') =
    (if k' = k then Some (map (\<lambda>e. if execution_id e = eid then f e else e) (executions T))
     else map_option executions (tenants d k'))" for k'
    by (metis exec_view_def fun_upd_apply)
  with f(1) show ?thesis by blast
qed

lemma finalize_moves:
  fixes s :: worker
  assumes live: "pg_tx s = Some t" "\<not> tx_aborted t"
    and T: "tenants (pg_db s) (pg_path s, ctx_table_prefix ctx) = Some T"
    and row: "\<forall>e \<in> set (executions T). execution_id e = eid \<longrightarrow> exec_status e = ''RUNNING''"
    and run: "run_state (finalize x ctx eid started policy n limit completed result) s = (Ok (), s')"
    and ok: "\<not> in_aborted_tx s'"
  shows "\<exists>f. decided x (ctx_overflow_checks ctx) policy n limit (tx_start t) result f \<and>
    (\<forall>k. map_option executions (tenants (pg_db s') k) =
      (if k = (pg_path s, ctx_table_prefix ctx) then Some (map (\<lambda>e. if execution_id e = eid then f e else e) (executions T))
       else map_option executions (tenants (pg_db s) k)))"
proof -
  define env where "env = \<lparr>env_now = tx_start t, env_path = pg_path s, env_uuid = [], env_locked = pg_locked s\<rparr>"
  have "tx_inv (tx_saved t) env (\<lambda>v. v = exec_view (pg_db s)) s" using live by (simp add: tx_inv_def env_def)
  from tripleD [OF finalize_decides this run] ok
  have "moved_by (decided x (ctx_overflow_checks ctx) policy n limit (tx_start t) result)
      (exec_view (pg_db s)) (pg_path s, ctx_table_prefix ctx) eid (exec_view (pg_db s'))"
    by (auto simp: tx_end_def tx_inv_def in_aborted_tx_def env_def)
  from moved_rows [OF this T row] show ?thesis .
qed

text \<open>C8: after a dispatch the worker ends the execution by the policy. In the transaction that claimed it, a
  success makes its row SUCCESS with the output; a failure makes it RETRYING while the attempt is below the limit,
  due again after the delay computed for it, which is at most the cap, and FAILED from the limit on. No other
  execution of any table moves. The only other outcomes are a transaction aborted by a failed statement (which
  the commit then rolls back) and a panic of the delay's computation. Neither occurs, and the verdict is
  recorded, when no statement is lost, the attempt is not yet recorded, generated ids are fresh, and every
  delay the policy may give is a timestamp from now.\<close>

theorem attempt_ends_by_policy:
  fixes s :: worker
  assumes live: "pg_tx s = Some t" "\<not> tx_aborted t"
    and table: "tenants (pg_db s) (pg_path s, ctx_table_prefix ctx) = Some T"
    and claimed: "\<exists>e \<in> set (executions T). execution_id e = eid"
      "\<forall>e \<in> set (executions T). execution_id e = eid \<longrightarrow>
         exec_status e = ''RUNNING'' \<and> attempt_count e = n \<and> exec_max_attempts e = limit"
    and run: "run_state (finalize x ctx eid started policy n limit completed result) s = (r, s')"
  shows "let now = tx_start t; delay = (\<lambda>k. compute_backoff (ctx_overflow_checks ctx) (gen_range x k) policy n);
      spent = (\<lambda>e. map_option (\<lambda>t0. epoch_ms (now - t0)) (started_at e));
      recorded = (\<lambda>f. r = Ok () \<and> \<not> in_aborted_tx s' \<and> (\<forall>k. map_option executions (tenants (pg_db s') k) =
        (if k = (pg_path s, ctx_table_prefix ctx)
         then Some (map (\<lambda>e. if execution_id e = eid then f e else e) (executions T))
         else map_option executions (tenants (pg_db s) k))));
      ended = (case result of
          Success out \<Rightarrow> recorded (\<lambda>e. e\<lparr>exec_status := ''SUCCESS'', exec_output := Some out,
            completed_at := Some now, duration_ms := spent e\<rparr>)
        | Failure er \<Rightarrow>
            if n < limit then \<exists>k ms. delay k = Ok ms \<and> 0 \<le> ms \<and> ms \<le> max_delay_ms policy \<and>
              recorded (\<lambda>e. e\<lparr>exec_status := ''RETRYING'', exec_run_at := now + ms * 1000, worker_id := None,
                completed_at := None, duration_ms := None\<rparr>)
            else recorded (\<lambda>e. e\<lparr>exec_status := ''FAILED'', completed_at := Some now, duration_ms := spent e,
              worker_id := None\<rparr>))
    in (ended \<or> r = Ok () \<and> in_aborted_tx s' \<or>
        (\<exists>p er k. r = Panic p \<and> result = Failure er \<and> n < limit \<and> delay k = Panic p)) \<and>
      (set (pg_faults s) \<subseteq> {Fine} \<and> unrecorded eid n (pg_uuid s) T \<and>
         (\<forall>k. \<exists>ms. delay k = Ok ms \<and> now + ms * 1000 \<le> max_timestamp) \<longrightarrow> ended)"
proof -
  let ?now = "tx_start t"
  let ?delay = "\<lambda>k. compute_backoff (ctx_overflow_checks ctx) (gen_range x k) policy n"
  let ?spent = "\<lambda>e. map_option (\<lambda>t0. epoch_ms (?now - t0)) (started_at e)"
  let ?rec = "\<lambda>f. r = Ok () \<and> \<not> in_aborted_tx s' \<and> (\<forall>k. map_option executions (tenants (pg_db s') k) =
    (if k = (pg_path s, ctx_table_prefix ctx) then Some (map (\<lambda>e. if execution_id e = eid then f e else e) (executions T))
     else map_option executions (tenants (pg_db s) k)))"
  let ?retried = "\<lambda>ms e. e\<lparr>exec_status := ''RETRYING'', exec_run_at := ?now + ms * 1000, worker_id := None,
    completed_at := None, duration_ms := None\<rparr>"
  let ?ended = "case result of
      Success out \<Rightarrow> ?rec (\<lambda>e. e\<lparr>exec_status := ''SUCCESS'', exec_output := Some out, completed_at := Some ?now, duration_ms := ?spent e\<rparr>)
    | Failure er \<Rightarrow>
        if n < limit then \<exists>k ms. ?delay k = Ok ms \<and> 0 \<le> ms \<and> ms \<le> max_delay_ms policy \<and> ?rec (?retried ms)
        else ?rec (\<lambda>e. e\<lparr>exec_status := ''FAILED'', completed_at := Some ?now, duration_ms := ?spent e, worker_id := None\<rparr>)"
  have running: "\<forall>e \<in> set (executions T). execution_id e = eid \<longrightarrow> exec_status e = ''RUNNING''" using claimed(2) by blast
  have ended: ?ended if r: "r = Ok ()" and ok: "\<not> in_aborted_tx s'"
  proof -
    from finalize_moves [OF live table running run [unfolded r] ok] obtain f
      where f: "decided x (ctx_overflow_checks ctx) policy n limit ?now result f" "?rec f" using r ok by blast
    have retry: "map (\<lambda>e. if execution_id e = eid then retry_row ?now ms e else e) (executions T) =
        map (\<lambda>e. if execution_id e = eid then ?retried ms e else e) (executions T)" if "n < limit" for ms
      using claimed(2) that by (auto simp: retry_row_def Let_def)
    from f(1) show ?ended
    proof cases
      case (succeeded out)
      with f(2) show ?thesis by (simp add: success_row_def elapsed_ms_def)
    next
      case (retried k ms er)
      have rec: "?rec (?retried ms)" using f(2) unfolding retried(2) retry [OF retried(3)] .
      from rec retried(4) compute_backoff_range [OF retried(4)]
      have "\<exists>k ms. ?delay k = Ok ms \<and> 0 \<le> ms \<and> ms \<le> max_delay_ms policy \<and> ?rec (?retried ms)" by blast
      then show ?thesis by (simp only: retried(1,3) dispatch_result.case if_True)
    next
      case (failed er)
      with f(2) show ?thesis by (simp add: failed_row_def elapsed_ms_def)
    qed
  qed
  have undisturbed: ?ended if "set (pg_faults s) \<subseteq> {Fine}" "unrecorded eid n (pg_uuid s) T"
    "\<forall>k. \<exists>ms. ?delay k = Ok ms \<and> ?now + ms * 1000 \<le> max_timestamp"
  proof -
    have "calm t (pg_path s) (pg_uuid s) s" using live that(1) by (simp add: calm_def)
    from calm_finalize [OF this table that(2) claimed(1)] that(3) obtain s2
      where "run_state (finalize x ctx eid started policy n limit completed result) s = (Ok (), s2)"
        "calm t (pg_path s) (pg_uuid s) s2" by blast
    with run have "r = Ok ()" "\<not> in_aborted_tx s'" by (auto simp: calm_def in_aborted_tx_def)
    then show ?ended by (rule ended)
  qed
  from finalize_returns [OF run] have "?ended \<or> r = Ok () \<and> in_aborted_tx s' \<or>
      (\<exists>p er k. r = Panic p \<and> result = Failure er \<and> n < limit \<and> ?delay k = Panic p)"
    using ended by blast
  with undisturbed show ?thesis by (simp only: Let_def simp_thms) blast
qed

text \<open>A transaction that has claimed the second of three attempts, whose dispatch fails: the linear delay is
  2000 ms less a quarter of jitter.\<close>

definition second_attempt :: execution_row where
  "second_attempt =
     \<lparr>execution_id = ''e1'', exec_job_id = ''j1'', exec_endpoint = ''hook'', exec_endpoint_type = ''HTTP'',
      exec_idempotency_key = Some ''k1'', exec_status = ''RUNNING'', exec_input = None, exec_output = None,
      attempt_count = 2, exec_max_attempts = 3, worker_id = Some ''w1'', exec_run_at = 10, started_at = Some 50,
      completed_at = None, duration_ms = None, exec_created_at = 10\<rparr>"

definition claiming_worker :: worker where
  "claiming_worker =
     (let d = \<lparr>organizations = [], workspaces = [],
            tenants = (\<lambda>k. if k = (''acme'', []) then Some (empty_tenant\<lparr>executions := [second_attempt]\<rparr>) else None),
            cron_job = (\<lambda>_. None)\<rparr>
      in idle_worker\<lparr>pg_db := d, pg_path := ''acme'',
           pg_tx := Some \<lparr>tx_start = 50, tx_saved = d, tx_saved_path = ''public'', tx_aborted = False\<rparr>\<rparr>)"

theorem attempt_ends_by_policy_witness:
  "\<exists>s'. run_state (finalize sample_ext
         \<lparr>ctx_encryption_key = [], ctx_table_prefix = [], ctx_kafka = False, ctx_redis_stream = False, ctx_overflow_checks = True\<rparr>
         ''e1'' 60 \<lparr>max_attempts = 3, backoff = ''linear'', initial_delay_ms = 1000, max_delay_ms = 60000\<rparr> 2 3 90
         (Failure JNull)) claiming_worker = (Ok (), s') \<and> \<not> in_aborted_tx s' \<and>
     map_option executions (tenants (pg_db s') (''acme'', [])) =
       Some [second_attempt\<lparr>exec_status := ''RETRYING'', exec_run_at := 1500050, worker_id := None\<rparr>]"
proof -
  let ?ctx = "\<lparr>ctx_encryption_key = [], ctx_table_prefix = [], ctx_kafka = False, ctx_redis_stream = False, ctx_overflow_checks = True\<rparr>"
  let ?policy = "\<lparr>max_attempts = 3, backoff = ''linear'', initial_delay_ms = 1000, max_delay_ms = 60000\<rparr>"
  let ?t = "\<lparr>tx_start = 50, tx_saved = pg_db claiming_worker, tx_saved_path = ''public'', tx_aborted = False\<rparr>"
  let ?T = "empty_tenant\<lparr>executions := [second_attempt]\<rparr>"
  have delay: "compute_backoff True (gen_range sample_ext k) ?policy 2 = Ok 1500" for k
    by (simp add: compute_backoff_def base_delay_def arith_i64_def in_i64_def i64_min_def i64_max_def rust_quot_def
        clamp_i64_def clamp_def sample_ext_def Let_def)
  obtain r s' where run: "run_state (finalize sample_ext ?ctx ''e1'' 60 ?policy 2 3 90 (Failure JNull)) claiming_worker = (r, s')"
    by fastforce
  have tx: "pg_tx claiming_worker = Some ?t" "\<not> tx_aborted ?t" "pg_path claiming_worker = ''acme''"
    "set (pg_faults claiming_worker) \<subseteq> {Fine}"
    and T: "tenants (pg_db claiming_worker) (pg_path claiming_worker, ctx_table_prefix ?ctx) = Some ?T"
    by (simp_all add: claiming_worker_def idle_worker_def Let_def)
  have rows: "\<exists>e \<in> set (executions ?T). execution_id e = ''e1''"
    "\<forall>e \<in> set (executions ?T). execution_id e = ''e1'' \<longrightarrow> exec_status e = ''RUNNING'' \<and> attempt_count e = 2 \<and> exec_max_attempts e = 3"
    by (simp_all add: second_attempt_def)
  have new: "unrecorded ''e1'' 2 (pg_uuid claiming_worker) ?T" by (simp add: unrecorded_def empty_tenant_def)
  have "r = Ok () \<and> \<not> in_aborted_tx s' \<and> map_option executions (tenants (pg_db s') (''acme'', [])) =
      Some [second_attempt\<lparr>exec_status := ''RETRYING'', exec_run_at := 50 + 1500 * 1000, worker_id := None,
        completed_at := None, duration_ms := None\<rparr>]"
    using attempt_ends_by_policy [OF tx(1,2) T rows run] new tx(3,4)
    by (auto simp: Let_def delay max_timestamp_def second_attempt_def)
  with run show ?thesis by (auto simp: second_attempt_def)
qed

end
