(* ===== verification/Worker_Loop.thy ===== *)
theory Worker_Loop
  imports Json Models
begin

text \<open>
  The worker's loop (\<open>run\<close> of \<open>crates/worker/src/poller.rs\<close>), its health (\<open>health.rs\<close>) and the
  readiness response (\<open>ops.rs\<close>). The loop is a step relation: its own control points, the tasks it
  spawned, the cancellation token and the clock. What a task does to the database is
  \<open>claim_and_process\<close> of the theory \<open>Poller\<close>; here only its permit and its verdict matter.
  The drain asks the semaphore for \<open>max_concurrent as u32\<close> permits. \<open>Semaphore::new\<close> panics above
  \<open>usize::MAX >> 3\<close>, before there is a loop.
\<close>

section \<open>Health\<close>

definition stale_after :: "nat \<Rightarrow> nat \<Rightarrow> nat" where
  "stale_after poll_interval floor = max floor (poll_interval * 10)"

definition poller_ok :: "nat \<Rightarrow> nat \<Rightarrow> nat \<Rightarrow> bool" where
  "poller_ok last_tick_ago stale available_permits \<longleftrightarrow> last_tick_ago \<le> stale \<or> available_permits = 0"

definition ready_response :: "(unit, string) outcome \<Rightarrow> bool \<Rightarrow> nat \<Rightarrow> http_response" where
  "ready_response db polling last_tick_ago_ms =
     (let ready = (db = Ok ()) \<and> polling;
          body = jobj
            [(''status'', JStr (if ready then ''ready'' else ''not_ready'')),
             (''db'', JStr (case db of Ok _ \<Rightarrow> ''ok'' | Err e \<Rightarrow> e | Panic p \<Rightarrow> p)),
             (''poller'', JStr (if polling then ''ok'' else ''stale'')),
             (''last_tick_ago_ms'', JInt (int last_tick_ago_ms))]
      in \<lparr>resp_status = (if ready then 200 else 503), resp_body = Some body\<rparr>)"

section \<open>The loop\<close>

text \<open>The control points: the top of the loop, the idle sleep, waiting for a permit, fetching the
  schemas with a permit held, the sleep after a failed fetch, draining, returned.\<close>

datatype loop_pc = Top | Idle_Wait | Acquire | Fetch | Error_Wait | Draining | Stopped

record loop_state =
  pc :: loop_pc
  permits :: nat
  in_flight :: nat
  idle :: bool
  cancelled :: bool
  now_ms :: nat
  last_tick_ms :: nat
  timed_out :: bool

definition loop_init :: "nat \<Rightarrow> loop_state" where
  "loop_init max_concurrent =
     \<lparr>pc = Top, permits = max_concurrent, in_flight = 0, idle = False, cancelled = False, now_ms = 0,
      last_tick_ms = 0, timed_out = False\<rparr>"

definition last_tick_ago :: "loop_state \<Rightarrow> nat" where
  "last_tick_ago s = now_ms s - last_tick_ms s"

definition worker_poller_ok :: "nat \<Rightarrow> loop_state \<Rightarrow> bool" where
  "worker_poller_ok stale s = poller_ok (last_tick_ago s) stale (permits s)"

inductive loop_step :: "nat \<Rightarrow> loop_state \<Rightarrow> loop_state \<Rightarrow> bool" for max_concurrent where
  tick: "pc s = Top \<Longrightarrow>
    loop_step max_concurrent s (s\<lparr>last_tick_ms := now_ms s, pc := (if idle s then Idle_Wait else Acquire)\<rparr>)"
| idle_elapsed: "pc s = Idle_Wait \<Longrightarrow> loop_step max_concurrent s (s\<lparr>idle := False, pc := Acquire\<rparr>)"
| acquire: "pc s = Acquire \<Longrightarrow> permits s = Suc n \<Longrightarrow>
    loop_step max_concurrent s (s\<lparr>permits := n, pc := Fetch\<rparr>)"
| fetched: "pc s = Fetch \<Longrightarrow>
    loop_step max_concurrent s (s\<lparr>in_flight := Suc (in_flight s), pc := Top\<rparr>)"
| fetch_failed: "pc s = Fetch \<Longrightarrow>
    loop_step max_concurrent s (s\<lparr>permits := Suc (permits s), pc := Error_Wait\<rparr>)"
| error_elapsed: "pc s = Error_Wait \<Longrightarrow> loop_step max_concurrent s (s\<lparr>pc := Top\<rparr>)"
| break: "pc s \<in> {Idle_Wait, Acquire, Error_Wait} \<Longrightarrow> cancelled s \<Longrightarrow>
    loop_step max_concurrent s (s\<lparr>pc := Draining\<rparr>)"
| task_done: "in_flight s = Suc n \<Longrightarrow>
    loop_step max_concurrent s (s\<lparr>in_flight := n, permits := Suc (permits s), idle := idle s \<or> \<not> found\<rparr>)"
| cancel: "loop_step max_concurrent s (s\<lparr>cancelled := True\<rparr>)"
| elapse: "loop_step max_concurrent s (s\<lparr>now_ms := now_ms s + d\<rparr>)"
| drained: "pc s = Draining \<Longrightarrow> max_concurrent mod 2 ^ 32 \<le> permits s \<Longrightarrow>
    loop_step max_concurrent s (s\<lparr>pc := Stopped\<rparr>)"
| drain_timeout: "pc s = Draining \<Longrightarrow>
    loop_step max_concurrent s (s\<lparr>pc := Stopped, timed_out := True\<rparr>)"

inductive_cases loop_stepE: "loop_step max_concurrent s s'"

abbreviation loop_reach :: "nat \<Rightarrow> loop_state \<Rightarrow> bool" where
  "loop_reach max_concurrent s \<equiv> (loop_step max_concurrent)\<^sup>*\<^sup>* (loop_init max_concurrent) s"

section \<open>Invariants\<close>

definition loop_inv :: "nat \<Rightarrow> loop_state \<Rightarrow> bool" where
  "loop_inv max_concurrent s \<longleftrightarrow>
     permits s + in_flight s + (if pc s = Fetch then 1 else 0) = max_concurrent \<and>
     (pc s \<in> {Draining, Stopped} \<longrightarrow> cancelled s) \<and>
     (max_concurrent < 2 ^ 32 \<and> pc s = Stopped \<and> \<not> timed_out s \<longrightarrow> in_flight s = 0) \<and> (timed_out s \<longrightarrow> pc s = Stopped) \<and>
     last_tick_ms s \<le> now_ms s"

lemma loop_inv_init: "loop_inv n (loop_init n)"
  by (simp add: loop_inv_def loop_init_def)

lemma loop_inv_step: "loop_step n s s' \<Longrightarrow> loop_inv n s \<Longrightarrow> loop_inv n s'"
  by (induction rule: loop_step.induct) (auto simp: loop_inv_def split: if_splits)

lemma loop_inv_reach: "loop_reach n s \<Longrightarrow> loop_inv n s"
  by (induction rule: rtranclp_induct) (auto intro: loop_inv_init loop_inv_step)

text \<open>Once draining, no task is started any more.\<close>

lemma drain_step:
  "loop_step n s s' \<Longrightarrow> pc s \<in> {Draining, Stopped} \<Longrightarrow>
   pc s' \<in> {Draining, Stopped} \<and> in_flight s' \<le> in_flight s"
  by (induction rule: loop_step.induct) auto

lemma drain_steps:
  assumes "(loop_step n)\<^sup>*\<^sup>* s s'" and "pc s \<in> {Draining, Stopped}"
  shows "pc s' \<in> {Draining, Stopped} \<and> in_flight s' \<le> in_flight s"
  using assms by (induction rule: rtranclp_induct) (auto dest: drain_step)

text \<open>A cancelled worker can always finish its tasks and return without a timeout.\<close>

lemma finish_tasks:
  "in_flight s = k \<Longrightarrow>
   \<exists>s'. (loop_step n)\<^sup>*\<^sup>* s s' \<and> in_flight s' = 0 \<and> permits s' = permits s + k \<and> pc s' = pc s \<and>
     cancelled s' = cancelled s \<and> timed_out s' = timed_out s"
proof (induction k arbitrary: s)
  case (Suc k)
  let ?s = "s\<lparr>in_flight := k, permits := Suc (permits s), idle := idle s \<or> \<not> True\<rparr>"
  have step: "loop_step n s ?s" using Suc.prems by (rule loop_step.task_done)
  have "in_flight ?s = k" by simp
  from Suc.IH [OF this] obtain s' where "(loop_step n)\<^sup>*\<^sup>* ?s s'" "in_flight s' = 0"
    "permits s' = permits ?s + k" "pc s' = pc ?s" "cancelled s' = cancelled ?s" "timed_out s' = timed_out ?s"
    by blast
  with step show ?case by (intro exI [of _ s']) (auto intro: converse_rtranclp_into_rtranclp)
qed auto

lemma reach_draining:
  assumes "cancelled s" and "pc s \<notin> {Draining, Stopped}"
  shows "\<exists>s'. (loop_step n)\<^sup>*\<^sup>* s s' \<and> pc s' = Draining \<and> timed_out s' = timed_out s"
proof -
  have brk: "\<exists>s'. (loop_step n)\<^sup>*\<^sup>* q s' \<and> pc s' = Draining \<and> timed_out s' = timed_out q"
    if "cancelled q" "pc q \<in> {Idle_Wait, Acquire, Error_Wait}" for q
    using loop_step.break [OF that(2,1), of n] by (intro exI [of _ "q\<lparr>pc := Draining\<rparr>"]) auto
  show ?thesis
  proof (cases "pc s")
    case Top
    let ?q = "s\<lparr>last_tick_ms := now_ms s, pc := (if idle s then Idle_Wait else Acquire)\<rparr>"
    have "loop_step n s ?q" using Top by (rule loop_step.tick)
    moreover have "pc ?q \<in> {Idle_Wait, Acquire, Error_Wait}" by simp
    with brk [of ?q] assms(1) obtain s' where
      "(loop_step n)\<^sup>*\<^sup>* ?q s'" "pc s' = Draining" "timed_out s' = timed_out s" by auto
    ultimately show ?thesis by (meson converse_rtranclp_into_rtranclp)
  next
    case Fetch
    let ?q = "s\<lparr>permits := Suc (permits s), pc := Error_Wait\<rparr>"
    have "loop_step n s ?q" using Fetch by (rule loop_step.fetch_failed)
    moreover from brk [of ?q] assms(1) obtain s' where
      "(loop_step n)\<^sup>*\<^sup>* ?q s'" "pc s' = Draining" "timed_out s' = timed_out s" by auto
    ultimately show ?thesis by (meson converse_rtranclp_into_rtranclp)
  qed (use assms brk [of s] in auto)
qed

lemma can_shut_down:
  assumes "loop_reach n s" and "cancelled s" and "pc s \<noteq> Stopped"
  shows "\<exists>s'. (loop_step n)\<^sup>*\<^sup>* s s' \<and> pc s' = Stopped \<and> in_flight s' = 0 \<and> \<not> timed_out s'"
proof -
  have inv: "loop_inv n s" using assms(1) by (rule loop_inv_reach)
  obtain a where a: "(loop_step n)\<^sup>*\<^sup>* s a" "pc a = Draining" "timed_out a = timed_out s"
    using reach_draining [of s n] assms(2,3) by (cases "pc s = Draining") auto
  obtain b where b: "(loop_step n)\<^sup>*\<^sup>* a b" "in_flight b = 0" "pc b = Draining" "timed_out b = timed_out s"
    using finish_tasks [OF refl, of n a] a by auto
  have "loop_inv n b" using assms(1) a(1) b(1) by (intro loop_inv_reach) (meson rtranclp_trans)
  then have "n \<le> permits b" using b by (simp add: loop_inv_def)
  then have "n mod 2 ^ 32 \<le> permits b" using mod_less_eq_dividend order_trans by blast
  then have "loop_step n b (b\<lparr>pc := Stopped\<rparr>)" using b by (intro loop_step.drained)
  moreover have "\<not> timed_out s" using inv assms(3) by (simp add: loop_inv_def)
  ultimately show ?thesis
    using a(1) b by (intro exI [of _ "b\<lparr>pc := Stopped\<rparr>"]) (auto intro: rtranclp.rtrancl_into_rtrancl rtranclp_trans)
qed

section \<open>Properties\<close>

text \<open>C38: a worker never runs more tasks than \<open>max_concurrent\<close>: every permit is free, held by one running
  task, or held by the loop while it fetches the schemas. With \<open>max_concurrent\<close> below \<open>2 ^ 32\<close> it returns with
  a task still running only after the drain timeout (beyond, see \<open>truncated_drain_stops_early\<close>).\<close>

theorem worker_concurrency_bounded:
  assumes "loop_reach n s"
  shows "in_flight s \<le> n \<and> permits s + in_flight s + (if pc s = Fetch then 1 else 0) = n \<and>
    (n < 2 ^ 32 \<and> pc s = Stopped \<and> in_flight s \<noteq> 0 \<longrightarrow> timed_out s)"
  using loop_inv_reach [OF assms] by (auto simp: loop_inv_def)

text \<open>A worker with two permits that was cancelled with one task running and gave up waiting for it.\<close>

definition gave_up :: loop_state where
  "gave_up = (loop_init 2)\<lparr>permits := 1, in_flight := 1, cancelled := True, pc := Stopped, timed_out := True\<rparr>"

lemma gave_up_reached: "loop_reach 2 gave_up"
proof -
  let ?a = "(loop_init 2)\<lparr>pc := Acquire\<rparr>"
  let ?b = "?a\<lparr>permits := 1, pc := Fetch\<rparr>"
  let ?c = "?b\<lparr>in_flight := 1, pc := Top\<rparr>"
  let ?d = "?c\<lparr>pc := Acquire\<rparr>"
  let ?e = "?d\<lparr>cancelled := True\<rparr>"
  let ?f = "?e\<lparr>pc := Draining\<rparr>"
  have "loop_step 2 (loop_init 2) ?a" using loop_step.tick [of "loop_init 2" 2] by (simp add: loop_init_def)
  moreover have "loop_step 2 ?a ?b" using loop_step.acquire [of ?a 1 2] by (simp add: loop_init_def)
  moreover have "loop_step 2 ?b ?c" using loop_step.fetched [of ?b 2] by (simp add: loop_init_def)
  moreover have "loop_step 2 ?c ?d" using loop_step.tick [of ?c 2] by (simp add: loop_init_def)
  moreover have "loop_step 2 ?d ?e" by (rule loop_step.cancel)
  moreover have "loop_step 2 ?e ?f" using loop_step.break [of ?e 2] by simp
  moreover have "loop_step 2 ?f gave_up"
    using loop_step.drain_timeout [of ?f 2] by (simp add: gave_up_def loop_init_def)
  ultimately show ?thesis by (meson converse_rtranclp_into_rtranclp rtranclp.rtrancl_refl)
qed

theorem worker_concurrency_bounded_witness:
  "pc gave_up = Stopped \<and> in_flight gave_up = 1 \<and> in_flight gave_up \<le> 2 \<and> permits gave_up + in_flight gave_up = 2 \<and>
   timed_out gave_up"
  using worker_concurrency_bounded [OF gave_up_reached] by (simp add: gave_up_def)

text \<open>C39: a cancelled worker can always finish: from every state it reached there is a run in which its
  tasks complete and it returns with nothing in flight and no timeout.\<close>

theorem worker_can_shut_down:
  assumes "loop_reach n s" and "cancelled s" and "pc s \<noteq> Stopped"
  shows "\<exists>s'. (loop_step n)\<^sup>*\<^sup>* s s' \<and> pc s' = Stopped \<and> in_flight s' = 0 \<and> \<not> timed_out s'"
  using assms by (rule can_shut_down)

theorem worker_can_shut_down_witness:
  "\<exists>s'. (loop_step 2)\<^sup>*\<^sup>* ((loop_init 2)\<lparr>cancelled := True\<rparr>) s' \<and> pc s' = Stopped \<and> in_flight s' = 0 \<and> \<not> timed_out s'"
proof (rule worker_can_shut_down)
  show "loop_reach 2 ((loop_init 2)\<lparr>cancelled := True\<rparr>)" using loop_step.cancel by (rule r_into_rtranclp)
qed (simp_all add: loop_init_def)

text \<open>Once it drains, a worker starts no task: whatever happens next, it stays draining or stopped
  and the number of its tasks only falls.\<close>

lemma draining_starts_nothing:
  assumes "(loop_step n)\<^sup>*\<^sup>* s s'" and "pc s \<in> {Draining, Stopped}"
  shows "pc s' \<in> {Draining, Stopped} \<and> in_flight s' \<le> in_flight s"
  using assms by (rule drain_steps)

lemma draining_starts_nothing_example:
  "pc ((loop_init 2)\<lparr>pc := Stopped\<rparr>) \<in> {Draining, Stopped} \<and>
   in_flight ((loop_init 2)\<lparr>pc := Stopped\<rparr>) \<le> in_flight ((loop_init 2)\<lparr>pc := Draining\<rparr>)"
  by (rule draining_starts_nothing [of 2]) (rule r_into_rtranclp, use loop_step.drained [of "(loop_init 2)\<lparr>pc := Draining\<rparr>" 2]
    in \<open>simp_all add: loop_init_def\<close>)

text \<open>With \<open>max_concurrent = 2 ^ 32\<close> the drain waits for no permit, and the worker returns over a running task.\<close>

lemma truncated_drain_stops_early:
  "\<exists>s. loop_reach (2 ^ 32) s \<and> pc s = Stopped \<and> in_flight s = 1 \<and> \<not> timed_out s"
proof -
  let ?n = "2 ^ 32 :: nat"
  let ?a = "(loop_init ?n)\<lparr>last_tick_ms := 0, pc := Acquire\<rparr>"
  let ?b = "?a\<lparr>permits := ?n - 1, pc := Fetch\<rparr>"
  let ?c = "?b\<lparr>in_flight := 1, pc := Top\<rparr>"
  let ?d = "?c\<lparr>last_tick_ms := 0, pc := Acquire\<rparr>"
  let ?e = "?d\<lparr>cancelled := True\<rparr>"
  let ?f = "?e\<lparr>pc := Draining\<rparr>"
  have "loop_step ?n (loop_init ?n) ?a"
    using loop_step.tick [of "loop_init ?n" ?n] by (simp add: loop_init_def)
  moreover have "loop_step ?n ?a ?b"
    using loop_step.acquire [of ?a "?n - 1" ?n] by (simp add: loop_init_def)
  moreover have "loop_step ?n ?b ?c" using loop_step.fetched [of ?b ?n] by (simp add: loop_init_def)
  moreover have "loop_step ?n ?c ?d" using loop_step.tick [of ?c ?n] by (simp add: loop_init_def)
  moreover have "loop_step ?n ?d ?e" by (rule loop_step.cancel)
  moreover have "loop_step ?n ?e ?f" using loop_step.break [of ?e ?n] by simp
  moreover have "loop_step ?n ?f (?f\<lparr>pc := Stopped\<rparr>)" using loop_step.drained [of ?f ?n] by simp
  ultimately have "loop_reach ?n (?f\<lparr>pc := Stopped\<rparr>)" by (meson converse_rtranclp_into_rtranclp rtranclp.rtrancl_refl)
  then show ?thesis by (intro exI [of _ "?f\<lparr>pc := Stopped\<rparr>"]) (simp add: loop_init_def)
qed

end
