(* ===== verification/Versions.thy ===== *)
theory Versions
  imports Job_Api System
begin

text \<open>
  The versions of CRON jobs. \<open>retire_and_replace\<close> (\<open>crates/common/src/db/jobs.rs\<close>) appends a row that names
  the row it replaces, and \<open>get_versions\<close> follows these names back. No constraint of the table keeps the
  names from dangling or from forming a cycle, on which the recursive query would never end; that they
  do not is an invariant of the whole system, since only the update handler writes them and it has read
  the row it names.
\<close>

section \<open>Order\<close>

lemma update_rows_nth: "i < length xs \<Longrightarrow> update_rows p f xs ! i = (if p (xs ! i) then f (xs ! i) else xs ! i)"
  by (simp add: update_rows_def)

lemma update_rows_take: "take i (update_rows p f xs) = update_rows p f (take i xs)"
  by (simp add: update_rows_def take_map)

lemma versions_ordered_rows:
  assumes "versions_ordered js"
    and "\<And>j. job_id (f j) = job_id j" and "\<And>j. previous_version_id (f j) = previous_version_id j"
  shows "versions_ordered (update_rows p f js)"
proof -
  have "map job_id (update_rows p f js) = map job_id js" by (rule update_rows_keys) (rule assms(2))
  moreover have "job_id ` set (take i (update_rows p f js)) = job_id ` set (take i js)" for i
    by (metis (no_types, lifting) assms(2) list.set_map update_rows_keys update_rows_take)
  moreover have "previous_version_id (update_rows p f js ! i) = previous_version_id (js ! i)" if "i < length js" for i
    using that by (simp add: update_rows_nth assms(3))
  ultimately show ?thesis
    using assms(1) by (simp add: versions_ordered_def) (simp add: update_rows_def)
qed

lemma versions_ordered_snoc:
  assumes "versions_ordered js" and "job_id j \<notin> job_id ` set js"
    and "\<And>p. previous_version_id j = Some p \<Longrightarrow> p \<in> job_id ` set js"
  shows "versions_ordered (js @ [j])"
  using assms by (auto simp: versions_ordered_def nth_append less_Suc_eq)

section \<open>The invariant\<close>

definition versioned :: "database \<Rightarrow> bool" where
  "versioned d = all_tenants (\<lambda>t. versions_ordered (jobs t)) d"

lemma versioned_with_tenant: "versioned d \<Longrightarrow> versions_ordered (jobs t) \<Longrightarrow> versioned (with_tenant k t d)"
  by (simp add: versioned_def all_tenants_def)

lemma versions_ordered_step: "tenant_step t t' \<Longrightarrow> versions_ordered (jobs t) \<Longrightarrow> versions_ordered (jobs t')"
proof (induction rule: tenant_step.induct)
  case (job_insert j prefix t r t')
  then have "t' = t\<lparr>jobs := jobs t @ [j]\<rparr>" "job_id j \<notin> job_id ` set (jobs t)"
    using job_violation_new by (auto simp: insert_job_Ok)
  with job_insert show ?case by (auto intro!: versions_ordered_snoc)
qed (auto simp: sql_payload_specs_create_def sql_payload_specs_update_def
    sql_payload_specs_delete_def sql_configs_create_def sql_configs_update_def sql_configs_delete_def
    sql_secrets_create_def sql_secrets_update_def sql_secrets_delete_def insert_endpoint_def
    sql_endpoints_update_def sql_endpoints_delete_def sql_jobs_cancel_def sql_retire_def sql_retire_expired_def
    insert_execution_def sql_executions_cancel_def sql_cancel_pending_def Let_def
    split: if_splits option.splits intro: versions_ordered_rows)

lemma worker_step_jobs: "worker_step t t' \<Longrightarrow> jobs t' = jobs t"
  by (induction rule: worker_step.induct)
    (auto simp: sql_claim_def sql_complete_success_def sql_complete_retry_def sql_complete_failed_def
      sql_attempts_insert_def sql_logs_insert_def Let_def split: option.splits if_splits)

interpretation versions_inv: worker_invariant versioned
proof
  fix d d'
  assume "db_step d d'" and "versioned d"
  then show "versioned d'"
  proof (induction rule: db_step.induct)
    case (in_tenant d k t t')
    then have "versions_ordered (jobs t)" unfolding versioned_def all_tenants_def by blast
    with in_tenant versions_ordered_step show ?case by (blast intro: versioned_with_tenant)
  qed (auto simp: versioned_def all_tenants_def versions_ordered_def empty_tenant_def)
next
  fix d k t t'
  assume "tenants d k = Some t" and "worker_step t t'" and "versioned d"
  moreover from this have "versions_ordered (jobs t)" unfolding versioned_def all_tenants_def by blast
  ultimately show "versioned (with_tenant k t' d)" by (simp add: versioned_with_tenant worker_step_jobs)
qed


section \<open>Updates\<close>

lemma job_updated_ordered:
  assumes "job_updated x checks k jid body d d'" and "versioned d"
  shows "versioned d'"
proof -
  let ?rows = "\<lambda>t now. update_rows (active_job jid) (replaced_row now jid) (jobs t)"
  from assms(1) obtain t old j expr now where t: "tenants d k = Some t"
    and old: "List.find (\<lambda>j. job_id j = jid) (jobs t) = Some old" and new: "job_id j \<notin> job_id ` set (jobs t)"
    and ver: "version_of x checks body old expr j"
    and d': "tenants d' = (tenants d)(k \<mapsto> t\<lparr>jobs := ?rows t now @ [j]\<rparr>)"
    unfolding job_updated_def by (elim exE conjE) simp
  from find_Some_D [OF old] have id: "job_id old = jid" "old \<in> set (jobs t)" by simp_all
  from t assms(2) have "versions_ordered (jobs t)" unfolding versioned_def all_tenants_def by blast
  then have "versions_ordered (?rows t now @ [j])"
    using new ver id
    by (intro versions_ordered_snoc versions_ordered_rows) (auto simp: replaced_row_def job_id_update_rows version_of_def)
  with d' assms(2) show ?thesis by (simp add: versioned_def all_tenants_def)
qed

lemma versioned_update:
  assumes "pg_tx s = None" and "run_state (handle_jobs_update x checks prefix schema jid body) s = (r, s')"
    and "versioned (pg_db s)"
  shows "versioned (committed s')"
proof -
  from ended_run [OF handle_jobs_update_ended assms(1,2)]
  have "pg_tx s' = None" "pg_db s' = pg_db s \<or> job_updated x checks (schema, prefix) jid body (pg_db s) (pg_db s')"
    by (auto simp: all_or_nothing_def)
  with assms(3) job_updated_ordered show ?thesis by (auto simp: committed_def)
qed

section \<open>The system\<close>

lemma system_step_versioned: "system_step x d d' \<Longrightarrow> versioned d \<Longrightarrow> versioned d'"
proof (induction rule: system_step.induct)
  case (request s c req r s')
  show ?case
  proof (cases "\<exists>sch jid body. req = Jobs_Update sch jid body")
    case True
    with request show ?thesis by (auto intro: versioned_update)
  next
    case False
    with request versions_inv.keeps_serve_other show ?thesis
      by (intro keeps_committed [where D = versioned and m = "serve x c req"]) auto
  qed
next
  case (library_call s prefix key_hex call u s')
  then show ?case
    by (intro keeps_committed [where D = versioned and m = "library x prefix key_hex call"]) (intro keeps_intros)
next
  case (poll w ctx wid schemas b w')
  then show ?case
    by (intro keeps_committed [where D = versioned and m = "claim_and_process x ctx wid schemas"]) (intro keeps_intros)
next
  case (cron_tick s cmd v s')
  then show ?case
    by (intro keeps_committed [where D = versioned and m = "run_cron_command x cmd"]) (intro keeps_intros)
qed

lemma reachable_versions_ordered:
  assumes "system_reach x d" and "tenants d k = Some t"
  shows "versions_ordered (jobs t)"
proof -
  have "versioned empty_database" by (simp add: versioned_def all_tenants_def empty_database_def)
  with assms(1) have "versioned d" by (induction rule: rtranclp_induct) (auto intro: system_step_versioned)
  with assms(2) show ?thesis unfolding versioned_def all_tenants_def by blast
qed

section \<open>The history of a job\<close>

definition previous_of :: "job_row list \<Rightarrow> job_row \<Rightarrow> job_row \<Rightarrow> bool" where
  "previous_of js j v \<longleftrightarrow> v \<in> set js \<and> previous_version_id j = Some (job_id v)"

lemma history_unfold:
  assumes "distinct (map job_id js)" and "previous_of js j v"
  shows "{w. (previous_of js)\<^sup>*\<^sup>* j w} = insert j {w. (previous_of js)\<^sup>*\<^sup>* v w}"
proof -
  have step: "previous_of js j u \<longleftrightarrow> u = v" for u
    using assms by (auto simp: previous_of_def distinct_map inj_on_def)
  have "(previous_of js)\<^sup>*\<^sup>* j w \<longleftrightarrow> w = j \<or> (previous_of js)\<^sup>*\<^sup>* v w" for w
  proof
    assume "(previous_of js)\<^sup>*\<^sup>* j w"
    then show "w = j \<or> (previous_of js)\<^sup>*\<^sup>* v w" by (cases rule: converse_rtranclpE) (simp_all add: step)
  next
    assume "w = j \<or> (previous_of js)\<^sup>*\<^sup>* v w"
    then show "(previous_of js)\<^sup>*\<^sup>* j w" using assms(2) by (blast intro: converse_rtranclp_into_rtranclp)
  qed
  then show ?thesis by auto
qed

lemma history_single: "previous_version_id j = None \<Longrightarrow> {w. (previous_of js)\<^sup>*\<^sup>* j w} = {j}"
  by (auto elim: converse_rtranclpE simp only: previous_of_def mem_Collect_eq)

lemma version_chain_found:
  assumes ord: "versions_ordered js"
  shows "i < length js \<Longrightarrow> i < fuel \<Longrightarrow> \<exists>vs. version_chain fuel js (job_id (js ! i)) = Some vs \<and> distinct vs \<and>
    set vs \<subseteq> set (take (Suc i) js) \<and> set vs = {v. (previous_of js)\<^sup>*\<^sup>* (js ! i) v}"
proof (induction i arbitrary: fuel rule: less_induct)
  case (less i)
  then obtain n where n: "fuel = Suc n" by (cases fuel) auto
  have dist: "distinct (map job_id js)" using ord by (simp add: versions_ordered_def)
  have find: "List.find (\<lambda>j. job_id j = job_id (js ! i)) js = Some (js ! i)"
    using dist less.prems by (intro distinct_map_find) auto
  have row: "js ! i \<in> set (take (Suc i) js)" using less.prems by (simp add: take_Suc_conv_app_nth)
  show ?case
  proof (cases "previous_version_id (js ! i)")
    case None
    then show ?thesis using find row n history_single [OF None, of js] by (subst version_chain.simps) simp
  next
    case (Some p)
    then have "p \<in> job_id ` set (take i js)" using ord less.prems by (auto simp: versions_ordered_def)
    then obtain m where m: "m < i" "p = job_id (js ! m)" using less.prems by (auto simp: in_set_conv_nth)
    with less.IH [of m n] less.prems n obtain vs where vs: "version_chain n js p = Some vs" "distinct vs"
      "set vs \<subseteq> set (take (Suc m) js)" "set vs = {v. (previous_of js)\<^sup>*\<^sup>* (js ! m) v}" by auto
    have "previous_of js (js ! i) (js ! m)" using Some m less.prems by (simp add: previous_of_def)
    note all = history_unfold [OF dist this]
    have "distinct js" using dist by (simp add: distinct_map)
    then have "js ! i \<notin> set (take i js)"
      using less.prems(1) by (auto simp: in_set_conv_nth distinct_conv_nth)
    moreover have early: "set (take (Suc m) js) \<subseteq> set (take i js)" using m(1) by (simp add: set_take_subset_set_take)
    ultimately have "js ! i \<notin> set vs" using vs(3) by blast
    moreover have "set vs \<subseteq> set (take (Suc i) js)"
      using vs(3) early set_take_subset_set_take [of i "Suc i" js] by auto
    ultimately show ?thesis using find row n Some vs all by (subst version_chain.simps) auto
  qed
qed

end
