(* ===== verification/Kms.thy ===== *)
theory Kms
  imports Config Crypto
begin

text \<open>
  \<open>crates/common/src/secrets/aws.rs\<close>, \<open>gcp.rs\<close> and \<open>oci.rs\<close>: the providers that decrypt sensitive variables with
  a key-management service. The clients of the services and the base64 decoder are third-party crates:
  the record \<open>services\<close> holds what the providers call. \<open>kms_build\<close> is the part of \<open>provider_from_env\<close> that a
  build with the \<open>kms\<close> feature has.
\<close>

section \<open>The services\<close>

text \<open>A failed AWS call, as \<open>ProvideErrorMetadata\<close> and \<open>DisplayErrorContext\<close> show it.\<close>

record aws_failure =
  af_code :: "string option"
  af_message :: "string option"
  af_context :: string

datatype oci_error =
    OciInvalidConfig string
  | CredentialsUnavailable string
  | SigningFailed string
  | UnexpectedStatus nat string
  | OtherOciError string

record oci_config =
  vault_crypto_endpoint :: string
  key_id :: string

record services =
  b64_decode :: "string \<Rightarrow> nat list option"
    \<comment> \<open>\<open>general_purpose::STANDARD.decode\<close>\<close>
  aws_region :: "string option \<Rightarrow> string option"
    \<comment> \<open>the region of the loaded configuration, given a custom endpoint\<close>
  aws_decrypt :: "string option \<Rightarrow> nat list \<Rightarrow> (nat list option, aws_failure) outcome"
    \<comment> \<open>\<open>client.decrypt().ciphertext_blob(..).send()\<close> and its plaintext\<close>
  gcp_auth :: "(unit, string) outcome"
  gcp_client :: "(unit, string) outcome"
  gcp_decrypt :: "string \<Rightarrow> nat list \<Rightarrow> (nat list, string) outcome"
    \<comment> \<open>the key name and the ciphertext of a \<open>DecryptRequest\<close>\<close>
  oci_client_new :: "oci_config \<Rightarrow> (unit, oci_error) outcome"
  oci_decrypt :: "oci_config \<Rightarrow> string \<Rightarrow> (nat list, oci_error) outcome"
  oci_display :: "oci_error \<Rightarrow> string"

definition decode_b64 :: "services \<Rightarrow> string \<Rightarrow> string \<Rightarrow> (nat list, secrets_error) outcome" where
  "decode_b64 svc name ciphertext = ok_or (b64_decode svc ciphertext) (NotBase64 name)"

definition plaintext_utf8 :: "string \<Rightarrow> nat list \<Rightarrow> (string, secrets_error) outcome" where
  "plaintext_utf8 name bs = map_err (\<lambda>_. NotUtf8 name) (from_utf8 bs)"

section \<open>AWS\<close>

definition aws_source_msg :: "aws_failure \<Rightarrow> string" where
  "aws_source_msg e = (case (af_code e, af_message e) of
       (Some code, Some msg) \<Rightarrow> code @ '': '' @ msg
     | (Some code, None) \<Rightarrow> code
     | _ \<Rightarrow> af_context e)"

definition aws_kms_decrypt :: "services \<Rightarrow> string option \<Rightarrow> string \<Rightarrow> string \<Rightarrow> (string, secrets_error) outcome" where
  "aws_kms_decrypt svc endpoint name ciphertext =
     bind_outcome (decode_b64 svc name ciphertext) (\<lambda>decoded.
     bind_outcome (map_err (\<lambda>e. DecryptFailed name (aws_source_msg e)) (aws_decrypt svc endpoint decoded)) (\<lambda>output.
     bind_outcome (ok_or output (DecryptFailed name ''KMS returned no plaintext'')) (\<lambda>plaintext.
     plaintext_utf8 name plaintext)))"

definition aws_kms_validate :: "string option \<Rightarrow> (unit, secrets_error) outcome" where
  "aws_kms_validate region =
     (if region = None then
        Err (InvalidConfig (''no AWS region could be resolved: set AWS_REGION or ''
          @ ''AWS_DEFAULT_REGION, or run where IRSA/IMDS provides one''))
      else Ok ())"

definition aws_kms_new :: "services \<Rightarrow> environment \<Rightarrow> secret_provider" where
  "aws_kms_new svc var =
     (let endpoint = env_ok (var ''AWS_ENDPOINT_URL'') in
      \<lparr>sp_decrypt = aws_kms_decrypt svc endpoint, sp_validate = aws_kms_validate (aws_region svc endpoint)\<rparr>)"

section \<open>Google Cloud\<close>

definition gcp_kms_decrypt :: "services \<Rightarrow> string \<Rightarrow> string \<Rightarrow> string \<Rightarrow> (string, secrets_error) outcome" where
  "gcp_kms_decrypt svc key_name name ciphertext =
     bind_outcome (decode_b64 svc name ciphertext) (\<lambda>decoded.
     bind_outcome (map_err (DecryptFailed name) (gcp_decrypt svc key_name decoded)) (\<lambda>plaintext.
     plaintext_utf8 name plaintext))"

definition gcp_kms_validate :: "string \<Rightarrow> (unit, secrets_error) outcome" where
  "gcp_kms_validate key_name =
     (if \<not> starts_with ''projects/'' key_name \<or> \<not> str_contains ''/cryptoKeys/'' key_name then
        Err (InvalidConfig (''INVOKR_GCP_KMS_KEY_NAME '' @ quoted key_name @ '' is not a KMS key resource name; ''
          @ ''expected projects/<p>/locations/<l>/keyRings/<r>/cryptoKeys/<k>''))
      else Ok ())"

definition gcp_kms_new :: "services \<Rightarrow> environment \<Rightarrow> (secret_provider, secrets_error) outcome" where
  "gcp_kms_new svc var =
     bind_outcome (map_err (\<lambda>_. InvalidConfig (''INVOKR_GCP_KMS_KEY_NAME must be set when ''
         @ ''INVOKR_SECRETS_MANAGER=gcp_kms; expected ''
         @ ''projects/<p>/locations/<l>/keyRings/<r>/cryptoKeys/<k>'')) (var ''INVOKR_GCP_KMS_KEY_NAME'')) (\<lambda>key_name.
     bind_outcome (map_err (\<lambda>e. InvalidConfig
         (''GCP Application Default Credentials could not be initialised: '' @ e)) (gcp_auth svc)) (\<lambda>_.
     bind_outcome (map_err (\<lambda>e. InvalidConfig (''GCP KMS client could not be created: '' @ e)) (gcp_client svc)) (\<lambda>_.
     Ok \<lparr>sp_decrypt = gcp_kms_decrypt svc key_name, sp_validate = gcp_kms_validate key_name\<rparr>)))"

section \<open>Oracle Cloud\<close>

definition endpoint_var :: string where "endpoint_var = ''INVOKR_OCI_KMS_CRYPTO_ENDPOINT''"

definition key_id_var :: string where "key_id_var = ''INVOKR_OCI_KMS_KEY_ID''"

definition oci_required :: "(string \<Rightarrow> string option) \<Rightarrow> string \<Rightarrow> string \<Rightarrow> (string, secrets_error) outcome" where
  "oci_required lookup name expected =
     ok_or (case map_option trim (lookup name) of Some v \<Rightarrow> if v = [] then None else Some v | None \<Rightarrow> None)
       (InvalidConfig (name @ '' must be set when INVOKR_SECRETS_MANAGER=oci_kms; expected '' @ expected))"

definition config_from :: "(string \<Rightarrow> string option) \<Rightarrow> (oci_config, secrets_error) outcome" where
  "config_from lookup =
     bind_outcome (oci_required lookup endpoint_var
       (''the vault'' @ [CHR 0x27] @ ''s crypto endpoint, https://<vault>-crypto.kms.<region>.oraclecloud.com'')) (\<lambda>endpoint.
     bind_outcome (oci_required lookup key_id_var ''the key OCID, ocid1.key.oc1...'') (\<lambda>key.
     Ok \<lparr>vault_crypto_endpoint = endpoint, key_id = key\<rparr>))"

definition decrypt_error :: "services \<Rightarrow> string \<Rightarrow> oci_error \<Rightarrow> secrets_error" where
  "decrypt_error svc name e =
     (let unusable = InvalidConfig (''OCI KMS credentials or IAM policy are not usable: '' @ oci_display svc e);
          failed = DecryptFailed name (oci_display svc e) in
      case e of
        CredentialsUnavailable _ \<Rightarrow> unusable
      | SigningFailed _ \<Rightarrow> unusable
      | UnexpectedStatus status _ \<Rightarrow> if status \<in> {401, 403, 404} then unusable else failed
      | _ \<Rightarrow> failed)"

definition oci_kms_decrypt :: "services \<Rightarrow> oci_config \<Rightarrow> string \<Rightarrow> string \<Rightarrow> (string, secrets_error) outcome" where
  "oci_kms_decrypt svc config name ciphertext =
     bind_outcome (decode_b64 svc name ciphertext) (\<lambda>_.
     bind_outcome (map_err (decrypt_error svc name) (oci_decrypt svc config ciphertext)) (\<lambda>plaintext.
     plaintext_utf8 name plaintext))"

text \<open>\<open>endpoint.get(..8)\<close> is \<open>None\<close> for a shorter text and inside a character.\<close>

definition is_https :: "string \<Rightarrow> bool" where
  "is_https endpoint \<longleftrightarrow> 8 \<le> length endpoint \<and> is_char_boundary endpoint 8 \<and>
     eq_ignore_ascii_case (take 8 endpoint) ''https://''"

definition oci_kms_validate :: "oci_config \<Rightarrow> (unit, secrets_error) outcome" where
  "oci_kms_validate config =
     (let endpoint = vault_crypto_endpoint config; key = key_id config in
      if \<not> is_https endpoint then
        Err (InvalidConfig (endpoint_var @ '' '' @ quoted endpoint @ '' must be an https:// URL''))
      else if str_contains ''-management.'' endpoint then
        Err (InvalidConfig (endpoint_var @ '' '' @ quoted endpoint @ '' is the vault'' @ [CHR 0x27] @ ''s management endpoint; ''
          @ ''use its crypto endpoint, https://<vault>-crypto.kms.<region>.oraclecloud.com''))
      else if \<not> starts_with ''ocid1.key.'' key then
        Err (InvalidConfig (key_id_var @ '' '' @ quoted key @ '' is not a key OCID; expected ocid1.key.oc1...''))
      else Ok ())"

definition from_config :: "services \<Rightarrow> oci_config \<Rightarrow> (secret_provider, secrets_error) outcome" where
  "from_config svc config =
     bind_outcome (map_err (\<lambda>e. case e of
         OciInvalidConfig _ \<Rightarrow> InvalidConfig (endpoint_var @ '': '' @ oci_display svc e)
       | _ \<Rightarrow> InvalidConfig (oci_display svc e)) (oci_client_new svc config)) (\<lambda>_.
     Ok \<lparr>sp_decrypt = oci_kms_decrypt svc config, sp_validate = oci_kms_validate config\<rparr>)"

definition oci_kms_new :: "services \<Rightarrow> environment \<Rightarrow> (secret_provider, secrets_error) outcome" where
  "oci_kms_new svc var = bind_outcome (config_from (\<lambda>name. env_ok (var name))) (from_config svc)"

section \<open>The choice of a provider\<close>

fun kms_build :: "services \<Rightarrow> environment \<Rightarrow> provider_kind \<Rightarrow> (secret_provider, secrets_error) outcome" where
  "kms_build svc var NoEncryption = Ok no_encryption"
| "kms_build svc var AwsKms = Ok (aws_kms_new svc var)"
| "kms_build svc var GcpKms = gcp_kms_new svc var"
| "kms_build svc var OciKms = oci_kms_new svc var"

section \<open>Laws\<close>

text \<open>What a provider may answer for the variable \<open>name\<close>: the text some service call produced, or an error
  that names the variable or blames the configuration.\<close>

definition blames :: "string \<Rightarrow> secrets_error \<Rightarrow> bool" where
  "blames name e \<longleftrightarrow> e \<in> {NotBase64 name, NotUtf8 name} \<or> (\<exists>msg. e = DecryptFailed name msg \<or> e = InvalidConfig msg)"

lemma map_err_Err: "map_err f r = Err e \<longleftrightarrow> (\<exists>e'. r = Err e' \<and> e = f e')"
  by (cases r) auto

lemma ok_or_Err: "ok_or v e = Err e' \<longleftrightarrow> v = None \<and> e' = e"
  by (cases v) auto

lemma decrypt_error_blames: "blames name (decrypt_error svc name e)"
  by (cases e) (simp_all add: decrypt_error_def blames_def Let_def)

lemmas decrypt_defs = aws_kms_decrypt_def gcp_kms_decrypt_def oci_kms_decrypt_def decode_b64_def plaintext_utf8_def

lemma kms_decrypt_blames:
  "aws_kms_decrypt svc ep name c = Err e \<Longrightarrow> blames name e"
  "gcp_kms_decrypt svc key name c = Err e \<Longrightarrow> blames name e"
  "oci_kms_decrypt svc cfg name c = Err e \<Longrightarrow> blames name e"
  using decrypt_error_blames
  by (auto simp: decrypt_defs bind_outcome_Err map_err_Err ok_or_Err blames_def)

lemma kms_decrypt_text:
  "aws_kms_decrypt svc ep name c = Ok s \<Longrightarrow>
     \<exists>d bs. b64_decode svc c = Some d \<and> aws_decrypt svc ep d = Ok (Some bs) \<and> from_utf8 bs = Ok s"
  "gcp_kms_decrypt svc key name c = Ok s \<Longrightarrow>
     \<exists>d bs. b64_decode svc c = Some d \<and> gcp_decrypt svc key d = Ok bs \<and> from_utf8 bs = Ok s"
  "oci_kms_decrypt svc cfg name c = Ok s \<Longrightarrow>
     \<exists>d bs. b64_decode svc c = Some d \<and> oci_decrypt svc cfg c = Ok bs \<and> from_utf8 bs = Ok s"
  by (auto simp: decrypt_defs bind_outcome_Ok)

lemma config_from_Ok:
  "config_from lookup = Ok cfg \<Longrightarrow> map_option trim (lookup endpoint_var) = Some (vault_crypto_endpoint cfg) \<and>
     map_option trim (lookup key_id_var) = Some (key_id cfg)"
  by (auto simp: config_from_def oci_required_def bind_outcome_Ok split: option.splits if_splits)

text \<open>What an accepted provider of each kind has.\<close>

fun provider_ready :: "services \<Rightarrow> environment \<Rightarrow> provider_kind \<Rightarrow> secret_provider \<Rightarrow> bool" where
  "provider_ready svc var NoEncryption p \<longleftrightarrow> (\<forall>name c. sp_decrypt p name c = Ok c)"
| "provider_ready svc var AwsKms p \<longleftrightarrow>
     (let ep = env_ok (var ''AWS_ENDPOINT_URL'') in aws_region svc ep \<noteq> None \<and>
      (\<forall>name c s. sp_decrypt p name c = Ok s \<longrightarrow>
         (\<exists>d bs. b64_decode svc c = Some d \<and> aws_decrypt svc ep d = Ok (Some bs) \<and> from_utf8 bs = Ok s)))"
| "provider_ready svc var GcpKms p \<longleftrightarrow>
     (\<exists>key. var ''INVOKR_GCP_KMS_KEY_NAME'' = Ok key \<and> starts_with ''projects/'' key \<and> str_contains ''/cryptoKeys/'' key \<and>
      (\<forall>name c s. sp_decrypt p name c = Ok s \<longrightarrow>
         (\<exists>d bs. b64_decode svc c = Some d \<and> gcp_decrypt svc key d = Ok bs \<and> from_utf8 bs = Ok s)))"
| "provider_ready svc var OciKms p \<longleftrightarrow>
     (\<exists>cfg. map_option trim (env_ok (var endpoint_var)) = Some (vault_crypto_endpoint cfg) \<and>
      map_option trim (env_ok (var key_id_var)) = Some (key_id cfg) \<and> is_https (vault_crypto_endpoint cfg) \<and>
      \<not> str_contains ''-management.'' (vault_crypto_endpoint cfg) \<and> starts_with ''ocid1.key.'' (key_id cfg) \<and>
      (\<forall>name c s. sp_decrypt p name c = Ok s \<longrightarrow>
         (\<exists>d bs. b64_decode svc c = Some d \<and> oci_decrypt svc cfg c = Ok bs \<and> from_utf8 bs = Ok s)))"

lemma kms_build_ready:
  assumes "kms_build svc var kind = Ok p" and "sp_validate p = Ok ()"
  shows "provider_ready svc var kind p \<and> (\<forall>name c e. sp_decrypt p name c = Err e \<longrightarrow> blames name e)"
proof (cases kind)
  case NoEncryption
  with assms show ?thesis by (auto simp: no_encryption_def)
next
  case AwsKms
  with assms have p: "sp_decrypt p = aws_kms_decrypt svc (env_ok (var ''AWS_ENDPOINT_URL''))"
    "aws_region svc (env_ok (var ''AWS_ENDPOINT_URL'')) \<noteq> None"
    by (auto simp: aws_kms_new_def Let_def aws_kms_validate_def split: if_splits)
  then show ?thesis using kms_decrypt_blames(1) kms_decrypt_text(1) by (simp add: AwsKms Let_def)
next
  case GcpKms
  with assms obtain key where p: "sp_decrypt p = gcp_kms_decrypt svc key" "var ''INVOKR_GCP_KMS_KEY_NAME'' = Ok key"
    "gcp_kms_validate key = Ok ()"
    by (auto simp: gcp_kms_new_def bind_outcome_Ok)
  then show ?thesis using kms_decrypt_blames(2) kms_decrypt_text(2)
    by (auto simp: GcpKms gcp_kms_validate_def split: if_splits)
next
  case OciKms
  with assms obtain cfg where p: "sp_decrypt p = oci_kms_decrypt svc cfg" "oci_kms_validate cfg = Ok ()"
    and cfg: "config_from (\<lambda>name. env_ok (var name)) = Ok cfg"
    by (auto simp: oci_kms_new_def from_config_def bind_outcome_Ok)
  from p(2) have "is_https (vault_crypto_endpoint cfg)" "\<not> str_contains ''-management.'' (vault_crypto_endpoint cfg)"
    "starts_with ''ocid1.key.'' (key_id cfg)"
    by (auto simp: oci_kms_validate_def Let_def split: if_splits)
  with config_from_Ok [OF cfg] kms_decrypt_blames(3) kms_decrypt_text(3) show ?thesis
    unfolding OciKms provider_ready.simps p(1) by blast
qed

definition sample_services :: services where
  "sample_services = \<lparr>b64_decode = (\<lambda>s. Some (map of_char s)), aws_region = (\<lambda>_. None),
     aws_decrypt = (\<lambda>_ c. Ok (Some c)), gcp_auth = Ok (), gcp_client = Ok (), gcp_decrypt = (\<lambda>_ c. Ok c),
     oci_client_new = (\<lambda>_. Ok ()), oci_decrypt = (\<lambda>_ c. Ok (rev (map of_char c))), oci_display = (\<lambda>_. ''oci'')\<rparr>"

definition sample_kms_environment :: environment where
  "sample_kms_environment name =
     (if name = ''INVOKR_SECRETS_MANAGER'' then Ok '' OCI_KMS''
      else if name = endpoint_var then Ok ''HTTPS://v-crypto.kms.eu.oraclecloud.com ''
      else if name = key_id_var then Ok ''ocid1.key.oc1.eu.v.k''
      else sample_environment name)"

section \<open>Properties\<close>

text \<open>C31: a key-management provider that start-up accepted is usable, whatever the services answer: its
  region, key name, or endpoint and key are the configured ones and well formed; a value is decrypted to
  exactly the text the service returned for it, and only when it is base64 and the text UTF-8; and every
  failure names the variable that failed or says that the configuration is at fault.\<close>

theorem accepted_provider_is_usable:
  assumes "provider_from_env (Some (kms_build svc var)) var = Ok p"
  shows "\<exists>kind. parse_provider_kind (get_from_env_or_default var Some ''INVOKR_SECRETS_MANAGER'' []) = Ok kind \<and>
    provider_ready svc var kind p \<and> (\<forall>name c e. sp_decrypt p name c = Err e \<longrightarrow> blames name e)"
proof -
  from assms obtain kind where kind: "parse_provider_kind (get_from_env_or_default var Some ''INVOKR_SECRETS_MANAGER'' []) = Ok kind"
    and p: "kms_build svc var kind = Ok p" "sp_validate p = Ok ()"
    by (auto simp: provider_from_env_def Let_def bind_outcome_Ok split: if_splits)
  from kind kms_build_ready [OF p] show ?thesis by blast
qed

theorem accepted_provider_is_usable_witness:
  "\<exists>p. provider_from_env (Some (kms_build sample_services sample_kms_environment)) sample_kms_environment = Ok p \<and>
     sp_decrypt p ''V'' ''cba'' = Ok ''abc'' \<and> provider_ready sample_services sample_kms_environment OciKms p"
proof -
  have "(case provider_from_env (Some (kms_build sample_services sample_kms_environment)) sample_kms_environment of
      Ok p \<Rightarrow> sp_decrypt p ''V'' ''cba'' = Ok ''abc'' | _ \<Rightarrow> False)" by code_simp
  then obtain p where p: "provider_from_env (Some (kms_build sample_services sample_kms_environment)) sample_kms_environment = Ok p"
    "sp_decrypt p ''V'' ''cba'' = Ok ''abc''" by (auto split: outcome.splits)
  have "parse_provider_kind (get_from_env_or_default sample_kms_environment Some ''INVOKR_SECRETS_MANAGER'' []) = Ok OciKms"
    by code_simp
  with accepted_provider_is_usable [OF p(1)] p show ?thesis by auto
qed

end
