(* ===== verification/Dashboard_Model.thy ===== *)
theory Dashboard_Model
  imports Service
begin

text \<open>
  What the dashboard reads and writes: \<open>crates/dashboard/src/api/models.rs\<close> and \<open>config.rs\<close>. A type that is read is
  a record with the function its derived \<open>Deserialize\<close> is, a type that is written has the value its derived
  \<open>Serialize\<close> is. Times stay texts here. A text is first read as a JSON value, so an object with a
  repeated key, which serde refuses and the API never sends, is not distinguished.
\<close>

section \<open>Configuration\<close>

record dashboard_config =
  dc_api_base_url :: string
  dc_api_prefix :: string
  dc_dashboard_prefix :: string

definition api_base :: "dashboard_config \<Rightarrow> string" where
  "api_base d =
     (if dc_api_base_url d = [] then dc_api_prefix d
      else trim_end_matches (CHR ''/'') (dc_api_base_url d) @ dc_api_prefix d)"

section \<open>Responses\<close>

definition data_response :: "(json \<Rightarrow> 'a option) \<Rightarrow> json \<Rightarrow> 'a option" where
  "data_response read j = Option.bind (one_value ''data'' j) read"

text \<open>The fields of a struct by name.\<close>

definition struct_get :: "nat \<Rightarrow> string list \<Rightarrow> json \<Rightarrow> (string \<Rightarrow> json option) option" where
  "struct_get d names j =
     map_option (\<lambda>vs k. Option.bind (map_of (zip names vs) k) (\<lambda>v. v)) (struct_fields d names j)"

text \<open>\<open>Vec<T>\<close>.\<close>

fun read_all :: "(json \<Rightarrow> 'a option) \<Rightarrow> json list \<Rightarrow> 'a list option" where
  "read_all read [] = Some []"
| "read_all read (j # js) = Option.bind (read j) (\<lambda>a. map_option ((#) a) (read_all read js))"

definition vec :: "(json \<Rightarrow> 'a option) \<Rightarrow> json \<Rightarrow> 'a list option" where
  "vec read j = (case j of JArr js \<Rightarrow> read_all read js | _ \<Rightarrow> None)"

record 'a paginated =
  pg_data :: "'a list"
  pg_cursor :: "string option"

definition paginated_from_value :: "(json \<Rightarrow> 'a option) \<Rightarrow> json \<Rightarrow> 'a paginated option" where
  "paginated_from_value read j =
     Option.bind (struct_get 0 [''data'', ''cursor''] j) (\<lambda>get.
     Option.bind (Option.bind (get ''data'') (vec read)) (\<lambda>d. Option.bind (de_opt as_str (get ''cursor'')) (\<lambda>c. Some \<lparr>pg_data = d, pg_cursor = c\<rparr>)))"

record organization =
  dorg_id :: string
  dorg_name :: string
  dorg_slug :: string
  dorg_status :: string
  dorg_created_at :: string
  dorg_updated_at :: "string option"

definition organization_from_value :: "json \<Rightarrow> organization option" where
  "organization_from_value j =
     Option.bind (struct_get 1 [''org_id'', ''name'', ''slug'', ''status'', ''created_at'', ''updated_at''] j) (\<lambda>get.
     Option.bind (de_str (get ''org_id'')) (\<lambda>oid.
     Option.bind (de_str (get ''name'')) (\<lambda>name.
     Option.bind (de_str (get ''slug'')) (\<lambda>slug.
     Option.bind (de_str (get ''status'')) (\<lambda>st.
     Option.bind (de_str (get ''created_at'')) (\<lambda>created.
     Option.bind (de_opt as_str (get ''updated_at'')) (\<lambda>updated.
     Some \<lparr>dorg_id = oid, dorg_name = name, dorg_slug = slug, dorg_status = st, dorg_created_at = created,
           dorg_updated_at = updated\<rparr>)))))))"

record dworkspace =
  dws_workspace_id :: string
  dws_org_id :: string
  dws_name :: string
  dws_slug :: string
  dws_schema_name :: string
  dws_status :: string
  dws_schema_version :: int
  dws_created_at :: string
  dws_updated_at :: "string option"

definition de_i64 :: "json option \<Rightarrow> int option" where
  "de_i64 v = Option.bind v as_i64"

definition workspace_from_value :: "json \<Rightarrow> dworkspace option" where
  "workspace_from_value j =
     Option.bind (struct_get 1 [''workspace_id'', ''org_id'', ''name'', ''slug'', ''schema_name'', ''status'', ''schema_version'',
             ''created_at'', ''updated_at''] j) (\<lambda>get.
     Option.bind (de_str (get ''workspace_id'')) (\<lambda>wid.
     Option.bind (de_str (get ''org_id'')) (\<lambda>oid.
     Option.bind (de_str (get ''name'')) (\<lambda>name.
     Option.bind (de_str (get ''slug'')) (\<lambda>slug.
     Option.bind (de_str (get ''schema_name'')) (\<lambda>schema.
     Option.bind (de_str (get ''status'')) (\<lambda>st.
     Option.bind (de_i64 (get ''schema_version'')) (\<lambda>ver.
     Option.bind (de_str (get ''created_at'')) (\<lambda>created.
     Option.bind (de_opt as_str (get ''updated_at'')) (\<lambda>updated.
     Some \<lparr>dws_workspace_id = wid, dws_org_id = oid, dws_name = name, dws_slug = slug, dws_schema_name = schema,
           dws_status = st, dws_schema_version = ver, dws_created_at = created, dws_updated_at = updated\<rparr>))))))))))"

record djob =
  dj_job_id :: string
  dj_endpoint :: string
  dj_endpoint_type :: string
  dj_trigger :: string
  dj_status :: string
  dj_version :: int
  dj_idempotency_key :: "string option"
  dj_input :: "json option"
  dj_run_at :: "string option"
  dj_cron :: "string option"
  dj_timezone :: "string option"
  dj_starts_at :: "string option"
  dj_ends_at :: "string option"
  dj_next_run_at :: "string option"
  dj_created_at :: string

definition job_from_value :: "json \<Rightarrow> djob option" where
  "job_from_value j =
     Option.bind (struct_get 0 [''job_id'', ''endpoint'', ''endpoint_type'', ''trigger'', ''status'', ''version'', ''idempotency_key'',
             ''input'', ''run_at'', ''cron'', ''timezone'', ''starts_at'', ''ends_at'', ''next_run_at'', ''created_at''] j) (\<lambda>get.
     Option.bind (de_str (get ''job_id'')) (\<lambda>jid.
     Option.bind (de_str (get ''endpoint'')) (\<lambda>ep.
     Option.bind (de_str (get ''endpoint_type'')) (\<lambda>etype.
     Option.bind (de_str (get ''trigger'')) (\<lambda>trig.
     Option.bind (de_str (get ''status'')) (\<lambda>st.
     Option.bind (de_i64 (get ''version'')) (\<lambda>ver.
     Option.bind (de_opt as_str (get ''idempotency_key'')) (\<lambda>key.
     Option.bind (de_opt Some (get ''input'')) (\<lambda>inp.
     Option.bind (de_opt as_str (get ''run_at'')) (\<lambda>run.
     Option.bind (de_opt as_str (get ''cron'')) (\<lambda>cron.
     Option.bind (de_opt as_str (get ''timezone'')) (\<lambda>tz.
     Option.bind (de_opt as_str (get ''starts_at'')) (\<lambda>starts.
     Option.bind (de_opt as_str (get ''ends_at'')) (\<lambda>ends.
     Option.bind (de_opt as_str (get ''next_run_at'')) (\<lambda>next.
     Option.bind (de_str (get ''created_at'')) (\<lambda>created.
     Some \<lparr>dj_job_id = jid, dj_endpoint = ep, dj_endpoint_type = etype, dj_trigger = trig, dj_status = st,
           dj_version = ver, dj_idempotency_key = key, dj_input = inp, dj_run_at = run, dj_cron = cron,
           dj_timezone = tz, dj_starts_at = starts, dj_ends_at = ends, dj_next_run_at = next,
           dj_created_at = created\<rparr>))))))))))))))))"

record dendpoint =
  dep_name :: string
  dep_endpoint_type :: string
  dep_payload_spec :: "string option"
  dep_config :: "string option"
  dep_spec :: json
  dep_retry_policy :: "json option"
  dep_created_at :: string
  dep_updated_at :: string

text \<open>\<open>#[serde(alias = b)]\<close> on the field \<open>a\<close>: either key, not both.\<close>

definition resolve_alias :: "string \<Rightarrow> string \<Rightarrow> json \<Rightarrow> json option" where
  "resolve_alias a b j =
     (case (jget j a, jget j b) of
        (_, None) \<Rightarrow> Some j
      | (Some _, Some _) \<Rightarrow> None
      | (None, Some v) \<Rightarrow> Some (object_insert a v j))"

definition endpoint_from_value :: "json \<Rightarrow> dendpoint option" where
  "endpoint_from_value j =
     Option.bind (resolve_alias ''payload_spec'' ''payload_spec_ref'' j) (\<lambda>j.
     Option.bind (resolve_alias ''config'' ''config_ref'' j) (\<lambda>j.
     Option.bind (struct_get 0 [''name'', ''type'', ''payload_spec'', ''config'', ''spec'', ''retry_policy'', ''created_at'', ''updated_at''] j) (\<lambda>get.
     Option.bind (de_str (get ''name'')) (\<lambda>name.
     Option.bind (de_str (get ''type'')) (\<lambda>etype.
     Option.bind (de_opt as_str (get ''payload_spec'')) (\<lambda>ps.
     Option.bind (de_opt as_str (get ''config'')) (\<lambda>cfg.
     Option.bind (de_opt Some (get ''retry_policy'')) (\<lambda>rp.
     Option.bind (de_str (get ''created_at'')) (\<lambda>created.
     Option.bind (de_str (get ''updated_at'')) (\<lambda>updated.
     Option.bind (get ''spec'') (\<lambda>spec.
     Some \<lparr>dep_name = name, dep_endpoint_type = etype, dep_payload_spec = ps, dep_config = cfg, dep_spec = spec,
           dep_retry_policy = rp, dep_created_at = created, dep_updated_at = updated\<rparr>)))))))))))"

record dexecution =
  dx_execution_id :: string
  dx_job_id :: string
  dx_endpoint :: "string option"
  dx_endpoint_type :: "string option"
  dx_status :: string
  dx_attempt_count :: "int option"
  dx_max_attempts :: "int option"
  dx_input :: "json option"
  dx_output :: "json option"
  dx_worker_id :: "string option"
  dx_run_at :: "string option"
  dx_started_at :: "string option"
  dx_completed_at :: "string option"
  dx_duration_ms :: "int option"
  dx_created_at :: string

definition dexecution_from_value :: "json \<Rightarrow> dexecution option" where
  "dexecution_from_value j =
     Option.bind (struct_get 0 [''execution_id'', ''job_id'', ''endpoint'', ''endpoint_type'', ''status'', ''attempt_count'',
             ''max_attempts'', ''input'', ''output'', ''worker_id'', ''run_at'', ''started_at'', ''completed_at'', ''duration_ms'',
             ''created_at''] j) (\<lambda>get.
     Option.bind (de_str (get ''execution_id'')) (\<lambda>eid.
     Option.bind (de_str (get ''job_id'')) (\<lambda>jid.
     Option.bind (de_opt as_str (get ''endpoint'')) (\<lambda>ep.
     Option.bind (de_opt as_str (get ''endpoint_type'')) (\<lambda>etype.
     Option.bind (de_str (get ''status'')) (\<lambda>st.
     Option.bind (de_opt as_i64 (get ''attempt_count'')) (\<lambda>n.
     Option.bind (de_opt as_i64 (get ''max_attempts'')) (\<lambda>m.
     Option.bind (de_opt Some (get ''input'')) (\<lambda>inp.
     Option.bind (de_opt Some (get ''output'')) (\<lambda>out.
     Option.bind (de_opt as_str (get ''worker_id'')) (\<lambda>wid.
     Option.bind (de_opt as_str (get ''run_at'')) (\<lambda>run.
     Option.bind (de_opt as_str (get ''started_at'')) (\<lambda>started.
     Option.bind (de_opt as_str (get ''completed_at'')) (\<lambda>completed.
     Option.bind (de_opt as_i64 (get ''duration_ms'')) (\<lambda>dur.
     Option.bind (de_str (get ''created_at'')) (\<lambda>created.
     Some \<lparr>dx_execution_id = eid, dx_job_id = jid, dx_endpoint = ep, dx_endpoint_type = etype, dx_status = st,
           dx_attempt_count = n, dx_max_attempts = m, dx_input = inp, dx_output = out, dx_worker_id = wid,
           dx_run_at = run, dx_started_at = started, dx_completed_at = completed, dx_duration_ms = dur,
           dx_created_at = created\<rparr>))))))))))))))))"

record named_value =
  nv_name :: string
  nv_value :: json
  nv_created_at :: string
  nv_updated_at :: string

definition named_value_from :: "string \<Rightarrow> json \<Rightarrow> named_value option" where
  "named_value_from field j =
     Option.bind (struct_get 0 [''name'', field, ''created_at'', ''updated_at''] j) (\<lambda>get.
     Option.bind (de_str (get ''name'')) (\<lambda>name.
     Option.bind (de_str (get ''created_at'')) (\<lambda>created.
     Option.bind (de_str (get ''updated_at'')) (\<lambda>updated.
     Option.bind (get field) (\<lambda>v.
     Some \<lparr>nv_name = name, nv_value = v, nv_created_at = created, nv_updated_at = updated\<rparr>)))))"

definition config_from_value :: "json \<Rightarrow> named_value option" where
  "config_from_value = named_value_from ''values''"

definition payload_spec_from_value :: "json \<Rightarrow> named_value option" where
  "payload_spec_from_value = named_value_from ''schema''"

record dsecret =
  dsec_name :: string
  dsec_created_at :: string
  dsec_updated_at :: string

definition secret_from_value :: "json \<Rightarrow> dsecret option" where
  "secret_from_value j =
     Option.bind (struct_get 0 [''name'', ''created_at'', ''updated_at''] j) (\<lambda>get.
     Option.bind (de_str (get ''name'')) (\<lambda>name.
     Option.bind (de_str (get ''created_at'')) (\<lambda>created.
     Option.bind (de_str (get ''updated_at'')) (\<lambda>updated.
     Some \<lparr>dsec_name = name, dsec_created_at = created, dsec_updated_at = updated\<rparr>))))"

record dattempt =
  da_attempt_id :: string
  da_attempt_number :: int
  da_status :: string
  da_started_at :: "string option"
  da_completed_at :: "string option"
  da_duration_ms :: "int option"
  da_output :: "json option"
  da_error :: "string option"

definition attempt_from_value :: "json \<Rightarrow> dattempt option" where
  "attempt_from_value j =
     Option.bind (struct_get 5 [''attempt_id'', ''attempt_number'', ''status'', ''started_at'', ''completed_at'', ''duration_ms'',
             ''output'', ''error''] j) (\<lambda>get.
     Option.bind (de_str (get ''attempt_id'')) (\<lambda>aid.
     Option.bind (de_i64 (get ''attempt_number'')) (\<lambda>n.
     Option.bind (de_str (get ''status'')) (\<lambda>st.
     Option.bind (de_opt as_str (get ''started_at'')) (\<lambda>started.
     Option.bind (de_opt as_str (get ''completed_at'')) (\<lambda>completed.
     Option.bind (de_opt as_i64 (get ''duration_ms'')) (\<lambda>dur.
     Option.bind (de_opt Some (get ''output'')) (\<lambda>out.
     Option.bind (de_opt as_str (get ''error'')) (\<lambda>e.
     Some \<lparr>da_attempt_id = aid, da_attempt_number = n, da_status = st, da_started_at = started,
           da_completed_at = completed, da_duration_ms = dur, da_output = out, da_error = e\<rparr>)))))))))"

record dlog =
  dl_log_id :: string
  dl_attempt_number :: "int option"
  dl_level :: string
  dl_message :: string
  dl_logged_at :: string

definition log_from_value :: "json \<Rightarrow> dlog option" where
  "log_from_value j =
     Option.bind (struct_get 0 [''log_id'', ''attempt_number'', ''level'', ''message'', ''logged_at''] j) (\<lambda>get.
     Option.bind (de_str (get ''log_id'')) (\<lambda>lid.
     Option.bind (de_opt as_i64 (get ''attempt_number'')) (\<lambda>n.
     Option.bind (de_str (get ''level'')) (\<lambda>level.
     Option.bind (de_str (get ''message'')) (\<lambda>msg.
     Option.bind (de_str (get ''logged_at'')) (\<lambda>logged.
     Some \<lparr>dl_log_id = lid, dl_attempt_number = n, dl_level = level, dl_message = msg, dl_logged_at = logged\<rparr>))))))"

record djob_status =
  ds_job_id :: string
  ds_endpoint :: string
  ds_endpoint_type :: string
  ds_trigger :: string
  ds_health :: string
  ds_version :: int
  ds_last_execution :: "json option"
  ds_active_executions :: "json option"
  ds_cron :: "json option"

definition job_status_from_value :: "json \<Rightarrow> djob_status option" where
  "job_status_from_value j =
     Option.bind (struct_get 3 [''job_id'', ''endpoint'', ''endpoint_type'', ''trigger'', ''health'', ''version'', ''last_execution'',
             ''active_executions'', ''cron''] j) (\<lambda>get.
     Option.bind (de_str (get ''job_id'')) (\<lambda>jid.
     Option.bind (de_str (get ''endpoint'')) (\<lambda>ep.
     Option.bind (de_str (get ''endpoint_type'')) (\<lambda>etype.
     Option.bind (de_str (get ''trigger'')) (\<lambda>trig.
     Option.bind (de_str (get ''health'')) (\<lambda>health.
     Option.bind (de_i64 (get ''version'')) (\<lambda>ver.
     Option.bind (de_opt Some (get ''last_execution'')) (\<lambda>lst.
     Option.bind (de_opt Some (get ''active_executions'')) (\<lambda>active.
     Option.bind (de_opt Some (get ''cron'')) (\<lambda>cron.
     Some \<lparr>ds_job_id = jid, ds_endpoint = ep, ds_endpoint_type = etype, ds_trigger = trig, ds_health = health,
           ds_version = ver, ds_last_execution = lst, ds_active_executions = active, ds_cron = cron\<rparr>))))))))))"

section \<open>Requests\<close>

definition create_organization_value :: "string \<Rightarrow> string \<Rightarrow> json" where
  "create_organization_value name slug = jobj [(''name'', JStr name), (''slug'', JStr slug)]"

definition update_organization_value :: "string \<Rightarrow> json" where
  "update_organization_value name = jobj [(''name'', JStr name)]"

definition create_workspace_value :: "string \<Rightarrow> string \<Rightarrow> json" where
  "create_workspace_value name slug = jobj [(''name'', JStr name), (''slug'', JStr slug)]"

definition skip_none :: "string \<Rightarrow> json option \<Rightarrow> (string \<times> json) list" where
  "skip_none k v = (case v of None \<Rightarrow> [] | Some j \<Rightarrow> [(k, j)])"

record dcreate_endpoint =
  dce_name :: string
  dce_type :: string
  dce_spec :: json
  dce_payload_spec :: "string option"
  dce_config :: "string option"
  dce_retry_policy :: "json option"

definition create_endpoint_value :: "dcreate_endpoint \<Rightarrow> json" where
  "create_endpoint_value b = jobj
     ([(''name'', JStr (dce_name b)), (''type'', JStr (dce_type b)), (''spec'', dce_spec b)] @
      skip_none ''payload_spec'' (map_option JStr (dce_payload_spec b)) @
      skip_none ''config'' (map_option JStr (dce_config b)) @
      skip_none ''retry_policy'' (dce_retry_policy b))"

definition create_config_value :: "string \<Rightarrow> json \<Rightarrow> json" where
  "create_config_value name v = jobj [(''name'', JStr name), (''values'', v)]"

definition update_config_value :: "json \<Rightarrow> json" where
  "update_config_value v = jobj [(''values'', v)]"

definition create_payload_spec_value :: "string \<Rightarrow> json \<Rightarrow> json" where
  "create_payload_spec_value name v = jobj [(''name'', JStr name), (''schema'', v)]"

definition update_payload_spec_value :: "json \<Rightarrow> json" where
  "update_payload_spec_value v = jobj [(''schema'', v)]"

definition create_secret_value :: "string \<Rightarrow> string \<Rightarrow> json" where
  "create_secret_value name v = jobj [(''name'', JStr name), (''value'', JStr v)]"

definition update_secret_value :: "string \<Rightarrow> json" where
  "update_secret_value v = jobj [(''value'', JStr v)]"

record job_list_query =
  jl_cursor :: "string option"
  jl_limit :: int
  jl_job_id :: "string option"
  jl_status :: "string list"
  jl_trigger :: "string list"
  jl_endpoint :: "string option"
  jl_endpoint_type :: "string list"
  jl_created_after :: "string option"
  jl_created_before :: "string option"

definition default_job_list_query :: job_list_query where
  "default_job_list_query = \<lparr>jl_cursor = None, jl_limit = 50, jl_job_id = None, jl_status = [], jl_trigger = [],
     jl_endpoint = None, jl_endpoint_type = [], jl_created_after = None, jl_created_before = None\<rparr>"

section \<open>What is shown of a row\<close>

definition value_or_none :: "json option \<Rightarrow> json option" where
  "value_or_none v = (if v = Some JNull then None else v)"

definition shown_org :: "ext \<Rightarrow> org_row \<Rightarrow> bool \<Rightarrow> organization" where
  "shown_org x o' full = \<lparr>dorg_id = org_id o', dorg_name = org_name o', dorg_slug = org_slug o', dorg_status = org_status o',
     dorg_created_at = ts_rfc3339 x (org_created_at o'),
     dorg_updated_at = (if full then Some (ts_rfc3339 x (org_updated_at o')) else None)\<rparr>"

definition shown_workspace :: "ext \<Rightarrow> workspace_row \<Rightarrow> dworkspace" where
  "shown_workspace x w = \<lparr>dws_workspace_id = workspace_id w, dws_org_id = ws_org_id w, dws_name = ws_name w,
     dws_slug = ws_slug w, dws_schema_name = ws_schema_name w, dws_status = ws_status w,
     dws_schema_version = ws_schema_version w, dws_created_at = ts_rfc3339 x (ws_created_at w), dws_updated_at = None\<rparr>"

definition shown_job :: "ext \<Rightarrow> job_row \<Rightarrow> djob" where
  "shown_job x j = \<lparr>dj_job_id = job_id j, dj_endpoint = job_endpoint j, dj_endpoint_type = job_endpoint_type j,
     dj_trigger = trigger_type j, dj_status = job_status j, dj_version = version j,
     dj_idempotency_key = job_idempotency_key j, dj_input = value_or_none (job_input j),
     dj_run_at = map_option (ts_rfc3339 x) (job_run_at j), dj_cron = cron_expression j, dj_timezone = cron_timezone j,
     dj_starts_at = map_option (ts_rfc3339 x) (cron_starts_at j), dj_ends_at = map_option (ts_rfc3339 x) (cron_ends_at j),
     dj_next_run_at = map_option (ts_rfc3339 x) (cron_next_run_at j), dj_created_at = ts_rfc3339 x (job_created_at j)\<rparr>"

definition shown_endpoint :: "ext \<Rightarrow> endpoint_row \<Rightarrow> dendpoint" where
  "shown_endpoint x ep = \<lparr>dep_name = ep_name ep, dep_endpoint_type = ep_type ep, dep_payload_spec = payload_spec_ref ep,
     dep_config = config_ref ep, dep_spec = ep_spec ep, dep_retry_policy = value_or_none (ep_retry_policy ep),
     dep_created_at = ts_rfc3339 x (ep_created_at ep), dep_updated_at = ts_rfc3339 x (ep_updated_at ep)\<rparr>"

definition shown_execution :: "ext \<Rightarrow> execution_row \<Rightarrow> bool \<Rightarrow> dexecution" where
  "shown_execution x e full = \<lparr>dx_execution_id = execution_id e, dx_job_id = exec_job_id e,
     dx_endpoint = (if full then Some (exec_endpoint e) else None),
     dx_endpoint_type = (if full then Some (exec_endpoint_type e) else None), dx_status = exec_status e,
     dx_attempt_count = Some (attempt_count e), dx_max_attempts = Some (exec_max_attempts e),
     dx_input = value_or_none (exec_input e), dx_output = value_or_none (exec_output e),
     dx_worker_id = (if full then worker_id e else None), dx_run_at = Some (ts_rfc3339 x (exec_run_at e)),
     dx_started_at = map_option (ts_rfc3339 x) (started_at e),
     dx_completed_at = map_option (ts_rfc3339 x) (completed_at e),
     dx_duration_ms = (if full then duration_ms e else None), dx_created_at = ts_rfc3339 x (exec_created_at e)\<rparr>"

section \<open>Reading back\<close>

lemma struct_get_jobj:
  "struct_get d names (jobj kvs) = Some (\<lambda>k. if k \<in> set names then map_of (rev kvs) k else None)"
  by (auto simp: struct_get_def struct_fields_jobj map_of_zip_map)

lemma one_value_jobj: "one_value k (jobj kvs) = map_of (rev kvs) k"
  by (simp add: one_value_def struct_fields_jobj split: option.split)

lemma de_opt_jval_opt: "de_opt Some (Some (jval_opt v)) = Some (value_or_none v)"
  by (cases v) (auto simp: de_opt_Some_value jval_opt_def jopt_def value_or_none_def)

lemma de_opt_jstr_opt: "de_opt as_str (Some (jstr_opt s)) = Some s"
  by (rule de_opt_values(1))

lemma de_opt_jts_opt: "de_opt as_str (Some (jts_opt x t)) = Some (map_option (ts_rfc3339 x) t)"
  by (cases t) (auto simp: de_opt_def jts_opt_def jopt_def jts_def)

lemma de_opt_jint_opt: "(\<forall>i. n = Some i \<longrightarrow> in_i64 i) \<Longrightarrow> de_opt as_i64 (Some (jint_opt n)) = Some n"
  by (cases n) (auto simp: de_opt_def jint_opt_def jopt_def)

lemma de_opt_JInt: "in_i64 n \<Longrightarrow> de_opt as_i64 (Some (JInt n)) = Some (Some n)"
  by (simp add: de_opt_def)

lemma de_i64_JInt: "in_i64 n \<Longrightarrow> de_i64 (Some (JInt n)) = Some n"
  by (simp add: de_i64_def)

lemmas reading = struct_get_jobj de_opt_jval_opt de_opt_jstr_opt de_opt_jts_opt de_opt_jint_opt de_opt_JInt
  de_i64_JInt jts_def

lemma read_organization:
  "organization_from_value (org_json x o') = Some (shown_org x o' True)"
  "organization_from_value (jobj (org_fields x o')) = Some (shown_org x o' False)"
  by (simp_all add: organization_from_value_def org_json_def org_fields_def reading shown_org_def)

lemma read_workspace:
  "in_i64 (ws_schema_version w) \<Longrightarrow> workspace_from_value (jobj (workspace_fields x w)) = Some (shown_workspace x w)"
  by (simp add: workspace_from_value_def workspace_fields_def reading shown_workspace_def)

lemma read_job: "in_i64 (version j) \<Longrightarrow> job_from_value (job_summary x j) = Some (shown_job x j)"
  by (simp add: job_from_value_def job_summary_def reading shown_job_def)

lemma read_execution:
  "in_i64 (attempt_count e) \<Longrightarrow> in_i64 (exec_max_attempts e) \<Longrightarrow> \<forall>i. duration_ms e = Some i \<longrightarrow> in_i64 i \<Longrightarrow>
     dexecution_from_value (execution_json x e) = Some (shown_execution x e True)"
  "in_i64 (attempt_count e) \<Longrightarrow> in_i64 (exec_max_attempts e) \<Longrightarrow>
     dexecution_from_value (execution_summary_json x e) = Some (shown_execution x e False)"
  by (simp_all add: dexecution_from_value_def execution_json_def execution_summary_json_def reading shown_execution_def)

lemma read_all_map:
  "(\<And>a. a \<in> set as \<Longrightarrow> read (f a) = Some (g a)) \<Longrightarrow> read_all read (map f as) = Some (map g as)"
  by (induction as) auto

lemma read_all_None: "(\<exists>j \<in> set js. read j = None) \<longleftrightarrow> read_all read js = None"
proof (induction js)
  case (Cons j js)
  then show ?case by (cases "read j") auto
qed simp

lemma resolve_alias_jobj:
  "map_of (rev kvs) b = None \<Longrightarrow> resolve_alias a b (jobj kvs) = Some (jobj kvs)"
  by (simp add: resolve_alias_def jget_jobj split: option.split)

lemma read_endpoint: "endpoint_from_value (endpoint_to_json x ep) = Some (shown_endpoint x ep)"
  by (simp add: endpoint_from_value_def endpoint_to_json_def resolve_alias_jobj reading shown_endpoint_def)

lemma read_named:
  "config_from_value (config_json x c) = Some \<lparr>nv_name = cfg_name c, nv_value = values_json c,
     nv_created_at = ts_rfc3339 x (cfg_created_at c), nv_updated_at = ts_rfc3339 x (cfg_updated_at c)\<rparr>"
  "payload_spec_from_value (payload_spec_json x p) = Some \<lparr>nv_name = ps_name p, nv_value = schema_json p,
     nv_created_at = ts_rfc3339 x (ps_created_at p), nv_updated_at = ts_rfc3339 x (ps_updated_at p)\<rparr>"
  "secret_from_value (secret_response x s) = Some \<lparr>dsec_name = sec_name s, dsec_created_at = ts_rfc3339 x (sec_created_at s),
     dsec_updated_at = ts_rfc3339 x (sec_updated_at s)\<rparr>"
  by (simp_all add: config_from_value_def config_json_def payload_spec_from_value_def payload_spec_json_def
      secret_from_value_def secret_response_def named_value_from_def reading)

lemma read_log:
  "in_i64 (log_attempt_number l) \<Longrightarrow> log_from_value (log_json x l) = Some \<lparr>dl_log_id = log_id l,
     dl_attempt_number = Some (log_attempt_number l), dl_level = log_level l, dl_message = log_message l,
     dl_logged_at = ts_rfc3339 x (logged_at l)\<rparr>"
  by (simp add: log_from_value_def log_json_def reading)

lemma read_job_status:
  assumes "in_i64 (version j)"
  shows "\<exists>st. job_status_from_value (job_status_json x j es) = Some st \<and> ds_job_id st = job_id j \<and>
    ds_trigger st = trigger_type j \<and> ds_health st = job_health es \<and> ds_version st = version j"
  using assms
  by (simp add: job_status_from_value_def job_status_json_def reading) (simp add: de_opt_Some_value)

text \<open>An attempt is read only if its error is absent or a text.\<close>

lemma read_attempt:
  assumes "in_i64 (attempt_number a)" and "\<forall>i. att_duration_ms a = Some i \<longrightarrow> in_i64 i"
  shows "attempt_from_value (attempt_json x a) = map_option (\<lambda>e. \<lparr>da_attempt_id = attempt_id a,
    da_attempt_number = attempt_number a, da_status = att_status a, da_started_at = Some (ts_rfc3339 x (att_started_at a)),
    da_completed_at = map_option (ts_rfc3339 x) (att_completed_at a), da_duration_ms = att_duration_ms a,
    da_output = value_or_none (att_output a), da_error = e\<rparr>) (de_opt as_str (Some (jval_opt (att_error a))))"
  using assms
  by (cases "de_opt as_str (Some (jval_opt (att_error a)))") (simp_all add: attempt_from_value_def attempt_json_def reading)

lemma attempt_unreadable:
  "de_opt as_str (Some (jval_opt (att_error a))) = None \<Longrightarrow> attempt_from_value (attempt_json x a) = None"
  by (auto simp: attempt_from_value_def attempt_json_def struct_get_jobj Option.bind_eq_None_conv)

end
