(* ===== verification/Dashboard_Client.thy ===== *)
theory Dashboard_Client
  imports Dashboard_Model
begin

text \<open>
  The API client of the dashboard: \<open>crates/dashboard/src/api/client.rs\<close>, one definition per request. The browser
  that sends a request and the reading of a JSON text are arguments. The functions of the server build,
  which only say that they are not available, have no counterpart.
\<close>

section \<open>Requests\<close>

record 's browser =
  br_send :: "http_call \<Rightarrow> ('s, nat \<times> string, string) prog"
    \<comment> \<open>\<open>Request::send\<close> with the cookies of the page, and the text of the body\<close>
  br_json :: "string \<Rightarrow> (json, string) outcome"
    \<comment> \<open>\<open>serde_json::from_str\<close>, as far as the value\<close>
  br_mismatch :: "json \<Rightarrow> string"
    \<comment> \<open>its error for a value that is not of the expected type\<close>

definition page_call :: "dashboard_config \<Rightarrow> string \<Rightarrow> string \<Rightarrow> json option \<Rightarrow> http_call" where
  "page_call d meth path body =
     \<lparr>call_method = meth, call_url = api_base d @ ''/v1'' @ path, call_headers = [], call_body = body\<rparr>"

definition scoped_call :: "dashboard_config \<Rightarrow> string \<Rightarrow> string \<Rightarrow> string \<Rightarrow> string \<Rightarrow> json option \<Rightarrow> http_call" where
  "scoped_call d org ws meth path body =
     (page_call d meth path body)\<lparr>call_headers := [(''X-Org-Id'', org), (''X-Workspace-Id'', ws)]\<rparr>"

definition http_error :: "nat \<times> string \<Rightarrow> string" where
  "http_error resp = ''HTTP '' @ show_nat (fst resp) @ '': '' @ snd resp"

definition reading_json :: "'s browser \<Rightarrow> (json \<Rightarrow> 'a option) \<Rightarrow> ('s, nat \<times> string, string) prog \<Rightarrow> ('s, 'a, string) prog" where
  "reading_json br read m =
     tryS m (\<lambda>resp.
     if \<not> is_success (fst resp) then err (http_error resp)
     else tryS (State_Monad.return (br_json br (snd resp))) (\<lambda>j.
          State_Monad.return (ok_or (read j) (br_mismatch br j))))"

definition reading_nothing :: "('s, nat \<times> string, string) prog \<Rightarrow> ('s, unit, string) prog" where
  "reading_nothing m = tryS m (\<lambda>resp. if \<not> is_success (fst resp) then err (http_error resp) else ok ())"

definition fetch :: "'s browser \<Rightarrow> http_call \<Rightarrow> (json \<Rightarrow> 'a option) \<Rightarrow> ('s, 'a, string) prog" where
  "fetch br call read = reading_json br read (br_send br call)"

definition dash_list_organizations where
  "dash_list_organizations br d = fetch br (page_call d ''GET'' ''/orgs'' None) (data_response (vec organization_from_value))"

definition dash_get_organization where
  "dash_get_organization br d org = fetch br (page_call d ''GET'' (''/orgs/'' @ org) None) (data_response organization_from_value)"

definition dash_create_organization where
  "dash_create_organization br d name slug =
     fetch br (page_call d ''POST'' ''/orgs'' (Some (create_organization_value name slug))) (data_response organization_from_value)"

definition dash_update_organization where
  "dash_update_organization br d org name =
     fetch br (page_call d ''PUT'' (''/orgs/'' @ org) (Some (update_organization_value name))) (data_response organization_from_value)"

definition dash_list_workspaces where
  "dash_list_workspaces br d org =
     fetch br (page_call d ''GET'' (''/orgs/'' @ org @ ''/workspaces'') None) (data_response (vec workspace_from_value))"

definition dash_create_workspace where
  "dash_create_workspace br d org name slug =
     fetch br (page_call d ''POST'' (''/orgs/'' @ org @ ''/workspaces'') (Some (create_workspace_value name slug)))
       (data_response workspace_from_value)"

section \<open>The query of the jobs list\<close>

definition unreserved :: "char \<Rightarrow> bool" where
  "unreserved c \<longleftrightarrow> is_ascii_alphanumeric c \<or> c \<in> {CHR ''-'', CHR ''_'', CHR ''.'', CHR ''~''}"

definition upper_hex :: "nat \<Rightarrow> char" where
  "upper_hex n = (if n < 10 then char_of (48 + n) else char_of (55 + n))"

definition encode_byte :: "char \<Rightarrow> string" where
  "encode_byte c =
     (if unreserved c then [c]
      else let n = of_char c in [CHR ''%'', upper_hex (n div 16), upper_hex (n mod 16)])"

definition encode_query_value :: "string \<Rightarrow> string" where
  "encode_query_value v = concat (map encode_byte v)"

definition push_query_param :: "string \<Rightarrow> string \<Rightarrow> string \<Rightarrow> string" where
  "push_query_param qs key v =
     (if v = [] then qs
      else qs @ [if qs = [] then CHR ''?'' else CHR ''&''] @ key @ ''='' @ encode_query_value v)"

definition push_opt :: "string \<Rightarrow> string \<Rightarrow> string option \<Rightarrow> string" where
  "push_opt qs key v = (case v of None \<Rightarrow> qs | Some v \<Rightarrow> push_query_param qs key v)"

definition push_list :: "string \<Rightarrow> string \<Rightarrow> string list \<Rightarrow> string" where
  "push_list qs key vs = (if vs = [] then qs else push_query_param qs key (join '','' vs))"

definition jobs_query :: "job_list_query \<Rightarrow> string" where
  "jobs_query p =
     (let qs = push_opt [] ''cursor'' (jl_cursor p);
          qs = push_query_param qs ''limit'' (show_int (jl_limit p));
          qs = push_opt qs ''job_id'' (jl_job_id p);
          qs = push_list qs ''status'' (jl_status p);
          qs = push_list qs ''trigger_type'' (jl_trigger p);
          qs = push_list qs ''endpoint_type'' (jl_endpoint_type p);
          qs = push_opt qs ''endpoint'' (jl_endpoint p);
          qs = push_opt qs ''created_after'' (jl_created_after p) in
      push_opt qs ''created_before'' (jl_created_before p))"

definition dash_list_jobs where
  "dash_list_jobs br d org ws p =
     fetch br (scoped_call d org ws ''GET'' (''/jobs'' @ jobs_query p) None) (paginated_from_value job_from_value)"

section \<open>Jobs and executions\<close>

definition dash_get_job where
  "dash_get_job br d org ws jid = fetch br (scoped_call d org ws ''GET'' (''/jobs/'' @ jid) None) (data_response job_from_value)"

definition dash_create_job where
  "dash_create_job br d org ws body = fetch br (scoped_call d org ws ''POST'' ''/jobs'' (Some body)) (data_response Some)"

definition dash_cancel_job where
  "dash_cancel_job br d org ws jid = fetch br (scoped_call d org ws ''POST'' (''/jobs/'' @ jid @ ''/cancel'') None) Some"

definition dash_get_job_status where
  "dash_get_job_status br d org ws jid =
     fetch br (scoped_call d org ws ''GET'' (''/jobs/'' @ jid @ ''/status'') None) (data_response job_status_from_value)"

definition dash_get_job_versions where
  "dash_get_job_versions br d org ws jid =
     fetch br (scoped_call d org ws ''GET'' (''/jobs/'' @ jid @ ''/versions'') None) (data_response (vec job_from_value))"

definition dash_list_job_executions where
  "dash_list_job_executions br d org ws jid =
     fetch br (scoped_call d org ws ''GET'' (''/jobs/'' @ jid @ ''/executions'') None)
       (\<lambda>j. map_option pg_data (paginated_from_value dexecution_from_value j))"

definition dash_get_execution where
  "dash_get_execution br d org ws eid =
     fetch br (scoped_call d org ws ''GET'' (''/executions/'' @ eid) None) (data_response dexecution_from_value)"

definition dash_cancel_execution where
  "dash_cancel_execution br d org ws eid =
     fetch br (scoped_call d org ws ''POST'' (''/executions/'' @ eid @ ''/cancel'') None) Some"

definition dash_list_attempts where
  "dash_list_attempts br d org ws eid =
     fetch br (scoped_call d org ws ''GET'' (''/executions/'' @ eid @ ''/attempts'') None) (data_response (vec attempt_from_value))"

definition dash_list_execution_logs where
  "dash_list_execution_logs br d org ws eid =
     fetch br (scoped_call d org ws ''GET'' (''/executions/'' @ eid @ ''/logs'') None) (data_response (vec log_from_value))"

section \<open>Named resources\<close>

definition dash_list_endpoints where
  "dash_list_endpoints br d org ws =
     fetch br (scoped_call d org ws ''GET'' ''/endpoints'' None) (\<lambda>j. map_option pg_data (paginated_from_value endpoint_from_value j))"

definition dash_create_endpoint where
  "dash_create_endpoint br d org ws body =
     fetch br (scoped_call d org ws ''POST'' ''/endpoints'' (Some (create_endpoint_value body))) (data_response endpoint_from_value)"

definition dash_update_endpoint where
  "dash_update_endpoint br d org ws name body =
     fetch br (scoped_call d org ws ''PUT'' (''/endpoints/'' @ name) (Some body)) (data_response endpoint_from_value)"

definition dash_delete_endpoint where
  "dash_delete_endpoint br d org ws name =
     reading_nothing (br_send br (scoped_call d org ws ''DELETE'' (''/endpoints/'' @ name) None))"

definition dash_list_configs where
  "dash_list_configs br d org ws =
     fetch br (scoped_call d org ws ''GET'' ''/configs'' None) (\<lambda>j. map_option pg_data (paginated_from_value config_from_value j))"

definition dash_create_config where
  "dash_create_config br d org ws name v =
     fetch br (scoped_call d org ws ''POST'' ''/configs'' (Some (create_config_value name v))) (data_response config_from_value)"

definition dash_update_config where
  "dash_update_config br d org ws name v =
     fetch br (scoped_call d org ws ''PUT'' (''/configs/'' @ name) (Some (update_config_value v))) (data_response config_from_value)"

definition dash_delete_config where
  "dash_delete_config br d org ws name =
     reading_nothing (br_send br (scoped_call d org ws ''DELETE'' (''/configs/'' @ name) None))"

definition dash_list_payload_specs where
  "dash_list_payload_specs br d org ws =
     fetch br (scoped_call d org ws ''GET'' ''/payload-specs'' None)
       (\<lambda>j. map_option pg_data (paginated_from_value payload_spec_from_value j))"

definition dash_create_payload_spec where
  "dash_create_payload_spec br d org ws name v =
     fetch br (scoped_call d org ws ''POST'' ''/payload-specs'' (Some (create_payload_spec_value name v)))
       (data_response payload_spec_from_value)"

definition dash_update_payload_spec where
  "dash_update_payload_spec br d org ws name v =
     fetch br (scoped_call d org ws ''PUT'' (''/payload-specs/'' @ name) (Some (update_payload_spec_value v)))
       (data_response payload_spec_from_value)"

definition dash_delete_payload_spec where
  "dash_delete_payload_spec br d org ws name =
     reading_nothing (br_send br (scoped_call d org ws ''DELETE'' (''/payload-specs/'' @ name) None))"

definition dash_list_secrets where
  "dash_list_secrets br d org ws =
     fetch br (scoped_call d org ws ''GET'' ''/secrets'' None) (\<lambda>j. map_option pg_data (paginated_from_value secret_from_value j))"

definition dash_create_secret where
  "dash_create_secret br d org ws name v =
     fetch br (scoped_call d org ws ''POST'' ''/secrets'' (Some (create_secret_value name v))) (data_response secret_from_value)"

definition dash_update_secret where
  "dash_update_secret br d org ws name v =
     fetch br (scoped_call d org ws ''PUT'' (''/secrets/'' @ name) (Some (update_secret_value v))) (data_response secret_from_value)"

definition dash_delete_secret where
  "dash_delete_secret br d org ws name =
     reading_nothing (br_send br (scoped_call d org ws ''DELETE'' (''/secrets/'' @ name) None))"

section \<open>The query arrives\<close>

text \<open>The parser of \<open>application/x-www-form-urlencoded\<close>, which \<open>web::Query\<close> implements.\<close>

fun form_decode :: "string \<Rightarrow> string" where
  "form_decode [] = []"
| "form_decode (c # cs) =
     (if c = CHR ''+'' then CHR '' '' # form_decode cs
      else if c = CHR ''%'' then
        (case cs of
           a # b # rest \<Rightarrow> (case (hex_digit a, hex_digit b) of
               (Some h, Some l) \<Rightarrow> char_of (16 * h + l) # form_decode rest
             | _ \<Rightarrow> c # form_decode cs)
         | _ \<Rightarrow> c # form_decode cs)
      else c # form_decode cs)"

definition form_pair :: "string \<Rightarrow> string \<times> string" where
  "form_pair s = (form_decode (takeWhile (\<lambda>c. c \<noteq> CHR ''='') s), form_decode (drop 1 (dropWhile (\<lambda>c. c \<noteq> CHR ''='') s)))"

definition form_pairs :: "string \<Rightarrow> (string \<times> string) list" where
  "form_pairs q = map form_pair (filter (\<lambda>s. s \<noteq> []) (split_char (CHR ''&'') q))"

lemma hex_upper: "n < 16 \<Longrightarrow> hex_digit (upper_hex n) = Some n"
  by (auto simp: upper_hex_def hex_digit_def is_ascii_digit_def Let_def)

lemma unreserved_not_special: "unreserved c \<Longrightarrow> c \<noteq> CHR ''+'' \<and> c \<noteq> CHR ''%'' \<and> c \<noteq> CHR ''&'' \<and> c \<noteq> CHR ''=''"
  by (auto simp: unreserved_def is_ascii_alphanumeric_def is_ascii_lowercase_def is_ascii_uppercase_def is_ascii_digit_def)

lemma form_decode_byte: "form_decode (encode_byte c @ cs) = c # form_decode cs"
proof (cases "unreserved c")
  case True
  with unreserved_not_special [OF True] show ?thesis by (simp add: encode_byte_def)
next
  case False
  have "(of_char c :: nat) < 256" by (metis mod_less_divisor of_char_mod_256 zero_less_numeral)
  then have "(of_char c :: nat) div 16 < 16" by (simp add: less_mult_imp_div_less)
  moreover have "16 * ((of_char c :: nat) div 16) + of_char c mod 16 = of_char c" by simp
  ultimately show ?thesis using False by (simp add: encode_byte_def Let_def hex_upper)
qed

lemma form_decode_encode: "form_decode (encode_query_value v) = v"
  by (induction v) (simp_all add: encode_query_value_def form_decode_byte)

lemma form_decode_plain: "\<forall>c \<in> set k. unreserved c \<Longrightarrow> form_decode k = k"
  using unreserved_not_special by (induction k) auto

text \<open>The pairs the query carries.\<close>

definition render_query :: "(string \<times> string) list \<Rightarrow> string" where
  "render_query ps = (if ps = [] then [] else CHR ''?'' # join ''&'' (map (\<lambda>(k, v). k @ ''='' @ encode_query_value v) ps))"

definition opt_pair :: "string \<Rightarrow> string option \<Rightarrow> (string \<times> string) list" where
  "opt_pair k v = (case v of None \<Rightarrow> [] | Some v \<Rightarrow> if v = [] then [] else [(k, v)])"

definition list_pair :: "string \<Rightarrow> string list \<Rightarrow> (string \<times> string) list" where
  "list_pair k vs = opt_pair k (Some (join '','' vs))"

definition jobs_pairs :: "job_list_query \<Rightarrow> (string \<times> string) list" where
  "jobs_pairs p = opt_pair ''cursor'' (jl_cursor p) @ [(''limit'', show_int (jl_limit p))] @ opt_pair ''job_id'' (jl_job_id p) @
     list_pair ''status'' (jl_status p) @ list_pair ''trigger_type'' (jl_trigger p) @
     list_pair ''endpoint_type'' (jl_endpoint_type p) @ opt_pair ''endpoint'' (jl_endpoint p) @
     opt_pair ''created_after'' (jl_created_after p) @ opt_pair ''created_before'' (jl_created_before p)"

lemma join_snoc: "xs \<noteq> [] \<Longrightarrow> join sep (xs @ [y]) = join sep xs @ sep @ y"
  by (induction sep xs rule: join.induct) auto

lemma push_render: "push_query_param (render_query ps) k v = render_query (ps @ opt_pair k (Some v))"
  by (auto simp: push_query_param_def render_query_def opt_pair_def join_snoc)

lemma push_opt_render: "push_opt (render_query ps) k v = render_query (ps @ opt_pair k v)"
  by (cases v) (simp_all add: push_opt_def push_render, simp add: opt_pair_def)

lemma push_list_render: "push_list (render_query ps) k vs = render_query (ps @ list_pair k vs)"
  by (cases vs) (simp_all add: push_list_def push_render list_pair_def, simp add: opt_pair_def)

lemma show_int_nonempty: "show_int n \<noteq> []"
  by (simp add: show_int_def)

lemma jobs_query_render: "jobs_query p = render_query (jobs_pairs p)"
proof -
  have nil: "[] = render_query []" by (simp add: render_query_def)
  have limit: "opt_pair ''limit'' (Some (show_int n)) = [(''limit'', show_int n)]" for n
    by (simp add: opt_pair_def show_int_nonempty)
  show ?thesis
    unfolding jobs_query_def Let_def
    by (subst nil) (simp only: push_render push_opt_render push_list_render limit jobs_pairs_def append_assoc append_Nil)
qed

lemma encoded_chars: "c \<in> set (encode_query_value v) \<Longrightarrow> c \<noteq> CHR ''&'' \<and> c \<noteq> CHR ''=''"
proof -
  have hex: "upper_hex n \<noteq> CHR ''&'' \<and> upper_hex n \<noteq> CHR ''=''" if "n < 16" for n
    using hex_upper [OF that] by (auto simp: hex_digit_def is_ascii_digit_def)
  show "c \<in> set (encode_query_value v) \<Longrightarrow> c \<noteq> CHR ''&'' \<and> c \<noteq> CHR ''=''"
  proof (induction v)
    case (Cons d v)
    have "(of_char d :: nat) < 256" by (metis mod_less_divisor of_char_mod_256 zero_less_numeral)
    then have "(of_char d :: nat) div 16 < 16" by (simp add: less_mult_imp_div_less)
    with Cons show ?case using hex [of "of_char d div 16"] hex [of "of_char d mod 16"] unreserved_not_special [of d]
      by (auto simp: encode_query_value_def encode_byte_def Let_def split: if_splits)
  qed (simp add: encode_query_value_def)
qed

lemma split_join_amp:
  "\<forall>s \<in> set xs. d \<notin> set s \<Longrightarrow> xs \<noteq> [] \<Longrightarrow> split_char d (join [d] xs) = xs"
  by (induction "[d]" xs rule: join.induct) (auto simp: split_char_append)

lemma form_pairs_render:
  assumes "\<forall>(k, v) \<in> set ps. \<forall>c \<in> set k. unreserved c"
  shows "form_pairs (drop 1 (render_query ps)) = ps"
proof (cases "ps = []")
  case True
  then show ?thesis by (simp add: render_query_def form_pairs_def)
next
  case False
  let ?enc = "\<lambda>(k, v). k @ ''='' @ encode_query_value v"
  have "\<forall>s \<in> set (map ?enc ps). CHR ''&'' \<notin> set s"
    using assms encoded_chars unreserved_not_special by fastforce
  from split_join_amp [OF this] False
  have split: "split_char (CHR ''&'') (drop 1 (render_query ps)) = map ?enc ps" by (simp add: render_query_def)
  have pair: "form_pair (?enc q) = q" if "q \<in> set ps" for q
  proof -
    obtain k v where q: "q = (k, v)" by (cases q)
    with assms that have k: "\<forall>c \<in> set k. unreserved c" by auto
    then have "\<forall>c \<in> set k. c \<noteq> CHR ''=''" using unreserved_not_special by blast
    then have "takeWhile (\<lambda>c. c \<noteq> CHR ''='') (k @ CHR ''='' # encode_query_value v) = k"
      "dropWhile (\<lambda>c. c \<noteq> CHR ''='') (k @ CHR ''='' # encode_query_value v) = CHR ''='' # encode_query_value v"
      by (simp_all add: takeWhile_append2 dropWhile_append2)
    with k show ?thesis by (simp add: q form_pair_def form_decode_plain form_decode_encode)
  qed
  have full: "filter (\<lambda>s. s \<noteq> []) (map ?enc ps) = map ?enc ps" by (auto intro: filter_True)
  have "map (form_pair \<circ> ?enc) ps = ps" using pair by (simp only: o_apply map_idI)
  then show ?thesis unfolding form_pairs_def split full by (simp only: map_map)
qed

section \<open>The query is understood\<close>

text \<open>Names that survive a comma-separated list.\<close>

locale token_codec = enum_codec +
  assumes enc_token: "trim (enc a) = enc a" "enc a \<noteq> []" "CHR '','' \<notin> set (enc a)"
begin

lemma filter_read_back:
  assumes "values_for pairs key = (if as = [] then [] else [join '','' (map enc as)])" and "distinct as"
  shows "parse_filter_list pairs key dec label = Ok as"
proof -
  have split: "split_char (CHR '','') (join '','' (map enc as)) = map enc as" if "as \<noteq> []"
    using that enc_token(3) by (intro split_join_amp) auto
  have "filter_tokens (values_for pairs key) = map enc as"
    using split enc_token by (auto simp: filter_tokens_def assms(1) comp_def intro!: filter_True)
  then have "map dec (filter_tokens (values_for pairs key)) = map Some as" by (simp add: dec_enc)
  moreover have "as = add_new [] as"
  proof -
    have "distinct (out @ as) \<Longrightarrow> add_new out as = out @ as" for out
      by (induction as arbitrary: out) auto
    from this [of "[]"] assms(2) show ?thesis by simp
  qed
  ultimately show ?thesis unfolding parse_filter_list_def push_values_spec by blast
qed

end

interpretation status_tokens: token_codec job_status_as_str job_status_from_str
proof (intro token_codec.intro job_status_codec.enum_codec_axioms token_codec_axioms.intro)
  fix a show "trim (job_status_as_str a) = job_status_as_str a"
    by (rule trim_id; cases a; simp add: ascii_visible_def)
qed (case_tac a; simp)+

interpretation trigger_tokens: token_codec trigger_type_as_str trigger_type_from_str
proof (intro token_codec.intro trigger_codec.enum_codec_axioms token_codec_axioms.intro)
  fix a show "trim (trigger_type_as_str a) = trigger_type_as_str a"
    by (rule trim_id; cases a; simp add: ascii_visible_def)
qed (case_tac a; simp)+

interpretation endpoint_type_tokens: token_codec endpoint_type_as_str endpoint_type_from_str
proof (intro token_codec.intro endpoint_codec.enum_codec_axioms token_codec_axioms.intro)
  fix a show "trim (endpoint_type_as_str a) = endpoint_type_as_str a"
    by (rule trim_id; cases a; simp add: ascii_visible_def)
qed (case_tac a; simp)+

lemma digits_value_snoc: "digits_value (ds @ [c]) = 10 * digits_value ds + (of_char c - 48)"
  by (simp add: digits_value_def)

lemma digits_value_show_nat: "digits_value (show_nat n) = n"
proof (induction n rule: show_nat.induct)
  case (1 n)
  show ?case
  proof (cases "n < 10")
    case True
    then show ?thesis by (subst show_nat.simps) (simp add: digits_value_def)
  next
    case False
    with 1 show ?thesis by (subst show_nat.simps) (simp add: digits_value_snoc)
  qed
qed

lemma parse_show_int: "in_i64 n \<Longrightarrow> parse_i64 (show_int n) = Some n"
proof -
  assume n: "in_i64 n"
  have digits: "list_all is_ascii_digit (show_nat m)" for m using show_nat_digits by (auto simp: list_all_iff)
  have head: "\<exists>c cs. show_nat m = c # cs \<and> c \<noteq> CHR ''-'' \<and> c \<noteq> CHR ''+''" for m
  proof -
    obtain c cs where m: "show_nat m = c # cs" by (cases "show_nat m") auto
    then have "is_ascii_digit c" using show_nat_digits [of c m] by simp
    with m show ?thesis by (auto simp: is_ascii_digit_def)
  qed
  show ?thesis
  proof (cases "n < 0")
    case True
    with n digits show ?thesis by (simp add: parse_i64_def show_int_def digits_value_show_nat)
  next
    case False
    from head [of "nat n"] obtain c cs where "show_nat (nat n) = c # cs" "c \<noteq> CHR ''-''" "c \<noteq> CHR ''+''" by blast
    with n digits [of "nat n"] False digits_value_show_nat [of "nat n"] show ?thesis
      by (simp add: parse_i64_def show_int_def)
  qed
qed

lemma values_for_append: "values_for (ps @ qs) k = values_for ps k @ values_for qs k"
  by (simp add: values_for_def)

lemma values_for_opt_pair:
  "values_for (opt_pair k v) k' = (if k = k' then (case v of Some v \<Rightarrow> if v = [] then [] else [v] | None \<Rightarrow> []) else [])"
  by (simp add: values_for_def opt_pair_def split: option.split)

lemma values_for_jobs_pairs:
  "values_for (jobs_pairs p) ''cursor'' = (case jl_cursor p of Some v \<Rightarrow> if v = [] then [] else [v] | None \<Rightarrow> [])"
  "values_for (jobs_pairs p) ''limit'' = [show_int (jl_limit p)]"
  "values_for (jobs_pairs p) ''job_id'' = (case jl_job_id p of Some v \<Rightarrow> if v = [] then [] else [v] | None \<Rightarrow> [])"
  "values_for (jobs_pairs p) ''status'' = (if join '','' (jl_status p) = [] then [] else [join '','' (jl_status p)])"
  "values_for (jobs_pairs p) ''trigger_type'' = (if join '','' (jl_trigger p) = [] then [] else [join '','' (jl_trigger p)])"
  "values_for (jobs_pairs p) ''endpoint_type'' =
     (if join '','' (jl_endpoint_type p) = [] then [] else [join '','' (jl_endpoint_type p)])"
  "values_for (jobs_pairs p) ''endpoint'' = (case jl_endpoint p of Some v \<Rightarrow> if v = [] then [] else [v] | None \<Rightarrow> [])"
  "values_for (jobs_pairs p) ''created_after'' = (case jl_created_after p of Some v \<Rightarrow> if v = [] then [] else [v] | None \<Rightarrow> [])"
  "values_for (jobs_pairs p) ''created_before'' = (case jl_created_before p of Some v \<Rightarrow> if v = [] then [] else [v] | None \<Rightarrow> [])"
  unfolding jobs_pairs_def values_for_append list_pair_def values_for_opt_pair
  by (simp_all add: values_for_def)

definition nonempty :: "string option \<Rightarrow> string option" where
  "nonempty v = (if v = Some [] then None else v)"

text \<open>Texts of times that are read back.\<close>

definition read_back :: "ext \<Rightarrow> (timestamp \<Rightarrow> string) \<Rightarrow> bool" where
  "read_back x tms \<longleftrightarrow> (\<forall>t. trim (tms t) = tms t \<and> tms t \<noteq> [] \<and> parse_rfc3339 x (tms t) = Some t)"

lemma jobs_page_read:
  assumes "in_i64 (jl_limit p)"
  shows "read_pagination (jobs_pairs p) = Some \<lparr>pp_cursor = nonempty (jl_cursor p), pp_limit = jl_limit p\<rparr>"
  using assms
  by (auto simp: read_pagination_def values_for_jobs_pairs parse_show_int nonempty_def split: option.split)

lemma last_scalar_opt:
  "values_for ps k = (case v of Some v \<Rightarrow> if v = [] then [] else [v] | None \<Rightarrow> []) \<Longrightarrow> last_scalar ps k = blank_to_none v"
  by (auto simp: last_scalar_def blank_to_none_def List.map_filter_def Let_def split: option.splits)

lemma parse_time_read:
  assumes "read_back x tms"
  shows "parse_datetime x (blank_to_none (map_option tms t)) label = Ok t"
  using assms by (cases t) (auto simp: read_back_def parse_datetime_def blank_to_none_def)

lemma join_names_nonempty:
  assumes "\<And>a. enc a \<noteq> []"
  shows "(join '','' (map enc as) = []) = (as = [])"
  using assms by (cases as; cases "tl as") (auto simp: neq_Nil_conv)

lemma jobs_filters_read:
  assumes "jl_status p = map job_status_as_str sts" "distinct sts" and "jl_trigger p = map trigger_type_as_str trs" "distinct trs"
    and "jl_endpoint_type p = map endpoint_type_as_str ets" "distinct ets" and "read_back x tms"
    and "jl_created_after p = map_option tms a" and "jl_created_before p = map_option tms b"
    and "\<forall>t u. a = Some t \<longrightarrow> b = Some u \<longrightarrow> t \<le> u"
  shows "parse_job_filters x (jobs_pairs p) = Ok
    \<lparr>f_job_id = blank_to_none (jl_job_id p), f_status = sts, f_trigger = trs, f_endpoint = blank_to_none (jl_endpoint p),
     f_endpoint_type = ets, f_created_after = a, f_created_before = b\<rparr>"
proof -
  have lists: "parse_filter_list (jobs_pairs p) ''status'' job_status_from_str ''status'' = Ok sts"
    "parse_filter_list (jobs_pairs p) ''trigger_type'' trigger_type_from_str ''trigger'' = Ok trs"
    "parse_filter_list (jobs_pairs p) ''endpoint_type'' endpoint_type_from_str ''endpoint_type'' = Ok ets"
    using assms(1-6)
    by (auto intro!: status_tokens.filter_read_back trigger_tokens.filter_read_back endpoint_type_tokens.filter_read_back
        simp: values_for_jobs_pairs join_names_nonempty status_tokens.enc_token trigger_tokens.enc_token
          endpoint_type_tokens.enc_token)
  have scalars: "last_scalar (jobs_pairs p) ''job_id'' = blank_to_none (jl_job_id p)"
    "last_scalar (jobs_pairs p) ''endpoint'' = blank_to_none (jl_endpoint p)"
    "last_scalar (jobs_pairs p) ''created_after'' = blank_to_none (jl_created_after p)"
    "last_scalar (jobs_pairs p) ''created_before'' = blank_to_none (jl_created_before p)"
    by (intro last_scalar_opt values_for_jobs_pairs)+
  show ?thesis
    using assms(10)
    by (auto simp: parse_job_filters_def lists scalars assms(8,9) parse_time_read [OF assms(7)] split: option.splits)
qed

text \<open>A lower bound after the upper one is refused.\<close>

lemma jobs_filters_inverted:
  assumes "read_back x tms" and "jl_created_after p = Some (tms a)" and "jl_created_before p = Some (tms b)" and "b < a"
  shows "parse_job_filters x (jobs_pairs p) = Err (InvalidRequest ''created_after must not be after created_before'')"
proof -
  have "parse_datetime x (last_scalar (jobs_pairs p) ''created_after'') ''created_after'' = Ok (Some a)"
    "parse_datetime x (last_scalar (jobs_pairs p) ''created_before'') ''created_before'' = Ok (Some b)"
    using last_scalar_opt [OF values_for_jobs_pairs(8), of p] last_scalar_opt [OF values_for_jobs_pairs(9), of p]
      parse_time_read [OF assms(1), of "Some a"] parse_time_read [OF assms(1), of "Some b"] assms(2,3) by simp_all
  then show ?thesis using assms(4) by (simp add: parse_job_filters_def)
qed

section \<open>Requests reach their handlers\<close>

text \<open>The page is served by the server of the API, and the identifiers are texts a header can hold.\<close>

definition dashboard_at :: "dashboard_config \<Rightarrow> string \<Rightarrow> string \<Rightarrow> string \<Rightarrow> string \<Rightarrow> bool" where
  "dashboard_at d org ws origin api \<longleftrightarrow>
     api_base d = origin @ api \<and> CHR ''?'' \<notin> set api \<and> list_all visible org \<and> list_all visible ws"

abbreviation dash_headers :: "string \<Rightarrow> string \<Rightarrow> (string \<times> string) list" where
  "dash_headers org ws \<equiv> [(''X-Org-Id'', org), (''X-Workspace-Id'', ws)]"

lemma lower_dash_names:
  "map to_ascii_lower ''X-Org-Id'' = ''x-org-id''" "map to_ascii_lower ''X-Workspace-Id'' = ''x-workspace-id''"
  by code_simp+

text \<open>\<open>reaches\<close>: what the table of routes makes of a call to a workspace.\<close>

definition reaches ::
  "actix \<Rightarrow> ext \<Rightarrow> nat list \<Rightarrow> string \<Rightarrow> incoming \<Rightarrow> string \<Rightarrow> request \<Rightarrow> bool" where
  "reaches ax x nonce api q sch req \<longleftrightarrow>
     (\<exists>f cs. route_of ax x nonce api q = Some (Workspaced f, cs) \<and> f sch cs q = Ok req)"

lemma scoped_call_reaches:
  assumes "dashboard_at d org ws origin api" and "CHR ''?'' \<notin> set path" and "qs = [] \<or> hd qs = CHR ''?''"
    and "run_state (resolve_schema org ws) s = (Ok (Some sch), s0)"
    and "reaches ax x nonce api (received ax (dash_headers org ws) api meth path (drop 1 qs) body rid) sch req"
  shows "run_state (deliver ax x cfg origin api (Some who) nonce rid (scoped_call d org ws meth (path @ qs) body)) s =
    run_state (service x (serve x cfg req)) s0"
proof -
  let ?call = "scoped_call d org ws meth (path @ qs) body"
  let ?q = "received ax (dash_headers org ws) api meth path (drop 1 qs) body rid"
  have call: "call_method ?call = meth" "call_body ?call = body" "call_headers ?call = dash_headers org ws"
    by (simp_all add: scoped_call_def page_call_def)
  have "call_url ?call = origin @ api @ ''/v1'' @ path @ qs"
    using assms(1) by (simp add: scoped_call_def page_call_def dashboard_at_def)
  from call_received [OF this _ assms(2,3), of rid ax] assms(1)
  have "map_option (with_request_id rid) (incoming_of ax origin ?call) = Some ?q"
    by (simp add: call dashboard_at_def lower_dash_names del: list.map)
  then obtain q where q: "incoming_of ax origin ?call = Some q" "with_request_id rid q = ?q" by auto
  have hs: "header ?q ''x-org-id'' = Some org" "header ?q ''x-workspace-id'' = Some ws"
    using assms(1) by (simp_all add: header_def received_def dashboard_at_def lower_dash_names lower_names del: list.map)
  from assms(5) obtain f cs where f: "route_of ax x nonce api ?q = Some (Workspaced f, cs)" "f sch cs ?q = Ok req"
    by (auto simp: reaches_def)
  from deliver_workspaced [OF q hs f(1) assms(4), of cfg who] f(2) show ?thesis by simp
qed

text \<open>The requests written are read as they are meant.\<close>

lemma bodies_read:
  "read_create_organization (create_organization_value name slug) = Some (name, slug)"
  "read_update_organization (update_organization_value name) = Some (Some name)"
  "read_create_workspace (create_workspace_value name slug) = Some (name, slug)"
  "read_create_config (create_config_value name v) = Some (name, v)"
  "read_update_config (update_config_value v) = Some v"
  "read_create_payload_spec (create_payload_spec_value name v) = Some (name, v)"
  "read_update_payload_spec (update_payload_spec_value v) = Some v"
  "read_create_secret (create_secret_value name t) = Some (name, t)"
  "read_update_secret (update_secret_value t) = Some t"
  by (simp_all add: read_create_organization_def create_organization_value_def read_update_organization_def
      update_organization_value_def read_create_workspace_def create_workspace_value_def read_create_config_def
      create_config_value_def read_update_config_def update_config_value_def read_create_payload_spec_def
      create_payload_spec_value_def read_update_payload_spec_def update_payload_spec_value_def read_create_secret_def
      create_secret_value_def read_update_secret_def update_secret_value_def two_strings_def string_and_value_def
      one_value_def struct_fields_jobj)

lemma create_endpoint_read:
  assumes "de_policy (dce_retry_policy b) = Some rp"
  shows "read_create_endpoint (create_endpoint_value b) = Some \<lparr>ce_name = dce_name b, ce_type = dce_type b,
    ce_payload_spec = dce_payload_spec b, ce_config = dce_config b, ce_spec = dce_spec b, ce_retry_policy = rp\<rparr>"
  using assms
  by (cases "dce_payload_spec b"; cases "dce_config b"; cases "dce_retry_policy b")
    (simp_all add: read_create_endpoint_def create_endpoint_value_def struct_fields_jobj skip_none_def)

lemma first_page:
  "ax_query ax [] = Ok (form_pairs []) \<Longrightarrow>
     with_page ax (received ax hs api meth path [] body rid) mk = Ok (mk \<lparr>pp_cursor = None, pp_limit = default_limit\<rparr>)"
  by (simp add: with_page_def page_of_def received_def read_pagination_def values_for_def form_pairs_def)

lemmas reach_simps = reaches_def route_of_received api_routes_def segments_def starts_with_def split_char_append
  with_body_received bodies_read

lemma reach_jobs:
  assumes "plain i" and "ax_decode ax i = i" and "ax_query ax [] = Ok (form_pairs [])"
  shows "reaches ax x nonce api (received ax hs api ''GET'' (''/jobs/'' @ i) [] None rid) sch (Jobs_Get sch i)"
    and "reaches ax x nonce api (received ax hs api ''POST'' (''/jobs/'' @ i @ ''/cancel'') [] None rid) sch (Jobs_Cancel sch i)"
    and "reaches ax x nonce api (received ax hs api ''GET'' (''/jobs/'' @ i @ ''/status'') [] None rid) sch (Jobs_Status sch i)"
    and "reaches ax x nonce api (received ax hs api ''GET'' (''/jobs/'' @ i @ ''/versions'') [] None rid) sch (Jobs_Versions sch i)"
    and "reaches ax x nonce api (received ax hs api ''GET'' (''/jobs/'' @ i @ ''/executions'') [] None rid) sch (Jobs_Executions sch i \<lparr>pp_cursor = None, pp_limit = default_limit\<rparr>)"
  using plain_chars [OF assms(1)] assms(2) first_page [OF assms(3)]
  by (simp_all add: reach_simps)

lemma reach_executions:
  assumes "plain i" and "ax_decode ax i = i" and "ax_query ax [] = Ok (form_pairs [])"
  shows "reaches ax x nonce api (received ax hs api ''GET'' (''/executions/'' @ i) [] None rid) sch (Executions_Get sch i)"
    and "reaches ax x nonce api (received ax hs api ''POST'' (''/executions/'' @ i @ ''/cancel'') [] None rid) sch (Executions_Cancel sch i)"
    and "reaches ax x nonce api (received ax hs api ''GET'' (''/executions/'' @ i @ ''/attempts'') [] None rid) sch (Executions_Attempts sch i)"
    and "reaches ax x nonce api (received ax hs api ''GET'' (''/executions/'' @ i @ ''/logs'') [] None rid) sch (Executions_Logs sch i)"
  using plain_chars [OF assms(1)] assms(2) first_page [OF assms(3)]
  by (simp_all add: reach_simps)

lemma reach_configs:
  assumes "plain i" and "ax_decode ax i = i" and "ax_query ax [] = Ok (form_pairs [])"
  shows "reaches ax x nonce api (received ax hs api ''GET'' (''/configs'') [] None rid) sch (Configs_List sch \<lparr>pp_cursor = None, pp_limit = default_limit\<rparr>)"
    and "reaches ax x nonce api (received ax hs api ''POST'' (''/configs'') [] (Some (create_config_value i v)) rid) sch (Configs_Create sch i v)"
    and "reaches ax x nonce api (received ax hs api ''PUT'' (''/configs/'' @ i) [] (Some (update_config_value v)) rid) sch (Configs_Update sch i v)"
    and "reaches ax x nonce api (received ax hs api ''DELETE'' (''/configs/'' @ i) [] None rid) sch (Configs_Delete sch i)"
  using plain_chars [OF assms(1)] assms(2) first_page [OF assms(3)]
  by (simp_all add: reach_simps)

lemma reach_payload_specs:
  assumes "plain i" and "ax_decode ax i = i" and "ax_query ax [] = Ok (form_pairs [])"
  shows "reaches ax x nonce api (received ax hs api ''GET'' (''/payload-specs'') [] None rid) sch (Payload_Specs_List sch \<lparr>pp_cursor = None, pp_limit = default_limit\<rparr>)"
    and "reaches ax x nonce api (received ax hs api ''POST'' (''/payload-specs'') [] (Some (create_payload_spec_value i v)) rid) sch (Payload_Specs_Create sch i v)"
    and "reaches ax x nonce api (received ax hs api ''PUT'' (''/payload-specs/'' @ i) [] (Some (update_payload_spec_value v)) rid) sch (Payload_Specs_Update sch i v)"
    and "reaches ax x nonce api (received ax hs api ''DELETE'' (''/payload-specs/'' @ i) [] None rid) sch (Payload_Specs_Delete sch i)"
  using plain_chars [OF assms(1)] assms(2) first_page [OF assms(3)]
  by (simp_all add: reach_simps)

lemma reach_secrets:
  assumes "plain i" and "ax_decode ax i = i" and "ax_query ax [] = Ok (form_pairs [])"
  shows "reaches ax x nonce api (received ax hs api ''GET'' (''/secrets'') [] None rid) sch (Secrets_List sch \<lparr>pp_cursor = None, pp_limit = default_limit\<rparr>)"
    and "reaches ax x nonce api (received ax hs api ''POST'' (''/secrets'') [] (Some (create_secret_value i t)) rid) sch (Secrets_Create nonce sch i t)"
    and "reaches ax x nonce api (received ax hs api ''PUT'' (''/secrets/'' @ i) [] (Some (update_secret_value t)) rid) sch (Secrets_Update nonce sch i t)"
    and "reaches ax x nonce api (received ax hs api ''DELETE'' (''/secrets/'' @ i) [] None rid) sch (Secrets_Delete sch i)"
  using plain_chars [OF assms(1)] assms(2) first_page [OF assms(3)]
  by (simp_all add: reach_simps)

lemma reach_endpoints:
  assumes "plain i" and "ax_decode ax i = i" and "ax_query ax [] = Ok (form_pairs [])"
  shows "reaches ax x nonce api (received ax hs api ''GET'' (''/endpoints'') [] None rid) sch (Endpoints_List sch \<lparr>pp_cursor = None, pp_limit = default_limit\<rparr>)"
    and "reaches ax x nonce api (received ax hs api ''DELETE'' (''/endpoints/'' @ i) [] None rid) sch (Endpoints_Delete sch i)"
  using plain_chars [OF assms(1)] assms(2) first_page [OF assms(3)]
  by (simp_all add: reach_simps)

lemma reach_endpoint_bodies:
  assumes "plain i" and "ax_decode ax i = i"
  shows "read_create_endpoint j = Some b \<Longrightarrow>
      reaches ax x nonce api (received ax hs api ''POST'' ''/endpoints'' [] (Some j) rid) sch (Endpoints_Create sch b)"
    and "read_update_endpoint j = Some u \<Longrightarrow>
      reaches ax x nonce api (received ax hs api ''PUT'' (''/endpoints/'' @ i) [] (Some j) rid) sch (Endpoints_Update sch i u)"
    and "read_create_job x j = Some cj \<Longrightarrow>
      reaches ax x nonce api (received ax hs api ''POST'' ''/jobs'' [] (Some j) rid) sch (Jobs_Create sch cj)"
  using plain_chars [OF assms(1)] assms(2) by (simp_all add: reach_simps)

lemma reach_jobs_list:
  assumes "ax_query ax q = Ok pairs" and "read_pagination pairs = Some page" and "parse_job_filters x pairs = Ok f"
  shows "reaches ax x nonce api (received ax hs api ''GET'' ''/jobs'' q None rid) sch (Jobs_List sch page f)"
  using assms
  by (simp add: reach_simps page_of_def filters_of_def job_filters_from_request_def) (simp add: received_def)

section \<open>Whole requests\<close>

definition answered :: "'x pg_scheme browser \<Rightarrow> ext \<Rightarrow> app_config \<Rightarrow> (json \<Rightarrow> 'a option) \<Rightarrow> request \<Rightarrow> ('x pg_scheme, 'a, string) prog" where
  "answered br x cfg read req = reading_json br read (service x (serve x cfg req))"

definition acknowledged :: "ext \<Rightarrow> app_config \<Rightarrow> request \<Rightarrow> ('x pg_scheme, unit, string) prog" where
  "acknowledged x cfg req = reading_nothing (service x (serve x cfg req))"

lemma reading_cong:
  assumes "run_state m s = run_state m' s0"
  shows "run_state (reading_json br read m) s = run_state (reading_json br read m') s0"
    and "run_state (reading_nothing m) s = run_state (reading_nothing m') s0"
  using assms by (simp_all add: reading_json_def reading_nothing_def)

lemma scoped_fetch:
  assumes "br_send br = deliver ax x cfg origin api (Some who) nonce rid" and "dashboard_at d org ws origin api"
    and "run_state (resolve_schema org ws) s = (Ok (Some sch), s0)"
    and "CHR ''?'' \<notin> set path" and "qs = [] \<or> hd qs = CHR ''?''"
    and "reaches ax x nonce api (received ax (dash_headers org ws) api meth path (drop 1 qs) body rid) sch req"
  shows "run_state (fetch br (scoped_call d org ws meth (path @ qs) body) read) s = run_state (answered br x cfg read req) s0"
    and "run_state (reading_nothing (br_send br (scoped_call d org ws meth (path @ qs) body))) s = run_state (acknowledged x cfg req) s0"
  unfolding fetch_def answered_def acknowledged_def assms(1)
  by (rule reading_cong, rule scoped_call_reaches [OF assms(2,4,5,3,6)])+

lemmas scoped_fetch_path = scoped_fetch [where qs = "[]", simplified]

definition manages :: "actix \<Rightarrow> ext \<Rightarrow> nat list \<Rightarrow> string \<Rightarrow> incoming \<Rightarrow> request \<Rightarrow> bool" where
  "manages ax x nonce api q req \<longleftrightarrow>
     (\<exists>f cs. route_of ax x nonce api q = Some (Management f, cs) \<and> f cs q = Ok req)"

lemma page_fetch:
  assumes "br_send br = deliver ax x cfg origin api (Some who) nonce rid" and "dashboard_at d org ws origin api"
    and "CHR ''?'' \<notin> set path" and "manages ax x nonce api (received ax [] api meth path [] body rid) req"
  shows "run_state (fetch br (page_call d meth path body) read) s = run_state (answered br x cfg read req) s"
proof -
  let ?call = "page_call d meth path body"
  let ?q = "received ax [] api meth path [] body rid"
  have call: "call_method ?call = meth" "call_body ?call = body" "call_headers ?call = []"
    by (simp_all add: page_call_def)
  have "call_url ?call = origin @ api @ ''/v1'' @ path @ []" using assms(2) by (simp add: page_call_def dashboard_at_def)
  from call_received [OF this _ assms(3), of rid ax] assms(2)
  have "map_option (with_request_id rid) (incoming_of ax origin ?call) = Some ?q" by (simp add: call dashboard_at_def)
  then obtain q where q: "incoming_of ax origin ?call = Some q" "with_request_id rid q = ?q" by auto
  from assms(4) obtain f cs where f: "route_of ax x nonce api ?q = Some (Management f, cs)" "f cs ?q = Ok req"
    by (auto simp: manages_def)
  show ?thesis
    unfolding fetch_def answered_def assms(1) by (rule reading_cong(1), rule deliver_management [OF q f])
qed

lemma manage_orgs:
  assumes "plain i" and "ax_decode ax i = i"
  shows "manages ax x nonce api (received ax hs api ''GET'' ''/orgs'' [] None rid) Orgs_List"
    and "manages ax x nonce api (received ax hs api ''GET'' (''/orgs/'' @ i) [] None rid) (Orgs_Get i)"
    and "manages ax x nonce api (received ax hs api ''POST'' ''/orgs'' [] (Some (create_organization_value t u)) rid) (Orgs_Create t u)"
    and "manages ax x nonce api (received ax hs api ''PUT'' (''/orgs/'' @ i) [] (Some (update_organization_value t)) rid) (Orgs_Update i (Some t))"
    and "manages ax x nonce api (received ax hs api ''GET'' (''/orgs/'' @ i @ ''/workspaces'') [] None rid) (Workspaces_List i)"
    and "manages ax x nonce api (received ax hs api ''POST'' (''/orgs/'' @ i @ ''/workspaces'') [] (Some (create_workspace_value t u)) rid)
      (Workspaces_Create i t u)"
  using plain_chars [OF assms(1)] assms(2) by (simp_all add: reach_simps manages_def)

text \<open>Every request of a page is answered by the handler it means, in the schema of the workspace.\<close>

lemma served_jobs:
  assumes "br_send br = deliver ax x cfg origin api (Some who) nonce rid" and "dashboard_at d org ws origin api"
    and "run_state (resolve_schema org ws) s = (Ok (Some sch), s0)"
    and "plain i" and "ax_decode ax i = i" and "ax_query ax [] = Ok (form_pairs [])"
  shows "run_state (dash_get_job br d org ws i) s = run_state (answered br x cfg (data_response job_from_value) (Jobs_Get sch i)) s0"
    and "run_state (dash_cancel_job br d org ws i) s = run_state (answered br x cfg (Some) (Jobs_Cancel sch i)) s0"
    and "run_state (dash_get_job_status br d org ws i) s = run_state (answered br x cfg (data_response job_status_from_value) (Jobs_Status sch i)) s0"
    and "run_state (dash_get_job_versions br d org ws i) s = run_state (answered br x cfg (data_response (vec job_from_value)) (Jobs_Versions sch i)) s0"
    and "run_state (dash_list_job_executions br d org ws i) s = run_state (answered br x cfg (\<lambda>j. map_option pg_data (paginated_from_value dexecution_from_value j)) (Jobs_Executions sch i \<lparr>pp_cursor = None, pp_limit = default_limit\<rparr>)) s0"
  unfolding dash_get_job_def dash_cancel_job_def dash_get_job_status_def dash_get_job_versions_def dash_list_job_executions_def
  by (rule scoped_fetch_path [OF assms(1-3)], simp add: plain_chars [OF assms(4)], rule reach_jobs [OF assms(4-6)])+

lemma served_executions:
  assumes "br_send br = deliver ax x cfg origin api (Some who) nonce rid" and "dashboard_at d org ws origin api"
    and "run_state (resolve_schema org ws) s = (Ok (Some sch), s0)"
    and "plain i" and "ax_decode ax i = i" and "ax_query ax [] = Ok (form_pairs [])"
  shows "run_state (dash_get_execution br d org ws i) s = run_state (answered br x cfg (data_response dexecution_from_value) (Executions_Get sch i)) s0"
    and "run_state (dash_cancel_execution br d org ws i) s = run_state (answered br x cfg (Some) (Executions_Cancel sch i)) s0"
    and "run_state (dash_list_attempts br d org ws i) s = run_state (answered br x cfg (data_response (vec attempt_from_value)) (Executions_Attempts sch i)) s0"
    and "run_state (dash_list_execution_logs br d org ws i) s = run_state (answered br x cfg (data_response (vec log_from_value)) (Executions_Logs sch i)) s0"
  unfolding dash_get_execution_def dash_cancel_execution_def dash_list_attempts_def dash_list_execution_logs_def
  by (rule scoped_fetch_path [OF assms(1-3)], simp add: plain_chars [OF assms(4)], rule reach_executions [OF assms(4-6)])+

lemma served_configs:
  assumes "br_send br = deliver ax x cfg origin api (Some who) nonce rid" and "dashboard_at d org ws origin api"
    and "run_state (resolve_schema org ws) s = (Ok (Some sch), s0)"
    and "plain i" and "ax_decode ax i = i" and "ax_query ax [] = Ok (form_pairs [])"
  shows "run_state (dash_list_configs br d org ws) s = run_state (answered br x cfg (\<lambda>j. map_option pg_data (paginated_from_value config_from_value j)) (Configs_List sch \<lparr>pp_cursor = None, pp_limit = default_limit\<rparr>)) s0"
    and "run_state (dash_create_config br d org ws i v) s = run_state (answered br x cfg (data_response config_from_value) (Configs_Create sch i v)) s0"
    and "run_state (dash_update_config br d org ws i v) s = run_state (answered br x cfg (data_response config_from_value) (Configs_Update sch i v)) s0"
    and "run_state (dash_delete_config br d org ws i) s = run_state (acknowledged x cfg (Configs_Delete sch i)) s0"
  unfolding dash_list_configs_def dash_create_config_def dash_update_config_def dash_delete_config_def
  by (rule scoped_fetch_path [OF assms(1-3)], simp add: plain_chars [OF assms(4)], rule reach_configs [OF assms(4-6)])+

lemma served_payload_specs:
  assumes "br_send br = deliver ax x cfg origin api (Some who) nonce rid" and "dashboard_at d org ws origin api"
    and "run_state (resolve_schema org ws) s = (Ok (Some sch), s0)"
    and "plain i" and "ax_decode ax i = i" and "ax_query ax [] = Ok (form_pairs [])"
  shows "run_state (dash_list_payload_specs br d org ws) s = run_state (answered br x cfg (\<lambda>j. map_option pg_data (paginated_from_value payload_spec_from_value j)) (Payload_Specs_List sch \<lparr>pp_cursor = None, pp_limit = default_limit\<rparr>)) s0"
    and "run_state (dash_create_payload_spec br d org ws i v) s = run_state (answered br x cfg (data_response payload_spec_from_value) (Payload_Specs_Create sch i v)) s0"
    and "run_state (dash_update_payload_spec br d org ws i v) s = run_state (answered br x cfg (data_response payload_spec_from_value) (Payload_Specs_Update sch i v)) s0"
    and "run_state (dash_delete_payload_spec br d org ws i) s = run_state (acknowledged x cfg (Payload_Specs_Delete sch i)) s0"
  unfolding dash_list_payload_specs_def dash_create_payload_spec_def dash_update_payload_spec_def dash_delete_payload_spec_def
  by (rule scoped_fetch_path [OF assms(1-3)], simp add: plain_chars [OF assms(4)], rule reach_payload_specs [OF assms(4-6)])+

lemma served_secrets:
  assumes "br_send br = deliver ax x cfg origin api (Some who) nonce rid" and "dashboard_at d org ws origin api"
    and "run_state (resolve_schema org ws) s = (Ok (Some sch), s0)"
    and "plain i" and "ax_decode ax i = i" and "ax_query ax [] = Ok (form_pairs [])"
  shows "run_state (dash_list_secrets br d org ws) s = run_state (answered br x cfg (\<lambda>j. map_option pg_data (paginated_from_value secret_from_value j)) (Secrets_List sch \<lparr>pp_cursor = None, pp_limit = default_limit\<rparr>)) s0"
    and "run_state (dash_create_secret br d org ws i t) s = run_state (answered br x cfg (data_response secret_from_value) (Secrets_Create nonce sch i t)) s0"
    and "run_state (dash_update_secret br d org ws i t) s = run_state (answered br x cfg (data_response secret_from_value) (Secrets_Update nonce sch i t)) s0"
    and "run_state (dash_delete_secret br d org ws i) s = run_state (acknowledged x cfg (Secrets_Delete sch i)) s0"
  unfolding dash_list_secrets_def dash_create_secret_def dash_update_secret_def dash_delete_secret_def
  by (rule scoped_fetch_path [OF assms(1-3)], simp add: plain_chars [OF assms(4)], rule reach_secrets [OF assms(4-6)])+

lemma served_endpoints:
  assumes "br_send br = deliver ax x cfg origin api (Some who) nonce rid" and "dashboard_at d org ws origin api"
    and "run_state (resolve_schema org ws) s = (Ok (Some sch), s0)"
    and "plain i" and "ax_decode ax i = i" and "ax_query ax [] = Ok (form_pairs [])"
  shows "run_state (dash_list_endpoints br d org ws) s = run_state (answered br x cfg (\<lambda>j. map_option pg_data (paginated_from_value endpoint_from_value j)) (Endpoints_List sch \<lparr>pp_cursor = None, pp_limit = default_limit\<rparr>)) s0"
    and "run_state (dash_delete_endpoint br d org ws i) s = run_state (acknowledged x cfg (Endpoints_Delete sch i)) s0"
  unfolding dash_list_endpoints_def dash_delete_endpoint_def
  by (rule scoped_fetch_path [OF assms(1-3)], simp add: plain_chars [OF assms(4)], rule reach_endpoints [OF assms(4-6)])+

lemma served_bodies:
  assumes "br_send br = deliver ax x cfg origin api (Some who) nonce rid" and "dashboard_at d org ws origin api"
    and "run_state (resolve_schema org ws) s = (Ok (Some sch), s0)"
    and "plain i" and "ax_decode ax i = i"
  shows "(\<forall>b. read_create_job x j = Some b \<longrightarrow>
      run_state (dash_create_job br d org ws j) s = run_state (answered br x cfg (data_response Some) (Jobs_Create sch b)) s0)"
    and "(\<forall>u. read_update_endpoint j = Some u \<longrightarrow>
      run_state (dash_update_endpoint br d org ws i j) s =
        run_state (answered br x cfg (data_response endpoint_from_value) (Endpoints_Update sch i u)) s0)"
    and "(\<forall>rp. de_policy (dce_retry_policy e) = Some rp \<longrightarrow>
      run_state (dash_create_endpoint br d org ws e) s =
        run_state (answered br x cfg (data_response endpoint_from_value) (Endpoints_Create sch
          \<lparr>ce_name = dce_name e, ce_type = dce_type e, ce_payload_spec = dce_payload_spec e, ce_config = dce_config e,
           ce_spec = dce_spec e, ce_retry_policy = rp\<rparr>)) s0)"
  unfolding dash_create_job_def dash_update_endpoint_def dash_create_endpoint_def
  by (intro allI impI, rule scoped_fetch_path [OF assms(1-3)], simp add: plain_chars [OF assms(4)],
      erule reach_endpoint_bodies [OF assms(4,5)] reach_endpoint_bodies(1) [OF assms(4,5) create_endpoint_read])+

lemma served_management:
  assumes "br_send br = deliver ax x cfg origin api (Some who) nonce rid" and "dashboard_at d org ws origin api"
    and "plain i" and "ax_decode ax i = i"
  shows "run_state (dash_list_organizations br d) s = run_state (answered br x cfg (data_response (vec organization_from_value)) Orgs_List) s"
    and "run_state (dash_get_organization br d i) s = run_state (answered br x cfg (data_response organization_from_value) (Orgs_Get i)) s"
    and "run_state (dash_create_organization br d t u) s = run_state (answered br x cfg (data_response organization_from_value) (Orgs_Create t u)) s"
    and "run_state (dash_update_organization br d i t) s = run_state (answered br x cfg (data_response organization_from_value) (Orgs_Update i (Some t))) s"
    and "run_state (dash_list_workspaces br d i) s = run_state (answered br x cfg (data_response (vec workspace_from_value)) (Workspaces_List i)) s"
    and "run_state (dash_create_workspace br d i t u) s = run_state (answered br x cfg (data_response workspace_from_value) (Workspaces_Create i t u)) s"
  unfolding dash_list_organizations_def dash_get_organization_def dash_create_organization_def dash_update_organization_def
    dash_list_workspaces_def dash_create_workspace_def
  by (rule page_fetch [OF assms(1,2)], simp add: plain_chars [OF assms(3)], rule manage_orgs [OF assms(3,4)])+

lemma keys_within:
  "fst ` set ps \<subseteq> set ks \<Longrightarrow> list_all (list_all P) ks \<Longrightarrow> \<forall>(k, v) \<in> set ps. \<forall>c \<in> set k. P c"
  by (fastforce simp: list_all_iff)

lemma served_jobs_list:
  assumes "br_send br = deliver ax x cfg origin api (Some who) nonce rid" and "dashboard_at d org ws origin api"
    and "run_state (resolve_schema org ws) s = (Ok (Some sch), s0)"
    and "ax_query ax (drop 1 (jobs_query p)) = Ok (form_pairs (drop 1 (jobs_query p)))"
    and "read_pagination (jobs_pairs p) = Some page" and "parse_job_filters x (jobs_pairs p) = Ok f"
  shows "run_state (dash_list_jobs br d org ws p) s =
    run_state (answered br x cfg (paginated_from_value job_from_value) (Jobs_List sch page f)) s0"
proof -
  let ?keys = "[''cursor'', ''limit'', ''job_id'', ''status'', ''trigger_type'', ''endpoint_type'', ''endpoint'', ''created_after'',
    ''created_before'']"
  have "fst ` set (opt_pair k v) \<subseteq> {k}" for k v by (auto simp: opt_pair_def split: option.splits if_splits)
  then have keys: "fst ` set (jobs_pairs p) \<subseteq> set ?keys"
    unfolding jobs_pairs_def list_pair_def set_append image_Un by (intro Un_least) (force intro: order_trans)+
  have "list_all (list_all unreserved) ?keys"
    by (simp add: unreserved_def is_ascii_alphanumeric_def is_ascii_lowercase_def)
  from form_pairs_render [OF keys_within [OF keys this]]
  have pairs: "form_pairs (drop 1 (jobs_query p)) = jobs_pairs p" unfolding jobs_query_render .
  show ?thesis
    unfolding dash_list_jobs_def
  proof (rule scoped_fetch(1) [OF assms(1-3)])
    show "jobs_query p = [] \<or> hd (jobs_query p) = CHR ''?''" by (simp add: jobs_query_render render_query_def)
    show "reaches ax x nonce api (received ax (dash_headers org ws) api ''GET'' ''/jobs'' (drop 1 (jobs_query p)) None rid) sch
        (Jobs_List sch page f)"
      by (rule reach_jobs_list [OF assms(4) [unfolded pairs] assms(5,6)])
  qed simp
qed

end
