(* ===== verification/Date_Range.thy ===== *)
theory Date_Range
  imports Dashboard_Client
begin

text \<open>
  The filter on creation dates of the jobs page: \<open>crates/dashboard/src/components/date_range.rs\<close>. Dates are counted
  in days, times of day in seconds, an instant is a date and a time, as \<open>combine\<close> makes it. The calendar of
  chrono is an argument; \<open>calendar_laws\<close> is what the component relies on. The signals of the component are
  the fields of \<open>picker\<close>, its handlers the functions on it; \<open>None\<close> is the panic of an \<open>unwrap\<close>. What is only
  rendering has no counterpart.
\<close>

section \<open>Dates\<close>

type_synonym date = int
type_synonym time_of_day = int
type_synonym instant = "date \<times> time_of_day"

record calendar =
  cal_year :: "date \<Rightarrow> int"
  cal_month :: "date \<Rightarrow> int"
  cal_day :: "date \<Rightarrow> int"
  from_ymd :: "int \<Rightarrow> int \<Rightarrow> int \<Rightarrow> date option"
  cal_dates :: "date set"
    \<comment> \<open>the dates chrono can represent\<close>
  from_sunday :: "date \<Rightarrow> nat"
    \<comment> \<open>\<open>weekday().num_days_from_sunday()\<close>\<close>

datatype preset = Today | Last2Days | Last7Days | ThisMonth | LastMonth

fun preset_label :: "preset \<Rightarrow> string" where
  "preset_label Today = ''Today''"
| "preset_label Last2Days = ''Last 2 days''"
| "preset_label Last7Days = ''Last 7 days''"
| "preset_label ThisMonth = ''This month''"
| "preset_label LastMonth = ''Last month''"

definition preset_all :: "preset list" where
  "preset_all = [Today, Last2Days, Last7Days, ThisMonth, LastMonth]"

definition default_start_time :: time_of_day where
  "default_start_time = 0"

definition default_end_time :: time_of_day where
  "default_end_time = 23 * 3600 + 59 * 60 + 59"

definition start_of :: "date \<Rightarrow> instant" where
  "start_of d = (d, 0)"

definition end_of :: "date \<Rightarrow> instant" where
  "end_of d = (d, 23 * 3600 + 59 * 60 + 59)"

definition combine :: "date \<Rightarrow> time_of_day \<Rightarrow> instant" where
  "combine d t = (d, t)"

definition first_of_month :: "calendar \<Rightarrow> date \<Rightarrow> date option" where
  "first_of_month c d = from_ymd c (cal_year c d) (cal_month c d) 1"

text \<open>\<open>NaiveDate - Duration\<close>.\<close>

definition minus_days :: "calendar \<Rightarrow> date \<Rightarrow> int \<Rightarrow> date option" where
  "minus_days c d k = (if d - k \<in> cal_dates c then Some (d - k) else None)"

definition preset_range :: "calendar \<Rightarrow> preset \<Rightarrow> date \<Rightarrow> (instant \<times> instant) option" where
  "preset_range c p today =
     (case p of
        Today \<Rightarrow> Some (start_of today, end_of today)
      | Last2Days \<Rightarrow> map_option (\<lambda>d. (start_of d, end_of today)) (minus_days c today 1)
      | Last7Days \<Rightarrow> map_option (\<lambda>d. (start_of d, end_of today)) (minus_days c today 6)
      | ThisMonth \<Rightarrow> map_option (\<lambda>first. (start_of first, end_of today)) (first_of_month c today)
      | LastMonth \<Rightarrow>
          Option.bind (first_of_month c today) (\<lambda>first_this.
          Option.bind (minus_days c first_this 1) (\<lambda>last_prev.
          map_option (\<lambda>first. (start_of first, end_of last_prev)) (first_of_month c last_prev))))"

definition add_months :: "calendar \<Rightarrow> date \<Rightarrow> int \<Rightarrow> date option" where
  "add_months c d delta =
     (let zero = cal_year c d * 12 + (cal_month c d - 1) + delta in
      from_ymd c (zero div 12) (zero mod 12 + 1) 1)"

definition month_cells :: "calendar \<Rightarrow> date \<Rightarrow> date option list option" where
  "month_cells c month =
     Option.bind (first_of_month c month) (\<lambda>first.
     Option.bind (add_months c first 1) (\<lambda>next.
     Option.bind (minus_days c next 1) (\<lambda>end_day.
     Some (replicate (from_sunday c first) None @
           map (\<lambda>day. from_ymd c (cal_year c first) (cal_month c first) day) [1..cal_day c end_day]))))"

datatype day_highlight = Unmarked | Only | Start | Span | End

definition highlight_of :: "date \<Rightarrow> instant option \<Rightarrow> instant option \<Rightarrow> date option \<Rightarrow> day_highlight" where
  "highlight_of d after before hover =
     (case after of
        None \<Rightarrow> Unmarked
      | Some a \<Rightarrow>
          let start = fst a in
          (case (case before of Some b \<Rightarrow> Some (fst b) | None \<Rightarrow> hover) of
             None \<Rightarrow> if d = start then Only else Unmarked
           | Some e \<Rightarrow>
               let lo = (if e \<ge> start then start else e); hi = (if e \<ge> start then e else start) in
               if lo = hi then (if d = lo then Only else Unmarked)
               else if d = lo then Start
               else if d = hi then End
               else if d > lo \<and> d < hi then Span
               else Unmarked))"

section \<open>The component\<close>

record picker =
  pk_open :: bool
  pk_month :: date
  pk_hover :: "date option"
  pk_start_time :: time_of_day
  pk_end_time :: time_of_day
  pk_draft_after :: "instant option"
  pk_draft_before :: "instant option"
  pk_after :: "instant option"
  pk_before :: "instant option"

definition picker_new :: "calendar \<Rightarrow> date \<Rightarrow> instant option \<Rightarrow> instant option \<Rightarrow> picker option" where
  "picker_new c today after before =
     map_option (\<lambda>month. \<lparr>pk_open = False, pk_month = month, pk_hover = None, pk_start_time = default_start_time,
       pk_end_time = default_end_time, pk_draft_after = after, pk_draft_before = before, pk_after = after,
       pk_before = before\<rparr>) (first_of_month c today)"

definition mouse_down :: "bool \<Rightarrow> picker \<Rightarrow> picker" where
  "mouse_down inside p = (if \<not> pk_open p then p else if \<not> inside then p\<lparr>pk_open := False\<rparr> else p)"

definition toggle_open :: "calendar \<Rightarrow> date \<Rightarrow> picker \<Rightarrow> picker option" where
  "toggle_open c today p =
     (if pk_open p then Some (p\<lparr>pk_open := False\<rparr>)
      else
        let a = pk_after p; b = pk_before p in
        map_option (\<lambda>month. p\<lparr>pk_draft_after := a, pk_draft_before := b,
            pk_start_time := (case a of Some i \<Rightarrow> snd i | None \<Rightarrow> default_start_time),
            pk_end_time := (case b of Some i \<Rightarrow> snd i | None \<Rightarrow> default_end_time),
            pk_hover := None, pk_month := month, pk_open := True\<rparr>)
          (first_of_month c (case a of Some i \<Rightarrow> fst i | None \<Rightarrow> today)))"

definition apply_picked :: "picker \<Rightarrow> picker" where
  "apply_picked p = p\<lparr>pk_after := pk_draft_after p, pk_before := pk_draft_before p, pk_open := False\<rparr>"

definition clear_picked :: "picker \<Rightarrow> picker" where
  "clear_picked p = p\<lparr>pk_after := None, pk_before := None, pk_draft_after := None, pk_draft_before := None,
     pk_start_time := default_start_time, pk_end_time := default_end_time, pk_open := False\<rparr>"

definition apply_preset :: "calendar \<Rightarrow> date \<Rightarrow> preset \<Rightarrow> picker \<Rightarrow> picker option" where
  "apply_preset c now_date pr p =
     Option.bind (preset_range c pr now_date) (\<lambda>(a, b).
     map_option (\<lambda>month. p\<lparr>pk_start_time := default_start_time, pk_end_time := default_end_time,
       pk_draft_after := Some a, pk_draft_before := Some b, pk_month := month\<rparr>) (first_of_month c (fst a)))"

definition pick_day :: "date \<Rightarrow> picker \<Rightarrow> picker" where
  "pick_day d p =
     (case (pk_draft_after p, pk_draft_before p) of
        (Some start, None) \<Rightarrow>
          if d < fst start then
            p\<lparr>pk_draft_after := Some (combine d (pk_start_time p)),
              pk_draft_before := Some (combine (fst start) (pk_end_time p))\<rparr>
          else p\<lparr>pk_draft_before := Some (combine d (pk_end_time p))\<rparr>
      | _ \<Rightarrow> p\<lparr>pk_draft_after := Some (combine d (pk_start_time p)), pk_draft_before := None\<rparr>)"

definition apply_start_time :: "time_of_day \<Rightarrow> picker \<Rightarrow> picker" where
  "apply_start_time t p =
     p\<lparr>pk_start_time := t, pk_draft_after := map_option (\<lambda>a. combine (fst a) t) (pk_draft_after p)\<rparr>"

definition apply_end_time :: "time_of_day \<Rightarrow> picker \<Rightarrow> picker" where
  "apply_end_time t p =
     p\<lparr>pk_end_time := t, pk_draft_before := map_option (\<lambda>b. combine (fst b) t) (pk_draft_before p)\<rparr>"

definition show_month :: "calendar \<Rightarrow> int \<Rightarrow> picker \<Rightarrow> picker option" where
  "show_month c delta p = map_option (\<lambda>m. p\<lparr>pk_month := m\<rparr>) (add_months c (pk_month p) delta)"

definition set_hover :: "date option \<Rightarrow> picker \<Rightarrow> picker" where
  "set_hover h p = p\<lparr>pk_hover := h\<rparr>"

text \<open>The dropdowns of a time: \<open>NaiveTime::from_hms_opt\<close> with one part replaced by the chosen option.\<close>

definition from_hms :: "nat \<Rightarrow> nat \<Rightarrow> nat \<Rightarrow> time_of_day option" where
  "from_hms h m s = (if h < 24 \<and> m < 60 \<and> s < 60 then Some (int (h * 3600 + m * 60 + s)) else None)"

definition hour_of :: "time_of_day \<Rightarrow> nat" where
  "hour_of t = nat t div 3600"

definition minute_of :: "time_of_day \<Rightarrow> nat" where
  "minute_of t = nat t div 60 mod 60"

definition second_of :: "time_of_day \<Rightarrow> nat" where
  "second_of t = nat t mod 60"

definition on_h :: "string \<Rightarrow> time_of_day \<Rightarrow> time_of_day option" where
  "on_h v t = Option.bind (parse_uint 32 v) (\<lambda>h. from_hms h (minute_of t) (second_of t))"

definition on_m :: "string \<Rightarrow> time_of_day \<Rightarrow> time_of_day option" where
  "on_m v t = Option.bind (parse_uint 32 v) (\<lambda>m. from_hms (hour_of t) m (second_of t))"

definition on_s :: "string \<Rightarrow> time_of_day \<Rightarrow> time_of_day option" where
  "on_s v t = Option.bind (parse_uint 32 v) (\<lambda>s. from_hms (hour_of t) (minute_of t) s)"

definition time_options :: "nat \<Rightarrow> string list" where
  "time_options n = map show_nat [0..<n]"

section \<open>The calendar\<close>

definition month_index :: "calendar \<Rightarrow> date \<Rightarrow> int" where
  "month_index c d = cal_year c d * 12 + (cal_month c d - 1)"

text \<open>What the component relies on: a date is determined by its year, month and day; the day after is the next of
  its month or the first of the next month; weekdays follow each other.\<close>

definition calendar_laws :: "calendar \<Rightarrow> bool" where
  "calendar_laws c \<longleftrightarrow>
     (\<forall>d \<in> cal_dates c. from_ymd c (cal_year c d) (cal_month c d) (cal_day c d) = Some d \<and>
        from_ymd c (cal_year c d) (cal_month c d) 1 \<noteq> None \<and> 1 \<le> cal_month c d \<and> cal_month c d \<le> 12 \<and> 1 \<le> cal_day c d) \<and>
     (\<forall>y m k d. from_ymd c y m k = Some d \<longrightarrow>
        d \<in> cal_dates c \<and> cal_year c d = y \<and> cal_month c d = m \<and> cal_day c d = k) \<and>
     (\<forall>d. d \<in> cal_dates c \<longrightarrow> d + 1 \<in> cal_dates c \<longrightarrow>
        month_index c (d + 1) = month_index c d \<and> cal_day c (d + 1) = cal_day c d + 1 \<or>
        month_index c (d + 1) = month_index c d + 1 \<and> cal_day c (d + 1) = 1) \<and>
     (\<forall>a b d. a \<in> cal_dates c \<longrightarrow> b \<in> cal_dates c \<longrightarrow> a \<le> d \<longrightarrow> d \<le> b \<longrightarrow> d \<in> cal_dates c) \<and>
     (\<forall>d. from_sunday c d < 7 \<and> from_sunday c (d + 1) = (from_sunday c d + 1) mod 7)"

locale gregorian =
  fixes c :: calendar
  assumes laws: "calendar_laws c"
begin

lemma ymd_date:
  assumes "from_ymd c y m k = Some d"
  shows "d \<in> cal_dates c" "cal_year c d = y" "cal_month c d = m" "cal_day c d = k"
  using laws assms unfolding calendar_laws_def by blast+

lemma date_ymd:
  assumes "d \<in> cal_dates c"
  shows "from_ymd c (cal_year c d) (cal_month c d) (cal_day c d) = Some d" "1 \<le> cal_month c d" "cal_month c d \<le> 12"
    "1 \<le> cal_day c d" "from_ymd c (cal_year c d) (cal_month c d) 1 \<noteq> None"
  using laws assms unfolding calendar_laws_def by blast+

lemma next_day:
  assumes "d \<in> cal_dates c" and "d + 1 \<in> cal_dates c"
  shows "month_index c (d + 1) = month_index c d \<and> cal_day c (d + 1) = cal_day c d + 1 \<or>
    month_index c (d + 1) = month_index c d + 1 \<and> cal_day c (d + 1) = 1"
  using laws assms unfolding calendar_laws_def by blast

lemma between: "a \<in> cal_dates c \<Longrightarrow> b \<in> cal_dates c \<Longrightarrow> a \<le> d \<Longrightarrow> d \<le> b \<Longrightarrow> d \<in> cal_dates c"
  using laws unfolding calendar_laws_def by blast

lemma weekday: "from_sunday c d < 7" "from_sunday c (d + 1) = (from_sunday c d + 1) mod 7"
  using laws unfolding calendar_laws_def by blast+

lemma weekday_add: "from_sunday c (d + int n) = (from_sunday c d + n) mod 7"
proof (induction n)
  case 0
  then show ?case using weekday(1) [of d] by simp
next
  case (Suc n)
  have "from_sunday c (d + int (Suc n)) = from_sunday c ((d + int n) + 1)" by (simp add: algebra_simps)
  then show ?case unfolding weekday(2) Suc by (simp add: mod_Suc_eq)
qed

text \<open>Year and month are determined by their index.\<close>

lemma same_month:
  assumes "d \<in> cal_dates c" and "e \<in> cal_dates c" and "month_index c d = month_index c e"
  shows "cal_year c d = cal_year c e" "cal_month c d = cal_month c e"
proof -
  have "cal_year c d = month_index c d div 12" "cal_year c e = month_index c e div 12"
    using date_ymd(2,3) [OF assms(1)] date_ymd(2,3) [OF assms(2)] by (simp_all add: month_index_def)
  then show "cal_year c d = cal_year c e" using assms(3) by simp
  then show "cal_month c d = cal_month c e" using assms(3) by (simp add: month_index_def)
qed

lemma same_date:
  assumes "d \<in> cal_dates c" and "e \<in> cal_dates c" and "month_index c d = month_index c e" and "cal_day c d = cal_day c e"
  shows "d = e"
proof -
  have "Some d = from_ymd c (cal_year c e) (cal_month c e) (cal_day c e)"
    unfolding same_month [OF assms(1-3), symmetric] assms(4) [symmetric] using date_ymd(1) [OF assms(1)] by simp
  then show ?thesis using date_ymd(1) [OF assms(2)] by simp
qed

lemma index_mono:
  assumes "a \<in> cal_dates c" and "a + int n \<in> cal_dates c"
  shows "month_index c a \<le> month_index c (a + int n)"
  using assms(2)
proof (induction n)
  case (Suc n)
  then have n: "a + int n \<in> cal_dates c" using between [OF assms(1) Suc.prems, of "a + int n"] by simp
  moreover have "a + int n + 1 \<in> cal_dates c" using Suc.prems by (simp add: algebra_simps)
  ultimately have "month_index c (a + int n) \<le> month_index c (a + int n + 1)" using next_day by fastforce
  with Suc.IH [OF n] show ?case by (simp add: algebra_simps)
qed simp

lemma month_days:
  assumes "f \<in> cal_dates c" "cal_day c f = 1" and "n \<in> cal_dates c" "cal_day c n = 1" and "month_index c n = month_index c f + 1"
  shows "f < n" and "f + int k < n \<Longrightarrow>
    f + int k \<in> cal_dates c \<and> month_index c (f + int k) = month_index c f \<and> cal_day c (f + int k) = int k + 1"
proof -
  show "f < n"
  proof (rule ccontr)
    assume "\<not> f < n"
    then have "f = n + int (nat (f - n))" by simp
    with index_mono [OF assms(3), of "nat (f - n)"] assms(1,5) show False by simp
  qed
  show "f + int k < n \<Longrightarrow>
    f + int k \<in> cal_dates c \<and> month_index c (f + int k) = month_index c f \<and> cal_day c (f + int k) = int k + 1"
  proof (induction k)
    case (Suc k)
    then have k: "f + int k \<in> cal_dates c" "month_index c (f + int k) = month_index c f" "cal_day c (f + int k) = int k + 1"
      by auto
    from Suc.prems have k1: "f + int k + 1 \<in> cal_dates c" using between [OF assms(1,3), of "f + int k + 1"] by simp
    have "\<not> (month_index c (f + int k + 1) = month_index c (f + int k) + 1 \<and> cal_day c (f + int k + 1) = 1)"
    proof
      assume "month_index c (f + int k + 1) = month_index c (f + int k) + 1 \<and> cal_day c (f + int k + 1) = 1"
      with k(2) assms(4,5) have "month_index c (f + int k + 1) = month_index c n" "cal_day c (f + int k + 1) = cal_day c n"
        by simp_all
      from same_date [OF k1 assms(3) this] Suc.prems show False by simp
    qed
    with next_day [OF k(1) k1] have "month_index c (f + int k + 1) = month_index c (f + int k)"
      "cal_day c (f + int k + 1) = cal_day c (f + int k) + 1" by blast+
    moreover have eq: "f + int (Suc k) = f + int k + 1" by simp
    ultimately show ?case unfolding eq using k k1 by simp
  qed (use assms in auto)
qed

lemma next_month:
  assumes "d \<in> cal_dates c" and "add_months c d delta = Some n"
  shows "n \<in> cal_dates c" "cal_day c n = 1" "month_index c n = month_index c d + delta"
  using ymd_date [of "(month_index c d + delta) div 12" "(month_index c d + delta) mod 12 + 1" 1 n] assms(2)
  by (auto simp: add_months_def month_index_def Let_def)

lemma first_of_month_date:
  assumes "first_of_month c d = Some f" and "d \<in> cal_dates c"
  shows "f \<in> cal_dates c" "cal_day c f = 1" "month_index c f = month_index c d"
  using ymd_date [of "cal_year c d" "cal_month c d" 1 f] assms by (auto simp: first_of_month_def month_index_def)

lemma first_of_month_total: "d \<in> cal_dates c \<Longrightarrow> \<exists>f. first_of_month c d = Some f"
  using date_ymd(5) by (auto simp: first_of_month_def)

text \<open>The first of a month is not after its other days.\<close>

lemma first_of_month_le:
  assumes "first_of_month c d = Some f" and "d \<in> cal_dates c"
  shows "f \<le> d"
proof (rule ccontr)
  note f = first_of_month_date [OF assms]
  assume "\<not> f \<le> d"
  define k where "k = nat (f - d - 1)"
  with \<open>\<not> f \<le> d\<close> have k: "f = d + int (Suc k)" by simp
  have mid: "d + int k \<in> cal_dates c" using between [OF assms(2) f(1), of "d + int k"] k by simp
  have eq: "d + int k + 1 = f" using k by simp
  from index_mono [OF assms(2) mid] next_day [OF mid] f eq have "month_index c (d + int k) = month_index c d"
    "cal_day c f = cal_day c (d + int k) + 1" by auto
  with date_ymd(4) [OF mid] f(2) show False by simp
qed

text \<open>The grid: the pad, then the days of the month in order.\<close>

lemma month_cells_eq:
  assumes "month_cells c d = Some cells" and "d \<in> cal_dates c"
  obtains f n where "first_of_month c d = Some f" "add_months c f 1 = Some n" "f < n"
    "cells = replicate (from_sunday c f) None @ map (\<lambda>k. Some (f + int k)) [0..<nat (n - f)]"
proof -
  from assms(1) obtain f n where fn: "first_of_month c d = Some f" "add_months c f 1 = Some n"
    and cells: "cells = replicate (from_sunday c f) None @
      map (from_ymd c (cal_year c f) (cal_month c f)) [1..cal_day c (n - 1)]"
    by (auto simp: month_cells_def minus_days_def bind_eq_Some_conv split: if_splits)
  note f = first_of_month_date [OF fn(1) assms(2)]
  note n = next_month [OF f(1) fn(2)]
  note days = month_days [OF f(1,2) n]
  have len: "cal_day c (n - 1) = n - f" using days(2) [of "nat (n - 1 - f)"] days(1) by simp
  have day: "from_ymd c (cal_year c f) (cal_month c f) (int k + 1) = Some (f + int k)" if "k < nat (n - f)" for k
  proof -
    from that have k: "f + int k \<in> cal_dates c" "month_index c (f + int k) = month_index c f" "cal_day c (f + int k) = int k + 1"
      using days(2) [of k] by simp_all
    from date_ymd(1) [OF k(1)] same_month [OF k(1) f(1) k(2)] k(3) show ?thesis by simp
  qed
  have "[1..n - f] = map (\<lambda>k. int k + 1) [0..<nat (n - f)]"
    by (rule nth_equalityI) (auto simp: nth_upto)
  then have "map (from_ymd c (cal_year c f) (cal_month c f)) [1..cal_day c (n - 1)] = map (\<lambda>k. Some (f + int k)) [0..<nat (n - f)]"
    using day by (simp add: len)
  with fn cells days(1) show ?thesis by (intro that) auto
qed

end

section \<open>Runs of the component\<close>

text \<open>What the user can do. The clock only enters through the dates of today and of a preset.\<close>

inductive picker_step :: "calendar \<Rightarrow> date \<Rightarrow> picker \<Rightarrow> picker \<Rightarrow> bool" for c today where
  mouse: "picker_step c today p (mouse_down inside p)"
| toggle: "toggle_open c today p = Some p' \<Longrightarrow> picker_step c today p p'"
| commit: "picker_step c today p (apply_picked p)"
| clear: "picker_step c today p (clear_picked p)"
| preset: "now_date \<in> cal_dates c \<Longrightarrow> apply_preset c now_date pr p = Some p' \<Longrightarrow> picker_step c today p p'"
| pick: "picker_step c today p (pick_day d p)"
| start_hour: "on_h v (pk_start_time p) = Some t \<or> on_m v (pk_start_time p) = Some t \<or> on_s v (pk_start_time p) = Some t \<Longrightarrow>
    picker_step c today p (apply_start_time t p)"
| end_hour: "on_h v (pk_end_time p) = Some t \<or> on_m v (pk_end_time p) = Some t \<or> on_s v (pk_end_time p) = Some t \<Longrightarrow>
    picker_step c today p (apply_end_time t p)"
| page: "show_month c delta p = Some p' \<Longrightarrow> picker_step c today p p'"
| hover: "picker_step c today p (set_hover h p)"

definition is_time :: "time_of_day \<Rightarrow> bool" where
  "is_time t \<longleftrightarrow> 0 \<le> t \<and> t < 86400"

definition range_ok :: "instant option \<Rightarrow> instant option \<Rightarrow> bool" where
  "range_ok after before \<longleftrightarrow>
     (\<forall>a. after = Some a \<longrightarrow> is_time (snd a)) \<and> (\<forall>b. before = Some b \<longrightarrow> is_time (snd b)) \<and>
     (\<forall>a b. after = Some a \<longrightarrow> before = Some b \<longrightarrow> fst a \<le> fst b)"

definition picker_ok :: "picker \<Rightarrow> bool" where
  "picker_ok p \<longleftrightarrow> is_time (pk_start_time p) \<and> is_time (pk_end_time p) \<and>
     range_ok (pk_draft_after p) (pk_draft_before p) \<and> range_ok (pk_after p) (pk_before p)"

lemma default_times [simp]: "is_time default_start_time" "is_time default_end_time"
  by (simp_all add: is_time_def default_start_time_def default_end_time_def)

lemma range_ok_None [simp]: "range_ok None None"
  by (simp add: range_ok_def)

lemma chosen_is_time: "on_h v u = Some t \<or> on_m v u = Some t \<or> on_s v u = Some t \<Longrightarrow> is_time t"
  by (auto simp: on_h_def on_m_def on_s_def from_hms_def is_time_def bind_eq_Some_conv split: if_splits)

context gregorian
begin

lemma preset_range_ok:
  assumes "preset_range c pr today = Some (a, b)" and "today \<in> cal_dates c"
  shows "range_ok (Some a) (Some b)"
proof -
  have "fst a \<le> fst b"
  proof (cases pr)
    case LastMonth
    with assms(1) obtain f g where g: "first_of_month c (f - 1) = Some g" "f - 1 \<in> cal_dates c"
      and ab: "a = start_of g" "b = end_of (f - 1)"
      by (auto simp: preset_range_def minus_days_def bind_eq_Some_conv split: if_splits)
    from first_of_month_le [OF g] show ?thesis by (simp add: ab start_of_def end_of_def)
  qed (use assms first_of_month_le in
      \<open>auto simp: preset_range_def minus_days_def start_of_def end_of_def split: if_splits\<close>)
  moreover have "is_time (snd a)" "is_time (snd b)"
    using assms(1)
    by (auto simp: preset_range_def minus_days_def start_of_def end_of_def is_time_def bind_eq_Some_conv
        split: preset.splits if_splits)
  ultimately show ?thesis by (simp add: range_ok_def)
qed

lemma picker_step_ok: "picker_step c today p p' \<Longrightarrow> picker_ok p \<Longrightarrow> picker_ok p'"
proof (induction rule: picker_step.induct)
  case (toggle p p')
  then show ?case
    by (auto simp: toggle_open_def picker_ok_def range_ok_def Let_def split: if_splits option.splits)
next
  case (preset now_date pr p p')
  from preset(2) obtain a b where "preset_range c pr now_date = Some (a, b)"
    "pk_draft_after p' = Some a" "pk_draft_before p' = Some b" "pk_start_time p' = default_start_time"
    "pk_end_time p' = default_end_time" "pk_after p' = pk_after p" "pk_before p' = pk_before p"
    by (auto simp: apply_preset_def bind_eq_Some_conv)
  with preset_range_ok [OF this(1) preset(1)] preset(3) show ?case by (simp add: picker_ok_def)
next
  case (start_hour v p t)
  from chosen_is_time [OF start_hour(1)] start_hour(2) show ?case
    by (auto simp: apply_start_time_def picker_ok_def range_ok_def combine_def)
next
  case (end_hour v p t)
  from chosen_is_time [OF end_hour(1)] end_hour(2) show ?case
    by (auto simp: apply_end_time_def picker_ok_def range_ok_def combine_def)
qed (auto simp: mouse_down_def apply_picked_def clear_picked_def pick_day_def show_month_def set_hover_def picker_ok_def
      range_ok_def combine_def split: option.splits)

lemma picker_reach_ok:
  assumes "(picker_step c today)\<^sup>*\<^sup>* p p'" and "picker_ok p"
  shows "picker_ok p'"
  using assms by induction (auto intro: picker_step_ok)

lemma month_grid:
  assumes "month_cells c d = Some cells" and "d \<in> cal_dates c"
  shows "i < length cells \<Longrightarrow> cells ! i = Some e \<Longrightarrow> from_sunday c e = i mod 7"
    and "{e. Some e \<in> set cells} = {e \<in> cal_dates c. cal_year c e = cal_year c d \<and> cal_month c e = cal_month c d}"
    and "sorted_wrt (<) (List.map_filter id cells)"
proof -
  from month_cells_eq [OF assms] obtain f n where fn: "first_of_month c d = Some f" "add_months c f 1 = Some n" "f < n"
    and cells: "cells = replicate (from_sunday c f) None @ map (\<lambda>k. Some (f + int k)) [0..<nat (n - f)]" .
  note f = first_of_month_date [OF fn(1) assms(2)]
  note n = next_month [OF f(1) fn(2)]
  note days = month_days [OF f(1,2) n]
  show "i < length cells \<Longrightarrow> cells ! i = Some e \<Longrightarrow> from_sunday c e = i mod 7"
    using weekday_add [of f "i - from_sunday c f"] by (auto simp: cells nth_append split: if_splits)
  have idx: "month_index c e = month_index c d \<longleftrightarrow> cal_year c e = cal_year c d \<and> cal_month c e = cal_month c d"
    if "e \<in> cal_dates c" for e
    using same_month [OF that assms(2)] by (metis month_index_def)
  show "{e. Some e \<in> set cells} = {e \<in> cal_dates c. cal_year c e = cal_year c d \<and> cal_month c e = cal_month c d}"
  proof (intro equalityI subsetI)
    fix e assume "e \<in> {e. Some e \<in> set cells}"
    then obtain k where "e = f + int k" "k < nat (n - f)" by (auto simp: cells)
    with days(2) [of k] idx [of e] f(3) show "e \<in> {e \<in> cal_dates c. cal_year c e = cal_year c d \<and> cal_month c e = cal_month c d}"
      by simp
  next
    fix e assume "e \<in> {e \<in> cal_dates c. cal_year c e = cal_year c d \<and> cal_month c e = cal_month c d}"
    then have e: "e \<in> cal_dates c" "month_index c e = month_index c f" using idx f(3) by auto
    have "f \<le> e"
      using first_of_month_le [OF _ e(1), of f] same_month [OF e(1) f(1) e(2)] fn(1) f same_month [OF f(1) assms(2) f(3)]
      by (simp add: first_of_month_def)
    moreover have "e < n"
    proof (rule ccontr)
      assume "\<not> e < n"
      then have "e = n + int (nat (e - n))" by simp
      with index_mono [OF n(1), of "nat (e - n)"] e n(3) show False by simp
    qed
    ultimately show "e \<in> {e. Some e \<in> set cells}"
      by (auto simp: cells image_iff intro!: bexI [of _ "nat (e - f)"])
  qed
  show "sorted_wrt (<) (List.map_filter id cells)"
    by (simp add: cells List.map_filter_def comp_def sorted_wrt_map)
qed

end

end
