(* ===== verification/Jobs_Page.thy ===== *)
theory Jobs_Page
  imports Date_Range
begin

text \<open>
  The jobs list of the dashboard: \<open>JobsTab\<close> and \<open>JobsPagination\<close> of \<open>pages/workspace_detail.rs\<close> and
  \<open>components/multi_select.rs\<close> (\<open>crates/dashboard/src\<close>). The signals are the fields of \<open>jobs_tab\<close>, the closures
  that set them functions on it. A signal that is set only schedules what depends on it: \<open>jt_effect\<close> and
  \<open>jt_fetch\<close> say that the reset effect and the resource are to run again. \<open>jt_tracks\<close> says whether the last
  run of the resource read the cursor stack, since a resource depends on what its last run read. The old
  list stays in place, buttons included, until the new one has arrived (\<open>Transition\<close>). The position of the
  scroll bar and all markup are left out.
\<close>

section \<open>Filters\<close>

definition filter_opt :: "string \<Rightarrow> string option" where
  "filter_opt value = (let trimmed = trim value in if trimmed = [] then None else Some trimmed)"

definition toggle :: "string \<Rightarrow> string list \<Rightarrow> string list" where
  "toggle value sel = (if value \<in> set sel then remove1 value sel else sel @ [value])"

definition select_text :: "string \<Rightarrow> (string \<times> string) list \<Rightarrow> string list \<Rightarrow> string" where
  "select_text label options sel =
     (if sel = [] then ''All '' @ label
      else let labels = map snd (filter (\<lambda>(v, _). v \<in> set sel) options) in
        if length labels \<le> 2 then join '', '' labels
        else show_nat (length labels) @ '' selected'')"

definition status_options :: "(string \<times> string) list" where
  "status_options = [(''ACTIVE'', ''Active''), (''RETIRED'', ''Retired'')]"

definition trigger_options :: "(string \<times> string) list" where
  "trigger_options = [(''IMMEDIATE'', ''Immediate''), (''DELAYED'', ''Delayed''), (''CRON'', ''CRON'')]"

definition endpoint_type_options :: "(string \<times> string) list" where
  "endpoint_type_options =
     [(''HTTP'', ''HTTP''), (''KAFKA'', ''Kafka''), (''REDIS_STREAM'', ''Redis Stream''), (''INTERNAL'', ''Internal'')]"

record job_filter_key =
  jk_job_id :: string
  jk_status :: "string list"
  jk_trigger :: "string list"
  jk_endpoint_type :: "string list"
  jk_endpoint :: string
  jk_after :: "instant option"
  jk_before :: "instant option"

definition no_filter :: job_filter_key where
  "no_filter = \<lparr>jk_job_id = [], jk_status = [], jk_trigger = [], jk_endpoint_type = [], jk_endpoint = [],
     jk_after = None, jk_before = None\<rparr>"

definition any_filter :: "job_filter_key \<Rightarrow> bool" where
  "any_filter k \<longleftrightarrow> jk_job_id k \<noteq> [] \<or> jk_status k \<noteq> [] \<or> jk_trigger k \<noteq> [] \<or> jk_endpoint_type k \<noteq> [] \<or>
     jk_endpoint k \<noteq> [] \<or> jk_after k \<noteq> None \<or> jk_before k \<noteq> None"

text \<open>What the filter bar can do; a multi-select is toggled on one of its options, or emptied.\<close>

datatype filter_edit =
    Job_Id string | Endpoint string | Created "instant option" "instant option"
  | Toggle_Status string | Toggle_Trigger string | Toggle_Endpoint_Type string
  | All_Status | All_Trigger | All_Endpoint_Type | Clear_Filters

fun edit_filters :: "filter_edit \<Rightarrow> job_filter_key \<Rightarrow> job_filter_key" where
  "edit_filters (Job_Id t) k = k\<lparr>jk_job_id := t\<rparr>"
| "edit_filters (Endpoint t) k = k\<lparr>jk_endpoint := t\<rparr>"
| "edit_filters (Created a b) k = k\<lparr>jk_after := a, jk_before := b\<rparr>"
| "edit_filters (Toggle_Status v) k = k\<lparr>jk_status := toggle v (jk_status k)\<rparr>"
| "edit_filters (Toggle_Trigger v) k = k\<lparr>jk_trigger := toggle v (jk_trigger k)\<rparr>"
| "edit_filters (Toggle_Endpoint_Type v) k = k\<lparr>jk_endpoint_type := toggle v (jk_endpoint_type k)\<rparr>"
| "edit_filters All_Status k = k\<lparr>jk_status := []\<rparr>"
| "edit_filters All_Trigger k = k\<lparr>jk_trigger := []\<rparr>"
| "edit_filters All_Endpoint_Type k = k\<lparr>jk_endpoint_type := []\<rparr>"
| "edit_filters Clear_Filters k = no_filter"

fun offered :: "filter_edit \<Rightarrow> bool" where
  "offered (Toggle_Status v) \<longleftrightarrow> v \<in> fst ` set status_options"
| "offered (Toggle_Trigger v) \<longleftrightarrow> v \<in> fst ` set trigger_options"
| "offered (Toggle_Endpoint_Type v) \<longleftrightarrow> v \<in> fst ` set endpoint_type_options"
| "offered _ \<longleftrightarrow> True"

section \<open>The list and its pages\<close>

record jobs_tab =
  jt_filters :: job_filter_key
  jt_applied :: job_filter_key
    \<comment> \<open>\<open>applied_key\<close>, the filters the cursor stack was built for\<close>
  jt_cursors :: "string option list"
  jt_index :: nat
  jt_size :: int
  jt_effect :: bool
  jt_fetch :: bool
  jt_tracks :: bool
  jt_pending :: "job_list_query option"
    \<comment> \<open>the request whose answer is awaited; a later one replaces it\<close>
  jt_shown :: "(job_list_query \<times> string option) option"
    \<comment> \<open>the request answered by the list on display, with the cursor of its next page\<close>

definition jobs_tab_new :: jobs_tab where
  "jobs_tab_new = \<lparr>jt_filters = no_filter, jt_applied = no_filter, jt_cursors = [None], jt_index = 0, jt_size = 50,
     jt_effect = False, jt_fetch = True, jt_tracks = True, jt_pending = None, jt_shown = None\<rparr>"

definition query_for :: "(instant \<Rightarrow> string) \<Rightarrow> job_filter_key \<Rightarrow> string option \<Rightarrow> int \<Rightarrow> job_list_query" where
  "query_for rfc k cursor n =
     \<lparr>jl_cursor = cursor, jl_limit = n, jl_job_id = filter_opt (jk_job_id k), jl_status = jk_status k,
      jl_trigger = jk_trigger k, jl_endpoint = filter_opt (jk_endpoint k), jl_endpoint_type = jk_endpoint_type k,
      jl_created_after = map_option rfc (jk_after k), jl_created_before = map_option rfc (jk_before k)\<rparr>"

definition page_cursor :: "jobs_tab \<Rightarrow> string option" where
  "page_cursor t =
     (if jt_filters t = jt_applied t then Option.bind (nth_opt (jt_cursors t) (jt_index t)) id else None)"

definition jobs_request :: "(instant \<Rightarrow> string) \<Rightarrow> jobs_tab \<Rightarrow> job_list_query" where
  "jobs_request rfc t = query_for rfc (jt_filters t) (page_cursor t) (jt_size t)"

definition fetch_jobs :: "(instant \<Rightarrow> string) \<Rightarrow> jobs_tab \<Rightarrow> jobs_tab" where
  "fetch_jobs rfc t =
     t\<lparr>jt_pending := Some (jobs_request rfc t), jt_fetch := False, jt_tracks := (jt_filters t = jt_applied t)\<rparr>"

text \<open>Writing the stack or the index runs the resource again if its last run read them.\<close>

definition set_page_index :: "nat \<Rightarrow> jobs_tab \<Rightarrow> jobs_tab" where
  "set_page_index i t = t\<lparr>jt_index := i, jt_fetch := (jt_fetch t \<or> jt_tracks t)\<rparr>"

definition set_page_cursors :: "string option list \<Rightarrow> jobs_tab \<Rightarrow> jobs_tab" where
  "set_page_cursors cs t = t\<lparr>jt_cursors := cs, jt_fetch := (jt_fetch t \<or> jt_tracks t)\<rparr>"

definition reset_paging :: "jobs_tab \<Rightarrow> jobs_tab" where
  "reset_paging t =
     (let t = t\<lparr>jt_applied := jt_filters t, jt_effect := False\<rparr>;
          t = (if jt_index t \<noteq> 0 then set_page_index 0 t else t) in
      if jt_cursors t \<noteq> [None] then set_page_cursors [None] t else t)"

definition change_filters :: "filter_edit \<Rightarrow> jobs_tab \<Rightarrow> jobs_tab" where
  "change_filters e t = t\<lparr>jt_filters := edit_filters e (jt_filters t), jt_effect := True, jt_fetch := True\<rparr>"

definition on_next :: "jobs_tab \<Rightarrow> jobs_tab" where
  "on_next t =
     (case jt_shown t of
        Some (_, Some nc) \<Rightarrow>
          (let idx = jt_index t in
           set_page_index (idx + 1) (set_page_cursors (take (idx + 1) (jt_cursors t) @ [Some nc]) t))
      | _ \<Rightarrow> t)"

definition on_prev :: "jobs_tab \<Rightarrow> jobs_tab" where
  "on_prev t = (if jt_index t > 0 then set_page_index (jt_index t - 1) t else t)"

definition set_page_size :: "string \<Rightarrow> jobs_tab \<Rightarrow> jobs_tab" where
  "set_page_size value t =
     (case parse_i64 value of
        Some n \<Rightarrow> set_page_index 0 (set_page_cursors [None] (t\<lparr>jt_size := n, jt_fetch := True\<rparr>))
      | None \<Rightarrow> t)"

definition refresh_jobs :: "jobs_tab \<Rightarrow> jobs_tab" where
  "refresh_jobs t = t\<lparr>jt_fetch := True\<rparr>"

text \<open>An answer: the page with the cursor of the next one, or an error, which is shown without buttons.\<close>

definition answer_jobs :: "string option option \<Rightarrow> jobs_tab \<Rightarrow> jobs_tab" where
  "answer_jobs r t =
     (case jt_pending t of
        Some q \<Rightarrow> t\<lparr>jt_pending := None, jt_shown := map_option (Pair q) r\<rparr>
      | None \<Rightarrow> t)"

definition settled :: "jobs_tab \<Rightarrow> bool" where
  "settled t \<longleftrightarrow> \<not> jt_effect t \<and> \<not> jt_fetch t \<and> jt_pending t = None"

text \<open>
  The runs. \<open>srv q c\<close> says that the server may answer the request \<open>q\<close> with the next cursor \<open>c\<close>. In a \<open>patient\<close>
  run the buttons under the list are only used while nothing is in progress; in an \<open>eager\<close> one the reset
  effect runs before the resource whenever both are due.
\<close>

inductive tab_step ::
  "bool \<Rightarrow> bool \<Rightarrow> (instant \<Rightarrow> string) \<Rightarrow> (job_list_query \<Rightarrow> string option \<Rightarrow> bool) \<Rightarrow> jobs_tab \<Rightarrow> jobs_tab \<Rightarrow> bool"
  for eager patient rfc srv where
    tab_change: "offered e \<Longrightarrow> tab_step eager patient rfc srv t (change_filters e t)"
  | tab_effect: "jt_effect t \<Longrightarrow> tab_step eager patient rfc srv t (reset_paging t)"
  | tab_fetch: "jt_fetch t \<Longrightarrow> eager \<longrightarrow> \<not> jt_effect t \<Longrightarrow> tab_step eager patient rfc srv t (fetch_jobs rfc t)"
  | tab_answer: "jt_pending t = Some q \<Longrightarrow> srv q c \<Longrightarrow> tab_step eager patient rfc srv t (answer_jobs (Some c) t)"
  | tab_failure: "tab_step eager patient rfc srv t (answer_jobs None t)"
  | tab_next: "patient \<longrightarrow> settled t \<Longrightarrow> tab_step eager patient rfc srv t (on_next t)"
  | tab_prev: "patient \<longrightarrow> settled t \<Longrightarrow> tab_step eager patient rfc srv t (on_prev t)"
  | tab_size: "patient \<longrightarrow> settled t \<Longrightarrow> tab_step eager patient rfc srv t (set_page_size v t)"
  | tab_refresh: "tab_step eager patient rfc srv t (refresh_jobs t)"

abbreviation tab_reach ::
  "bool \<Rightarrow> bool \<Rightarrow> (instant \<Rightarrow> string) \<Rightarrow> (job_list_query \<Rightarrow> string option \<Rightarrow> bool) \<Rightarrow> jobs_tab \<Rightarrow> bool" where
  "tab_reach eager patient rfc srv \<equiv> (tab_step eager patient rfc srv)\<^sup>*\<^sup>* jobs_tab_new"

section \<open>Invariants\<close>

definition chosen_from :: "(string \<times> string) list \<Rightarrow> string list \<Rightarrow> bool" where
  "chosen_from options sel \<longleftrightarrow> distinct sel \<and> set sel \<subseteq> fst ` set options"

definition choices_ok :: "job_filter_key \<Rightarrow> bool" where
  "choices_ok k \<longleftrightarrow> chosen_from status_options (jk_status k) \<and> chosen_from trigger_options (jk_trigger k) \<and>
     chosen_from endpoint_type_options (jk_endpoint_type k)"

definition query_ok :: "(job_list_query \<Rightarrow> string option \<Rightarrow> bool) \<Rightarrow> job_list_query \<Rightarrow> bool" where
  "query_ok srv q \<longleftrightarrow> chosen_from status_options (jl_status q) \<and> chosen_from trigger_options (jl_trigger q) \<and>
     chosen_from endpoint_type_options (jl_endpoint_type q) \<and>
     (\<forall>c. jl_cursor q = Some c \<longrightarrow> (\<exists>c' n. srv (q\<lparr>jl_cursor := c', jl_limit := n\<rparr>) (Some c)))"

definition tab_ok :: "(instant \<Rightarrow> string) \<Rightarrow> (job_list_query \<Rightarrow> string option \<Rightarrow> bool) \<Rightarrow> jobs_tab \<Rightarrow> bool" where
  "tab_ok rfc srv t \<longleftrightarrow>
     choices_ok (jt_filters t) \<and> jt_index t < length (jt_cursors t) \<and> jt_cursors t ! 0 = None \<and>
     (\<forall>c. Some c \<in> set (jt_cursors t) \<longrightarrow> (\<exists>c' n. srv (query_for rfc (jt_applied t) c' n) (Some c))) \<and>
     (\<not> jt_effect t \<longrightarrow> jt_applied t = jt_filters t) \<and>
     (\<forall>q. jt_pending t = Some q \<longrightarrow> query_ok srv q \<and> (\<not> jt_fetch t \<longrightarrow> (\<exists>c n. q = query_for rfc (jt_filters t) c n))) \<and>
     (\<forall>q c. jt_shown t = Some (q, c) \<longrightarrow> srv q c \<and>
        (jt_pending t = None \<longrightarrow> \<not> jt_fetch t \<longrightarrow> (\<exists>c n. q = query_for rfc (jt_filters t) c n)))"

definition chained :: "(instant \<Rightarrow> string) \<Rightarrow> (job_list_query \<Rightarrow> string option \<Rightarrow> bool) \<Rightarrow> jobs_tab \<Rightarrow> bool" where
  "chained rfc srv t \<longleftrightarrow>
     (\<forall>i. Suc i < length (jt_cursors t) \<longrightarrow>
        (\<exists>c. jt_cursors t ! Suc i = Some c \<and> srv (query_for rfc (jt_applied t) (jt_cursors t ! i) (jt_size t)) (Some c)))"

definition pages_ok :: "(instant \<Rightarrow> string) \<Rightarrow> (job_list_query \<Rightarrow> string option \<Rightarrow> bool) \<Rightarrow> jobs_tab \<Rightarrow> bool" where
  "pages_ok rfc srv t \<longleftrightarrow>
     jt_tracks t \<and> (jt_effect t \<longrightarrow> jt_fetch t) \<and> chained rfc srv t \<and>
     (\<not> jt_fetch t \<longrightarrow> (\<forall>q. jt_pending t = Some q \<longrightarrow> q = jobs_request rfc t) \<and>
        (jt_pending t = None \<longrightarrow> (\<forall>q c. jt_shown t = Some (q, c) \<longrightarrow> q = jobs_request rfc t)))"

named_theorems tab_ops

lemmas [tab_ops] = set_page_index_def set_page_cursors_def reset_paging_def change_filters_def on_prev_def
  refresh_jobs_def fetch_jobs_def Let_def

lemma chosen_from_toggle: "chosen_from options sel \<Longrightarrow> v \<in> fst ` set options \<Longrightarrow> chosen_from options (toggle v sel)"
  by (auto simp: chosen_from_def toggle_def dest: notin_set_remove1 set_remove1_subset [THEN subsetD])

lemma choices_ok_edit: "choices_ok k \<Longrightarrow> offered e \<Longrightarrow> choices_ok (edit_filters e k)"
  by (cases e) (auto simp: choices_ok_def no_filter_def chosen_from_def [of _ "[]"] intro: chosen_from_toggle)

lemma tab_ok_request:
  assumes "tab_ok rfc srv t"
  shows "query_ok srv (jobs_request rfc t)"
proof -
  have "\<exists>c' n. srv ((jobs_request rfc t)\<lparr>jl_cursor := c', jl_limit := n\<rparr>) (Some c)" if "page_cursor t = Some c" for c
  proof -
    from that have "Some c \<in> set (jt_cursors t)" and "jt_filters t = jt_applied t"
      by (auto simp: page_cursor_def nth_opt_def in_set_conv_nth split: if_splits)
    with assms show ?thesis by (auto simp: tab_ok_def jobs_request_def query_for_def)
  qed
  with assms show ?thesis by (simp add: tab_ok_def query_ok_def choices_ok_def jobs_request_def query_for_def)
qed

lemma tab_ok_next:
  assumes "tab_ok rfc srv t" and "settled t"
  shows "tab_ok rfc srv (on_next t)"
proof (cases "\<exists>q nc. jt_shown t = Some (q, Some nc)")
  case True
  then obtain q nc where q: "jt_shown t = Some (q, Some nc)" by blast
  with assms obtain c n where "q = query_for rfc (jt_applied t) c n" "srv q (Some nc)"
    unfolding tab_ok_def settled_def by metis
  with assms q show ?thesis
    by (auto simp: tab_ok_def on_next_def tab_ops settled_def nth_append dest: in_set_takeD)
qed (use assms in \<open>auto simp: on_next_def split: option.splits\<close>)

lemma tab_ok_step:
  assumes "tab_step eager True rfc srv t t'" and "tab_ok rfc srv t"
  shows "tab_ok rfc srv t'"
  using assms
proof cases
  case (tab_fetch)
  with assms(2) tab_ok_request [OF assms(2)] show ?thesis
    by (auto simp: tab_ok_def fetch_jobs_def jobs_request_def)
next
  case (tab_next)
  with assms(2) tab_ok_next show ?thesis by blast
next
  case (tab_change e)
  with assms(2) choices_ok_edit show ?thesis by (auto simp: tab_ok_def tab_ops)
next
  case (tab_answer q c)
  with assms(2) show ?thesis by (auto simp: tab_ok_def answer_jobs_def)
qed (use assms(2) in \<open>auto simp: tab_ok_def tab_ops answer_jobs_def set_page_size_def settled_def split: option.splits\<close>)

lemma chained_single: "jt_cursors t = [None] \<Longrightarrow> chained rfc srv t"
  by (simp add: chained_def)

lemma chained_next:
  assumes "chained rfc srv t" and "jt_index t < length (jt_cursors t)"
    and "srv (query_for rfc (jt_applied t) (jt_cursors t ! jt_index t) (jt_size t)) (Some nc)"
  shows "chained rfc srv (set_page_index i (set_page_cursors (take (jt_index t + 1) (jt_cursors t) @ [Some nc]) t))"
  unfolding chained_def
proof (intro allI impI)
  let ?cs = "take (jt_index t + 1) (jt_cursors t) @ [Some nc]"
  fix j assume "Suc j < length (jt_cursors (set_page_index i (set_page_cursors ?cs t)))"
  then have "j < jt_index t \<or> j = jt_index t" using assms(2) by (auto simp: tab_ops)
  then show "\<exists>c. jt_cursors (set_page_index i (set_page_cursors ?cs t)) ! Suc j = Some c \<and>
      srv (query_for rfc (jt_applied (set_page_index i (set_page_cursors ?cs t)))
        (jt_cursors (set_page_index i (set_page_cursors ?cs t)) ! j) (jt_size (set_page_index i (set_page_cursors ?cs t)))) (Some c)"
    using assms by (auto simp: chained_def tab_ops nth_append)
qed

lemma pages_ok_next:
  assumes "tab_ok rfc srv t" and "pages_ok rfc srv t" and "settled t"
  shows "pages_ok rfc srv (on_next t)"
proof (cases "\<exists>q nc. jt_shown t = Some (q, Some nc)")
  case True
  then obtain q nc where q: "jt_shown t = Some (q, Some nc)" by blast
  with assms have shown: "q = jobs_request rfc t" "srv q (Some nc)" and idle: "jt_tracks t" "\<not> jt_effect t"
    and stack: "jt_applied t = jt_filters t" "jt_index t < length (jt_cursors t)" "chained rfc srv t"
    by (auto simp: tab_ok_def pages_ok_def settled_def)
  have "jobs_request rfc t = query_for rfc (jt_applied t) (jt_cursors t ! jt_index t) (jt_size t)"
    using stack by (simp add: jobs_request_def page_cursor_def nth_opt_def)
  with shown have "srv (query_for rfc (jt_applied t) (jt_cursors t ! jt_index t) (jt_size t)) (Some nc)" by simp
  from chained_next [OF stack(3,2) this] idle show ?thesis
    by (simp add: pages_ok_def on_next_def q Let_def) (simp add: tab_ops)
qed (use assms in \<open>auto simp: on_next_def split: option.splits\<close>)

lemma pages_ok_step:
  assumes "tab_step True True rfc srv t t'" and "tab_ok rfc srv t" and "pages_ok rfc srv t"
  shows "pages_ok rfc srv t'"
  using assms
proof cases
  case (tab_next)
  with assms(2,3) pages_ok_next show ?thesis by blast
next
  case (tab_fetch)
  with assms(2,3) show ?thesis
    by (auto simp: pages_ok_def tab_ok_def chained_def fetch_jobs_def jobs_request_def page_cursor_def)
next
  case (tab_answer q c)
  with assms(3) show ?thesis
    by (auto simp: pages_ok_def answer_jobs_def chained_def jobs_request_def page_cursor_def)
next
  case (tab_failure)
  with assms(3) show ?thesis
    by (auto simp: pages_ok_def answer_jobs_def chained_def jobs_request_def page_cursor_def split: option.split)
next
  case (tab_effect)
  with assms(3) show ?thesis by (auto simp: pages_ok_def tab_ops chained_def)
qed (use assms(3) in \<open>auto simp: pages_ok_def tab_ops set_page_size_def chained_def split: option.splits\<close>)

lemma tab_new_ok: "tab_ok rfc srv jobs_tab_new" "pages_ok rfc srv jobs_tab_new"
  by (simp_all add: tab_ok_def pages_ok_def jobs_tab_new_def choices_ok_def chosen_from_def no_filter_def chained_def)

lemma tab_reach_ok:
  assumes "tab_reach eager True rfc srv t"
  shows "tab_ok rfc srv t" and "eager \<longrightarrow> pages_ok rfc srv t"
  using assms by (induction rule: rtranclp_induct) (auto intro: tab_new_ok tab_ok_step pages_ok_step)

context enum_codec
begin

lemma chosen_names:
  assumes "chosen_from options sel" and "fst ` set options \<subseteq> range enc"
  shows "\<exists>xs. distinct xs \<and> sel = map enc xs"
proof -
  from assms have "\<exists>xs. sel = map enc xs"
    unfolding ex_map_conv by (force simp: chosen_from_def)
  with assms(1) show ?thesis by (auto simp: chosen_from_def distinct_map)
qed

end

lemma names_of_options:
  "chosen_from status_options sel \<Longrightarrow> \<exists>xs. distinct xs \<and> sel = map job_status_as_str xs"
  "chosen_from trigger_options sel \<Longrightarrow> \<exists>xs. distinct xs \<and> sel = map trigger_type_as_str xs"
  "chosen_from endpoint_type_options sel \<Longrightarrow> \<exists>xs. distinct xs \<and> sel = map endpoint_type_as_str xs"
proof -
  have "fst ` set status_options \<subseteq> range job_status_as_str"
    using rangeI [of job_status_as_str ACTIVE] rangeI [of job_status_as_str RETIRED] by (simp add: status_options_def)
  moreover have "fst ` set trigger_options \<subseteq> range trigger_type_as_str"
    using rangeI [of trigger_type_as_str IMMEDIATE] rangeI [of trigger_type_as_str DELAYED] rangeI [of trigger_type_as_str CRON]
    by (simp add: trigger_options_def)
  moreover have "fst ` set endpoint_type_options \<subseteq> range endpoint_type_as_str"
    using rangeI [of endpoint_type_as_str HTTP] rangeI [of endpoint_type_as_str KAFKA]
      rangeI [of endpoint_type_as_str REDIS_STREAM] rangeI [of endpoint_type_as_str INTERNAL]
    by (simp add: endpoint_type_options_def)
  ultimately show "chosen_from status_options sel \<Longrightarrow> \<exists>xs. distinct xs \<and> sel = map job_status_as_str xs"
    and "chosen_from trigger_options sel \<Longrightarrow> \<exists>xs. distinct xs \<and> sel = map trigger_type_as_str xs"
    and "chosen_from endpoint_type_options sel \<Longrightarrow> \<exists>xs. distinct xs \<and> sel = map endpoint_type_as_str xs"
    by (auto intro: job_status_codec.chosen_names trigger_codec.chosen_names endpoint_codec.chosen_names)
qed

section \<open>Properties\<close>

text \<open>C36: the pages of the jobs list belong together. When the buttons under the list are used while nothing is
  in progress, every request has a choice of the words the API knows, none twice, and a cursor only if the
  server gave it for the same filters, and the list that is left on display is for the filters that are
  set. When, besides, the reset effect always runs before the resource, that list is the answer to exactly
  the page that is set, and the cursors on the stack form a chain: each is the next one of the page before.\<close>

theorem jobs_page_is_coherent:
  assumes "tab_reach eager True rfc srv t"
  shows "(\<forall>q. jt_pending t = Some q \<longrightarrow>
      (\<exists>sts trs ets. distinct sts \<and> distinct trs \<and> distinct ets \<and> jl_status q = map job_status_as_str sts \<and>
         jl_trigger q = map trigger_type_as_str trs \<and> jl_endpoint_type q = map endpoint_type_as_str ets) \<and>
      (\<forall>c. jl_cursor q = Some c \<longrightarrow> (\<exists>c' n. srv (q\<lparr>jl_cursor := c', jl_limit := n\<rparr>) (Some c)))) \<and>
    (settled t \<longrightarrow> (\<forall>q c. jt_shown t = Some (q, c) \<longrightarrow> srv q c \<and> (\<exists>c' n. q = query_for rfc (jt_filters t) c' n))) \<and>
    (eager \<longrightarrow> settled t \<longrightarrow> (\<forall>q c. jt_shown t = Some (q, c) \<longrightarrow> q = jobs_request rfc t)) \<and>
    (eager \<longrightarrow> (\<forall>i. Suc i < length (jt_cursors t) \<longrightarrow> (\<exists>c. jt_cursors t ! Suc i = Some c \<and>
       srv (query_for rfc (jt_applied t) (jt_cursors t ! i) (jt_size t)) (Some c))))"
proof (intro conjI allI impI)
  note ok = tab_reach_ok [OF assms]
  fix q assume "jt_pending t = Some q"
  with ok(1) have q: "query_ok srv q" by (simp add: tab_ok_def)
  then show "\<exists>sts trs ets. distinct sts \<and> distinct trs \<and> distinct ets \<and> jl_status q = map job_status_as_str sts \<and>
      jl_trigger q = map trigger_type_as_str trs \<and> jl_endpoint_type q = map endpoint_type_as_str ets"
    using names_of_options unfolding query_ok_def by blast
  fix c assume "jl_cursor q = Some c"
  with q show "\<exists>c' n. srv (q\<lparr>jl_cursor := c', jl_limit := n\<rparr>) (Some c)" by (simp add: query_ok_def)
next
  note ok = tab_reach_ok [OF assms]
  fix q c assume "settled t" and "jt_shown t = Some (q, c)"
  with ok(1) show "srv q c" and "\<exists>c' n. q = query_for rfc (jt_filters t) c' n"
    by (auto simp: tab_ok_def settled_def)
  assume eager
  with ok(2) \<open>settled t\<close> \<open>jt_shown t = Some (q, c)\<close> show "q = jobs_request rfc t"
    by (auto simp: pages_ok_def settled_def)
next
  fix i assume eager and "Suc i < length (jt_cursors t)"
  with tab_reach_ok(2) [OF assms] show "\<exists>c. jt_cursors t ! Suc i = Some c \<and>
      srv (query_for rfc (jt_applied t) (jt_cursors t ! i) (jt_size t)) (Some c)"
    by (simp add: pages_ok_def chained_def)
qed

text \<open>A server that knows two lists: the next cursor tells whether the endpoint filter was set.\<close>

definition sample_srv :: "job_list_query \<Rightarrow> string option \<Rightarrow> bool" where
  "sample_srv q c \<longleftrightarrow> c = Some (if jl_endpoint q = None then ''c1'' else ''c2'')"

definition first_list :: jobs_tab where
  "first_list = answer_jobs (Some (Some ''c1'')) (fetch_jobs (\<lambda>_. []) jobs_tab_new)"

lemma tab_more: "tab_reach eager patient rfc srv t \<Longrightarrow> tab_step eager patient rfc srv t t' \<Longrightarrow> tab_reach eager patient rfc srv t'"
  by (rule rtranclp.rtrancl_into_rtrancl)

lemma first_list_reached: "tab_reach eager patient (\<lambda>_. []) sample_srv first_list"
proof -
  have pending: "jt_pending (fetch_jobs (\<lambda>_. []) jobs_tab_new) = Some (jobs_request (\<lambda>_. []) jobs_tab_new)"
    by (simp add: fetch_jobs_def)
  have "sample_srv (jobs_request (\<lambda>_. []) jobs_tab_new) (Some ''c1'')" by code_simp
  from tab_answer [where srv = sample_srv, OF pending this] tab_more [OF tab_more [OF rtranclp.rtrancl_refl tab_fetch]] show ?thesis
    unfolding first_list_def by (simp add: jobs_tab_new_def)
qed

theorem jobs_page_is_coherent_witness:
  "\<exists>t q c. tab_reach True True (\<lambda>_. []) sample_srv t \<and> jt_pending t = Some q \<and> jl_cursor q = Some ''c1'' \<and>
     (\<exists>c' n. sample_srv (q\<lparr>jl_cursor := c', jl_limit := n\<rparr>) (Some ''c1''))"
proof -
  let ?t = "fetch_jobs (\<lambda>_. []) (on_next first_list)"
  have "settled first_list" "jt_fetch (on_next first_list)" "\<not> jt_effect (on_next first_list)" by code_simp+
  then have reach: "tab_reach True True (\<lambda>_. []) sample_srv ?t"
    by (intro tab_more [OF tab_more [OF first_list_reached tab_next] tab_fetch]) simp_all
  have q: "jt_pending ?t = Some (jobs_request (\<lambda>_. []) (on_next first_list))" by (simp add: fetch_jobs_def)
  moreover have c: "jl_cursor (jobs_request (\<lambda>_. []) (on_next first_list)) = Some ''c1''" by code_simp
  ultimately have "\<exists>c' n. sample_srv ((jobs_request (\<lambda>_. []) (on_next first_list))\<lparr>jl_cursor := c', jl_limit := n\<rparr>) (Some ''c1'')"
    using jobs_page_is_coherent [OF reach] by blast
  with reach q c show ?thesis by blast
qed

text \<open>
  Neither condition can be dropped. When the resource runs before the effect, its run for the new filters
  does not read the stack, so Next moves to page two without a request, and the first page stays on
  display. When Next is used while a list for new filters is on its way, the old list's cursor is put on the
  stack of the new ones.
\<close>

lemma paging_can_stall:
  "\<exists>t q c. tab_reach False True (\<lambda>_. []) sample_srv t \<and> settled t \<and> jt_index t = 1 \<and>
     jt_shown t = Some (q, c) \<and> q \<noteq> jobs_request (\<lambda>_. []) t \<and> jl_cursor q = None"
proof -
  let ?change = "change_filters (Endpoint ''a'') first_list"
  let ?fetch = "fetch_jobs (\<lambda>_. []) ?change"
  let ?answer = "answer_jobs (Some (Some ''c2'')) (reset_paging ?fetch)"
  have "jt_fetch ?change" "jt_effect ?fetch" "sample_srv (jobs_request (\<lambda>_. []) ?change) (Some ''c2'')" "settled ?answer"
    by code_simp+
  moreover have "jt_pending (reset_paging ?fetch) = Some (jobs_request (\<lambda>_. []) ?change)"
    by (simp add: fetch_jobs_def reset_paging_def Let_def tab_ops)
  ultimately have "tab_reach False True (\<lambda>_. []) sample_srv (on_next ?answer)"
    by (intro tab_more [OF tab_more [OF tab_more [OF tab_more [OF tab_more [OF first_list_reached tab_change]
        tab_fetch] tab_effect] tab_answer] tab_next]) simp_all
  moreover have "jt_shown (on_next ?answer) = Some (jobs_request (\<lambda>_. []) ?change, Some ''c2'')"
    by (simp add: on_next_def answer_jobs_def tab_ops)
  moreover have "settled (on_next ?answer)" "jt_index (on_next ?answer) = 1"
    "jl_cursor (jobs_request (\<lambda>_. []) ?change) = None" "jl_cursor (jobs_request (\<lambda>_. []) (on_next ?answer)) = Some ''c2''"
    by code_simp+
  ultimately show ?thesis
    by (intro exI [of _ "on_next ?answer"] exI [of _ "jobs_request (\<lambda>_. []) ?change"] exI [of _ "Some ''c2''"]) auto
qed

lemma early_next_mixes_lists:
  "\<exists>t q c. tab_reach True False (\<lambda>_. []) sample_srv t \<and> jt_pending t = Some q \<and> jl_cursor q = Some c \<and>
     \<not> (\<exists>c' n. sample_srv (q\<lparr>jl_cursor := c', jl_limit := n\<rparr>) (Some c))"
proof -
  let ?change = "change_filters (Endpoint ''a'') first_list"
  let ?effect = "reset_paging ?change"
  let ?next = "on_next ?effect"
  have "jt_effect ?change" "jt_fetch ?next" "\<not> jt_effect ?next" by code_simp+
  then have "tab_reach True False (\<lambda>_. []) sample_srv (fetch_jobs (\<lambda>_. []) ?next)"
    by (intro tab_more [OF tab_more [OF tab_more [OF tab_more [OF first_list_reached tab_change]
        tab_effect] tab_next] tab_fetch]) simp_all
  moreover have "jt_pending (fetch_jobs (\<lambda>_. []) ?next) = Some (jobs_request (\<lambda>_. []) ?next)" by (simp add: fetch_jobs_def)
  moreover have "jl_cursor (jobs_request (\<lambda>_. []) ?next) = Some ''c1''" "jl_endpoint (jobs_request (\<lambda>_. []) ?next) = Some ''a''"
    by code_simp+
  ultimately show ?thesis
    by (intro exI [of _ "fetch_jobs (\<lambda>_. []) ?next"] exI [of _ "jobs_request (\<lambda>_. []) ?next"] exI [of _ "''c1''"])
      (simp add: sample_srv_def)
qed

end
