(* ===== verification/Dashboard.thy ===== *)
theory Dashboard
  imports Dashboard_Client Samples
begin

text \<open>
  The dashboard against the API: what its requests do and what it reads of the answers.
\<close>

section \<open>Requests\<close>

text \<open>C32: the filters chosen on the jobs page are the filters of the query. The URL \<open>list_jobs\<close> builds is parsed
  by the server into exactly the statuses, triggers and endpoint types chosen, the texts searched for
  without surrounding blanks, the bounds on the creation time, the cursor and the limit, so the page shows
  what the jobs list answers for them. (The server's query parser is that of
  \<open>application/x-www-form-urlencoded\<close>; the texts of the bounds are read back as times.)\<close>

theorem jobs_list_is_filtered:
  fixes br :: "'x pg_scheme browser"
  assumes "br_send br = deliver ax x cfg origin api (Some who) nonce rid" and "dashboard_at d org ws origin api"
    and "run_state (resolve_schema org ws) s = (Ok (Some sch), s0)" and "\<And>q. ax_query ax q = Ok (form_pairs q)"
    and "in_i64 (jl_limit p)" and "jl_status p = map job_status_as_str sts" "distinct sts"
    and "jl_trigger p = map trigger_type_as_str trs" "distinct trs"
    and "jl_endpoint_type p = map endpoint_type_as_str ets" "distinct ets" and "read_back x tms"
    and "jl_created_after p = map_option tms a" and "jl_created_before p = map_option tms b"
    and "\<forall>t u. a = Some t \<longrightarrow> b = Some u \<longrightarrow> t \<le> u"
  shows "run_state (dash_list_jobs br d org ws p) s =
    run_state (answered br x cfg (paginated_from_value job_from_value) (Jobs_List sch
      \<lparr>pp_cursor = nonempty (jl_cursor p), pp_limit = jl_limit p\<rparr>
      \<lparr>f_job_id = blank_to_none (jl_job_id p), f_status = sts, f_trigger = trs, f_endpoint = blank_to_none (jl_endpoint p),
       f_endpoint_type = ets, f_created_after = a, f_created_before = b\<rparr>)) s0"
  by (rule served_jobs_list [OF assms(1-4) jobs_page_read [OF assms(5)] jobs_filters_read [OF assms(6-15)]])

definition sample_form :: actix where
  "sample_form = sample_actix\<lparr>ax_query := (\<lambda>q. Ok (form_pairs q))\<rparr>"

definition sample_browser :: "pg browser" where
  "sample_browser = \<lparr>br_send = deliver sample_form sample_codec sample_app [] [] (Some ()) [] ''r1'',
     br_json = (\<lambda>s. Ok (from_nat (length s))), br_mismatch = (\<lambda>_. ''mismatch'')\<rparr>"

definition sample_dashboard :: dashboard_config where
  "sample_dashboard = \<lparr>dc_api_base_url = [], dc_api_prefix = [], dc_dashboard_prefix = ''/dash''\<rparr>"

definition sample_page :: job_list_query where
  "sample_page = default_job_list_query\<lparr>jl_status := [''ACTIVE''], jl_endpoint := Some ''a&b'', jl_created_after := Some (ts_rfc3339 sample_codec 7)\<rparr>"

lemma sample_dashboard_at: "dashboard_at sample_dashboard ''acme'' ''prod'' [] []"
  by code_simp

lemma sample_browser_sends:
  "br_send sample_browser = deliver sample_form sample_codec sample_app [] [] (Some ()) [] ''r1''"
  by (simp add: sample_browser_def)

lemma sample_codec_read_back: "read_back sample_codec (ts_rfc3339 sample_codec)"
  using trim_replicate_x by (simp add: read_back_def sample_codec_def del: replicate_Suc)

theorem jobs_list_is_filtered_witness:
  "\<exists>s0. run_state (dash_list_jobs sample_browser sample_dashboard ''acme'' ''prod'' sample_page) sample_site =
    run_state (answered sample_browser sample_codec sample_app (paginated_from_value job_from_value) (Jobs_List sample_schema
      \<lparr>pp_cursor = None, pp_limit = 50\<rparr>
      \<lparr>f_job_id = None, f_status = [ACTIVE], f_trigger = [], f_endpoint = Some ''a&b'', f_endpoint_type = [],
       f_created_after = Some 7, f_created_before = None\<rparr>)) s0"
proof -
  obtain s0 where res: "run_state (resolve_schema ''acme'' ''prod'') sample_site = (Ok (Some sample_schema), s0)"
    using sample_site_resolves by (cases "run_state (resolve_schema ''acme'' ''prod'') sample_site") simp
  have blank: "blank_to_none (Some ''a&b'') = Some ''a&b''" by code_simp
  have "\<And>q. ax_query sample_form q = Ok (form_pairs q)" by (simp add: sample_form_def)
  moreover have "in_i64 (jl_limit sample_page)"
    by (simp add: sample_page_def default_job_list_query_def in_i64_def i64_min_def i64_max_def)
  moreover have "jl_created_after sample_page = map_option (ts_rfc3339 sample_codec) (Some 7)"
    by (simp add: sample_page_def)
  ultimately show ?thesis
    using jobs_list_is_filtered [OF sample_browser_sends sample_dashboard_at res, where p = sample_page and sts = "[ACTIVE]"
        and trs = "[]" and ets = "[]" and tms = "ts_rfc3339 sample_codec" and a = "Some 7" and b = None]
      sample_codec_read_back blank
    by (auto simp: sample_page_def default_job_list_query_def nonempty_def blank_to_none_def)
qed

text \<open>C33: every other request of the dashboard, too, is routed to the handler it means, with the identifier and
  the body it means: those on jobs, executions, configs, payload specs, secrets and endpoints in the
  schema of the workspace whose headers it sends, those on organizations and workspaces without one. The
  lists come as their first page. A job, and the body of an endpoint's update, are whatever the request's
  reader makes of the value the page built. (The identifier has no special characters; an empty query
  has no pairs.)\<close>

theorem dashboard_calls_are_served:
  fixes br :: "'x pg_scheme browser"
  assumes "br_send br = deliver ax x cfg origin api (Some who) nonce rid" and "dashboard_at d org ws origin api"
    and "run_state (resolve_schema org ws) s = (Ok (Some sch), s0)"
    and "plain i" and "ax_decode ax i = i" and "ax_query ax [] = Ok (form_pairs [])"
  shows "run_state (dash_get_job br d org ws i) s = run_state (answered br x cfg (data_response job_from_value) (Jobs_Get sch i)) s0 \<and>
    run_state (dash_cancel_job br d org ws i) s = run_state (answered br x cfg (Some) (Jobs_Cancel sch i)) s0 \<and>
    run_state (dash_get_job_status br d org ws i) s = run_state (answered br x cfg (data_response job_status_from_value) (Jobs_Status sch i)) s0 \<and>
    run_state (dash_get_job_versions br d org ws i) s = run_state (answered br x cfg (data_response (vec job_from_value)) (Jobs_Versions sch i)) s0 \<and>
    run_state (dash_list_job_executions br d org ws i) s = run_state (answered br x cfg (\<lambda>j. map_option pg_data (paginated_from_value dexecution_from_value j)) (Jobs_Executions sch i \<lparr>pp_cursor = None, pp_limit = default_limit\<rparr>)) s0 \<and>
    run_state (dash_get_execution br d org ws i) s = run_state (answered br x cfg (data_response dexecution_from_value) (Executions_Get sch i)) s0 \<and>
    run_state (dash_cancel_execution br d org ws i) s = run_state (answered br x cfg (Some) (Executions_Cancel sch i)) s0 \<and>
    run_state (dash_list_attempts br d org ws i) s = run_state (answered br x cfg (data_response (vec attempt_from_value)) (Executions_Attempts sch i)) s0 \<and>
    run_state (dash_list_execution_logs br d org ws i) s = run_state (answered br x cfg (data_response (vec log_from_value)) (Executions_Logs sch i)) s0 \<and>
    run_state (dash_list_configs br d org ws) s = run_state (answered br x cfg (\<lambda>j. map_option pg_data (paginated_from_value config_from_value j)) (Configs_List sch \<lparr>pp_cursor = None, pp_limit = default_limit\<rparr>)) s0 \<and>
    run_state (dash_create_config br d org ws i v) s = run_state (answered br x cfg (data_response config_from_value) (Configs_Create sch i v)) s0 \<and>
    run_state (dash_update_config br d org ws i v) s = run_state (answered br x cfg (data_response config_from_value) (Configs_Update sch i v)) s0 \<and>
    run_state (dash_delete_config br d org ws i) s = run_state (acknowledged x cfg (Configs_Delete sch i)) s0 \<and>
    run_state (dash_list_payload_specs br d org ws) s = run_state (answered br x cfg (\<lambda>j. map_option pg_data (paginated_from_value payload_spec_from_value j)) (Payload_Specs_List sch \<lparr>pp_cursor = None, pp_limit = default_limit\<rparr>)) s0 \<and>
    run_state (dash_create_payload_spec br d org ws i v) s = run_state (answered br x cfg (data_response payload_spec_from_value) (Payload_Specs_Create sch i v)) s0 \<and>
    run_state (dash_update_payload_spec br d org ws i v) s = run_state (answered br x cfg (data_response payload_spec_from_value) (Payload_Specs_Update sch i v)) s0 \<and>
    run_state (dash_delete_payload_spec br d org ws i) s = run_state (acknowledged x cfg (Payload_Specs_Delete sch i)) s0 \<and>
    run_state (dash_list_secrets br d org ws) s = run_state (answered br x cfg (\<lambda>j. map_option pg_data (paginated_from_value secret_from_value j)) (Secrets_List sch \<lparr>pp_cursor = None, pp_limit = default_limit\<rparr>)) s0 \<and>
    run_state (dash_create_secret br d org ws i t) s = run_state (answered br x cfg (data_response secret_from_value) (Secrets_Create nonce sch i t)) s0 \<and>
    run_state (dash_update_secret br d org ws i t) s = run_state (answered br x cfg (data_response secret_from_value) (Secrets_Update nonce sch i t)) s0 \<and>
    run_state (dash_delete_secret br d org ws i) s = run_state (acknowledged x cfg (Secrets_Delete sch i)) s0 \<and>
    run_state (dash_list_endpoints br d org ws) s = run_state (answered br x cfg (\<lambda>j. map_option pg_data (paginated_from_value endpoint_from_value j)) (Endpoints_List sch \<lparr>pp_cursor = None, pp_limit = default_limit\<rparr>)) s0 \<and>
    run_state (dash_delete_endpoint br d org ws i) s = run_state (acknowledged x cfg (Endpoints_Delete sch i)) s0 \<and>
    (\<forall>b. read_create_job x j = Some b \<longrightarrow>
      run_state (dash_create_job br d org ws j) s = run_state (answered br x cfg (data_response Some) (Jobs_Create sch b)) s0) \<and>
    (\<forall>u. read_update_endpoint j = Some u \<longrightarrow>
      run_state (dash_update_endpoint br d org ws i j) s =
        run_state (answered br x cfg (data_response endpoint_from_value) (Endpoints_Update sch i u)) s0) \<and>
    (\<forall>rp. de_policy (dce_retry_policy e) = Some rp \<longrightarrow>
      run_state (dash_create_endpoint br d org ws e) s =
        run_state (answered br x cfg (data_response endpoint_from_value) (Endpoints_Create sch
          \<lparr>ce_name = dce_name e, ce_type = dce_type e, ce_payload_spec = dce_payload_spec e, ce_config = dce_config e,
           ce_spec = dce_spec e, ce_retry_policy = rp\<rparr>)) s0) \<and>
    run_state (dash_list_organizations br d) s = run_state (answered br x cfg (data_response (vec organization_from_value)) Orgs_List) s \<and>
    run_state (dash_get_organization br d i) s = run_state (answered br x cfg (data_response organization_from_value) (Orgs_Get i)) s \<and>
    run_state (dash_create_organization br d t u) s = run_state (answered br x cfg (data_response organization_from_value) (Orgs_Create t u)) s \<and>
    run_state (dash_update_organization br d i t) s = run_state (answered br x cfg (data_response organization_from_value) (Orgs_Update i (Some t))) s \<and>
    run_state (dash_list_workspaces br d i) s = run_state (answered br x cfg (data_response (vec workspace_from_value)) (Workspaces_List i)) s \<and>
    run_state (dash_create_workspace br d i t u) s = run_state (answered br x cfg (data_response workspace_from_value) (Workspaces_Create i t u)) s"
  by (intro conjI served_jobs [OF assms] served_executions [OF assms] served_configs [OF assms] served_payload_specs [OF assms]
      served_secrets [OF assms] served_endpoints [OF assms] served_bodies [OF assms(1-5)]
      served_management [OF assms(1,2,4,5)])

theorem dashboard_calls_are_served_witness:
  "\<exists>s0. run_state (dash_list_attempts sample_browser sample_dashboard ''acme'' ''prod'' ''d7'') sample_site =
     run_state (answered sample_browser sample_codec sample_app (data_response (vec attempt_from_value))
       (Executions_Attempts sample_schema ''d7'')) s0"
proof -
  obtain s0 where res: "run_state (resolve_schema ''acme'' ''prod'') sample_site = (Ok (Some sample_schema), s0)"
    using sample_site_resolves by (cases "run_state (resolve_schema ''acme'' ''prod'') sample_site") simp
  have plain: "plain ''d7''" by code_simp
  have form: "ax_decode sample_form ''d7'' = ''d7''" "ax_query sample_form [] = Ok (form_pairs [])"
    by (simp_all add: sample_form_def sample_actix_def)
  show ?thesis
    using dashboard_calls_are_served [OF sample_browser_sends sample_dashboard_at res plain form] by blast
qed

section \<open>Answers\<close>

text \<open>C34: the dashboard reads what the API sends. The value each handler makes of a row of an organization, a
  workspace, a job, an endpoint, an execution, a config, a payload spec, a secret or a log line is read by the
  type the dashboard has for it, and every field of the result is that of the row (\<open>shown_org\<close> and the like; a
  stored JSON null is read as no value). Fields the API does not send are read as absent: the endpoint, its type,
  the worker and the duration of an execution in a list, and the update time of a workspace and of a new
  organization. The value of a secret is never sent.\<close>

theorem dashboard_reads_resources:
  assumes "in_i64 (ws_schema_version w)" and "in_i64 (version j)" and "in_i64 (attempt_count e)" and "in_i64 (exec_max_attempts e)"
    and "\<forall>n. duration_ms e = Some n \<longrightarrow> in_i64 n" and "in_i64 (log_attempt_number l)"
  shows "organization_from_value (org_json x o') = Some (shown_org x o' True) \<and>
    organization_from_value (jobj (org_fields x o')) = Some (shown_org x o' False) \<and>
    workspace_from_value (jobj (workspace_fields x w)) = Some (shown_workspace x w) \<and>
    job_from_value (job_summary x j) = Some (shown_job x j) \<and>
    endpoint_from_value (endpoint_to_json x ep) = Some (shown_endpoint x ep) \<and>
    dexecution_from_value (execution_json x e) = Some (shown_execution x e True) \<and>
    dexecution_from_value (execution_summary_json x e) = Some (shown_execution x e False) \<and>
    config_from_value (config_json x c) = Some \<lparr>nv_name = cfg_name c, nv_value = values_json c,
      nv_created_at = ts_rfc3339 x (cfg_created_at c), nv_updated_at = ts_rfc3339 x (cfg_updated_at c)\<rparr> \<and>
    payload_spec_from_value (payload_spec_json x p) = Some \<lparr>nv_name = ps_name p, nv_value = schema_json p,
      nv_created_at = ts_rfc3339 x (ps_created_at p), nv_updated_at = ts_rfc3339 x (ps_updated_at p)\<rparr> \<and>
    secret_from_value (secret_response x sc) = Some \<lparr>dsec_name = sec_name sc,
      dsec_created_at = ts_rfc3339 x (sec_created_at sc), dsec_updated_at = ts_rfc3339 x (sec_updated_at sc)\<rparr> \<and>
    log_from_value (log_json x l) = Some \<lparr>dl_log_id = log_id l, dl_attempt_number = Some (log_attempt_number l),
      dl_level = log_level l, dl_message = log_message l, dl_logged_at = ts_rfc3339 x (logged_at l)\<rparr>"
  using assms
  by (simp add: read_organization read_workspace read_job read_endpoint read_execution read_named read_log)

theorem dashboard_reads_resources_witness:
  "job_from_value (job_summary sample_ext sample_job) = Some (shown_job sample_ext sample_job) \<and>
   dexecution_from_value (execution_json sample_ext sample_execution) = Some (shown_execution sample_ext sample_execution True)"
proof -
  let ?w = "\<lparr>workspace_id = ''w'', ws_org_id = ''o'', ws_name = ''n'', ws_slug = ''s'', ws_schema_name = ''x'', ws_status = ''ACTIVE'',
     ws_schema_version = 1, ws_created_at = 0, ws_updated_at = 0\<rparr>"
  let ?l = "\<lparr>log_id = ''l'', log_execution_id = ''e1'', log_attempt_number = 1, log_level = ''INFO'', log_message = ''m'', logged_at = 0\<rparr>"
  have "in_i64 (ws_schema_version ?w)" "in_i64 (version sample_job)" "in_i64 (attempt_count sample_execution)"
    "in_i64 (exec_max_attempts sample_execution)" "\<forall>n. duration_ms sample_execution = Some n \<longrightarrow> in_i64 n"
    "in_i64 (log_attempt_number ?l)"
    by (simp_all add: sample_job_def sample_execution_def in_i64_def i64_min_def i64_max_def)
  from dashboard_reads_resources [OF this] show ?thesis by blast
qed

text \<open>The attempts of an execution are the exception. A failed attempt has its error as an object with a type
  and a message, and the API sends it so; the dashboard expects a text. One attempt with such an error
  makes the whole list unreadable: \<open>list_attempts\<close> fails on the answer of the handler, whatever the other
  attempts are.\<close>

lemma failed_attempts_are_unreadable:
  assumes "a \<in> set as" and "att_error a = Some (jobj kvs)"
  shows "data_response (vec attempt_from_value) (jdata (JArr (map (attempt_json x) as))) = None"
proof -
  have "de_opt as_str (Some (jval_opt (att_error a))) = None"
    by (simp add: assms(2) de_opt_def jval_opt_def jopt_def jobj_def)
  then have "attempt_from_value (attempt_json x a) = None" by (rule attempt_unreadable)
  with assms(1) have "read_all attempt_from_value (map (attempt_json x) as) = None"
    using read_all_None [of "map (attempt_json x) as" attempt_from_value] by auto
  then show ?thesis by (simp add: data_response_def jdata_def one_value_jobj vec_def)
qed

definition sample_failure :: attempt_row where
  "sample_failure = \<lparr>attempt_id = ''a1'', att_execution_id = ''e1'', attempt_number = 1, att_status = ''FAILED'', att_started_at = 0,
     att_completed_at = None, att_duration_ms = None, att_output = None,
     att_error = Some (jobj [(''type'', JStr ''TIMEOUT''), (''message'', JStr ''late'')]), att_created_at = 0\<rparr>"

lemma failed_attempts_are_unreadable_example:
  "data_response (vec attempt_from_value) (jdata (JArr (map (attempt_json sample_ext) [sample_failure]))) = None"
  by (rule failed_attempts_are_unreadable [where a = sample_failure]) (simp_all add: sample_failure_def)

end
