(* ===== verification/Forms.thy ===== *)
theory Forms
  imports Dashboard "HOL-Library.Word"
begin

text \<open>
  The forms and buttons of the dashboard that change something, from the text in their fields to the call of the
  API client: the submit and confirm handlers of \<open>pages/workspace_detail.rs\<close>, \<open>pages/org_detail.rs\<close> and
  \<open>pages/organizations.rs\<close> (\<open>crates/dashboard/src\<close>), and the texts their tables show. A handler takes the
  texts of the fields at the time of the click and is run to its end; the signals it writes are the record
  \<open>form\<close>. Markup is left out.
\<close>

section \<open>Submitting\<close>

record form =
  fm_error :: "string option"
  fm_submitting :: bool
  fm_open :: bool
  fm_refresh :: "32 word"



definition submit :: "(('s, 'a, string) prog, string) outcome \<Rightarrow> form \<Rightarrow> ('s, form) state" where
  "submit task f =
     (let f = f\<lparr>fm_submitting := True, fm_error := None\<rparr> in
      case task of
        Err e \<Rightarrow> State_Monad.return (f\<lparr>fm_error := Some e, fm_submitting := False\<rparr>)
      | Panic _ \<Rightarrow> State_Monad.return f
      | Ok call \<Rightarrow> State_Monad.bind call (\<lambda>r. State_Monad.return (case r of
            Ok _ \<Rightarrow> f\<lparr>fm_open := False, fm_refresh := fm_refresh f + 1, fm_submitting := False\<rparr>
          | Err e \<Rightarrow> f\<lparr>fm_error := Some e, fm_submitting := False\<rparr>
          | Panic _ \<Rightarrow> f)))"

definition field_json :: "'s browser \<Rightarrow> string \<Rightarrow> string \<Rightarrow> (json, string) outcome" where
  "field_json br what text = map_err (\<lambda>e. what @ '': '' @ e) (br_json br text)"

definition with_json ::
  "'s browser \<Rightarrow> string \<Rightarrow> string \<Rightarrow> (json \<Rightarrow> ('s, 'a, string) prog) \<Rightarrow> form \<Rightarrow> ('s, form) state" where
  "with_json br what text call = submit (bind_outcome (field_json br what text) (\<lambda>v. Ok (call v)))"

definition editing_name :: "string option \<Rightarrow> string" where
  "editing_name e = (case e of Some n \<Rightarrow> n | None \<Rightarrow> [])"

definition submit_create_payload_spec where
  "submit_create_payload_spec br d org ws name text =
     with_json br ''Invalid JSON'' text (\<lambda>v. dash_create_payload_spec br d org ws name v)"

definition submit_edit_payload_spec where
  "submit_edit_payload_spec br d org ws editing text =
     with_json br ''Invalid JSON'' text (\<lambda>v. dash_update_payload_spec br d org ws (editing_name editing) v)"

definition submit_create_config where
  "submit_create_config br d org ws name text =
     with_json br ''Invalid JSON'' text (\<lambda>v. dash_create_config br d org ws name v)"

definition submit_edit_config where
  "submit_edit_config br d org ws editing text =
     with_json br ''Invalid JSON'' text (\<lambda>v. dash_update_config br d org ws (editing_name editing) v)"

definition submit_create_endpoint where
  "submit_create_endpoint br d org ws name etype text =
     with_json br ''Invalid JSON spec'' text (\<lambda>v. dash_create_endpoint br d org ws
       \<lparr>dce_name = name, dce_type = etype, dce_spec = v, dce_payload_spec = None, dce_config = None, dce_retry_policy = None\<rparr>)"

definition submit_edit_endpoint where
  "submit_edit_endpoint br d org ws editing text =
     with_json br ''Invalid JSON'' text (\<lambda>v. dash_update_endpoint br d org ws (editing_name editing) (jobj [(''spec'', v)]))"

definition submit_create_secret where
  "submit_create_secret br d org ws name value = submit (Ok (dash_create_secret br d org ws name value))"

definition submit_update_secret where
  "submit_update_secret br d org ws updating value = submit (Ok (dash_update_secret br d org ws (editing_name updating) value))"

definition submit_create_org where
  "submit_create_org br d name slug = submit (Ok (dash_create_organization br d name slug))"

definition submit_edit_org where
  "submit_edit_org br d org name = submit (Ok (dash_update_organization br d org name))"

definition submit_create_workspace where
  "submit_create_workspace br d org name slug = submit (Ok (dash_create_workspace br d org name slug))"

section \<open>Creating and invoking jobs\<close>










section \<open>Deleting and cancelling\<close>

record panel =
  pn_target :: "string option"
  pn_error :: "string option"
  pn_refresh :: "32 word"

definition report :: "('s, 'a, string) prog \<Rightarrow> panel \<Rightarrow> ('s, panel) state" where
  "report call p =
     (let p = p\<lparr>pn_error := None\<rparr> in
      State_Monad.bind call (\<lambda>r. State_Monad.return (case r of
          Ok _ \<Rightarrow> p\<lparr>pn_refresh := pn_refresh p + 1\<rparr>
        | Err e \<Rightarrow> p\<lparr>pn_error := Some e\<rparr>
        | Panic _ \<Rightarrow> p)))"

definition confirm :: "(string \<Rightarrow> ('s, 'a, string) prog) \<Rightarrow> panel \<Rightarrow> ('s, panel) state" where
  "confirm call p = (case pn_target p of Some n \<Rightarrow> report (call n) p | None \<Rightarrow> State_Monad.return p)"

definition confirm_delete_payload_spec where
  "confirm_delete_payload_spec br d org ws = confirm (\<lambda>n. dash_delete_payload_spec br d org ws n)"

definition confirm_delete_config where
  "confirm_delete_config br d org ws = confirm (\<lambda>n. dash_delete_config br d org ws n)"

definition confirm_delete_secret where
  "confirm_delete_secret br d org ws = confirm (\<lambda>n. dash_delete_secret br d org ws n)"

definition confirm_delete_endpoint where
  "confirm_delete_endpoint br d org ws = confirm (\<lambda>n. dash_delete_endpoint br d org ws n)"

definition confirm_cancel_job where
  "confirm_cancel_job br d org ws p =
     (case pn_target p of
        Some j \<Rightarrow> report (dash_cancel_job br d org ws j) (p\<lparr>pn_target := None\<rparr>)
      | None \<Rightarrow> State_Monad.return p)"

definition cancel_execution_click where
  "cancel_execution_click br d org ws eid = report (dash_cancel_execution br d org ws eid)"

section \<open>Texts\<close>

text \<open>Slicing a string inside a character panics, which ends the page.\<close>

definition slice_to :: "nat \<Rightarrow> string \<Rightarrow> (string, 'e) outcome" where
  "slice_to n s =
     (if is_char_boundary s n then Ok (take n s) else Panic ''byte index is not a char boundary'')"

definition preview :: "nat \<Rightarrow> string \<Rightarrow> (string, 'e) outcome" where
  "preview n s = (if length s > n then bind_outcome (slice_to n s) (\<lambda>t. Ok (t @ ''...'')) else Ok s)"

definition format_date :: "string \<Rightarrow> (string, 'e) outcome" where
  "format_date s = (if length s \<ge> 10 then slice_to 10 s else Ok s)"

section \<open>Lemmas\<close>





definition typed :: "string \<Rightarrow> string option" where
  "typed s = (if s = [] then None else Some s)"

definition typed_input :: "json option \<Rightarrow> json option" where
  "typed_input v = (if v = Some JNull then None else v)"




named_theorems form_read

lemma read_typed [form_read]:
  "de_opt as_str (if s = [] then None else Some (JStr s)) = Some (typed s)"
  "de_opt as_str None = Some None"
  "de_opt as_i64 None = Some None" "de_time x None = Some None" "de_cron x None = Some None"
  "de_opt Some (Some (jval_opt v)) = Some (typed_input v)"
  by (auto simp: typed_def de_opt_def de_time_def deserialize_opt_def de_cron_def jval_opt_def jopt_def typed_input_def
      split: option.split json.split)













section \<open>Properties\<close>






text \<open>The tables show the beginning of a long JSON text. The cut is at a byte, so a text with a character of more
  than one byte across it takes the page down.\<close>

lemma preview_panics: "(\<exists>p. preview n s = Panic p) \<longleftrightarrow> n < length s \<and> \<not> is_char_boundary s n"
  by (auto simp: preview_def slice_to_def split: if_splits)

lemma preview_panics_example:
  "\<exists>p. preview 60 (''{\"city\":\"'' @ replicate 50 CHR ''a'' @ [CHR 0xC3, CHR 0xA9] @ ''\"}'') = Panic p"
  unfolding preview_panics by code_simp

end
