(* ===== verification/Calendar.thy ===== *)
theory Calendar
  imports Date_Range
begin

text \<open>
  The proleptic Gregorian calendar of chrono, as it documents it: days are counted from the first of January of
  the year 1, which is day 1. The theory shows that it has the laws \<open>Date_Range\<close> relies on, interprets the
  locale on it, and states what the picker and its grid promise.
\<close>

section \<open>The Gregorian calendar\<close>

definition leap :: "int \<Rightarrow> bool" where
  "leap y \<longleftrightarrow> y mod 4 = 0 \<and> (y mod 100 \<noteq> 0 \<or> y mod 400 = 0)"

definition leap_day :: "int \<Rightarrow> int" where
  "leap_day y = (if leap y then 1 else 0)"

definition leaps :: "int \<Rightarrow> int" where
  "leaps y = y div 4 - y div 100 + y div 400"

definition year_start :: "int \<Rightarrow> date" where
  "year_start y = 1 + 365 * (y - 1) + leaps (y - 1)"

definition year_of :: "date \<Rightarrow> int" where
  "year_of d =
     (let n = d - 1; r = n mod 146097; b = min 3 (r div 36524); r2 = r - 36524 * b; r3 = r2 mod 1461 in
      400 * (n div 146097) + 100 * b + 4 * (r2 div 1461) + min 3 (r3 div 365) + 1)"

lemma div_pred: "0 < k \<Longrightarrow> (y :: int) div k = (y - 1) div k + (if y mod k = 0 then 1 else 0)"
proof -
  assume k: "0 < k"
  show ?thesis
  proof (cases "y mod k = 0")
    case True
    then obtain q where y: "y = k * q" by auto
    with k have "(y - 1) div k = q - 1" by (intro int_div_pos_eq [of _ _ _ "k - 1"]) (auto simp: algebra_simps)
    with y k True show ?thesis by simp
  next
    case False
    then have "0 < y mod k" using k pos_mod_sign [of k y] by linarith
    then have "(y - 1) div k = y div k"
      using k pos_mod_bound [of k y] by (intro int_div_pos_eq [of _ _ _ "y mod k - 1"], simp add: algebra_simps, simp, linarith)
    with False show ?thesis by simp
  qed
qed

lemma leap_count:
  "(a :: int) = a' + (if p then 1 else 0) \<Longrightarrow> b = b' + (if q then 1 else 0) \<Longrightarrow> c = c' + (if r then 1 else 0) \<Longrightarrow>
   (q \<Longrightarrow> p) \<Longrightarrow> (r \<Longrightarrow> q) \<Longrightarrow> a - b + c = a' - b' + c' + (if p \<and> (\<not> q \<or> r) then 1 else 0)"
  by (cases p; cases q; cases r) simp_all

lemma leaps_next: "leaps y = leaps (y - 1) + leap_day y"
  unfolding leaps_def leap_day_def leap_def
  by (rule leap_count; (rule div_pred)?; presburger)

lemma year_start_next: "year_start (y + 1) = year_start y + 365 + leap_day y"
  using leaps_next [of y] by (simp add: year_start_def)

lemma year_start_split:
  assumes "y - 1 = 400 * a + 100 * b + 4 * c + e" and "0 \<le> b" "b \<le> 3" "0 \<le> c" "c \<le> 24" "0 \<le> e" "e \<le> 3"
  shows "year_start y = 1 + 146097 * a + 36524 * b + 1461 * c + 365 * e"
proof -
  have "(y - 1) div 4 = 100 * a + 25 * b + c" using assms by (intro int_div_pos_eq [of _ _ _ e]) auto
  moreover have "(y - 1) div 100 = 4 * a + b" using assms by (intro int_div_pos_eq [of _ _ _ "4 * c + e"]) auto
  moreover have "(y - 1) div 400 = a" using assms by (intro int_div_pos_eq [of _ _ _ "100 * b + 4 * c + e"]) auto
  ultimately show ?thesis using assms(1) by (simp add: year_start_def leaps_def)
qed

lemma min_div:
  assumes "0 \<le> (r :: int)" and "0 < k" and "b = min m (r div k)" and "0 \<le> m"
  shows "0 \<le> b" "b \<le> m" "k * b \<le> r" "b < m \<longrightarrow> r < k * (b + 1)"
proof -
  have q: "0 \<le> r div k" using assms(1,2) by (simp add: pos_imp_zdiv_nonneg_iff)
  have r: "r = k * (r div k) + r mod k" by simp
  have m: "0 \<le> r mod k" "r mod k < k" using assms(2) by simp_all
  show "0 \<le> b" "b \<le> m" using assms(3,4) q by simp_all
  have "k * b \<le> k * (r div k)" using assms(2,3) by (intro mult_left_mono) simp_all
  then show "k * b \<le> r" using r m by linarith
  show "b < m \<longrightarrow> r < k * (b + 1)"
  proof
    assume "b < m"
    then have "b = r div k" using assms(3) by simp
    then have "k * (b + 1) = k * (r div k) + k" by (simp add: distrib_left)
    with r m show "r < k * (b + 1)" by linarith
  qed
qed

lemma year_of_bounds: "year_start (year_of d) \<le> d \<and> d < year_start (year_of d + 1)"
proof -
  let ?n = "d - 1"
  define r where "r = ?n mod 146097"
  define b where "b = min 3 (r div 36524)"
  define r2 where "r2 = r - 36524 * b"
  define c where "c = r2 div 1461"
  define r3 where "r3 = r2 mod 1461"
  define e where "e = min 3 (r3 div 365)"
  define y where "y = 400 * (?n div 146097) + 100 * b + 4 * c + e + 1"
  have r: "0 \<le> r" "r < 146097" by (simp_all add: r_def)
  have b: "0 \<le> b" "b \<le> 3" "36524 * b \<le> r" "b < 3 \<longrightarrow> r < 36524 * (b + 1)" by (rule min_div [OF r(1) _ b_def]; simp)+
  have r2: "0 \<le> r2" "r2 \<le> 36524" "b < 3 \<longrightarrow> r2 < 36524" using b r by (auto simp: r2_def)
  have c: "0 \<le> c" "c \<le> 24" "r2 = 1461 * c + r3" using r2 by (auto simp: c_def r3_def)
  have r3: "0 \<le> r3" "r3 < 1461" by (simp_all add: r3_def)
  have e: "0 \<le> e" "e \<le> 3" "365 * e \<le> r3" "e < 3 \<longrightarrow> r3 < 365 * (e + 1)" by (rule min_div [OF r3(1) _ e_def]; simp)+
  have n: "?n = 146097 * (?n div 146097) + r" by (simp add: r_def)
  have y1: "y - 1 = 400 * (?n div 146097) + 100 * b + 4 * c + e" by (simp add: y_def)
  have start: "year_start y = 1 + 146097 * (?n div 146097) + 36524 * b + 1461 * c + 365 * e"
    by (rule year_start_split [OF y1 b(1,2) c(1,2) e(1,2)])
  have rest: "d = year_start y + (r3 - 365 * e)" using n start c(3) by (simp add: r2_def)
  have short: "r3 - 365 * e < 365 + leap_day y"
  proof (cases "r3 - 365 * e < 365")
    case True
    then show ?thesis by (simp add: leap_day_def)
  next
    case False
    with e r3 have e3: "e = 3" and "r3 = 1460" by auto
    have y4: "y = 400 * (?n div 146097) + 100 * b + 4 * (c + 1)" by (simp add: y_def e3)
    have "leap y"
    proof (cases "c = 24")
      case True
      with r2 c(3) \<open>r3 = 1460\<close> have "b = 3" using b by auto
      with True have "y = 400 * (?n div 146097 + 1)" by (simp add: y4)
      then show ?thesis by (simp add: leap_def)
    next
      case False
      have "y = 4 * (100 * (?n div 146097) + 25 * b + (c + 1))" by (simp add: y4)
      then have "y mod 4 = 0" by (simp only: mod_mult_self1_is_0)
      moreover have "y = 4 * (c + 1) + 100 * (4 * (?n div 146097) + b)" by (simp add: y4)
      then have "y mod 100 = 4 * (c + 1) mod 100" by (simp only: mod_mult_self2)
      then have "y mod 100 = 4 * (c + 1)" using c False by simp
      ultimately show ?thesis using c by (simp add: leap_def)
    qed
    then show ?thesis using \<open>r3 = 1460\<close> e3 by (simp add: leap_day_def)
  qed
  have "year_of d = y"
    unfolding year_of_def Let_def y_def e_def r3_def c_def r2_def b_def r_def by (rule refl)
  with rest short e(3) year_start_next [of y] show ?thesis by simp
qed

lemma year_start_mono: "year_start y + 365 * int n \<le> year_start (y + int n)"
proof (induction n)
  case (Suc n)
  have "year_start (y + int (Suc n)) = year_start (y + int n) + 365 + leap_day (y + int n)"
    using year_start_next [of "y + int n"] by (simp add: algebra_simps)
  with Suc show ?case by (simp add: leap_day_def)
qed simp

lemma year_of_unique:
  assumes "year_start y \<le> d" and "d < year_start (y + 1)"
  shows "year_of d = y"
proof (rule ccontr)
  assume "year_of d \<noteq> y"
  then consider "year_of d + 1 \<le> y" | "y + 1 \<le> year_of d" by linarith
  then show False
  proof cases
    case 1
    with year_start_mono [of "year_of d + 1" "nat (y - (year_of d + 1))"] year_of_bounds [of d] assms show False by simp
  next
    case 2
    with year_start_mono [of "y + 1" "nat (year_of d - (y + 1))"] year_of_bounds [of d] assms show False by simp
  qed
qed

text \<open>Months, by the day of the year.\<close>

definition month_start :: "int \<Rightarrow> int \<Rightarrow> int" where
  "month_start y m =
     (if m \<le> 1 then 0 else if m = 2 then 31
      else [59, 90, 120, 151, 181, 212, 243, 273, 304, 334, 365] ! nat (m - 3) + leap_day y)"

definition month_of :: "date \<Rightarrow> int" where
  "month_of d =
     (let y = year_of d; k = d - year_start y in int (length (filter (\<lambda>m. month_start y m \<le> k) [1..12])))"

definition day_of :: "date \<Rightarrow> int" where
  "day_of d = d - year_start (year_of d) - month_start (year_of d) (month_of d) + 1"

definition ymd :: "int \<Rightarrow> int \<Rightarrow> int \<Rightarrow> date option" where
  "ymd y m k =
     (if 1 \<le> m \<and> m \<le> 12 \<and> 1 \<le> k \<and> k \<le> month_start y (m + 1) - month_start y m
      then Some (year_start y + month_start y m + k - 1) else None)"

definition proleptic :: calendar where
  "proleptic = \<lparr>cal_year = year_of, cal_month = month_of, cal_day = day_of, from_ymd = ymd, cal_dates = UNIV,
     from_sunday = (\<lambda>d. nat (d mod 7))\<rparr>"

lemma month_cases: "1 \<le> (m :: int) \<Longrightarrow> m \<le> 12 \<Longrightarrow>
  m = 1 \<or> m = 2 \<or> m = 3 \<or> m = 4 \<or> m = 5 \<or> m = 6 \<or> m = 7 \<or> m = 8 \<or> m = 9 \<or> m = 10 \<or> m = 11 \<or> m = 12"
  by presburger

lemma month_start_values:
  "month_start y 1 = 0" "month_start y 2 = 31" "month_start y 3 = 59 + leap_day y" "month_start y 4 = 90 + leap_day y"
  "month_start y 5 = 120 + leap_day y" "month_start y 6 = 151 + leap_day y" "month_start y 7 = 181 + leap_day y"
  "month_start y 8 = 212 + leap_day y" "month_start y 9 = 243 + leap_day y" "month_start y 10 = 273 + leap_day y"
  "month_start y 11 = 304 + leap_day y" "month_start y 12 = 334 + leap_day y" "month_start y 13 = 365 + leap_day y"
  by (simp_all add: month_start_def)

lemma month_of_eq:
  assumes "year_of d = y" and "1 \<le> m" "m \<le> 12" and "month_start y m \<le> d - year_start y" "d - year_start y < month_start y (m + 1)"
  shows "month_of d = m"
proof -
  have l: "0 \<le> leap_day y" "leap_day y \<le> 1" by (simp_all add: leap_day_def)
  have list: "[1..12] = [1, 2, 3, 4, 5, 6, 7, 8, 9, 10, 11, 12 :: int]" by (simp add: upto.simps)
  show ?thesis
    using month_cases [OF assms(2,3)] assms(1,4,5) l
    by (elim disjE) (simp_all add: month_of_def list month_start_values Let_def)
qed

lemma month_of_bounds:
  "1 \<le> month_of d \<and> month_of d \<le> 12 \<and> month_start (year_of d) (month_of d) \<le> d - year_start (year_of d) \<and>
   d - year_start (year_of d) < month_start (year_of d) (month_of d + 1)"
proof -
  let ?y = "year_of d" and ?k = "d - year_start (year_of d)"
  have k: "0 \<le> ?k" "?k < 365 + leap_day ?y" using year_of_bounds [of d] year_start_next [of ?y] by simp_all
  have l: "0 \<le> leap_day ?y" "leap_day ?y \<le> 1" by (simp_all add: leap_day_def)
  have "\<exists>m. 1 \<le> m \<and> m \<le> 12 \<and> month_start ?y m \<le> ?k \<and> ?k < month_start ?y (m + 1)"
  proof -
    consider "?k < 31" | "31 \<le> ?k" "?k < 59 + leap_day ?y" | "59 + leap_day ?y \<le> ?k" "?k < 90 + leap_day ?y"
      | "90 + leap_day ?y \<le> ?k" "?k < 120 + leap_day ?y" | "120 + leap_day ?y \<le> ?k" "?k < 151 + leap_day ?y"
      | "151 + leap_day ?y \<le> ?k" "?k < 181 + leap_day ?y" | "181 + leap_day ?y \<le> ?k" "?k < 212 + leap_day ?y"
      | "212 + leap_day ?y \<le> ?k" "?k < 243 + leap_day ?y" | "243 + leap_day ?y \<le> ?k" "?k < 273 + leap_day ?y"
      | "273 + leap_day ?y \<le> ?k" "?k < 304 + leap_day ?y" | "304 + leap_day ?y \<le> ?k" "?k < 334 + leap_day ?y"
      | "334 + leap_day ?y \<le> ?k" by linarith
    then show ?thesis
    proof cases
      case 1 then show ?thesis using k by (intro exI [of _ 1]) (simp add: month_start_values)
    next case 2 then show ?thesis by (intro exI [of _ 2]) (simp add: month_start_values)
    next case 3 then show ?thesis by (intro exI [of _ 3]) (simp add: month_start_values)
    next case 4 then show ?thesis by (intro exI [of _ 4]) (simp add: month_start_values)
    next case 5 then show ?thesis by (intro exI [of _ 5]) (simp add: month_start_values)
    next case 6 then show ?thesis by (intro exI [of _ 6]) (simp add: month_start_values)
    next case 7 then show ?thesis by (intro exI [of _ 7]) (simp add: month_start_values)
    next case 8 then show ?thesis by (intro exI [of _ 8]) (simp add: month_start_values)
    next case 9 then show ?thesis by (intro exI [of _ 9]) (simp add: month_start_values)
    next case 10 then show ?thesis by (intro exI [of _ 10]) (simp add: month_start_values)
    next case 11 then show ?thesis by (intro exI [of _ 11]) (simp add: month_start_values)
    next case 12 then show ?thesis using k by (intro exI [of _ 12]) (simp add: month_start_values)
    qed
  qed
  then obtain m where m: "1 \<le> m" "m \<le> 12" "month_start ?y m \<le> ?k" "?k < month_start ?y (m + 1)" by blast
  with month_of_eq [OF refl m] show ?thesis by simp
qed

lemma ymd_Some:
  assumes "ymd y m k = Some d"
  shows "year_of d = y" "month_of d = m" "day_of d = k"
proof -
  from assms have m: "1 \<le> m" "m \<le> 12" and k: "1 \<le> k" "k \<le> month_start y (m + 1) - month_start y m"
    and d: "d = year_start y + month_start y m + k - 1"
    by (auto simp: ymd_def split: if_splits)
  have l: "0 \<le> leap_day y" "leap_day y \<le> 1" by (simp_all add: leap_day_def)
  have "0 \<le> month_start y m" "month_start y (m + 1) \<le> 365 + leap_day y"
    using month_cases [OF m] l by (elim disjE; simp add: month_start_values)+
  with k d year_start_next [of y] show y: "year_of d = y" by (intro year_of_unique) simp_all
  show mo: "month_of d = m" by (rule month_of_eq [OF y m]) (use k d in linarith)+
  with y d show "day_of d = k" by (simp add: day_of_def)
qed

lemma ymd_of: "ymd (year_of d) (month_of d) (day_of d) = Some d" "ymd (year_of d) (month_of d) 1 \<noteq> None" "1 \<le> day_of d"
  using month_of_bounds [of d] by (simp_all add: ymd_def day_of_def)

lemma next_of:
  "year_of (d + 1) * 12 + (month_of (d + 1) - 1) = year_of d * 12 + (month_of d - 1) \<and> day_of (d + 1) = day_of d + 1 \<or>
   year_of (d + 1) * 12 + (month_of (d + 1) - 1) = year_of d * 12 + (month_of d - 1) + 1 \<and> day_of (d + 1) = 1"
proof -
  let ?y = "year_of d" and ?m = "month_of d"
  have m: "1 \<le> ?m \<and> ?m \<le> 12 \<and> month_start ?y ?m \<le> d - year_start ?y \<and> d - year_start ?y < month_start ?y (?m + 1)"
    by (rule month_of_bounds)
  then have m12: "1 \<le> ?m" "?m \<le> 12" by simp_all
  have len: "month_start ?y 13 = 365 + leap_day ?y" by (rule month_start_values)
  show ?thesis
  proof (cases "d + 1 - year_start ?y < month_start ?y (?m + 1)")
    case True
    then have "ymd ?y ?m (day_of d + 1) = Some (d + 1)" using m by (simp add: ymd_def day_of_def)
    from ymd_Some [OF this] show ?thesis by simp
  next
    case False
    with m have fin: "d + 1 = year_start ?y + month_start ?y (?m + 1)" by linarith
    show ?thesis
    proof (cases "?m = 12")
      case True
      with fin len year_start_next [of ?y] have "ymd (?y + 1) 1 1 = Some (d + 1)" by (simp add: ymd_def month_start_values)
      from ymd_Some [OF this] True show ?thesis by simp
    next
      case False
      have l: "0 \<le> leap_day ?y" by (simp add: leap_day_def)
      have "1 \<le> month_start ?y (?m + 1 + 1) - month_start ?y (?m + 1)"
        using month_cases [OF m12] False l by (elim disjE; simp add: month_start_values)
      with fin m False have "ymd ?y (?m + 1) 1 = Some (d + 1)" by (simp add: ymd_def)
      from ymd_Some [OF this] show ?thesis by simp
    qed
  qed
qed

lemma proleptic_laws: "calendar_laws proleptic"
proof -
  have "nat ((d + 1) mod 7) = (nat (d mod 7) + 1) mod 7" for d :: int
  proof -
    have "(d + 1) mod 7 = (d mod 7 + 1) mod 7" by presburger
    then have "nat ((d + 1) mod 7) = nat (d mod 7 + 1) mod 7" by (simp only: nat_mod_distrib) (simp add: nat_mod_distrib)
    then show ?thesis by (simp add: nat_add_distrib)
  qed
  moreover have "nat (d mod 7) < 7" for d :: int by (simp add: nat_less_iff)
  ultimately show ?thesis
    using ymd_of month_of_bounds ymd_Some next_of
    unfolding calendar_laws_def proleptic_def month_index_def by simp
qed

interpretation chrono: gregorian proleptic
  by (rule gregorian.intro) (rule proleptic_laws)

text \<open>The examples of the tests in the source: June 2026 begins on a Monday, and the month before starts on the
  first of May.\<close>

lemma test_dates:
  "ymd 2026 6 24 = Some 739791" "first_of_month proleptic 739791 = Some 739768" "from_sunday proleptic 739768 = 1"
  "add_months proleptic 739768 (-6) = ymd 2025 12 1" "add_months proleptic 739768 7 = ymd 2027 1 1"
  "preset_range proleptic LastMonth 739791 = Some ((the (ymd 2026 5 1), 0), (the (ymd 2026 5 31), 86399))"
  by code_simp+

lemma test_cells:
  "map_option (\<lambda>cells. (length cells, hd cells, cells ! 1)) (month_cells proleptic 739791) = Some (31, None, Some 739768)"
  by code_simp

section \<open>Properties\<close>

text \<open>The month grid is right. In seven columns from Sunday, every day of the month shown appears once, in
  order, in the column of its weekday, and no other day appears.\<close>

lemma month_grid_is_right:
  assumes "calendar_laws c" and "month_cells c d = Some cells" and "d \<in> cal_dates c"
  shows "(\<forall>i < length cells. \<forall>e. cells ! i = Some e \<longrightarrow> from_sunday c e = i mod 7) \<and>
    {e. Some e \<in> set cells} = {e \<in> cal_dates c. cal_year c e = cal_year c d \<and> cal_month c e = cal_month c d} \<and>
    sorted_wrt (<) (List.map_filter id cells)"
  using gregorian.month_grid [OF gregorian.intro [OF assms(1)] assms(2,3)] by blast

lemma month_grid_is_right_example:
  "\<exists>cells. month_cells proleptic 739791 = Some cells \<and> {e. Some e \<in> set cells} = {e. year_of e = 2026 \<and> month_of e = 6}"
proof -
  obtain cells where cells: "month_cells proleptic 739791 = Some cells" using test_cells by auto
  have "739791 \<in> cal_dates proleptic" by (simp add: proleptic_def)
  from month_grid_is_right [OF proleptic_laws cells this]
  have "{e. Some e \<in> set cells} = {e \<in> cal_dates proleptic. cal_year proleptic e = cal_year proleptic 739791 \<and>
      cal_month proleptic e = cal_month proleptic 739791}" by blast
  moreover have "cal_year proleptic 739791 = 2026" "cal_month proleptic 739791 = 6" by code_simp+
  moreover have "cal_dates proleptic = UNIV" "cal_year proleptic = year_of" "cal_month proleptic = month_of"
    by (simp_all only: proleptic_def calendar.simps)
  ultimately have "{e. Some e \<in> set cells} = {e. year_of e = 2026 \<and> month_of e = 6}" by (simp only: UNIV_I simp_thms)
  with cells show ?thesis by blast
qed

text \<open>C37: the range picked is ordered by days, and only by days. However the picker is used, the filter it
  commits has times of day that exist and, when it has both ends, a first day not after the last. But the
  times of the ends are chosen freely: for every day there is a run that commits that day from 23:00:00 to
  01:59:59, a range the API refuses.\<close>

theorem picked_range_is_ordered:
  assumes "calendar_laws c" and "picker_new c today None None = Some p0"
  shows "(\<forall>p. (picker_step c today)\<^sup>*\<^sup>* p0 p \<longrightarrow> range_ok (pk_after p) (pk_before p)) \<and>
    (\<exists>p. (picker_step c today)\<^sup>*\<^sup>* p0 p \<and> pk_after p = Some (d, 82800) \<and> pk_before p = Some (d, 7199))"
proof
  have ok: "picker_ok p0" using assms(2) by (auto simp: picker_new_def picker_ok_def)
  show "\<forall>p. (picker_step c today)\<^sup>*\<^sup>* p0 p \<longrightarrow> range_ok (pk_after p) (pk_before p)"
    using gregorian.picker_reach_ok [OF gregorian.intro [OF assms(1)] _ ok] by (auto simp: picker_ok_def)
  define p1 where "p1 = apply_start_time 82800 p0"
  define p2 where "p2 = apply_end_time 7199 p1"
  have p0: "pk_start_time p0 = 0" "pk_end_time p0 = 86399" "pk_draft_after p0 = None" "pk_draft_before p0 = None"
    using assms(2) by (auto simp: picker_new_def default_start_time_def default_end_time_def)
  have t: "on_h ''23'' 0 = Some 82800" "on_h ''1'' 86399 = Some 7199"
    by (simp_all add: on_h_def parse_uint_def digits_value_def is_ascii_digit_def from_hms_def minute_of_def second_of_def)
  have "picker_step c today p0 p1" unfolding p1_def by (rule picker_step.start_hour [where v = "''23''"]) (simp add: p0 t)
  moreover have "picker_step c today p1 p2"
    unfolding p2_def by (rule picker_step.end_hour [where v = "''1''"]) (simp add: p1_def apply_start_time_def p0 t)
  moreover have "picker_step c today p2 (pick_day d p2)" by (rule picker_step.pick)
  moreover have "picker_step c today (pick_day d p2) (pick_day d (pick_day d p2))" by (rule picker_step.pick)
  moreover have "picker_step c today (pick_day d (pick_day d p2)) (apply_picked (pick_day d (pick_day d p2)))"
    by (rule picker_step.commit)
  ultimately have "(picker_step c today)\<^sup>*\<^sup>* p0 (apply_picked (pick_day d (pick_day d p2)))"
    by (meson converse_rtranclp_into_rtranclp rtranclp.rtrancl_refl)
  moreover have "pk_after (apply_picked (pick_day d (pick_day d p2))) = Some (d, 82800)"
    "pk_before (apply_picked (pick_day d (pick_day d p2))) = Some (d, 7199)"
    by (simp_all add: p1_def p2_def apply_picked_def pick_day_def apply_start_time_def apply_end_time_def combine_def p0)
  ultimately show "\<exists>p. (picker_step c today)\<^sup>*\<^sup>* p0 p \<and> pk_after p = Some (d, 82800) \<and> pk_before p = Some (d, 7199)" by blast
qed

theorem picked_range_is_ordered_witness:
  "\<exists>p0 p. picker_new proleptic 739791 None None = Some p0 \<and> (picker_step proleptic 739791)\<^sup>*\<^sup>* p0 p \<and>
     pk_after p = Some (739791, 82800) \<and> pk_before p = Some (739791, 7199) \<and> range_ok (pk_after p) (pk_before p)"
proof -
  obtain p0 where p0: "picker_new proleptic 739791 None None = Some p0"
    using test_dates(2) by (auto simp: picker_new_def)
  from picked_range_is_ordered [OF proleptic_laws p0, of 739791] p0 show ?thesis by blast
qed

end
