(* ===== verification/Spec2Isabelle.thy ===== *)
theory Spec2Isabelle
  imports Samples Isolation Provisioning Retry Worker_Loop Versions Kms Jobs_Page Forms Calendar
begin

text \<open>
  Invokr: a verification of the scheduler in \<open>crates/\<close>.

  Invokr runs jobs at a time or on a schedule against HTTP, Kafka and Redis endpoints. Everything it
  knows is in PostgreSQL. The API process (\<open>crates/api\<close>) turns requests into rows; pg_cron inserts an
  execution at every tick of a CRON job; the workers (\<open>crates/worker\<close>) claim due executions, resolve
  the endpoint's templates, dispatch, and write the verdict; an embedding application may call the same
  tables through a library client. \<open>crates/common\<close> holds the data model and all queries. Each workspace
  is a schema of its own, so the parts only meet in the tables of a tenant, and the correctness of the
  program is what those tables may hold and how they may change.

  \<^bold>\<open>Foundations.\<close> \<open>Prelude\<close>: the result of a call (\<open>Ok\<close>, \<open>Err\<close>, or a panic), programs as state monads
  over it, and the two judgements the proofs use, \<open>keeps\<close> (an invariant of the state) and \<open>triple\<close> (a
  postcondition); \<open>i64\<close> arithmetic with both overflow profiles. \<open>Rust_Str\<close>: the string functions of
  the standard library, byte by byte: a string is its UTF-8 bytes, white space is Unicode's, and a slice or
  \<open>replace_range\<close> panics out of range and off a character boundary. \<open>Json\<close>: \<open>serde_json::Value\<close>. \<open>Models\<close>: \<open>error.rs\<close> and \<open>models/\<close>, and
  the record \<open>ext\<close> of the crates that are not part of the repository (the cipher, base64, the cron and
  time-zone parsers, the JSON Schema validator): fields of a record every definition takes as an
  argument, so each theorem holds for all of them; where a law is needed it is a named hypothesis.

  \<^bold>\<open>Database.\<close> \<open>Pg\<close>: one connection and the database behind it. A statement may fail before it runs,
  may lose its answer, and takes time; a failed statement aborts its transaction, a commit of an
  aborted transaction rolls back, and a dropped transaction rolls back. Faults, delays, fresh UUIDs and
  the rows other workers hold locked are streams in the state, hence universally quantified.
  \<open>Tenant\<close>: schema names, the registry of schemas, \<open>search_path\<close> scoping. \<open>Pagination\<close>, \<open>Db_Catalog\<close>,
  \<open>Db_Jobs\<close>, \<open>Db_Executions\<close>: every query of \<open>db/\<close> with the constraints of \<open>workspace_v1.sql\<close>; \<open>sql_f\<close>
  is the SQL text of the Rust function \<open>f\<close> as a function on a tenant, \<open>f\<close> (or \<open>db_f\<close>) the call.

  \<^bold>\<open>Worker.\<close> \<open>Template\<close>, \<open>Crypto\<close>, \<open>Cache\<close>, \<open>Backoff\<close>: the pure parts. \<open>Dispatch\<close>: the four
  dispatchers and the reaper. \<open>Pipeline\<close>: \<open>process_execution\<close>, cut at its numbered steps into
  \<open>run_endpoint\<close> and \<open>finalize\<close>. \<open>Poller\<close>: \<open>claim_and_process\<close>. \<open>Worker_Loop\<close>: the loop around it, a
  transition system over its counters. \<open>Library_Client\<close>: the embedded client; \<open>Http_Client\<close>: its
  counterpart over HTTP, with the transport as an argument. \<open>Versions\<close>: the version history of a job.

  \<^bold>\<open>API.\<close> \<open>Handlers_Catalog\<close>, \<open>Handlers_Jobs\<close>, \<open>Handlers_Executions\<close>, \<open>Control\<close>: one definition per
  handler, its error answers included. \<open>Config\<close>: the environment at start-up (\<open>env.rs\<close>, \<open>config.rs\<close>, \<open>secrets.rs\<close>),
  \<open>Kms\<close>: the three key-management providers of \<open>secrets/\<close>, over the answers of the services.
  \<open>Auth\<close>: \<open>auth/\<close>, which paths need a credential and which mechanisms may give one. \<open>Extractors\<close>: the
  caller and the workspace of a request, query filters. \<open>System.serve\<close>: the routed request to its handler.
  \<open>Routing\<close>: \<open>router.rs\<close> and \<open>middleware.rs\<close>, the route table and how serde reads every request body, composed to
  \<open>app\<close>, from the bytes of a request to the answer. \<open>Service\<close> puts \<open>app\<close> behind the transport of a client.

  \<^bold>\<open>Dashboard.\<close> \<open>Dashboard_Model\<close>: how the browser reads each answer (\<open>api/models.rs\<close>); \<open>Dashboard_Client\<close>:
  its requests and their URLs (\<open>api/client.rs\<close>); \<open>Dashboard\<close>: what becomes of them in the service.
  \<open>Date_Range\<close>: the date filter (\<open>date_range.rs\<close>) over the laws of a calendar, \<open>Calendar\<close>: the Gregorian one.
  \<open>Jobs_Page\<close>: the jobs tab of \<open>pages/workspace_detail.rs\<close>, a transition system over its signals; \<open>Forms\<close>: the
  submit, delete and cancel handlers of the pages.

  \<^bold>\<open>Interfaces.\<close> \<open>named_table\<close> (\<open>Db_Catalog\<close>) is what a table keyed by name promises, interpreted on the
  four catalog tables; \<open>ttl_cache\<close> on both caches; \<open>enum_codec\<close> on the three enums with a reader.
  \<open>Steps\<close> classifies every statement the program sends (\<open>tenant_step\<close>, \<open>worker_step\<close>, \<open>db_step\<close>);
  the locale \<open>api_invariant\<close> takes an invariant that each of those steps keeps and gives, once for all
  invariants, that every handler and library call keeps it statement by statement, so under any
  interleaving of requests; \<open>worker_invariant\<close> extends it to the worker. \<open>good_inv\<close> (\<open>Integrity\<close>)
  interprets the latter, \<open>resting_inv\<close> (\<open>System\<close>) the former; \<open>update_invariant\<close> is their counterpart for
  invariants that only an update of a job could break, interpreted by \<open>versions_inv\<close> (\<open>Versions\<close>).
  \<open>token_codec\<close> (\<open>Dashboard_Client\<close>) is what the words of a multi-value filter need to survive the URL,
  interpreted on the three kinds of word; \<open>gregorian\<close> (\<open>Date_Range\<close>) on the calendar of \<open>Calendar\<close>.

  \<^bold>\<open>What is shown.\<close>
  \<^item> \<open>Worker_Safety\<close>, C1: one poll refines one abstract attempt, whatever fails. \<open>Retry\<close>, C8: which
    verdict an attempt gets.
  \<^item> \<open>Integrity\<close> and \<open>System\<close>, C2 to C4 and C11: the tables of every reachable database are well formed,
    no execution rests in RUNNING, finished executions are final, keys are unique.
  \<^item> \<open>Isolation\<close>, C5: a request touches its own tenant only.
  \<^item> \<open>Api_Calculus\<close> and \<open>Job_Api\<close>, C6, C7, C9, C10: creating, updating and cancelling a job are all
    or nothing, with the exact change they make; creation is idempotent. When the answer of the commit
    is lost, and only then, an error comes together with the whole change; their statements allow it.
  \<^item> C12, C23: what a tick adds, and that the version history of every job can be listed. \<open>Provisioning\<close>,
    C13, C14, C40: workspaces, the reaper, and a collision in the library client.
  \<^item> The components alone: dispatch (C15), templates (C16, C17), backoff (C18), encryption (C19),
    caches (C20), filters and lists (C21, C22), schema names (C24), authentication (C27), start-up
    (C29 to C31), the worker's loop (C38, C39).
  \<^item> The service as its clients see it: \<open>Service\<close>, C25, C26: the two clients agree on what they read, and
    a creation over HTTP creates the job it describes; \<open>Routing\<close>, C28: nobody reaches a statement without
    a credential. The dashboard: C32 to C34, its requests and what it can read of the answers (all but
    failed attempts, \<open>failed_attempts_are_unreadable\<close>); \<open>Forms\<close>, C35: its forms create the job they
    describe; \<open>Jobs_Page\<close>, C36: when the pages of its jobs list belong together, and two runs in which they
    do not; \<open>Calendar\<close>, C37: what ranges its date filter can commit.

  \<^bold>\<open>Bounds and fuel.\<close> \<open>version_chain\<close>, the recursive query of \<open>get_versions\<close>, has fuel: the length of
  the table, enough in every reachable database (C23), where every version points to an earlier row;
  with a cycle PostgreSQL would not return, and the model returns \<open>None\<close>. \<open>walk\<close> has fuel for the
  number of pages; more than the number of rows is enough (C22). All other recursions end by a measure
  or by structure. Integers are kept in \<open>i64\<close> where the code computes with them.

  \<^bold>\<open>Granularity.\<close> \<open>system_step\<close> runs a request, a library call, a poll or a tick to its end, from a
  database another run left; the invariants hold after every statement in between. The rows other
  workers have claimed at the time are an arbitrary set of locks.

  \<^bold>\<open>Simplifications.\<close> Case mapping, also that of \<open>ILIKE\<close>, is of ASCII letters. Names are compared byte by byte,
  where PostgreSQL uses the collation of the database. The statements of \<open>run_ddl\<close> are sent one by one, but the
  tables of a workspace appear with the last of them. A request the builder of the HTTP client refuses (a malformed
  URL or header) is named by the field \<open>wk_refused\<close> of the worker: it is not sent and the attempt fails. A
  retry beyond the last \<open>TIMESTAMPTZ\<close> is an error of its statement; of the other ranges of that type nothing is
  checked. \<open>picker_step\<close> offers every day and time at every moment, more than the page does. The loop of a
  worker counts permits in naturals and truncates where \<open>acquire_many\<close> is given a \<open>u32\<close>
  (\<open>truncated_drain_stops_early\<close>).

  \<^bold>\<open>Not modelled.\<close> The key services of the clouds, the mechanisms, the gateway and the login flow of the
  crate \<open>authn_kit\<close>, the connection handling of actix: third-party code, arguments of the model where
  it is used. Metrics, tracing, start-up and signal handling: no effect on the tables. The markup of
  the dashboard and the opening and filling of its forms. The generated SDK (\<open>crates/client\<close>) and the mock server. Indexes
  that only speed up queries.
\<close>

section \<open>The worker\<close>

text \<open>C1: one poll of a worker, under any clock, delays, lost connections, replies and row locks, leaves no
  transaction open and does one of two things. It commits nothing, or it commits exactly one attempt on
  exactly one execution: a due one of a schema it was given, not locked by another worker, none due
  earlier. Its attempt is counted, and it has succeeded with an output, or failed, or (only while attempts
  remain) waits for its retry, while every other execution of every tenant stays as it was. A poll that
  does not report work committed nothing.\<close>

theorem poll_makes_one_attempt:
  assumes "run_state (claim_and_process x ctx wid schemas) s = (r, s')" and "pg_tx s = None"
  shows "pg_tx s' = None \<and> (r \<noteq> Ok True \<longrightarrow> pg_db s' = pg_db s) \<and>
    (pg_db s' = pg_db s \<or> one_attempt (pg_locked s) wid (ctx_table_prefix ctx) (set schemas) (pg_db s) (pg_db s'))"
  using assms by (rule claim_and_process_step)

theorem poll_makes_one_attempt_witness:
  "\<exists>r s'. run_state (claim_and_process sample_ext sample_ctx ''w1'' [''acme'']) sample_worker = (r, s') \<and>
     one_attempt [] ''w1'' [] {''acme''} sample_db (pg_db s')"
proof -
  let ?m = "claim_and_process sample_ext sample_ctx ''w1'' [''acme'']"
  obtain r s' where run: "run_state ?m sample_worker = (r, s')" by fastforce
  have "map_option (map exec_status \<circ> executions) (tenants (pg_db (snd (run_state ?m sample_worker))) (''acme'', [])) =
      Some [''SUCCESS'']" by code_simp
  then have "map_option (map exec_status \<circ> executions) (tenants (pg_db s') (''acme'', [])) = Some [''SUCCESS'']"
    unfolding run by simp
  moreover have "map_option (map exec_status \<circ> executions) (tenants sample_db (''acme'', [])) = Some [''QUEUED'']"
    by code_simp
  ultimately have new: "pg_db s' \<noteq> sample_db" by auto
  have w: "pg_tx sample_worker = None" "pg_locked sample_worker = []" "pg_db sample_worker = sample_db"
    by (simp_all add: sample_worker_def)
  from poll_makes_one_attempt [OF run w(1)] new have "one_attempt [] ''w1'' [] {''acme''} sample_db (pg_db s')"
    by (simp add: w sample_ctx_def)
  with run show ?thesis by blast
qed

text \<open>C2: in every database the system can reach from the empty one, by any sequence of requests, library
  calls, polls and cron ticks, no execution is RUNNING, and its attempts are bounded: never more than
  its limit (at least one), none yet while it waits for its first run, and fewer than the limit while
  it waits for a retry.\<close>

theorem executions_at_rest:
  assumes "system_reach x d" and "tenants d k = Some t" and "e \<in> set (executions t)"
  shows "exec_status e \<noteq> ''RUNNING'' \<and> 0 \<le> attempt_count e \<and> attempt_count e \<le> max 1 (exec_max_attempts e) \<and>
    (exec_status e \<in> {''PENDING'', ''QUEUED''} \<longrightarrow> attempt_count e = 0) \<and>
    (exec_status e = ''RETRYING'' \<longrightarrow> attempt_count e < exec_max_attempts e)"
proof -
  have "exec_rest e"
    using system_steps [OF assms(1) empty_database_ok] assms(2,3)
    unfolding resting_def all_tenants_def resting_tenant_def by blast
  then show ?thesis by (simp add: exec_rest_def)
qed

theorem executions_at_rest_witness:
  "\<exists>t e. tenants sample_processed (sample_schema, []) = Some t \<and> e \<in> set (executions t) \<and>
     exec_status e = ''SUCCESS'' \<and> attempt_count e = 1 \<and> attempt_count e \<le> max 1 (exec_max_attempts e)"
proof -
  from sample_processed_rows obtain t where t: "tenants sample_processed (sample_schema, []) = Some t"
    and es: "map (\<lambda>e. (exec_status e, attempt_count e)) (executions t) = [(''SUCCESS'', 1)]" by auto
  then obtain e where e: "executions t = [e]" "exec_status e = ''SUCCESS''" "attempt_count e = 1" by auto
  with executions_at_rest [OF sample_processed_reached t, of e] t show ?thesis by auto
qed

section \<open>The history of a tenant\<close>

text \<open>C3: from a database in order, whatever the system does next, the tables of every tenant stay well
  formed (keys, foreign keys, checks), and the history in them only grows: no job, execution, attempt or log
  line is deleted, no job or execution changes its identity, input or limit, statuses follow the state machine
  of executions, attempts and log lines do not change. (Endpoints, configs, payload specs and secrets can be
  deleted, as long as no foreign key forbids it.)\<close>

theorem history_is_kept:
  assumes "(system_step x)\<^sup>*\<^sup>* d d'" and "all_tenants tenant_wf d" and "resting d" and "tenants d k = Some t"
  shows "\<exists>t'. tenants d' k = Some t' \<and> tenant_wf t' \<and> tenant_le t t'"
  using system_steps [OF assms(1-3)] assms(4) unfolding good_def db_le_def all_tenants_def by blast

lemma sample_created_ok: "all_tenants tenant_wf sample_created" "resting sample_created"
  using system_steps [OF sample_created_reached empty_database_ok] by (simp_all add: good_def)

lemma sample_created_to_processed: "(system_step sample_ext)\<^sup>*\<^sup>* sample_created sample_processed"
  unfolding sample_processed_def by (rule r_into_rtranclp, rule system_step_sample_poll)

theorem history_is_kept_witness:
  "\<exists>t t'. tenants sample_created (sample_schema, []) = Some t \<and> tenants sample_processed (sample_schema, []) = Some t' \<and>
     tenant_wf t' \<and> tenant_le t t'"
  using history_is_kept [OF sample_created_to_processed sample_created_ok] sample_created_rows by fastforce

text \<open>C4: an execution that has succeeded, failed or been cancelled never changes again, in any field.\<close>

theorem finished_executions_are_final:
  assumes "(system_step x)\<^sup>*\<^sup>* d d'" and "all_tenants tenant_wf d" and "resting d"
    and "tenants d k = Some t" and "e \<in> set (executions t)" and "terminal e"
  shows "\<exists>t'. tenants d' k = Some t' \<and> e \<in> set (executions t')"
proof -
  from system_steps [OF assms(1-3)] assms(4) obtain t' where t': "tenants d' k = Some t'" "tenant_le t t'"
    unfolding good_def db_le_def by blast
  then obtain e' where "e' \<in> set (executions t')" "exec_le e e'"
    using table_le_mem [OF _ assms(5)] by (auto simp: tenant_le_def)
  with t' assms(6) show ?thesis by (auto simp: exec_le_def)
qed

theorem finished_executions_are_final_witness:
  "\<exists>e t t'. tenants sample_processed (sample_schema, []) = Some t \<and> e \<in> set (executions t) \<and> terminal e \<and>
     tenants (sample_poll sample_schema sample_processed) (sample_schema, []) = Some t' \<and> e \<in> set (executions t')"
proof -
  from sample_processed_rows obtain t e where t: "tenants sample_processed (sample_schema, []) = Some t"
    and e: "e \<in> set (executions t)" "terminal e" by (fastforce simp: terminal_def)
  have "all_tenants tenant_wf sample_processed" "resting sample_processed"
    using system_steps [OF sample_processed_reached empty_database_ok] by (simp_all add: good_def)
  from finished_executions_are_final [OF r_into_rtranclp [of "system_step sample_ext", OF system_step_sample_poll] this t e]
  show ?thesis using t e by blast
qed

text \<open>C11: in every reachable database a job is determined by its endpoint and its idempotency key: no two
  jobs of a tenant share both.\<close>

theorem idempotency_keys_are_unique:
  assumes "system_reach x d" and "tenants d k = Some t" and "i \<in> set (jobs t)" and "j \<in> set (jobs t)"
    and "job_endpoint i = job_endpoint j" and "job_idempotency_key i = Some key" and "job_idempotency_key j = Some key"
  shows "i = j"
proof -
  have "distinct (keyed_jobs (jobs t))"
    using system_steps [OF assms(1) empty_database_ok] assms(2)
    unfolding good_def all_tenants_def tenant_wf_def jobs_wf_def by blast
  then have "inj_on (\<lambda>j. (job_endpoint j, job_idempotency_key j)) (set (filter (\<lambda>j. job_idempotency_key j \<noteq> None) (jobs t)))"
    by (simp add: keyed_jobs_def distinct_map)
  with assms(3-) show ?thesis by (auto simp: inj_on_def)
qed

theorem idempotency_keys_are_unique_witness:
  "\<exists>t. tenants sample_created (sample_schema, []) = Some t \<and>
     (\<exists>i \<in> set (jobs t). job_endpoint i = ''hook'' \<and> job_idempotency_key i = Some ''k9'' \<and>
        (\<forall>j \<in> set (jobs t). job_endpoint j = ''hook'' \<and> job_idempotency_key j = Some ''k9'' \<longrightarrow> i = j))"
proof -
  have "map_option (\<lambda>t. list_ex (\<lambda>i. job_endpoint i = ''hook'' \<and> job_idempotency_key i = Some ''k9'') (jobs t))
      (tenants sample_created (sample_schema, [])) = Some True" by code_simp
  then obtain t i where t: "tenants sample_created (sample_schema, []) = Some t"
    and i: "i \<in> set (jobs t)" "job_endpoint i = ''hook''" "job_idempotency_key i = Some ''k9''"
    by (auto simp: list_ex_iff)
  have "i = j" if "j \<in> set (jobs t)" "job_endpoint j = ''hook''" "job_idempotency_key j = Some ''k9''" for j
    by (rule idempotency_keys_are_unique [OF sample_created_reached t i(1) that(1)]) (simp_all add: i that)
  with t i show ?thesis by blast
qed

section \<open>Tenants\<close>

text \<open>C5: a request on the resources of a workspace, whatever its outcome and whatever faults occur, leaves
  the tables of every other workspace, and of every other table prefix, exactly as they were.\<close>

theorem requests_stay_in_their_tenant:
  assumes "request_schema req = Some schema" and "pg_tx s = None" and "run_state (serve x c req) s = (r, s')"
    and "k \<noteq> (schema, app_prefix c)"
  shows "tenants (committed s') k = tenants (pg_db s) k"
  using serve_confined [OF assms(1), where x = x and c = c] assms(2-) unfolding confined_def apart_def by blast

theorem requests_stay_in_their_tenant_witness:
  "tenants (committed (snd (run_state (serve sample_ext sample_app (Jobs_Cancel ''other'' ''j1'')) sample_pg))) (''acme'', []) =
   Some sample_tenant"
proof -
  obtain r s' where run: "run_state (serve sample_ext sample_app (Jobs_Cancel ''other'' ''j1'')) sample_pg = (r, s')" by fastforce
  have "tenants (committed s') (''acme'', []) = tenants (pg_db sample_pg) (''acme'', [])"
    by (rule requests_stay_in_their_tenant [OF _ _ run]) (simp, simp add: sample_pg_def, code_simp)
  then show ?thesis unfolding run by (simp add: sample_pg_def sample_db_def)
qed

text \<open>C13: a workspace that was created is ready: its row is active at schema version 1, its tables exist,
  and they hold the reaper's internal endpoint and its active CRON job, for which pg_cron has an entry
  that fires it on the configured schedule.\<close>

theorem created_workspace_is_ready:
  assumes "pg_tx s = None" and "run_state (workspaces_create oid name slug schema expr) s = (Ok w, s')"
  shows "workspace_ready schema expr w (pg_db s')"
  using left_run [OF workspaces_create_left assms] .

theorem created_workspace_is_ready_witness:
  "\<exists>w s'. run_state (workspaces_create ''o1'' ''Prod'' ''prod'' ''o1_prod'' ''* * * * *'') sample_pg = (Ok w, s') \<and>
     workspace_ready ''o1_prod'' ''* * * * *'' w (pg_db s')"
proof -
  let ?m = "workspaces_create ''o1'' ''Prod'' ''prod'' ''o1_prod'' ''* * * * *''"
  have "(case fst (run_state ?m sample_pg) of Ok w \<Rightarrow> True | _ \<Rightarrow> False)" by code_simp
  then obtain w s' where run: "run_state ?m sample_pg = (Ok w, s')"
    by (cases "run_state ?m sample_pg") (auto split: outcome.splits)
  have "pg_tx sample_pg = None" by (simp add: sample_pg_def)
  from created_workspace_is_ready [OF this run] run show ?thesis by blast
qed

section \<open>Jobs\<close>



text \<open>C7: a creation request whose key already names a job of the endpoint changes nothing, and every
  answer that is not an error is the stored job with status 200.\<close>

theorem job_creation_is_idempotent:
  assumes "pg_tx s = None" and "run_state (handle_jobs_create x prefix schema body) s = (r, s')"
    and "tenants (pg_db s) (schema, prefix) = Some t" and "cj_idempotency_key body = Some key"
    and "job_with_key (cj_endpoint body) key t = Some j"
  shows "pg_db s' = pg_db s \<and>
    (\<forall>resp. r = Ok resp \<longrightarrow> (\<exists>exec. resp = json_response 200 (jdata (job_response x j exec))))"
  using ended_run [OF handle_jobs_create_ended assms(1,2)] assms(3-)
  by (auto simp: all_or_nothing_def job_replayed_def job_created_def)

theorem job_creation_is_idempotent_witness:
  "pg_db (snd (run_state (handle_jobs_create sample_ext [] ''acme'' (sample_new_job\<lparr>cj_idempotency_key := Some ''k1''\<rparr>))
     sample_pg)) = sample_db"
proof -
  let ?m = "handle_jobs_create sample_ext [] ''acme'' (sample_new_job\<lparr>cj_idempotency_key := Some ''k1''\<rparr>)"
  obtain r s' where run: "run_state ?m sample_pg = (r, s')" by fastforce
  have pg: "pg_tx sample_pg = None" "pg_db sample_pg = sample_db" by (simp_all add: sample_pg_def)
  have "pg_db s' = pg_db sample_pg \<and> (\<forall>resp. r = Ok resp \<longrightarrow>
      (\<exists>exec. resp = json_response 200 (jdata (job_response sample_ext sample_job exec))))"
    by (rule job_creation_is_idempotent [OF pg(1) run, where t = sample_tenant and key = "''k1''"])
      (simp_all add: pg sample_db_def sample_tenant_def sample_new_job_def job_with_key_def sample_job_def)
  then show ?thesis unfolding run by (simp add: pg)
qed

text \<open>C10: cancelling a job is all or nothing. Either the database is as before, or the job was active and
  not internal and now: every active row of that id is RETIRED, its PENDING and QUEUED executions are
  CANCELLED (for a job that is not CRON), and its pg_cron entry is gone (for one that is).\<close>

theorem job_cancel_is_atomic:
  assumes "pg_tx s = None" and "run_state (handle_jobs_cancel x prefix schema jid) s = (r, s')"
  shows "pg_tx s' = None \<and> all_or_nothing r (\<lambda>resp d'.
      resp_status resp = 200 \<and> job_cancelled (schema, prefix) jid (pg_db s) d') (pg_db s) (pg_db s')"
  by (rule ended_run [OF handle_jobs_cancel_ended assms])

theorem job_cancel_is_atomic_witness:
  "\<exists>resp s'. run_state (handle_jobs_cancel sample_ext [] ''acme'' ''j1'') sample_pg = (Ok resp, s') \<and>
     job_cancelled (''acme'', []) ''j1'' sample_db (pg_db s')"
proof -
  let ?m = "handle_jobs_cancel sample_ext [] ''acme'' ''j1''"
  have "(case fst (run_state ?m sample_pg) of Ok resp \<Rightarrow> True | _ \<Rightarrow> False)" by code_simp
  then obtain resp s' where run: "run_state ?m sample_pg = (Ok resp, s')"
    by (cases "run_state ?m sample_pg") (auto split: outcome.splits)
  have pg: "pg_tx sample_pg = None" "pg_db sample_pg = sample_db" by (simp_all add: sample_pg_def)
  from job_cancel_is_atomic [OF pg(1) run] run show ?thesis by (auto simp: all_or_nothing_Ok pg)
qed

text \<open>C9: updating a CRON job is all or nothing. Either the database is as before, or the active, not
  internal job is RETIRED, a new version with the next version number, the requested schedule and the
  unchanged rest is appended and points back to it, and the pg_cron entry of the old version is replaced
  by one for the new. The retired row names itself, not the new version, as its replacement.\<close>

theorem job_update_is_atomic:
  assumes "pg_tx s = None" and "run_state (handle_jobs_update x checks prefix schema jid body) s = (r, s')"
  shows "pg_tx s' = None \<and> all_or_nothing r (\<lambda>resp d'.
      resp_status resp = 200 \<and> job_updated x checks (schema, prefix) jid body (pg_db s) d') (pg_db s) (pg_db s')"
  by (rule ended_run [OF handle_jobs_update_ended assms])

theorem job_update_is_atomic_witness:
  "\<exists>resp s'. run_state (handle_jobs_update sample_ext True [] ''acme'' ''c1'' sample_update) sample_pg = (Ok resp, s') \<and>
     job_updated sample_ext True (''acme'', []) ''c1'' sample_update sample_db (pg_db s')"
proof -
  let ?m = "handle_jobs_update sample_ext True [] ''acme'' ''c1'' sample_update"
  have "(case fst (run_state ?m sample_pg) of Ok resp \<Rightarrow> True | _ \<Rightarrow> False)" by code_simp
  then obtain resp s' where run: "run_state ?m sample_pg = (Ok resp, s')"
    by (cases "run_state ?m sample_pg") (auto split: outcome.splits)
  have pg: "pg_tx sample_pg = None" "pg_db sample_pg = sample_db" by (simp_all add: sample_pg_def)
  from job_update_is_atomic [OF pg(1) run] run show ?thesis by (auto simp: all_or_nothing_Ok pg)
qed

section \<open>Schedules\<close>

definition tick_of :: "timestamp \<Rightarrow> job_row \<Rightarrow> execution_row \<Rightarrow> bool" where
  "tick_of now j e \<longleftrightarrow> exec_job_id e = job_id j \<and> exec_endpoint e = job_endpoint j \<and>
     exec_endpoint_type e = job_endpoint_type j \<and> exec_input e = job_input j \<and> exec_status e = ''QUEUED'' \<and>
     attempt_count e = 0 \<and> exec_run_at e = now \<and>
     exec_idempotency_key e = Some (''cron_'' @ job_id j @ ''_'' @ show_int (epoch_ms now))"

text \<open>C12: a pg_cron tick of a job either changes nothing or appends one QUEUED execution, for an active job
  that has started and not ended, with the job's endpoint and input, due at once, and with a key made of
  the job and the millisecond that no execution of the job has yet.\<close>

theorem cron_tick_adds_at_most_one:
  assumes "sql_cron_tick x prefix jid env t = Ok ((), t')"
  shows "t' = t \<or> (\<exists>j e. j \<in> set (jobs t) \<and> job_id j = jid \<and> job_status j = ''ACTIVE'' \<and>
    (\<forall>a. cron_starts_at j = Some a \<longrightarrow> a \<le> env_now env) \<and> (\<forall>b. cron_ends_at j = Some b \<longrightarrow> env_now env < b) \<and>
    tick_of (env_now env) j e \<and> t' = t\<lparr>executions := executions t @ [e]\<rparr> \<and>
    (\<forall>e' \<in> set (executions t). exec_job_id e' \<noteq> jid \<or> exec_idempotency_key e' \<noteq> exec_idempotency_key e))"
proof -
  have tick: "tick_of (env_now env) j (tick_execution env j n)" for j n
    by (simp add: tick_of_def tick_execution_def new_execution_def)
  from sql_cron_tick_Ok [OF assms] show ?thesis
  proof
    assume "\<exists>j n. j \<in> set (jobs t) \<and> job_id j = jid \<and> cron_window (env_now env) j \<and>
      t' = t\<lparr>executions := executions t @ [tick_execution env j n]\<rparr> \<and>
      (\<forall>e \<in> set (executions t). exec_job_id e \<noteq> jid \<or>
         exec_idempotency_key e \<noteq> exec_idempotency_key (tick_execution env j n))"
    then obtain j n where j: "j \<in> set (jobs t)" "job_id j = jid" "cron_window (env_now env) j"
      and t': "t' = t\<lparr>executions := executions t @ [tick_execution env j n]\<rparr>"
      and new: "\<forall>e \<in> set (executions t). exec_job_id e \<noteq> jid \<or>
         exec_idempotency_key e \<noteq> exec_idempotency_key (tick_execution env j n)" by blast
    show ?thesis
      using j t' new tick [of j n]
      by (intro disjI2 exI [of _ j] exI [of _ "tick_execution env j n"]) (auto simp: cron_window_def)
  qed simp
qed

definition sample_env :: "timestamp \<Rightarrow> sql_env" where
  "sample_env now = \<lparr>env_now = now, env_path = ''acme'', env_uuid = ''u9'', env_locked = []\<rparr>"

definition ticked :: "timestamp \<Rightarrow> tenant \<Rightarrow> tenant" where
  "ticked now t = (case sql_cron_tick sample_ext [] ''c1'' (sample_env now) t of Ok (u, t') \<Rightarrow> t' | _ \<Rightarrow> t)"

lemma sample_ticks:
  "sql_cron_tick sample_ext [] ''c1'' (sample_env 50000) sample_tenant = Ok ((), ticked 50000 sample_tenant)"
  "length (executions (ticked 50000 sample_tenant)) = 2"
  "sql_cron_tick sample_ext [] ''c1'' (sample_env 50100) (ticked 50000 sample_tenant) =
     Ok ((), ticked 50100 (ticked 50000 sample_tenant))"
  by code_simp+

theorem cron_tick_adds_at_most_one_witness:
  "\<exists>j e. j \<in> set (jobs sample_tenant) \<and> job_id j = ''c1'' \<and> tick_of 50000 j e \<and>
     ticked 50000 sample_tenant = sample_tenant\<lparr>executions := executions sample_tenant @ [e]\<rparr>"
proof -
  have "length (executions sample_tenant) = 1" by code_simp
  then have "ticked 50000 sample_tenant \<noteq> sample_tenant" using sample_ticks(2) by auto
  with cron_tick_adds_at_most_one [OF sample_ticks(1)] show ?thesis by (auto simp: sample_env_def)
qed

text \<open>A tick that fires twice in the same millisecond, as a restarted scheduler may do, makes one
  execution: the second changes nothing.\<close>

lemma cron_tick_fires_once:
  assumes "sql_cron_tick x prefix jid env t = Ok ((), t')" and "t' \<noteq> t" and "distinct (map job_id (jobs t))"
    and "sql_cron_tick x prefix jid env' t' = Ok ((), t'')"
    and "epoch_ms (env_now env') = epoch_ms (env_now env)"
  shows "t'' = t'"
  using assms by (rule sql_cron_tick_once)

lemma cron_tick_fires_once_example:
  "ticked 50100 (ticked 50000 sample_tenant) = ticked 50000 sample_tenant"
proof (rule cron_tick_fires_once [OF sample_ticks(1) _ _ sample_ticks(3)])
  have "length (executions sample_tenant) = 1" by code_simp
  then show "ticked 50000 sample_tenant \<noteq> sample_tenant" using sample_ticks(2) by auto
qed code_simp+

text \<open>C23: the history of a job can always be listed: in every database the system can reach, the recursive
  query of \<open>get_versions\<close> returns for every job, in no more steps than the table has rows, and its result is
  exactly the job and all of its predecessors, none twice, sorted by version.\<close>

theorem versions_are_listed:
  assumes "system_reach x d" and "tenants d k = Some t" and "j \<in> set (jobs t)"
  shows "\<exists>vs. sql_get_versions (job_id j) env t = Ok (Some vs, t) \<and> distinct vs \<and>
    set vs = {v. (previous_of (jobs t))\<^sup>*\<^sup>* j v} \<and> sorted (map version vs)"
proof -
  from assms(3) obtain i where i: "i < length (jobs t)" "jobs t ! i = j" by (auto simp: in_set_conv_nth)
  from version_chain_found [OF reachable_versions_ordered [OF assms(1,2)] i(1) i(1)] i(2) obtain vs where
    "version_chain (length (jobs t)) (jobs t) (job_id j) = Some vs" "distinct vs"
    "set vs = {v. (previous_of (jobs t))\<^sup>*\<^sup>* j v}"
    by auto
  then show ?thesis by (intro exI [of _ "sort_key version vs"]) (auto simp: sql_get_versions_def)
qed

theorem versions_are_listed_witness:
  "\<exists>t j vs. tenants sample_created (sample_schema, []) = Some t \<and> j \<in> set (jobs t) \<and> job_endpoint j = ''hook'' \<and>
     sql_get_versions (job_id j) (sample_env 0) t = Ok (Some vs, t) \<and> j \<in> set vs"
proof -
  have "map_option (\<lambda>t. list_ex (\<lambda>j. job_endpoint j = ''hook'') (jobs t))
      (tenants sample_created (sample_schema, [])) = Some True" by code_simp
  then obtain t j where "tenants sample_created (sample_schema, []) = Some t" "j \<in> set (jobs t)" "job_endpoint j = ''hook''"
    by (auto simp: list_ex_iff)
  with versions_are_listed [OF sample_created_reached this(1,2), of "sample_env 0"] show ?thesis by blast
qed

section \<open>Service mode\<close>

text \<open>C25: service mode reads executions like library mode. The call of the HTTP client travels to the
  application, through the middleware, the table of routes and the extractors, to the handler. When the
  workspace is found and the library client then reads an execution of its schema, the HTTP client leaves
  the same state and returns the same row, without its idempotency key, which the API does not show; it
  returns none exactly when the library client does. (An id without special characters is its own
  percent-decoding; a JSON text and a time are read back as written.)\<close>

theorem service_reads_like_library:
  fixes net :: "'x pg_scheme net"
  assumes "net_send net = deliver ax x cfg origin api (Some who) nonce rid" and "served_at c ws origin api"
    and "plain eid" and "ax_decode ax eid = eid"
    and "\<And>j. net_json net (json_to_string x j) = Ok j" and "\<And>t. net_datetime net (ts_rfc3339 x t) = Some t"
    and "run_state (resolve_schema (hc_org_id c) ws) s = (Ok (Some sch), s0)"
    and "run_state (client_get_execution (app_prefix cfg) sch eid) s0 = (Ok found, s')"
    and "\<And>e. found = Some e \<Longrightarrow> shown e"
  shows "run_state (http_get_execution net c ws eid) s =
    (Ok (map_option (\<lambda>e. e\<lparr>exec_idempotency_key := None\<rparr>) found), s')"
proof -
  from route_executions_get [OF assms(3,4)] obtain f where
    f: "route_of ax x nonce api (arrived ax c ws api ''GET'' (''/executions/'' @ eid) None rid) = Some (Workspaced f, [eid])"
      "f sch [eid] (arrived ax c ws api ''GET'' (''/executions/'' @ eid) None rid) = Ok (Executions_Get sch eid)" by metis
  have "CHR ''?'' \<notin> set (''/executions/'' @ eid)" using plain_chars [OF assms(3)] by simp
  from deliver_served [OF assms(2) this f(1) assms(7) f(2), of cfg who]
  have send: "run_state (net_send net (ws_call c ws ''GET'' (''/executions/'' @ eid) None)) s =
      (http_answer x (case found of Some e \<Rightarrow> Ok (json_response 200 (jdata (execution_json x e)))
         | None \<Rightarrow> Err (ExecutionNotFound eid)), s')"
    by (simp add: assms(1) service_def handle_executions_get_like_client [OF assms(8)])
  show ?thesis
  proof (cases found)
    case None
    with send show ?thesis
      by (simp add: http_get_execution_def run_tryS http_answer_def error_response_def)
  next
    case (Some e)
    have "jget (jdata (execution_json x e)) ''data'' = Some (execution_json x e)"
      by (simp add: jdata_def jget_jobj)
    with Some send execution_read_back [OF assms(6) assms(9) [OF Some]] show ?thesis
      by (simp add: http_get_execution_def run_tryS http_answer_def json_response_def http_check_def is_success_def
          assms(5) Let_def)
  qed
qed

theorem service_reads_like_library_witness:
  "\<exists>e s'. run_state (http_get_execution sample_net sample_client ''prod'' ''d7'') sample_site =
     (Ok (Some (e\<lparr>exec_idempotency_key := None\<rparr>)), s') \<and> exec_max_attempts e = 1"
proof -
  obtain s0 where res: "run_state (resolve_schema ''acme'' ''prod'') sample_site = (Ok (Some sample_schema), s0)"
    using sample_site_resolves by (cases "run_state (resolve_schema ''acme'' ''prod'') sample_site") simp
  from sample_site_execution obtain e s' where
    run: "run_state (client_get_execution [] sample_schema ''d7'') s0 = (Ok (Some e), s')"
    and e: "attempt_count e = 0" "exec_max_attempts e = 1" "duration_ms e = None" "exec_input e = None" "exec_output e = None"
    unfolding res
    by (cases "run_state (client_get_execution [] sample_schema ''d7'') s0") (auto split: outcome.splits)
  have "run_state (http_get_execution sample_net sample_client ''prod'' ''d7'') sample_site =
     (Ok (map_option (\<lambda>e. e\<lparr>exec_idempotency_key := None\<rparr>) (Some e)), s')"
  proof (rule service_reads_like_library [OF _ sample_client_served])
    show "net_send sample_net = deliver sample_actix sample_codec sample_app ''http://invokr'' [] (Some ()) [] ''r1''"
      by (simp add: sample_net_def)
    show "plain ''d7''" by code_simp
    show "run_state (resolve_schema (hc_org_id sample_client) ''prod'') sample_site = (Ok (Some sample_schema), s0)"
      by (simp add: sample_client_def res)
    show "run_state (client_get_execution (app_prefix sample_app) sample_schema ''d7'') s0 = (Ok (Some e), s')"
      by (simp add: sample_app_def run)
    show "shown e'" if "Some e = Some e'" for e'
      using that e by (simp add: shown_def in_i64_def i64_min_def i64_max_def)
  qed (simp_all add: sample_net_laws sample_actix_def)
  with e(2) show ?thesis by auto
qed



end
